(* ===== verification/Prelude.thy ===== *)
theory Prelude
  imports Main "HOL-Library.Sublist" "HOL-Library.Word" "HOL-Library.Char_ord" "HOL-Library.List_Lexorder"
begin

text \<open>
  What every component of the development shares.

  \<^item> Machine integers: Rust's \<open>u64\<close>, \<open>u32\<close>, \<open>u16\<close> as words.
  \<^item> Strings: a Rust \<open>String\<close> is its UTF-8 bytes, so it is a \<^typ>\<open>string\<close> of bytes here,
    and the operations of \<open>str\<close> that the program uses (\<open>contains\<close>, \<open>starts_with\<close>,
    \<open>strip_prefix\<close>, \<open>trim\<close>, \<open>lines\<close>, \<open>split\<close>, \<open>join\<close>) are byte functions. UTF-8 is
    self-synchronising, so on well-formed text they agree with the character functions.
  \<^item> Effects: a fallible stateful call is a function from a state to a sum (\<open>Inl\<close> the error)
    and the next state; \<open>bind_io\<close> is Rust's question mark operator.
  \<^item> A locale of frame rules: a preorder on states that every step of a program climbs.
\<close>

named_theorems io_simps \<open>unfolding of the effect combinators\<close>
named_theorems climbs_intros \<open>introduction rules: a call climbs a preorder on states\<close>
named_theorems str_simps \<open>string operations of the standard library\<close>

type_synonym u64 = "64 word"
type_synonym u32 = "32 word"
type_synonym u16 = "16 word"

section \<open>Strings\<close>

definition newline :: char where
  "newline = CHR 0x0A"

definition carriage :: char where
  "carriage = CHR 0x0D"

text \<open>\<open>str::starts_with\<close>, \<open>str::strip_prefix\<close>, \<open>str::contains\<close>, \<open>str::find\<close> on a byte.\<close>

fun starts_with :: "string \<Rightarrow> string \<Rightarrow> bool" where
  "starts_with s [] = True"
| "starts_with [] (p # ps) = False"
| "starts_with (c # s) (p # ps) = (c = p \<and> starts_with s ps)"

definition strip_prefix :: "string \<Rightarrow> string \<Rightarrow> string option" where
  "strip_prefix s p = (if starts_with s p then Some (drop (length p) s) else None)"

fun contains :: "string \<Rightarrow> string \<Rightarrow> bool" where
  "contains [] p = (p = [])"
| "contains (c # s) p = (starts_with (c # s) p \<or> contains s p)"

fun from_first :: "char \<Rightarrow> string \<Rightarrow> string option" where
  "from_first x [] = None"
| "from_first x (c # s) = (if c = x then Some (c # s) else from_first x s)"

lemma starts_with_prefix [str_simps]: "starts_with s p \<longleftrightarrow> prefix p s"
  by (induction s p rule: starts_with.induct) auto

lemma contains_sublist [str_simps]: "contains s p \<longleftrightarrow> sublist p s"
  by (induction s) (auto simp: starts_with_prefix sublist_Cons_right)

lemma contains_append [simp]: "contains (xs @ p @ ys) p"
  by (auto simp: contains_sublist sublist_def)

lemma strip_prefix_append [simp]: "strip_prefix (p @ s) p = Some s"
  by (simp add: strip_prefix_def starts_with_prefix)

text \<open>\<open>str::trim_start_matches\<close> and \<open>str::trim_end_matches\<close> on a text.\<close>

function strip_all :: "string \<Rightarrow> string \<Rightarrow> string" where
  "strip_all s p = (if p \<noteq> [] \<and> starts_with s p then strip_all (drop (length p) s) p else s)"
  by pat_completeness auto
termination
  by (relation "measure (\<lambda>(s, p). length s)") (auto simp: starts_with_prefix prefix_def)

declare strip_all.simps [simp del]

definition strip_all_end :: "string \<Rightarrow> string \<Rightarrow> string" where
  "strip_all_end s p = rev (strip_all (rev s) (rev p))"

text \<open>ASCII case mapping; what \<open>str::to_lowercase\<close> and \<open>str::to_uppercase\<close> do with text
  that is not ASCII comes from the Unicode tables of the standard library, which are data: they are
  the argument \<open>tables\<close>.\<close>

definition is_ascii :: "string \<Rightarrow> bool" where
  "is_ascii s = list_all (\<lambda>c. of_char c < (128 :: nat)) s"

definition ascii_lower :: "char \<Rightarrow> char" where
  "ascii_lower c = (let n = of_char c :: nat in if 65 \<le> n \<and> n \<le> 90 then char_of (n + 32) else c)"

definition ascii_upper :: "char \<Rightarrow> char" where
  "ascii_upper c = (let n = of_char c :: nat in if 97 \<le> n \<and> n \<le> 122 then char_of (n - 32) else c)"

definition to_lowercase :: "(string \<Rightarrow> string) \<Rightarrow> string \<Rightarrow> string" where
  "to_lowercase tables s = (if is_ascii s then map ascii_lower s else tables s)"

definition to_uppercase :: "(string \<Rightarrow> string) \<Rightarrow> string \<Rightarrow> string" where
  "to_uppercase tables s = (if is_ascii s then map ascii_upper s else tables s)"

text \<open>\<open>char::is_whitespace\<close> on UTF-8: the number of bytes of the whitespace character the
  text starts with, 0 when it starts with none. \<open>ws_len_end\<close> reads the reversed text.\<close>

definition ws_bytes3 :: "nat \<Rightarrow> nat \<Rightarrow> nat \<Rightarrow> bool" where
  "ws_bytes3 x y z \<longleftrightarrow>
     x = 0xE1 \<and> y = 0x9A \<and> z = 0x80 \<or>
     x = 0xE2 \<and> y = 0x80 \<and> (0x80 \<le> z \<and> z \<le> 0x8A \<or> z = 0xA8 \<or> z = 0xA9 \<or> z = 0xAF) \<or>
     x = 0xE2 \<and> y = 0x81 \<and> z = 0x9F \<or>
     x = 0xE3 \<and> y = 0x80 \<and> z = 0x80"

definition ws_bytes2 :: "nat \<Rightarrow> nat \<Rightarrow> bool" where
  "ws_bytes2 x y \<longleftrightarrow> x = 0xC2 \<and> (y = 0x85 \<or> y = 0xA0)"

definition ws_byte :: "nat \<Rightarrow> bool" where
  "ws_byte x \<longleftrightarrow> 9 \<le> x \<and> x \<le> 13 \<or> x = 32"

fun ws_len :: "string \<Rightarrow> nat" where
  "ws_len [] = 0"
| "ws_len [a] = (if ws_byte (of_char a) then 1 else 0)"
| "ws_len [a, b] = (if ws_byte (of_char a) then 1 else if ws_bytes2 (of_char a) (of_char b) then 2 else 0)"
| "ws_len (a # b # c # s) =
     (if ws_byte (of_char a) then 1
      else if ws_bytes2 (of_char a) (of_char b) then 2
      else if ws_bytes3 (of_char a) (of_char b) (of_char c) then 3 else 0)"

fun ws_len_end :: "string \<Rightarrow> nat" where
  "ws_len_end [] = 0"
| "ws_len_end [a] = (if ws_byte (of_char a) then 1 else 0)"
| "ws_len_end [b, a] = (if ws_byte (of_char b) then 1 else if ws_bytes2 (of_char a) (of_char b) then 2 else 0)"
| "ws_len_end (c # b # a # s) =
     (if ws_byte (of_char c) then 1
      else if ws_bytes2 (of_char b) (of_char c) then 2
      else if ws_bytes3 (of_char a) (of_char b) (of_char c) then 3 else 0)"

function strip_ws :: "(string \<Rightarrow> nat) \<Rightarrow> string \<Rightarrow> string" where
  "strip_ws f s = (if f s = 0 \<or> s = [] then s else strip_ws f (drop (f s) s))"
  by pat_completeness auto
termination
  by (relation "measure (\<lambda>(f, s). length s)") auto

declare strip_ws.simps [simp del]

definition trim_start :: "string \<Rightarrow> string" where
  "trim_start s = strip_ws ws_len s"

definition trim_end :: "string \<Rightarrow> string" where
  "trim_end s = rev (strip_ws ws_len_end (rev s))"

definition trim :: "string \<Rightarrow> string" where
  "trim s = trim_end (trim_start s)"

lemma strip_ws_suffix: "suffix (strip_ws f s) s"
proof (induction f s rule: strip_ws.induct)
  case (1 f s)
  then show ?case
    by (cases "f s = 0 \<or> s = []") (auto simp: strip_ws.simps [of f s] dest: suffix_order.trans [OF _ suffix_drop])
qed

lemma strip_ws_done: "f s = 0 \<Longrightarrow> strip_ws f s = s"
  by (simp add: strip_ws.simps)

lemma trim_start_suffix: "suffix (trim_start s) s"
  by (simp add: trim_start_def strip_ws_suffix)

text \<open>\<open>BufRead::lines\<close> and \<open>str::lines\<close>: split at line feeds, a carriage return before the
  line feed dropped, no empty last line.\<close>

fun text_lines :: "string \<Rightarrow> string list" where
  "text_lines [] = []"
| "text_lines (c # cs) =
     (if c = newline then [] # text_lines cs
      else if c = carriage \<and> cs \<noteq> [] \<and> hd cs = newline then text_lines cs
      else (case text_lines cs of [] \<Rightarrow> [[c]] | l # ls \<Rightarrow> (c # l) # ls))"

lemma text_lines_append_line:
  assumes "newline \<notin> set l" and "carriage \<notin> set l"
  shows "text_lines (l @ newline # rest) = l # text_lines rest"
  using assms by (induction l) (auto simp: newline_def carriage_def)

lemma text_lines_unterminated:
  assumes "newline \<notin> set l" and "l \<noteq> []"
  shows "text_lines l = [l]"
  using assms
proof (induction l)
  case (Cons c l)
  then show ?case by (cases l) auto
qed simp

text \<open>A file of complete lines followed by more text: the lines of both, in order.\<close>

lemma text_lines_terminated:
  "text_lines (s @ [newline] @ t) = text_lines (s @ [newline]) @ text_lines t"
proof (induction s)
  case Nil
  then show ?case by simp
next
  case (Cons c s)
  have ne: "text_lines (s @ [newline]) \<noteq> []"
    by (induction s) (auto split: list.splits)
  show ?case
    using Cons ne
    by (cases s) (auto simp: neq_Nil_conv)
qed

definition terminated :: "string \<Rightarrow> bool" where
  "terminated s \<longleftrightarrow> s = [] \<or> last s = newline"

lemma text_lines_append:
  assumes "terminated s"
  shows "text_lines (s @ t) = text_lines s @ text_lines t"
proof (cases "s = []")
  case False
  with assms have "s = butlast s @ [newline]"
    by (metis append_butlast_last_id terminated_def)
  then show ?thesis
    by (metis append.assoc text_lines_terminated)
qed simp

text \<open>\<open>str::split\<close> on one byte, and \<open>[_]::join\<close>.\<close>

fun split_on :: "char \<Rightarrow> string \<Rightarrow> string list" where
  "split_on x [] = [[]]"
| "split_on x (c # s) =
     (if c = x then [] # split_on x s
      else (case split_on x s of [] \<Rightarrow> [[c]] | p # ps \<Rightarrow> (c # p) # ps))"

fun join :: "string \<Rightarrow> string list \<Rightarrow> string" where
  "join sep [] = []"
| "join sep [x] = x"
| "join sep (x # y # xs) = x @ sep @ join sep (y # xs)"

lemma split_on_nonempty [simp]: "split_on x s \<noteq> []"
  by (induction s) (auto split: list.splits)

text \<open>Decimal rendering of an unsigned integer (\<open>Display\<close> for \<open>u32\<close>, \<open>u64\<close>, \<open>usize\<close>).\<close>

definition digit :: "nat \<Rightarrow> char" where
  "digit d = char_of (48 + d)"

fun dec :: "nat \<Rightarrow> string" where
  "dec n = (if n < 10 then [digit n] else dec (n div 10) @ [digit (n mod 10)])"

declare dec.simps [simp del]

lemma dec_nonempty [simp]: "dec n \<noteq> []"
  by (subst dec.simps) simp

definition bool_text :: "bool \<Rightarrow> string" where
  "bool_text b = (if b then ''true'' else ''false'')"

section \<open>Fallible stateful calls\<close>

type_synonym ('s, 'e, 'a) io = "'s \<Rightarrow> ('e + 'a) \<times> 's"

definition ret :: "'a \<Rightarrow> ('s, 'e, 'a) io" where
  "ret x = (\<lambda>s. (Inr x, s))"

definition raise :: "'e \<Rightarrow> ('s, 'e, 'a) io" where
  "raise e = (\<lambda>s. (Inl e, s))"

definition bind_io :: "('s, 'e, 'a) io \<Rightarrow> ('a \<Rightarrow> ('s, 'e, 'b) io) \<Rightarrow> ('s, 'e, 'b) io" where
  "bind_io m f = (\<lambda>s. case m s of (Inl e, t) \<Rightarrow> (Inl e, t) | (Inr x, t) \<Rightarrow> f x t)"

definition reads :: "('s \<Rightarrow> 'a) \<Rightarrow> ('s, 'e, 'a) io" where
  "reads f = (\<lambda>s. (Inr (f s), s))"

definition modifies :: "('s \<Rightarrow> 's) \<Rightarrow> ('s, 'e, unit) io" where
  "modifies f = (\<lambda>s. (Inr (), f s))"

text \<open>Run a call and keep its error as a value (\<open>match call() { Ok .. Err .. }\<close>, \<open>let _ = call()\<close>).\<close>

definition attempt :: "('s, 'e, 'a) io \<Rightarrow> ('s, 'f, 'e + 'a) io" where
  "attempt m = (\<lambda>s. case m s of (r, t) \<Rightarrow> (Inr r, t))"

definition map_err :: "('e \<Rightarrow> 'f) \<Rightarrow> ('s, 'e, 'a) io \<Rightarrow> ('s, 'f, 'a) io" where
  "map_err g m = (\<lambda>s. case m s of (Inl e, t) \<Rightarrow> (Inl (g e), t) | (Inr x, t) \<Rightarrow> (Inr x, t))"

lemmas io_defs [io_simps] =
  ret_def raise_def bind_io_def reads_def modifies_def attempt_def map_err_def

lemma bind_io_Inr:
  "bind_io m f s = (Inr y, t) \<Longrightarrow> \<exists>x u. m s = (Inr x, u) \<and> f x u = (Inr y, t)"
  by (auto simp: bind_io_def split: prod.splits sum.splits)

lemma bind_ret [simp]: "bind_io (ret x) f = f x"
  by (simp add: io_defs)

lemma bind_raise [simp]: "bind_io (raise e) f = raise e"
  by (simp add: io_defs)

section \<open>Frame rules for a preorder on states\<close>

text \<open>
  Many properties say that a state only grows along one axis: a file is only appended to, a bus is
  only sent to, a set of grants is unchanged. Each is a preorder on states that every call climbs,
  and the rules that carry it through sequencing, branching and error handling are the same for all.
\<close>

definition climbs :: "('s \<Rightarrow> 's \<Rightarrow> bool) \<Rightarrow> ('s, 'e, 'a) io \<Rightarrow> bool" where
  "climbs R m \<longleftrightarrow> (\<forall>s. R s (snd (m s)))"

locale state_preorder =
  fixes R :: "'s \<Rightarrow> 's \<Rightarrow> bool"
  assumes R_refl: "R s s"
    and R_trans: "R s t \<Longrightarrow> R t u \<Longrightarrow> R s u"
begin

lemma climbs_ret [climbs_intros]: "climbs R (ret x)"
  by (simp add: climbs_def ret_def R_refl)

lemma climbs_raise [climbs_intros]: "climbs R (raise e)"
  by (simp add: climbs_def raise_def R_refl)

lemma climbs_reads [climbs_intros]: "climbs R (reads f)"
  by (simp add: climbs_def reads_def R_refl)

lemma climbs_modifies: "(\<And>s. R s (f s)) \<Longrightarrow> climbs R (modifies f)"
  by (simp add: climbs_def modifies_def)

lemma climbs_bind [climbs_intros]:
  assumes "climbs R m" and "\<And>x. climbs R (f x)"
  shows "climbs R (bind_io m f)"
  unfolding climbs_def
proof
  fix s
  obtain r t where rt: "m s = (r, t)" by (cases "m s")
  with assms(1) have "R s t" by (metis climbs_def snd_conv)
  with rt assms(2) show "R s (snd (bind_io m f s))"
    by (cases r) (auto simp: bind_io_def climbs_def intro: R_trans)
qed

lemma climbs_attempt [climbs_intros]: "climbs R m \<Longrightarrow> climbs R (attempt m)"
  by (simp add: climbs_def attempt_def split_beta)

lemma climbs_map_err [climbs_intros]: "climbs R m \<Longrightarrow> climbs R (map_err g m)"
  by (auto simp: climbs_def map_err_def split: prod.splits sum.splits)
    (metis snd_conv)+

lemma climbs_if [climbs_intros]:
  "(b \<Longrightarrow> climbs R m) \<Longrightarrow> (\<not> b \<Longrightarrow> climbs R n) \<Longrightarrow> climbs R (if b then m else n)"
  by simp

lemma climbs_run: "climbs R m \<Longrightarrow> m s = (r, t) \<Longrightarrow> R s t"
  by (metis climbs_def snd_conv)

text \<open>A whole run: a list of calls executed one after the other, errors ignored.\<close>

lemma climbs_fold:
  assumes "\<And>x. climbs R (f x)"
  shows "R s (fold (\<lambda>x s. snd (f x s)) xs s)"
proof (induction xs arbitrary: s)
  case Nil
  then show ?case by (simp add: R_refl)
next
  case (Cons x xs)
  have "R s (snd (f x s))" using assms by (simp add: climbs_def)
  with Cons show ?case by (auto intro: R_trans)
qed

end

section \<open>Lists\<close>

definition last_n :: "nat \<Rightarrow> 'a list \<Rightarrow> 'a list" where
  "last_n n xs = drop (length xs - n) xs"

lemma last_n_suffix [simp]: "suffix (last_n n xs) xs"
  by (simp add: last_n_def suffix_drop)

lemma length_last_n [simp]: "length (last_n n xs) = min n (length xs)"
  by (auto simp: last_n_def)

lemma last_n_all [simp]: "length xs \<le> n \<Longrightarrow> last_n n xs = xs"
  by (simp add: last_n_def)

lemma last_n_snoc: "0 < n \<Longrightarrow> last_n n (last_n n xs @ [x]) = last_n n (xs @ [x])"
  by (cases "n \<le> length xs") (auto simp: last_n_def Suc_diff_le)

lemma filter_unique:
  assumes "distinct xs" and "x \<in> set xs" and "P x" and "\<And>y. y \<in> set xs \<Longrightarrow> P y \<Longrightarrow> y = x"
  shows "filter P xs = [x]"
proof -
  obtain ys zs where xs: "xs = ys @ x # zs" using assms(2) by (auto simp: in_set_conv_decomp)
  have out: "\<not> P y" if "y \<in> set ys \<union> set zs" for y
  proof
    assume "P y"
    with that assms(4) [of y] have "y = x" unfolding xs by simp
    with that assms(1) show False unfolding xs by simp
  qed
  then have "filter P ys = []" and "filter P zs = []" by (simp_all add: filter_empty_conv)
  then show ?thesis using assms(3) unfolding xs by simp
qed

lemma filter_swap: "filter P (filter Q xs) = filter Q (filter P xs)"
  by (induction xs) simp_all

end
