(* ===== verification/Json.thy ===== *)
theory Json
  imports Complex_Main Prelude
begin

text \<open>
  The data the program passes around: IEEE doubles, JSON values and the accessors of
  \<open>serde_json::Value\<close> that the code calls, and the record \<open>ext\<close> of the functions that
  are not code of the repository (the JSON text codec, the text forms of UUIDs and timestamps, the
  Unicode case tables, the shortest decimal form of a double).

  A double is a rational number, an infinity or NaN. JSON numbers are never infinite or NaN. The
  sign of zero is not kept: no comparison the program makes can see it.
\<close>

section \<open>Doubles\<close>

datatype f64 = Fin rat | PInf | NInf | NaN

text \<open>Comparison as IEEE 754 orders it: every comparison with NaN is false.\<close>

fun f64_le :: "f64 \<Rightarrow> f64 \<Rightarrow> bool" where
  "f64_le NaN y = False"
| "f64_le x NaN = False"
| "f64_le NInf y = True"
| "f64_le x PInf = True"
| "f64_le (Fin a) (Fin b) = (a \<le> b)"
| "f64_le x y = False"

definition f64_ge :: "f64 \<Rightarrow> f64 \<Rightarrow> bool" where
  "f64_ge x y = f64_le y x"

definition f64_gt :: "f64 \<Rightarrow> f64 \<Rightarrow> bool" where
  "f64_gt x y = (f64_le y x \<and> x \<noteq> y)"

text \<open>\<open>n as f64\<close>: the nearest double, ties to even. Below two to the 53 the conversion is exact.\<close>

fun halvings :: "nat \<Rightarrow> nat" where
  "halvings n = (if n < 2 ^ 53 then 0 else Suc (halvings (n div 2)))"

declare halvings.simps [simp del]

definition round_to_even :: "nat \<Rightarrow> nat \<Rightarrow> nat" where
  "round_to_even n k =
     (let q = n div 2 ^ k; r = n mod 2 ^ k; h = 2 ^ k div 2
      in if r > h \<or> r = h \<and> odd q then q + 1 else q)"

definition f64_of_nat :: "nat \<Rightarrow> f64" where
  "f64_of_nat n =
     (let k = halvings n in if k = 0 then Fin (of_nat n) else Fin (of_nat (round_to_even n k * 2 ^ k)))"

definition f64_of_int :: "int \<Rightarrow> f64" where
  "f64_of_int i =
     (if 0 \<le> i then f64_of_nat (nat i)
      else case f64_of_nat (nat (- i)) of Fin q \<Rightarrow> Fin (- q) | x \<Rightarrow> x)"

lemma f64_of_nat_exact: "n < 2 ^ 53 \<Longrightarrow> f64_of_nat n = Fin (of_nat n)"
  by (simp add: f64_of_nat_def halvings.simps)

lemma f64_gt_Fin [simp]: "f64_gt (Fin a) (Fin b) \<longleftrightarrow> b < a"
  by (auto simp: f64_gt_def)

lemma f64_ge_Fin [simp]: "f64_ge (Fin a) (Fin b) \<longleftrightarrow> b \<le> a"
  by (auto simp: f64_ge_def)

section \<open>JSON values\<close>

text \<open>\<open>serde_json::Number\<close>: an unsigned integer, a negative integer, or a finite double.\<close>

datatype number = PosInt u64 | NegInt u64 | Double rat

datatype json =
    Null
  | Bool bool
  | Number number
  | String string
  | Array "json list"
  | Object "(string \<times> json) list"

text \<open>The accessors: \<open>Value::get\<close> on a key, \<open>as_str\<close>, \<open>as_bool\<close>, \<open>as_u64\<close>,
  \<open>as_f64\<close>, \<open>as_array\<close>, \<open>is_object\<close>, \<open>is_null\<close>, and the JSON pointer of RFC 6901.\<close>

fun get :: "json \<Rightarrow> string \<Rightarrow> json option" where
  "get (Object kvs) k = map_of kvs k"
| "get v k = None"

fun as_str :: "json \<Rightarrow> string option" where
  "as_str (String s) = Some s"
| "as_str v = None"

fun as_bool :: "json \<Rightarrow> bool option" where
  "as_bool (Bool b) = Some b"
| "as_bool v = None"

fun as_u64 :: "json \<Rightarrow> u64 option" where
  "as_u64 (Number (PosInt n)) = Some n"
| "as_u64 v = None"

fun as_f64 :: "json \<Rightarrow> f64 option" where
  "as_f64 (Number (PosInt n)) = Some (f64_of_nat (unat n))"
| "as_f64 (Number (NegInt n)) = Some (f64_of_int (sint n))"
| "as_f64 (Number (Double q)) = Some (Fin q)"
| "as_f64 v = None"

fun as_array :: "json \<Rightarrow> json list option" where
  "as_array (Array vs) = Some vs"
| "as_array v = None"

fun is_object :: "json \<Rightarrow> bool" where
  "is_object (Object kvs) = True"
| "is_object v = False"

definition is_null :: "json \<Rightarrow> bool" where
  "is_null v \<longleftrightarrow> v = Null"

definition get_str :: "json \<Rightarrow> string \<Rightarrow> string option" where
  "get_str v k = Option.bind (get v k) as_str"

definition get_bool :: "json \<Rightarrow> string \<Rightarrow> bool option" where
  "get_bool v k = Option.bind (get v k) as_bool"

definition get_u64 :: "json \<Rightarrow> string \<Rightarrow> u64 option" where
  "get_u64 v k = Option.bind (get v k) as_u64"

definition get_array :: "json \<Rightarrow> string \<Rightarrow> json list option" where
  "get_array v k = Option.bind (get v k) as_array"

definition unwrap_or :: "'a option \<Rightarrow> 'a \<Rightarrow> 'a" where
  "unwrap_or x d = (case x of None \<Rightarrow> d | Some y \<Rightarrow> y)"

lemma unwrap_or_simps [simp]: "unwrap_or None d = d" "unwrap_or (Some x) d = x"
  by (simp_all add: unwrap_or_def)

lemma get_str_Object [simp]: "get_str (Object ((k, String s) # kvs)) k = Some s"
  by (simp add: get_str_def)

lemma get_bool_Object [simp]: "get_bool (Object ((k, Bool b) # kvs)) k = Some b"
  by (simp add: get_bool_def)

lemma get_skip [simp]:
  "k \<noteq> k' \<Longrightarrow> get_str (Object ((k, v) # kvs)) k' = get_str (Object kvs) k'"
  "k \<noteq> k' \<Longrightarrow> get_bool (Object ((k, v) # kvs)) k' = get_bool (Object kvs) k'"
  "k \<noteq> k' \<Longrightarrow> get_u64 (Object ((k, v) # kvs)) k' = get_u64 (Object kvs) k'"
  by (simp_all add: get_str_def get_bool_def get_u64_def)

text \<open>JSON pointer: tokens separated by slashes, with the escapes for the slash and the tilde; an
  array index is a decimal number with no leading zero.\<close>

fun unescape :: "string \<Rightarrow> string" where
  "unescape [] = []"
| "unescape [c] = [c]"
| "unescape (c # e # s) =
     (if c = CHR ''~'' \<and> e = CHR ''1'' then CHR ''/'' # unescape s
      else if c = CHR ''~'' \<and> e = CHR ''0'' then CHR ''~'' # unescape s
      else c # unescape (e # s))"

definition is_digit :: "char \<Rightarrow> bool" where
  "is_digit c \<longleftrightarrow> 48 \<le> (of_char c :: nat) \<and> (of_char c :: nat) \<le> 57"

definition digits_value :: "string \<Rightarrow> nat" where
  "digits_value s = foldl (\<lambda>n c. 10 * n + (of_char c - 48)) 0 s"

definition array_index :: "string \<Rightarrow> nat option" where
  "array_index s =
     (if s = [] \<or> \<not> list_all is_digit s \<or> (hd s = CHR ''0'' \<and> length s \<noteq> 1) \<or> 2 ^ 64 \<le> digits_value s
      then None else Some (digits_value s))"

definition step_into :: "string \<Rightarrow> json \<Rightarrow> json option" where
  "step_into t v =
     (case v of
        Object kvs \<Rightarrow> map_of kvs t
      | Array vs \<Rightarrow>
          (case array_index t of None \<Rightarrow> None | Some i \<Rightarrow> if i < length vs then Some (vs ! i) else None)
      | _ \<Rightarrow> None)"

fun walk :: "string list \<Rightarrow> json \<Rightarrow> json option" where
  "walk [] v = Some v"
| "walk (t # ts) v = Option.bind (step_into (unescape t) v) (walk ts)"

definition pointer :: "string \<Rightarrow> json \<Rightarrow> json option" where
  "pointer p v =
     (case p of
        [] \<Rightarrow> Some v
      | c # s \<Rightarrow> if c = CHR ''/'' then walk (split_on (CHR ''/'') s) v else None)"

text \<open>Building objects: \<open>serde_json::Map::insert\<close> overwrites the value of an existing key.\<close>

fun obj_insert :: "string \<Rightarrow> json \<Rightarrow> (string \<times> json) list \<Rightarrow> (string \<times> json) list" where
  "obj_insert k v [] = [(k, v)]"
| "obj_insert k v ((k', v') # kvs) =
     (if k' = k then (k, v) # kvs else (k', v') # obj_insert k v kvs)"

lemma map_of_obj_insert [simp]: "map_of (obj_insert k v kvs) = (map_of kvs)(k \<mapsto> v)"
  by (induction kvs) auto

text \<open>\<open>#[derive(Serialize)]\<close> on an \<open>Option\<close>, a number, a list of strings.\<close>

definition opt_json :: "('a \<Rightarrow> json) \<Rightarrow> 'a option \<Rightarrow> json" where
  "opt_json f x = (case x of None \<Rightarrow> Null | Some y \<Rightarrow> f y)"

definition u32_json :: "u32 \<Rightarrow> json" where
  "u32_json n = Number (PosInt (ucast n))"

definition nat_json :: "nat \<Rightarrow> json" where
  "nat_json n = Number (PosInt (of_nat n))"

section \<open>UUIDs and timestamps\<close>

datatype uuid = Uuid "128 word"

definition nil_uuid :: uuid where
  "nil_uuid = Uuid 0"

text \<open>\<open>DateTime<Utc>\<close> as nanoseconds since the epoch, ordered as chrono orders it.\<close>

datatype datetime = Timestamp int

primrec nanos :: "datetime \<Rightarrow> int" where
  "nanos (Timestamp n) = n"

definition timestamp_secs :: "datetime \<Rightarrow> int" where
  "timestamp_secs t = nanos t div 1000000000"

lemma nanos_inject [simp]: "nanos s = nanos t \<longleftrightarrow> s = t"
  by (cases s; cases t) simp

instantiation datetime :: linorder
begin

definition less_eq_datetime :: "datetime \<Rightarrow> datetime \<Rightarrow> bool" where
  "less_eq_datetime s t \<longleftrightarrow> nanos s \<le> nanos t"

definition less_datetime :: "datetime \<Rightarrow> datetime \<Rightarrow> bool" where
  "less_datetime s t \<longleftrightarrow> nanos s < nanos t"

instance
  by standard (auto simp: less_eq_datetime_def less_datetime_def)

end

text \<open>\<open>std::cmp::Reverse\<close>.\<close>

datatype 'a reverse = Reverse 'a

primrec unreverse :: "'a reverse \<Rightarrow> 'a" where
  "unreverse (Reverse a) = a"

lemma unreverse_inject [simp]: "unreverse s = unreverse t \<longleftrightarrow> s = t"
  by (cases s; cases t) simp

instantiation reverse :: (linorder) linorder
begin

definition less_eq_reverse :: "'a reverse \<Rightarrow> 'a reverse \<Rightarrow> bool" where
  "less_eq_reverse s t \<longleftrightarrow> unreverse t \<le> unreverse s"

definition less_reverse :: "'a reverse \<Rightarrow> 'a reverse \<Rightarrow> bool" where
  "less_reverse s t \<longleftrightarrow> unreverse t < unreverse s"

instance
  by standard (auto simp: less_eq_reverse_def less_reverse_def less_le_not_le simp flip: unreverse_inject)

end

lemma Reverse_le [simp]: "Reverse a \<le> Reverse b \<longleftrightarrow> b \<le> a"
  by (simp add: less_eq_reverse_def)

section \<open>What is not code of the repository\<close>

record ext =
  json_text :: "json \<Rightarrow> string" \<comment> \<open>\<open>serde_json::to_string\<close> and \<open>Value::to_string\<close>\<close>
  json_parse :: "string \<Rightarrow> json option" \<comment> \<open>\<open>serde_json::from_str::<Value>\<close>\<close>
  parse_error :: "string \<Rightarrow> string" \<comment> \<open>the message of the error for a text that does not parse\<close>
  lower_tables :: "string \<Rightarrow> string" \<comment> \<open>\<open>str::to_lowercase\<close> where the text is not ASCII\<close>
  upper_tables :: "string \<Rightarrow> string" \<comment> \<open>\<open>str::to_uppercase\<close> where the text is not ASCII\<close>
  uuid_text :: "uuid \<Rightarrow> string"
  uuid_parse :: "string \<Rightarrow> uuid option"
  time_text :: "datetime \<Rightarrow> string" \<comment> \<open>chrono's serde form, RFC 3339\<close>
  time_parse :: "string \<Rightarrow> datetime option"
  time_rfc3339 :: "datetime \<Rightarrow> string" \<comment> \<open>\<open>DateTime::to_rfc3339\<close>\<close>
  f64_text :: "f64 \<Rightarrow> string" \<comment> \<open>\<open>Display\<close> for \<open>f64\<close>\<close>

definition uuid_json :: "ext \<Rightarrow> uuid \<Rightarrow> json" where
  "uuid_json x u = String (uuid_text x u)"

definition time_json :: "ext \<Rightarrow> datetime \<Rightarrow> json" where
  "time_json x t = String (time_text x t)"

definition strings_json :: "string list \<Rightarrow> json" where
  "strings_json ss = Array (map String ss)"

text \<open>The documented behaviour of the JSON text codec on given values: compact text is one line,
  is not blank, and parses back to the value.\<close>

definition blank :: "string \<Rightarrow> bool" where
  "blank l \<longleftrightarrow> trim l = []"

definition one_line :: "string \<Rightarrow> bool" where
  "one_line l \<longleftrightarrow> newline \<notin> set l \<and> carriage \<notin> set l"

definition text_codec_on :: "ext \<Rightarrow> json set \<Rightarrow> bool" where
  "text_codec_on x V \<longleftrightarrow>
     (\<forall>v \<in> V. json_parse x (json_text x v) = Some v \<and> one_line (json_text x v) \<and> \<not> blank (json_text x v))"

definition uuid_codec_on :: "ext \<Rightarrow> uuid set \<Rightarrow> bool" where
  "uuid_codec_on x U \<longleftrightarrow> (\<forall>u \<in> U. uuid_parse x (uuid_text x u) = Some u)"

definition time_codec_on :: "ext \<Rightarrow> datetime set \<Rightarrow> bool" where
  "time_codec_on x T \<longleftrightarrow> (\<forall>t \<in> T. time_parse x (time_text x t) = Some t)"

end
