(* ===== verification/Ambient.thy ===== *)
theory Ambient
  imports Json
begin

text \<open>
  The two ambient sources every part of the program draws from: random UUIDs
  (\<open>Uuid::new_v4\<close>) and the wall clock (\<open>Utc::now\<close>). Each is a sequence fixed in advance and
  a counter of how much of it was drawn, so a run is a function of the sequences.
\<close>

record ambient =
  uuid_src :: "nat \<Rightarrow> uuid"
  uuid_next :: nat
  clock_src :: "nat \<Rightarrow> datetime"
  clock_next :: nat

definition new_v4 :: "('z ambient_scheme, 'e, uuid) io" where
  "new_v4 = (\<lambda>s. (Inr (uuid_src s (uuid_next s)), s\<lparr>uuid_next := Suc (uuid_next s)\<rparr>))"

definition utc_now :: "('z ambient_scheme, 'e, datetime) io" where
  "utc_now = (\<lambda>s. (Inr (clock_src s (clock_next s)), s\<lparr>clock_next := Suc (clock_next s)\<rparr>))"

lemmas ambient_defs [io_simps] = new_v4_def utc_now_def

end
