(* ===== verification/Protocol.thy ===== *)
theory Protocol
  imports Ambient
begin

text \<open>
  \<open>crates/protocol\<close>: the message envelope, the payload structures and their JSON form (what
  \<open>#[derive(Serialize)]\<close> with the attributes of the source produces), the version check, and the
  CBOR entry points over a codec that is a parameter (the crate ciborium).
\<close>

section \<open>Envelopes\<close>

definition protocol_version :: u32 where
  "protocol_version = 1"

datatype message_kind =
    UserRequest
  | AssistantMessage
  | ToolCall
  | ToolResult
  | PolicyDecision
  | ConfirmationRequest
  | ConfirmationResponse
  | Event
  | Error
  | DiagnoseResult

datatype protocol_error = UnsupportedVersion u32 | Cbor string

record envelope =
  env_v :: u32
  env_msg_id :: uuid
  env_correlation_id :: uuid
  env_causation_id :: "uuid option"
  env_kind :: message_kind
  env_ts :: datetime
  env_payload :: json

text \<open>\<open>Envelope::new\<close>: the identifier is drawn before the timestamp, as the struct literal does.\<close>

definition envelope_new ::
  "message_kind \<Rightarrow> uuid \<Rightarrow> uuid option \<Rightarrow> json \<Rightarrow> ('z ambient_scheme, 'e, envelope) io" where
  "envelope_new kind corr caus payload =
     bind_io new_v4 (\<lambda>i. bind_io utc_now (\<lambda>t.
       ret \<lparr>env_v = protocol_version, env_msg_id = i, env_correlation_id = corr,
            env_causation_id = caus, env_kind = kind, env_ts = t, env_payload = payload\<rparr>))"

definition validate :: "envelope \<Rightarrow> protocol_error + unit" where
  "validate e = (if env_v e \<noteq> protocol_version then Inl (UnsupportedVersion (env_v e)) else Inr ())"

text \<open>The codec of ciborium: a writer and a reader of envelopes, both fallible.\<close>

record cbor =
  cbor_write :: "envelope \<Rightarrow> string + string"
  cbor_read :: "string \<Rightarrow> string + envelope"

definition to_cbor :: "cbor \<Rightarrow> envelope \<Rightarrow> protocol_error + string" where
  "to_cbor c e =
     (case validate e of
        Inl err \<Rightarrow> Inl err
      | Inr _ \<Rightarrow> (case cbor_write c e of Inl msg \<Rightarrow> Inl (Cbor msg) | Inr bytes \<Rightarrow> Inr bytes))"

definition from_cbor :: "cbor \<Rightarrow> string \<Rightarrow> protocol_error + envelope" where
  "from_cbor c bytes =
     (case cbor_read c bytes of
        Inl msg \<Rightarrow> Inl (Cbor msg)
      | Inr e \<Rightarrow> (case validate e of Inl err \<Rightarrow> Inl err | Inr _ \<Rightarrow> Inr e))"

section \<open>Payloads\<close>

record tool_call_request =
  tcr_call_id :: uuid
  tcr_tool :: string
  tcr_arguments :: json

record tool_call_result =
  res_call_id :: uuid
  res_tool :: string
  res_ok :: bool
  res_output :: json
  res_error :: "string option"

datatype policy_verdict = Allow | Deny | AskUser

record policy_decision_record =
  pdr_call_id :: uuid
  pdr_tool :: string
  pdr_verdict :: policy_verdict
  pdr_reason :: string

record confirmation_request =
  cr_call_id :: uuid
  cr_tool :: string
  cr_summary :: string
  cr_arguments :: json

datatype confirm_scope = Once | Session | Cancel

definition default_once_scope :: confirm_scope where
  "default_once_scope = Once"

record proposed_action =
  pa_tool :: string
  pa_arguments :: json
  pa_summary :: string

record diagnose_result =
  dr_summary :: string
  dr_culprit_pid :: "u32 option"
  dr_culprit_name :: "string option"
  dr_proposed_action :: "proposed_action option"

section \<open>The JSON form of the payloads\<close>

fun kind_name :: "message_kind \<Rightarrow> string" where
  "kind_name UserRequest = ''user_request''"
| "kind_name AssistantMessage = ''assistant_message''"
| "kind_name ToolCall = ''tool_call''"
| "kind_name ToolResult = ''tool_result''"
| "kind_name PolicyDecision = ''policy_decision''"
| "kind_name ConfirmationRequest = ''confirmation_request''"
| "kind_name ConfirmationResponse = ''confirmation_response''"
| "kind_name Event = ''event''"
| "kind_name Error = ''error''"
| "kind_name DiagnoseResult = ''diagnose_result''"

definition all_kinds :: "message_kind list" where
  "all_kinds =
     [UserRequest, AssistantMessage, ToolCall, ToolResult, PolicyDecision,
      ConfirmationRequest, ConfirmationResponse, Event, Error, DiagnoseResult]"

definition kind_of_name :: "string \<Rightarrow> message_kind option" where
  "kind_of_name s = find (\<lambda>k. kind_name k = s) all_kinds"

fun verdict_name :: "policy_verdict \<Rightarrow> string" where
  "verdict_name Allow = ''allow''"
| "verdict_name Deny = ''deny''"
| "verdict_name AskUser = ''ask_user''"

fun scope_name :: "confirm_scope \<Rightarrow> string" where
  "scope_name Once = ''once''"
| "scope_name Session = ''session''"
| "scope_name Cancel = ''cancel''"

definition user_request_json :: "string \<Rightarrow> json" where
  "user_request_json text = Object [(''text'', String text)]"

definition tool_call_request_json :: "ext \<Rightarrow> tool_call_request \<Rightarrow> json" where
  "tool_call_request_json x r =
     Object [(''call_id'', uuid_json x (tcr_call_id r)), (''tool'', String (tcr_tool r)),
             (''arguments'', tcr_arguments r)]"

definition tool_call_result_json :: "ext \<Rightarrow> tool_call_result \<Rightarrow> json" where
  "tool_call_result_json x r =
     Object [(''call_id'', uuid_json x (res_call_id r)), (''tool'', String (res_tool r)),
             (''ok'', Bool (res_ok r)), (''output'', res_output r),
             (''error'', opt_json String (res_error r))]"

definition policy_decision_record_json :: "ext \<Rightarrow> policy_decision_record \<Rightarrow> json" where
  "policy_decision_record_json x r =
     Object [(''call_id'', uuid_json x (pdr_call_id r)), (''tool'', String (pdr_tool r)),
             (''verdict'', String (verdict_name (pdr_verdict r))), (''reason'', String (pdr_reason r))]"

definition confirmation_request_json :: "ext \<Rightarrow> confirmation_request \<Rightarrow> json" where
  "confirmation_request_json x r =
     Object [(''call_id'', uuid_json x (cr_call_id r)), (''tool'', String (cr_tool r)),
             (''summary'', String (cr_summary r)), (''arguments'', cr_arguments r)]"

definition proposed_action_json :: "proposed_action \<Rightarrow> json" where
  "proposed_action_json p =
     Object [(''tool'', String (pa_tool p)), (''arguments'', pa_arguments p),
             (''summary'', String (pa_summary p))]"

definition diagnose_result_json :: "diagnose_result \<Rightarrow> json" where
  "diagnose_result_json d =
     Object [(''summary'', String (dr_summary d)),
             (''culprit_pid'', opt_json u32_json (dr_culprit_pid d)),
             (''culprit_name'', opt_json String (dr_culprit_name d)),
             (''proposed_action'', opt_json proposed_action_json (dr_proposed_action d))]"

lemma kind_of_name_kind_name [simp]: "kind_of_name (kind_name k) = Some k"
  by (cases k) (simp_all add: kind_of_name_def all_kinds_def)

lemma kind_name_inject [simp]: "kind_name k = kind_name l \<longleftrightarrow> k = l"
  by (metis kind_of_name_kind_name option.inject)

lemma envelope_new_run:
  "envelope_new kind corr caus payload s =
     (Inr \<lparr>env_v = protocol_version, env_msg_id = uuid_src s (uuid_next s), env_correlation_id = corr,
           env_causation_id = caus, env_kind = kind, env_ts = clock_src s (clock_next s),
           env_payload = payload\<rparr>,
      s\<lparr>uuid_next := Suc (uuid_next s), clock_next := Suc (clock_next s)\<rparr>)"
  by (simp add: envelope_new_def io_simps)

section \<open>The version gate\<close>

lemma validate_iff: "validate e = Inr () \<longleftrightarrow> env_v e = protocol_version"
  by (simp add: validate_def)

lemma to_cbor_Inr: "to_cbor c e = Inr bytes \<Longrightarrow> env_v e = protocol_version \<and> cbor_write c e = Inr bytes"
  by (auto simp: to_cbor_def validate_def split: if_splits sum.splits)

end
