(* ===== verification/Host.thy ===== *)
theory Host
  imports Protocol
begin

text \<open>
  The operating system as the program sees it: the two append-only files it writes (audit log and
  memory store) and the signals it sends, on top of the UUID and clock sources. Whether a write or an
  open succeeds is decided by the host: a failed write may leave any prefix of the bytes in the file.

  The second half is the JSON-lines store that \<open>crates/audit-log\<close> and \<open>crates/memory-store\<close>
  both implement (\<open>append\<close>, \<open>read_all\<close>), as a locale over the line codec.
\<close>

datatype file_id = AuditFile | MemoryFile

datatype write_outcome = Written | WriteFailed nat string

record host = ambient +
  files :: "file_id \<Rightarrow> string"
  write_src :: "nat \<Rightarrow> write_outcome"
  write_next :: nat
  open_src :: "nat \<Rightarrow> bool"
  open_next :: nat
  os_next :: nat
  signals :: "(u32 \<times> string) list"

definition write_all :: "file_id \<Rightarrow> string \<Rightarrow> (host, string, unit) io" where
  "write_all f bytes = (\<lambda>h.
     let h' = h\<lparr>write_next := Suc (write_next h)\<rparr>
     in case write_src h (write_next h) of
          Written \<Rightarrow> (Inr (), h'\<lparr>files := (files h)(f := files h f @ bytes)\<rparr>)
        | WriteFailed k msg \<Rightarrow> (Inl msg, h'\<lparr>files := (files h)(f := files h f @ take k bytes)\<rparr>))"

definition read_file :: "file_id \<Rightarrow> string \<Rightarrow> (host, string, string) io" where
  "read_file f path = (\<lambda>h.
     let h' = h\<lparr>open_next := Suc (open_next h)\<rparr>
     in if open_src h (open_next h) then (Inr (files h f), h') else (Inl (''read '' @ path), h'))"

section \<open>JSON lines\<close>

fun parse_lines :: "(string \<Rightarrow> string + 'a) \<Rightarrow> string list \<Rightarrow> string + 'a list" where
  "parse_lines d [] = Inr []"
| "parse_lines d (l # ls) =
     (if blank l then parse_lines d ls
      else case d l of
        Inl e \<Rightarrow> Inl e
      | Inr r \<Rightarrow> (case parse_lines d ls of Inl e \<Rightarrow> Inl e | Inr rs \<Rightarrow> Inr (r # rs)))"

definition append_record :: "('a \<Rightarrow> string) \<Rightarrow> file_id \<Rightarrow> 'a \<Rightarrow> (host, string, unit) io" where
  "append_record enc f r = write_all f (enc r @ [newline])"

definition read_records ::
  "(string \<Rightarrow> string + 'a) \<Rightarrow> file_id \<Rightarrow> string \<Rightarrow> (host, string, 'a list) io" where
  "read_records d f path =
     bind_io (read_file f path) (\<lambda>text.
       case parse_lines d (text_lines text) of Inl e \<Rightarrow> raise e | Inr rs \<Rightarrow> ret rs)"

lemma parse_lines_append:
  "parse_lines d (xs @ ys) =
     (case parse_lines d xs of
        Inl e \<Rightarrow> Inl e
      | Inr rs \<Rightarrow> (case parse_lines d ys of Inl e \<Rightarrow> Inl e | Inr qs \<Rightarrow> Inr (rs @ qs)))"
  by (induction xs) (auto split: sum.splits)

text \<open>What a file holds as records: the abstraction of its bytes.\<close>

definition holds :: "(string \<Rightarrow> string + 'a) \<Rightarrow> string \<Rightarrow> 'a list \<Rightarrow> bool" where
  "holds d text rs \<longleftrightarrow> terminated text \<and> parse_lines d (text_lines text) = Inr rs"

lemma blank_Nil: "blank []"
  by (simp add: blank_def trim_def trim_end_def trim_start_def strip_ws.simps)

lemma holds_empty: "holds d [] []"
  by (simp add: holds_def terminated_def)

lemma read_records_run:
  "open_src h (open_next h) \<Longrightarrow> holds d (files h f) rs \<Longrightarrow>
     read_records d f path h = (Inr rs, h\<lparr>open_next := Suc (open_next h)\<rparr>)"
  by (simp add: read_records_def read_file_def bind_io_def holds_def ret_def)

locale jsonl =
  fixes enc :: "'a \<Rightarrow> string"
    and d :: "string \<Rightarrow> string + 'a"
    and ok :: "'a \<Rightarrow> bool"
  assumes decode: "ok r \<Longrightarrow> d (enc r) = Inr r"
    and line: "ok r \<Longrightarrow> one_line (enc r)"
    and not_blank: "ok r \<Longrightarrow> \<not> blank (enc r)"
begin

lemma holds_snoc:
  assumes "holds d text rs" and "ok r"
  shows "holds d (text @ enc r @ [newline]) (rs @ [r])"
proof -
  have "text_lines (enc r @ [newline]) = [enc r]"
    using text_lines_append_line [of "enc r" "[]"] line [OF assms(2)] by (simp add: one_line_def)
  then have "text_lines (text @ enc r @ [newline]) = text_lines text @ [enc r]"
    using assms(1) by (simp add: holds_def text_lines_append)
  with assms decode not_blank show ?thesis
    by (simp add: holds_def parse_lines_append terminated_def)
qed

text \<open>A successful append adds one record; the file still holds records.\<close>

lemma append_holds:
  assumes "holds d (files h f) rs" and "ok r" and "append_record enc f r h = (Inr (), h')"
  shows "holds d (files h' f) (rs @ [r])"
  using assms holds_snoc
  by (auto simp: append_record_def write_all_def Let_def split: write_outcome.splits)

text \<open>A torn append: the rest of a line that does not parse makes the file unreadable.\<close>

lemma torn_unreadable:
  assumes "holds d text rs" and "one_line t" and "t \<noteq> []" and "\<not> blank t" and "d t = Inl e"
  shows "parse_lines d (text_lines (text @ t)) = Inl e"
proof -
  have "text_lines (text @ t) = text_lines text @ [t]"
    using assms text_lines_unterminated [of t]
    by (simp add: holds_def one_line_def text_lines_append)
  with assms show ?thesis by (simp add: holds_def parse_lines_append)
qed

text \<open>The same when more follows: the rest of the file begins with the end of that line.\<close>

lemma broken_line_unreadable:
  assumes "holds d text rs" and "one_line l" and "\<not> blank l" and "d l = Inl e" and "rest = [] \<or> (\<exists>more. rest = newline # more)"
  shows "parse_lines d (text_lines (text @ l @ rest)) = Inl e"
  using assms(5)
proof
  assume "rest = []"
  moreover have "l \<noteq> []" using assms(3) blank_Nil by metis
  ultimately show ?thesis using torn_unreadable [OF assms(1,2) _ assms(3,4)] by simp
next
  assume "\<exists>more. rest = newline # more"
  then obtain more where "rest = newline # more" by blast
  moreover have "text_lines (l @ newline # more) = l # text_lines more"
    using text_lines_append_line assms(2) by (simp add: one_line_def)
  ultimately show ?thesis
    using assms(1,3,4) by (simp add: holds_def text_lines_append parse_lines_append)
qed

lemma holds_unique: "holds d text rs \<Longrightarrow> holds d text qs \<Longrightarrow> rs = qs"
  by (simp add: holds_def)

end

section \<open>Files only grow\<close>

definition file_grows :: "file_id \<Rightarrow> host \<Rightarrow> host \<Rightarrow> bool" where
  "file_grows f h h' \<longleftrightarrow> prefix (files h f) (files h' f)"

interpretation file_growth: state_preorder "file_grows f" for f
  by unfold_locales (auto simp: file_grows_def)

lemma file_grows_write_all [climbs_intros]: "climbs (file_grows f) (write_all g bytes)"
  by (auto simp: climbs_def file_grows_def write_all_def Let_def split: write_outcome.splits)

lemma file_grows_read_file [climbs_intros]: "climbs (file_grows f) (read_file g path)"
  by (simp add: climbs_def file_grows_def read_file_def Let_def)

lemma file_grows_append [climbs_intros]: "climbs (file_grows f) (append_record enc g r)"
  by (simp add: append_record_def file_grows_write_all)

lemma file_grows_read_records [climbs_intros]: "climbs (file_grows f) (read_records d g path)"
  unfolding read_records_def
  by (intro file_growth.climbs_bind file_grows_read_file)
    (auto split: sum.splits intro: file_growth.climbs_ret file_growth.climbs_raise)

lemma file_grows_new_v4 [climbs_intros]: "climbs (file_grows f) new_v4"
  by (simp add: climbs_def file_grows_def new_v4_def)

lemma file_grows_utc_now [climbs_intros]: "climbs (file_grows f) utc_now"
  by (simp add: climbs_def file_grows_def utc_now_def)

text \<open>An append to one file leaves the other untouched.\<close>

lemma write_all_other: "g \<noteq> f \<Longrightarrow> files (snd (write_all f bytes h)) g = files h g"
  by (simp add: write_all_def Let_def split: write_outcome.splits)

end
