(* ===== verification/AuditLog.thy ===== *)
theory AuditLog
  imports Host
begin

text \<open>
  \<open>crates/audit-log\<close>: the append-only audit trail as JSON lines, the query by correlation id, and
  the dry-run replay that turns a request's records into a report without touching anything.

  The line codec is what the derive attributes give: a record is an object with the field names of the
  struct; reading wants every field but the optional one. The text form of JSON, UUIDs and timestamps
  is in \<^typ>\<open>ext\<close>. A record read from a JSON array, which serde would also take, is not modelled: the
  program never writes one.
\<close>

record audit_record =
  ar_id :: uuid
  ar_ts :: datetime
  ar_correlation_id :: uuid
  ar_causation_id :: "uuid option"
  ar_kind :: message_kind
  ar_payload :: json

definition audit_of_envelope :: "envelope \<Rightarrow> audit_record" where
  "audit_of_envelope e =
     \<lparr>ar_id = env_msg_id e, ar_ts = env_ts e, ar_correlation_id = env_correlation_id e,
      ar_causation_id = env_causation_id e, ar_kind = env_kind e, ar_payload = env_payload e\<rparr>"

definition audit_json :: "ext \<Rightarrow> audit_record \<Rightarrow> json" where
  "audit_json x r =
     Object [(''id'', uuid_json x (ar_id r)), (''ts'', time_json x (ar_ts r)),
             (''correlation_id'', uuid_json x (ar_correlation_id r)),
             (''causation_id'', opt_json (uuid_json x) (ar_causation_id r)),
             (''kind'', String (kind_name (ar_kind r))), (''payload'', ar_payload r)]"

definition get_uuid :: "ext \<Rightarrow> json \<Rightarrow> string \<Rightarrow> uuid option" where
  "get_uuid x v k = Option.bind (get_str v k) (uuid_parse x)"

definition get_time :: "ext \<Rightarrow> json \<Rightarrow> string \<Rightarrow> datetime option" where
  "get_time x v k = Option.bind (get_str v k) (time_parse x)"

text \<open>An optional field: absent or null is \<open>None\<close>, anything else must parse.\<close>

definition get_opt :: "(json \<Rightarrow> 'a option) \<Rightarrow> json \<Rightarrow> string \<Rightarrow> 'a option option" where
  "get_opt f v k =
     (case get v k of None \<Rightarrow> Some None | Some Null \<Rightarrow> Some None | Some w \<Rightarrow> map_option Some (f w))"

definition audit_of_json :: "ext \<Rightarrow> json \<Rightarrow> audit_record option" where
  "audit_of_json x v =
     Option.bind (get_uuid x v ''id'') (\<lambda>i.
     Option.bind (get_time x v ''ts'') (\<lambda>t.
     Option.bind (get_uuid x v ''correlation_id'') (\<lambda>c.
     Option.bind (get_opt (\<lambda>w. Option.bind (as_str w) (uuid_parse x)) v ''causation_id'') (\<lambda>p.
     Option.bind (Option.bind (get_str v ''kind'') kind_of_name) (\<lambda>k.
     Option.bind (get v ''payload'') (\<lambda>pl.
       Some \<lparr>ar_id = i, ar_ts = t, ar_correlation_id = c, ar_causation_id = p, ar_kind = k, ar_payload = pl\<rparr>))))))"

definition audit_line :: "ext \<Rightarrow> audit_record \<Rightarrow> string" where
  "audit_line x r = json_text x (audit_json x r)"

definition audit_parse :: "ext \<Rightarrow> string \<Rightarrow> string + audit_record" where
  "audit_parse x l =
     (case Option.bind (json_parse x l) (audit_of_json x) of None \<Rightarrow> Inl (parse_error x l) | Some r \<Rightarrow> Inr r)"

text \<open>What the text forms must do on one record for its line to read back.\<close>

definition audit_codec :: "ext \<Rightarrow> audit_record \<Rightarrow> bool" where
  "audit_codec x r \<longleftrightarrow>
     text_codec_on x {audit_json x r} \<and> time_codec_on x {ar_ts r}
     \<and> uuid_codec_on x ({ar_id r, ar_correlation_id r} \<union> set_option (ar_causation_id r))"

lemma audit_json_roundtrip:
  "audit_codec x r \<Longrightarrow> audit_of_json x (audit_json x r) = Some r"
  by (cases "ar_causation_id r")
    (simp_all add: audit_codec_def uuid_codec_on_def time_codec_on_def audit_of_json_def audit_json_def
      get_uuid_def get_time_def get_opt_def uuid_json_def time_json_def opt_json_def get_str_def)

interpretation audit_lines: jsonl "audit_line x" "audit_parse x" "audit_codec x" for x
  by unfold_locales
    (auto simp: audit_parse_def audit_line_def audit_json_roundtrip audit_codec_def text_codec_on_def)

section \<open>The log\<close>

record audit_log =
  al_path :: string

definition audit_open :: "string \<Rightarrow> (host, string, audit_log) io" where
  "audit_open path = (\<lambda>h.
     let h' = h\<lparr>open_next := Suc (open_next h)\<rparr>
     in if open_src h (open_next h) then (Inr \<lparr>al_path = path\<rparr>, h')
        else (Inl (''open audit log '' @ path), h'))"

definition audit_append :: "ext \<Rightarrow> audit_record \<Rightarrow> (host, string, unit) io" where
  "audit_append x r = append_record (audit_line x) AuditFile r"

definition append_envelope :: "ext \<Rightarrow> envelope \<Rightarrow> (host, string, unit) io" where
  "append_envelope x e = audit_append x (audit_of_envelope e)"

definition audit_read_all :: "ext \<Rightarrow> audit_log \<Rightarrow> (host, string, audit_record list) io" where
  "audit_read_all x lg = read_records (audit_parse x) AuditFile (al_path lg)"

definition list_by_correlation :: "ext \<Rightarrow> audit_log \<Rightarrow> uuid \<Rightarrow> (host, string, audit_record list) io" where
  "list_by_correlation x lg corr =
     bind_io (audit_read_all x lg) (\<lambda>rs. ret (filter (\<lambda>r. ar_correlation_id r = corr) rs))"

section \<open>After a torn line\<close>

text \<open>What happens to the log later: appends that succeed or are torn themselves, and anything that leaves the file
  alone.\<close>

inductive log_step :: "ext \<Rightarrow> host \<Rightarrow> host \<Rightarrow> bool" for x where
  appends: "audit_append x r h = (q, h') \<Longrightarrow> log_step x h h'"
| others: "files h' AuditFile = files h AuditFile \<Longrightarrow> log_step x h h'"

text \<open>What can follow a torn line before the next line feed: beginnings of records, whole ones included. A torn
  line stays broken when none of them completes it, as with JSON: an object that has been left open is not closed by the
  beginnings of other objects.\<close>

definition scraps :: "ext \<Rightarrow> string \<Rightarrow> bool" where
  "scraps x u \<longleftrightarrow> (\<exists>ws. u = concat ws \<and> (\<forall>w \<in> set ws. \<exists>r. prefix w (audit_line x r)))"

definition stays_broken :: "ext \<Rightarrow> string \<Rightarrow> bool" where
  "stays_broken x t \<longleftrightarrow>
     (\<forall>u. scraps x u \<longrightarrow> one_line (t @ u) \<and> \<not> blank (t @ u) \<and> (\<exists>e. audit_parse x (t @ u) = Inl e))"

lemma scraps_Nil: "scraps x []"
  unfolding scraps_def by (rule exI [of _ "[]"]) simp

lemma scraps_snoc:
  assumes "scraps x u" and "prefix w (audit_line x r)"
  shows "scraps x (u @ w)"
proof -
  obtain ws where "u = concat ws" "\<forall>w \<in> set ws. \<exists>r. prefix w (audit_line x r)"
    using assms(1) unfolding scraps_def by blast
  with assms(2) show ?thesis unfolding scraps_def by (intro exI [of _ "ws @ [w]"]) auto
qed

definition broken :: "ext \<Rightarrow> string \<Rightarrow> string \<Rightarrow> host \<Rightarrow> bool" where
  "broken x before t h \<longleftrightarrow>
     (\<exists>u rest. files h AuditFile = before @ (t @ u) @ rest \<and> scraps x u \<and> (rest = [] \<or> (\<exists>more. rest = newline # more)))"

lemma brokenI:
  assumes "files h AuditFile = before @ (t @ u) @ rest" and "scraps x u" and "rest = [] \<or> (\<exists>more. rest = newline # more)"
  shows "broken x before t h"
  using assms unfolding broken_def by blast

lemma append_bytes:
  assumes "audit_append x r h = (q, h')"
  shows "\<exists>k. files h' AuditFile = files h AuditFile @ take k (audit_line x r @ [newline])"
  using assms
  by (auto simp: audit_append_def append_record_def write_all_def Let_def split: write_outcome.splits
      intro: exI [of _ "Suc (length (audit_line x r))"])

lemma broken_step:
  assumes "log_step x h h'" and "broken x before t h"
  shows "broken x before t h'"
  using assms(1)
proof cases
  case (appends r q)
  obtain k where k: "files h' AuditFile = files h AuditFile @ take k (audit_line x r @ [newline])"
    using append_bytes [OF appends] by blast
  obtain u rest where u: "files h AuditFile = before @ (t @ u) @ rest" "scraps x u"
      and rest: "rest = [] \<or> (\<exists>more. rest = newline # more)"
    using assms(2) unfolding broken_def by blast
  show ?thesis
  proof (cases "rest = []")
    case False
    with rest u k show ?thesis
      by (intro brokenI [of _ _ _ u "rest @ take k (audit_line x r @ [newline])"]) auto
  next
    case True
    have "prefix (take k (audit_line x r)) (audit_line x r)" by (rule take_is_prefix)
    note more = scraps_snoc [OF u(2) this]
    obtain m where m: "take k (audit_line x r @ [newline]) = take k (audit_line x r) @ m" "m = [] \<or> m = [newline]"
      by (cases "k \<le> length (audit_line x r)") (simp_all add: not_le take_Cons')
    show ?thesis
      by (rule brokenI [of _ _ _ "u @ take k (audit_line x r)" m]) (use True u(1) k m more in auto)
  qed
next
  case others
  with assms(2) show ?thesis by (simp add: broken_def)
qed

lemma broken_run:
  assumes "(log_step x)\<^sup>*\<^sup>* h h'" and "broken x before t h"
  shows "broken x before t h'"
  using assms by (induction rule: rtranclp_induct) (auto intro: broken_step)

lemma broken_unreadable:
  assumes "broken x before t h" and "holds (audit_parse x) before rs" and "stays_broken x t" and "open_src h (open_next h)"
  shows "\<exists>e. fst (audit_read_all x lg h) = Inl e"
proof -
  obtain u rest where u: "files h AuditFile = before @ (t @ u) @ rest" "scraps x u"
      "rest = [] \<or> (\<exists>more. rest = newline # more)"
    using assms(1) unfolding broken_def by blast
  from assms(3) u(2) obtain e where "one_line (t @ u)" "\<not> blank (t @ u)" "audit_parse x (t @ u) = Inl e"
    unfolding stays_broken_def by blast
  from audit_lines.broken_line_unreadable [OF assms(2) this u(3)] assms(4) u(1) show ?thesis
    by (simp add: audit_read_all_def read_records_def read_file_def io_defs Let_def)
qed

section \<open>Dry-run replay\<close>

record replay_step =
  rs_kind :: message_kind
  rs_description :: string
  rs_side_effect :: bool

record replay_report =
  rr_correlation_id :: uuid
  rr_steps :: "replay_step list"
  rr_side_effects_avoided :: "string list"
  rr_summary :: "string option"
  rr_pending_confirmation :: "string option"
  rr_dry_run :: bool

text \<open>The accumulators of the loop: side effects, summary, pending confirmation.\<close>

record replay_acc =
  ra_side_effects :: "string list"
  ra_summary :: "string option"
  ra_pending :: "string option"

definition dangerous_tool :: "string \<Rightarrow> bool" where
  "dangerous_tool tool \<longleftrightarrow>
     tool = ''process.kill_request'' \<or> tool = ''system.reboot_request'' \<or> tool = ''storage.format''"

definition payload_tool :: "audit_record \<Rightarrow> string" where
  "payload_tool r = unwrap_or (get_str (ar_payload r) ''tool'') ''unknown''"

definition replay_record :: "ext \<Rightarrow> audit_record \<Rightarrow> replay_acc \<Rightarrow> replay_step \<times> replay_acc" where
  "replay_record x r a =
     (let p = ar_payload r;
          step = (\<lambda>d se. \<lparr>rs_kind = ar_kind r, rs_description = d, rs_side_effect = se\<rparr>)
      in case ar_kind r of
           UserRequest \<Rightarrow> (step (''user request: '' @ unwrap_or (get_str p ''text'') []) False, a)
         | ToolCall \<Rightarrow>
             (let tool = payload_tool r; dangerous = dangerous_tool tool;
                  a' = (if dangerous
                        then a\<lparr>ra_side_effects := ra_side_effects a @
                                [''would invoke `'' @ tool @ ''` args='' @
                                 json_text x (unwrap_or (get p ''arguments'') Null)]\<rparr>
                        else a)
              in (step (''tool call: '' @ tool) dangerous, a'))
         | PolicyDecision \<Rightarrow>
             (let tool = payload_tool r; verdict = unwrap_or (get p ''verdict'') Null;
                  a' = (if as_str verdict = Some ''ask_user''
                        then a\<lparr>ra_side_effects := ra_side_effects a @
                                [''policy asked confirmation for `'' @ tool @
                                 ''` (not auto-executed in this chain)'']\<rparr>
                        else a)
              in (step (''policy for `'' @ tool @ ''`: '' @ json_text x verdict) False, a'))
         | ToolResult \<Rightarrow>
             (step (''tool result: '' @ payload_tool r @ '' ok='' @
                    bool_text (unwrap_or (get_bool p ''ok'') False)) False, a)
         | ConfirmationRequest \<Rightarrow>
             (let s = unwrap_or (get_str p ''summary'') ''confirmation required''
              in (step (''confirmation requested: '' @ s) False, a\<lparr>ra_pending := Some s\<rparr>))
         | ConfirmationResponse \<Rightarrow>
             (step (''confirmation response: confirmed='' @
                    bool_text (unwrap_or (get_bool p ''confirmed'') False)) False, a)
         | DiagnoseResult \<Rightarrow>
             (let s = unwrap_or (get_str p ''summary'') []
              in (step (''diagnose: '' @ s) False, a\<lparr>ra_summary := Some s\<rparr>))
         | AssistantMessage \<Rightarrow>
             (let t = unwrap_or (get_str p ''text'') []
              in (step (''assistant: '' @ t) False,
                  if ra_summary a = None then a\<lparr>ra_summary := Some t\<rparr> else a))
         | _ \<Rightarrow> (step (''event: '' @ json_text x p) False, a))"

fun replay_loop :: "ext \<Rightarrow> audit_record list \<Rightarrow> replay_acc \<Rightarrow> replay_step list \<times> replay_acc" where
  "replay_loop x [] a = ([], a)"
| "replay_loop x (r # rs) a =
     (case replay_record x r a of (st, a') \<Rightarrow>
        (case replay_loop x rs a' of (sts, a'') \<Rightarrow> (st # sts, a'')))"

definition replay_start :: replay_acc where
  "replay_start = \<lparr>ra_side_effects = [], ra_summary = None, ra_pending = None\<rparr>"

definition replay_report_of :: "ext \<Rightarrow> uuid \<Rightarrow> audit_record list \<Rightarrow> replay_report" where
  "replay_report_of x corr rs =
     (case replay_loop x rs replay_start of (sts, a) \<Rightarrow>
        \<lparr>rr_correlation_id = corr, rr_steps = sts, rr_side_effects_avoided = ra_side_effects a,
         rr_summary = ra_summary a, rr_pending_confirmation = ra_pending a, rr_dry_run = True\<rparr>)"

definition replay :: "ext \<Rightarrow> audit_log \<Rightarrow> uuid \<Rightarrow> (host, string, replay_report) io" where
  "replay x lg corr =
     bind_io (list_by_correlation x lg corr) (\<lambda>rs.
       if rs = [] then raise (''no audit records for correlation_id='' @ uuid_text x corr)
       else ret (replay_report_of x corr rs))"

section \<open>Lemmas on the replay\<close>

lemma replay_record_kind [simp]: "rs_kind (fst (replay_record x r a)) = ar_kind r"
  by (simp add: replay_record_def Let_def split: message_kind.split)

lemma replay_record_side_effect:
  "rs_side_effect (fst (replay_record x r a)) \<longleftrightarrow> ar_kind r = ToolCall \<and> dangerous_tool (payload_tool r)"
  by (simp add: replay_record_def Let_def split: message_kind.split)

definition asks_user :: "audit_record \<Rightarrow> bool" where
  "asks_user r \<longleftrightarrow> ar_kind r = PolicyDecision \<and> get_str (ar_payload r) ''verdict'' = Some ''ask_user''"

definition avoids :: "audit_record \<Rightarrow> bool" where
  "avoids r \<longleftrightarrow> ar_kind r = ToolCall \<and> dangerous_tool (payload_tool r) \<or> asks_user r"

lemma as_str_verdict:
  "as_str (unwrap_or (get p k) Null) = Some s \<longleftrightarrow> get_str p k = Some s"
  by (cases "get p k") (simp_all add: get_str_def)

lemma replay_record_effects:
  "length (ra_side_effects (snd (replay_record x r a))) =
     length (ra_side_effects a) + (if avoids r then 1 else 0)"
  by (simp add: replay_record_def Let_def avoids_def asks_user_def as_str_verdict split: message_kind.split)

text \<open>The summary of a run: the last diagnose result wins; without one, the first assistant message.\<close>

fun summary_spec :: "string option \<Rightarrow> audit_record list \<Rightarrow> string option" where
  "summary_spec s [] = s"
| "summary_spec s (r # rs) =
     summary_spec
       (if ar_kind r = DiagnoseResult then Some (unwrap_or (get_str (ar_payload r) ''summary'') [])
        else if ar_kind r = AssistantMessage \<and> s = None
        then Some (unwrap_or (get_str (ar_payload r) ''text'') []) else s) rs"

lemma replay_record_summary:
  "ra_summary (snd (replay_record x r a)) =
     (if ar_kind r = DiagnoseResult then Some (unwrap_or (get_str (ar_payload r) ''summary'') [])
      else if ar_kind r = AssistantMessage \<and> ra_summary a = None
      then Some (unwrap_or (get_str (ar_payload r) ''text'') []) else ra_summary a)"
  by (simp add: replay_record_def Let_def split: message_kind.split)

lemma replay_loop_steps:
  "map rs_kind (fst (replay_loop x rs a)) = map ar_kind rs"
  by (induction rs arbitrary: a) (simp_all add: split_beta)

lemma replay_loop_flags:
  "map rs_side_effect (fst (replay_loop x rs a)) =
     map (\<lambda>r. ar_kind r = ToolCall \<and> dangerous_tool (payload_tool r)) rs"
  by (induction rs arbitrary: a) (simp_all add: split_beta replay_record_side_effect)

lemma replay_loop_effects:
  "length (ra_side_effects (snd (replay_loop x rs a))) =
     length (ra_side_effects a) + length (filter avoids rs)"
  by (induction rs arbitrary: a) (simp_all add: split_beta replay_record_effects)

lemma replay_loop_summary:
  "ra_summary (snd (replay_loop x rs a)) = summary_spec (ra_summary a) rs"
  by (induction rs arbitrary: a) (simp_all add: split_beta replay_record_summary)

definition diagnose_summaries :: "audit_record list \<Rightarrow> string list" where
  "diagnose_summaries rs =
     map (\<lambda>r. unwrap_or (get_str (ar_payload r) ''summary'') []) (filter (\<lambda>r. ar_kind r = DiagnoseResult) rs)"

definition assistant_texts :: "audit_record list \<Rightarrow> string list" where
  "assistant_texts rs =
     map (\<lambda>r. unwrap_or (get_str (ar_payload r) ''text'') []) (filter (\<lambda>r. ar_kind r = AssistantMessage) rs)"

lemma summary_spec_closed:
  "summary_spec s rs =
     (if diagnose_summaries rs \<noteq> [] then Some (last (diagnose_summaries rs))
      else case s of Some t \<Rightarrow> Some t
        | None \<Rightarrow> (case assistant_texts rs of [] \<Rightarrow> None | t # _ \<Rightarrow> Some t))"
  by (induction rs arbitrary: s)
    (auto simp: diagnose_summaries_def assistant_texts_def split: option.splits)

end
