(* ===== verification/EventBus.thy ===== *)
theory EventBus
  imports AuditLog
begin

text \<open>
  \<open>crates/event-bus\<close>: the broadcast channel every component publishes envelopes on. The state is
  the sequence of envelopes sent; a send without receivers is not an error for the program, which
  drops the result. What one receiver sees is a sequence of receive results (the channel is tokio's):
  an envelope, a report that it lagged and lost some, or the close.

  Almost every component publishes an envelope only after it has gone to the audit log
  (\<open>record_envelope\<close>). The relation \<open>trail\<close> is the promise that follows: what was published since a
  state is, in order, in the audit file.
\<close>

datatype event_class = CriticalClass | LossyClass | SessionClass

record plant =
  p_host :: host
  p_bus :: "envelope list"

datatype recv_result = Got envelope | Lagged u64 | Closed

definition on_plant :: "(host, 'e, 'a) io \<Rightarrow> ('z plant_scheme, 'e, 'a) io" where
  "on_plant m = (\<lambda>s. case m (p_host s) of (r, h) \<Rightarrow> (r, s\<lparr>p_host := h\<rparr>))"

definition publish_envelope :: "envelope \<Rightarrow> ('z plant_scheme, 'e, unit) io" where
  "publish_envelope e = modifies (\<lambda>s. s\<lparr>p_bus := p_bus s @ [e]\<rparr>)"

definition publish ::
  "message_kind \<Rightarrow> uuid \<Rightarrow> uuid option \<Rightarrow> json \<Rightarrow> ('z plant_scheme, 'e, envelope) io" where
  "publish kind corr caus payload =
     bind_io (on_plant (envelope_new kind corr caus payload)) (\<lambda>e.
     bind_io (publish_envelope e) (\<lambda>_. ret e))"

text \<open>What a component does with an envelope is a sequence of calls of the log and the bus, here as data: with
  \<open>?\<close> a failed append ends the sequence, with \<open>let _ =\<close> it does not. One task runs it from start to end
  (\<open>run_actions\<close>); parallel tasks interleave at the calls (theory \<open>Interleaving\<close>).\<close>

datatype log_action = Append envelope | TryAppend envelope | Publish envelope

fun run_action :: "ext \<Rightarrow> log_action \<Rightarrow> ('z plant_scheme, string, unit) io" where
  "run_action x (Append e) = on_plant (append_envelope x e)"
| "run_action x (TryAppend e) = bind_io (attempt (on_plant (append_envelope x e))) (\<lambda>_. ret ())"
| "run_action x (Publish e) = publish_envelope e"

primrec run_actions :: "ext \<Rightarrow> log_action list \<Rightarrow> ('z plant_scheme, string, unit) io" where
  "run_actions x [] = ret ()"
| "run_actions x (a # as) = bind_io (run_action x a) (\<lambda>_. run_actions x as)"

text \<open>The idiom of the runtime, the automation engine and the sampler: append, then publish.\<close>

definition recording :: "envelope \<Rightarrow> log_action list" where
  "recording e = [Append e, Publish e]"

definition record_envelope :: "ext \<Rightarrow> envelope \<Rightarrow> ('z plant_scheme, string, unit) io" where
  "record_envelope x e = run_actions x (recording e)"

lemma record_envelope_run:
  "record_envelope x e = bind_io (on_plant (append_envelope x e)) (\<lambda>_. publish_envelope e)"
  by (rule ext) (auto simp: record_envelope_def recording_def bind_io_def ret_def publish_envelope_def modifies_def
      split: prod.split sum.split)

text \<open>A task that loops on its receiver: a turn takes one receive result and says whether the loop goes on.\<close>

primrec recv_loop :: "(recv_result \<Rightarrow> ('s, 'e, bool) io) \<Rightarrow> recv_result list \<Rightarrow> ('s, 'e, unit) io" where
  "recv_loop turn [] = ret ()"
| "recv_loop turn (r # rs) = bind_io (turn r) (\<lambda>go. if go then recv_loop turn rs else ret ())"

lemma recv_loop_climbs:
  assumes "state_preorder R" and "\<And>r. climbs R (turn r)"
  shows "climbs R (recv_loop turn rs)"
  by (induction rs)
    (auto intro!: assms(2) state_preorder.climbs_ret [OF assms(1)] state_preorder.climbs_bind [OF assms(1)])

section \<open>The audit trail covers the bus\<close>

definition envelope_line :: "ext \<Rightarrow> envelope \<Rightarrow> string" where
  "envelope_line x e = audit_line x (audit_of_envelope e) @ [newline]"

text \<open>\<open>trail x s t\<close>: between the states, every envelope published has its complete line in the
  audit file, in the order of publication; other bytes may lie between the lines.\<close>

definition trail :: "ext \<Rightarrow> 'z plant_scheme \<Rightarrow> 'z plant_scheme \<Rightarrow> bool" where
  "trail x s t \<longleftrightarrow>
     (\<exists>ps junk.
        p_bus t = p_bus s @ map snd ps
        \<and> files (p_host t) AuditFile =
            files (p_host s) AuditFile @ concat (map (\<lambda>(j, e). j @ envelope_line x e) ps) @ junk)"

lemma trail_host:
  assumes "prefix (files (p_host s) AuditFile) (files (p_host t) AuditFile)" and "p_bus t = p_bus s"
  shows "trail x s t"
  unfolding trail_def
proof (intro exI conjI)
  show "p_bus t = p_bus s @ map snd []" using assms(2) by simp
  show "files (p_host t) AuditFile = files (p_host s) AuditFile
      @ concat (map (\<lambda>(j, e). j @ envelope_line x e) []) @ drop (length (files (p_host s) AuditFile)) (files (p_host t) AuditFile)"
    using assms(1) by (auto simp: prefix_def)
qed

lemma trail_trans:
  assumes "trail x s t" and "trail x t u"
  shows "trail x s u"
proof -
  obtain ps j where s: "p_bus t = p_bus s @ map snd ps"
      "files (p_host t) AuditFile =
         files (p_host s) AuditFile @ concat (map (\<lambda>(j, e). j @ envelope_line x e) ps) @ j"
    using assms(1) unfolding trail_def by blast
  obtain qs k where t: "p_bus u = p_bus t @ map snd qs"
      "files (p_host u) AuditFile =
         files (p_host t) AuditFile @ concat (map (\<lambda>(j, e). j @ envelope_line x e) qs) @ k"
    using assms(2) unfolding trail_def by blast
  show ?thesis
  proof (cases qs)
    case Nil
    with s t have "p_bus u = p_bus s @ map snd ps"
      "files (p_host u) AuditFile =
         files (p_host s) AuditFile @ concat (map (\<lambda>(j, e). j @ envelope_line x e) ps) @ (j @ k)"
      by simp_all
    then show ?thesis unfolding trail_def by blast
  next
    case (Cons q qs')
    with s t have "p_bus u = p_bus s @ map snd (ps @ (j @ fst q, snd q) # qs')"
      "files (p_host u) AuditFile =
         files (p_host s) AuditFile
         @ concat (map (\<lambda>(j, e). j @ envelope_line x e) (ps @ (j @ fst q, snd q) # qs')) @ k"
      by (simp_all add: split_beta)
    then show ?thesis unfolding trail_def by blast
  qed
qed

interpretation trail: state_preorder "trail x" for x
  by unfold_locales (auto intro: trail_host trail_trans)

lemma trail_on_plant [climbs_intros]:
  assumes "climbs (file_grows AuditFile) m"
  shows "climbs (trail x) (on_plant m)"
  unfolding climbs_def
proof
  fix s
  have "prefix (files (p_host s) AuditFile) (files (snd (m (p_host s))) AuditFile)"
    using assms by (simp add: climbs_def file_grows_def)
  then show "trail x s (snd (on_plant m s))"
    by (intro trail_host) (simp_all add: on_plant_def split_beta)
qed

lemma trail_record_envelope [climbs_intros]: "climbs (trail x) (record_envelope x e)"
  unfolding climbs_def
proof
  fix s
  show "trail x s (snd (record_envelope x e s))"
  proof (cases "write_src (p_host s) (write_next (p_host s))")
    case Written
    then have "p_bus (snd (record_envelope x e s)) = p_bus s @ map snd [([], e)]"
      "files (p_host (snd (record_envelope x e s))) AuditFile =
        files (p_host s) AuditFile @ concat (map (\<lambda>(j, e). j @ envelope_line x e) [([], e)]) @ []"
      by (simp_all add: record_envelope_run on_plant_def append_envelope_def audit_append_def
          append_record_def write_all_def publish_envelope_def envelope_line_def io_defs Let_def)
    then show ?thesis unfolding trail_def by blast
  next
    case (WriteFailed k msg)
    then show ?thesis
      by (intro trail_host)
        (simp_all add: record_envelope_run on_plant_def append_envelope_def audit_append_def
          append_record_def write_all_def io_defs Let_def)
  qed
qed

lemma record_envelope_Inr:
  assumes "record_envelope x e s = (Inr u, t)"
  shows "p_bus t = p_bus s @ [e] \<and> files (p_host t) AuditFile = files (p_host s) AuditFile @ envelope_line x e"
  using assms
  by (auto simp: record_envelope_run on_plant_def append_envelope_def audit_append_def append_record_def
      write_all_def publish_envelope_def envelope_line_def io_defs Let_def split: write_outcome.splits)

lemma record_envelope_Inl:
  assumes "record_envelope x e s = (Inl msg, t)"
  shows "p_bus t = p_bus s"
  using assms
  by (auto simp: record_envelope_run on_plant_def append_envelope_def audit_append_def append_record_def
      write_all_def publish_envelope_def io_defs Let_def split: write_outcome.splits)

section \<open>Preorders on the host carry over\<close>

text \<open>A preorder that only looks at the host: publishing does not move it.\<close>

definition host_rel :: "(host \<Rightarrow> host \<Rightarrow> bool) \<Rightarrow> 'z plant_scheme \<Rightarrow> 'z plant_scheme \<Rightarrow> bool" where
  "host_rel R s t \<longleftrightarrow> R (p_host s) (p_host t)"

lemma host_rel_preorder: "state_preorder R \<Longrightarrow> state_preorder (host_rel R)"
  unfolding state_preorder_def host_rel_def by blast

lemma host_rel_on_plant: "climbs R m \<Longrightarrow> climbs (host_rel R) (on_plant m)"
  by (simp add: climbs_def host_rel_def on_plant_def split_beta)

lemma host_rel_publish: "state_preorder R \<Longrightarrow> climbs (host_rel R) (publish_envelope e)"
  by (simp add: climbs_def host_rel_def publish_envelope_def modifies_def state_preorder_def)

lemma host_rel_record:
  assumes "state_preorder R" and "climbs R (append_envelope x e)"
  shows "climbs (host_rel R) (record_envelope x e)"
  unfolding record_envelope_run
  using assms
  by (intro state_preorder.climbs_bind [OF host_rel_preorder] host_rel_on_plant host_rel_publish)

end
