(* ===== verification/ToolRegistry.thy ===== *)
theory ToolRegistry
  imports Host "HOL-Library.AList"
begin

text \<open>
  \<open>crates/tool-registry\<close>: tool specifications, the executor interface (a trait object is the record
  of its two methods) and the registry. A \<open>HashMap\<close> is an association list with distinct keys;
  the order in which it is iterated is not specified by Rust, so \<open>registry_list\<close> takes that order
  as an argument.
\<close>

datatype risk_level = Low | Medium | High | Critical

record tool_spec =
  ts_name :: string
  ts_description :: string
  ts_risk :: risk_level
  ts_timeout_ms :: u64
  ts_input_schema :: json
  ts_output_schema :: json
  ts_requires_confirmation :: bool

record tool_context =
  tc_correlation_id :: uuid
  tc_call_id :: uuid

record tool_output =
  to_ok :: bool
  to_value :: json
  to_error :: "string option"

datatype tool_error = UnknownTool string | InvalidArgs string | Execution string

fun tool_error_text :: "tool_error \<Rightarrow> string" where
  "tool_error_text (UnknownTool s) = ''unknown tool: '' @ s"
| "tool_error_text (InvalidArgs s) = ''invalid arguments: '' @ s"
| "tool_error_text (Execution s) = ''execution failed: '' @ s"

record tool_executor =
  te_spec :: tool_spec
  te_execute :: "json \<Rightarrow> tool_context \<Rightarrow> (host, tool_error, tool_output) io"

record tool_registry =
  tr_tools :: "(string \<times> tool_executor) list"

definition registry_new :: tool_registry where
  "registry_new = \<lparr>tr_tools = []\<rparr>"

definition register :: "tool_executor \<Rightarrow> tool_registry \<Rightarrow> tool_registry" where
  "register t r = r\<lparr>tr_tools := AList.update (ts_name (te_spec t)) t (tr_tools r)\<rparr>"

definition registry_get :: "tool_registry \<Rightarrow> string \<Rightarrow> tool_executor option" where
  "registry_get r name = map_of (tr_tools r) name"

definition registry_list :: "(tool_spec list \<Rightarrow> tool_spec list) \<Rightarrow> tool_registry \<Rightarrow> tool_spec list" where
  "registry_list it r = it (map (te_spec \<circ> snd) (tr_tools r))"

definition registry_execute ::
  "tool_registry \<Rightarrow> string \<Rightarrow> json \<Rightarrow> tool_context \<Rightarrow> (host, tool_error, tool_output) io" where
  "registry_execute r name args ctx =
     (case registry_get r name of
        None \<Rightarrow> raise (UnknownTool name)
      | Some tool \<Rightarrow>
          if \<not> is_object args \<and> \<not> is_null args
          then raise (InvalidArgs ''arguments must be object or null'')
          else te_execute tool args ctx)"

definition registry_wf :: "tool_registry \<Rightarrow> bool" where
  "registry_wf r \<longleftrightarrow>
     distinct (map fst (tr_tools r)) \<and> (\<forall>(n, t) \<in> set (tr_tools r). ts_name (te_spec t) = n)"

section \<open>The lookup interface\<close>

locale lookup_table =
  fixes name :: "'t \<Rightarrow> string"
    and insert :: "'t \<Rightarrow> 'r \<Rightarrow> 'r"
    and lookup :: "'r \<Rightarrow> string \<rightharpoonup> 't"
  assumes lookup_insert: "lookup (insert t r) = (lookup r)(name t \<mapsto> t)"
begin

lemma lookup_fold_other:
  "n \<notin> name ` set ts \<Longrightarrow> lookup (fold insert ts r) n = lookup r n"
  by (induction ts arbitrary: r) (auto simp: lookup_insert)

lemma lookup_fold:
  assumes "distinct (map name ts)" and "t \<in> set ts"
  shows "lookup (fold insert ts r) (name t) = Some t"
  using assms
  by (induction ts arbitrary: r) (auto simp: lookup_fold_other lookup_insert)

lemma lookup_fold_None:
  assumes "n \<notin> name ` set ts" and "lookup r n = None"
  shows "lookup (fold insert ts r) n = None"
  using assms by (simp add: lookup_fold_other)

end

interpretation registry: lookup_table "\<lambda>t. ts_name (te_spec t)" register registry_get
  by unfold_locales (simp add: registry_get_def register_def update_conv' fun_eq_iff)

lemma registry_get_new [simp]: "registry_get registry_new n = None"
  by (simp add: registry_get_def registry_new_def)

lemma registry_wf_new: "registry_wf registry_new"
  by (simp add: registry_wf_def registry_new_def)

lemma register_wf:
  assumes "registry_wf r"
  shows "registry_wf (register t r)"
proof -
  have "set (AList.update n t xs) \<subseteq> insert (n, t) (set xs)" for n and xs :: "(string \<times> tool_executor) list"
    by (induction xs) auto
  with assms show ?thesis
    by (fastforce simp: registry_wf_def register_def distinct_update)
qed

lemma registry_get_name:
  "registry_wf r \<Longrightarrow> registry_get r n = Some t \<Longrightarrow> ts_name (te_spec t) = n"
  by (auto simp: registry_wf_def registry_get_def dest!: map_of_SomeD)

lemma register_list_wf: "registry_wf r \<Longrightarrow> registry_wf (fold register ts r)"
  by (induction ts arbitrary: r) (simp_all add: register_wf)

text \<open>\<open>execute\<close> touches nothing when the name or the arguments are refused.\<close>

lemma registry_execute_unknown:
  "registry_get r n = None \<Longrightarrow> registry_execute r n args ctx h = (Inl (UnknownTool n), h)"
  by (simp add: registry_execute_def raise_def)

lemma registry_execute_found:
  "registry_get r n = Some t \<Longrightarrow> is_object args \<Longrightarrow> registry_execute r n args ctx = te_execute t args ctx"
  by (simp add: registry_execute_def)

lemma registry_execute_bad_args:
  assumes "registry_get r n = Some t" and "\<not> is_object args" and "args \<noteq> Null"
  shows "registry_execute r n args ctx h = (Inl (InvalidArgs ''arguments must be object or null''), h)"
  using assms by (simp add: registry_execute_def raise_def is_null_def)

text \<open>A preorder that every registered executor climbs is climbed by the registry.\<close>

lemma registry_execute_climbs:
  assumes "state_preorder R"
    and "\<And>n t args ctx. registry_get r n = Some t \<Longrightarrow> climbs R (te_execute t args ctx)"
  shows "climbs R (registry_execute r n args ctx)"
  using assms state_preorder.climbs_raise [OF assms(1)]
  by (auto simp: registry_execute_def split: option.splits)

end
