(* ===== verification/ModelProvider.thy ===== *)
theory ModelProvider
  imports ToolRegistry Texts
begin

text \<open>
  \<open>crates/model-provider\<close>: chat messages, the provider interface (a trait object is the record of
  its methods), the deterministic mock provider, the default streaming method of the trait, the
  fallback chain and the construction of a provider from its kind. The provider that speaks HTTP is an
  argument of \<open>build_provider\<close>: what it answers comes from the network.

  A streaming call runs over the host together with the pieces sent on the delta channel so far.
\<close>

record chat_message =
  cm_role :: string
  cm_content :: string

record tool_definition =
  td_name :: string
  td_description :: string
  td_parameters :: json

record proposed_tool_call =
  ptc_call_id :: uuid
  ptc_name :: string
  ptc_arguments :: json

record model_response =
  mr_assistant_text :: "string option"
  mr_tool_calls :: "proposed_tool_call list"

datatype provider_kind = Mock | Remote | Local | Auto

definition provider_kind_parse :: "ext \<Rightarrow> string \<Rightarrow> provider_kind option" where
  "provider_kind_parse x s =
     (let k = to_lowercase (lower_tables x) (trim s)
      in if k = ''mock'' then Some Mock
         else if k = ''remote'' then Some Remote
         else if k = ''local'' \<or> k = ''ollama'' then Some Local
         else if k = ''auto'' then Some Auto
         else None)"

type_synonym complete_fn = "chat_message list \<Rightarrow> tool_definition list \<Rightarrow> (host, string, model_response) io"
type_synonym stream_fn =
  "chat_message list \<Rightarrow> tool_definition list \<Rightarrow> (host \<times> string list, string, model_response) io"

record model_provider =
  mp_name :: string
  mp_health_check :: "(host, string, unit) io"
  mp_complete :: complete_fn
  mp_stream :: stream_fn

section \<open>Streaming\<close>

text \<open>Run a call that does not stream inside one that does, and send a piece.\<close>

definition on_host :: "(host, 'e, 'a) io \<Rightarrow> (host \<times> 'd, 'e, 'a) io" where
  "on_host m = (\<lambda>(h, d). case m h of (r, h') \<Rightarrow> (r, (h', d)))"

definition send_pieces :: "string list \<Rightarrow> (host \<times> string list, 'e, unit) io" where
  "send_pieces ps = (\<lambda>(h, d). (Inr (), (h, d @ ps)))"

text \<open>The default method of the trait: complete once, then send the whole text.\<close>

definition default_stream :: "complete_fn \<Rightarrow> stream_fn" where
  "default_stream cmp msgs tools =
     bind_io (on_host (cmp msgs tools)) (\<lambda>r.
       case mr_assistant_text r of
         None \<Rightarrow> ret r
       | Some t \<Rightarrow> bind_io (send_pieces [t]) (\<lambda>_. ret r))"

text \<open>\<open>str::split_inclusive\<close> on one byte: every piece but the last ends with the separator.\<close>

fun split_inclusive :: "char \<Rightarrow> string \<Rightarrow> string list" where
  "split_inclusive x [] = []"
| "split_inclusive x (c # s) =
     (if c = x then [c] # split_inclusive x s
      else (case split_inclusive x s of [] \<Rightarrow> [[c]] | p # ps \<Rightarrow> (c # p) # ps))"

lemma concat_split_inclusive [simp]: "concat (split_inclusive x s) = s"
  by (induction s) (auto split: list.splits)

lemma split_inclusive_nonempty: "p \<in> set (split_inclusive x s) \<Longrightarrow> p \<noteq> []"
  by (induction s arbitrary: p) (auto split: list.splits if_splits)

text \<open>A stream is honest when the pieces of an answer make up its text, and clean when moreover a failure
  has sent nothing.\<close>

locale honest_stream =
  fixes stream :: stream_fn
  assumes pieces:
      "stream msgs tools (h, d) = (Inr r, (h', d')) \<Longrightarrow>
         \<exists>new. d' = d @ new \<and> concat new = unwrap_or (mr_assistant_text r) []"
begin

lemma sent_text:
  "stream msgs tools (h, []) = (Inr r, (h', d')) \<Longrightarrow> concat d' = unwrap_or (mr_assistant_text r) []"
  using pieces by fastforce

end

locale clean_stream = honest_stream +
  assumes quiet: "stream msgs tools (h, d) = (Inl e, (h', d')) \<Longrightarrow> d' = d"

interpretation default_clean: clean_stream "default_stream cmp" for cmp
  by unfold_locales
    (auto simp: default_stream_def on_host_def send_pieces_def io_simps
       split: option.splits sum.splits prod.splits)

section \<open>The mock provider\<close>

definition propose :: "string \<Rightarrow> json \<Rightarrow> (host, string, proposed_tool_call) io" where
  "propose name args =
     bind_io new_v4 (\<lambda>i. ret \<lparr>ptc_call_id = i, ptc_name = name, ptc_arguments = args\<rparr>)"

definition mock_complete :: "ext \<Rightarrow> complete_fn" where
  "mock_complete x msgs tools =
     (let low = to_lowercase (lower_tables x);
          last_text = (if msgs = [] then [] else low (cm_content (last msgs)))
      in if contains last_text ''tool_result:system.metrics'' then
           bind_io (propose ''process.list'' (Object [])) (\<lambda>c.
             ret \<lparr>mr_assistant_text = None, mr_tool_calls = [c]\<rparr>)
         else if contains last_text ''tool_result:process.list'' then
           bind_io (propose ''process.kill_request'' (Object [(''pid'', Number (PosInt 4312))])) (\<lambda>c.
             ret \<lparr>mr_assistant_text = Some text_mock_culprit, mr_tool_calls = [c]\<rparr>)
         else
           (let joined = join [newline] (map (\<lambda>m. low (cm_content m)) msgs)
            in if contains joined ''runaway-worker''
                  \<and> (contains last_text ''pid'' \<or> contains last_text word_which
                     \<or> contains last_text ''who'' \<or> contains last_text ''which''
                     \<or> contains last_text word_name \<or> contains last_text ''name'')
               then ret \<lparr>mr_assistant_text = Some text_mock_followup, mr_tool_calls = []\<rparr>
               else if contains last_text word_slow \<or> contains last_text ''slow'' \<or> contains last_text ''cpu''
               then bind_io (propose ''system.metrics'' (Object [])) (\<lambda>c.
                      ret \<lparr>mr_assistant_text = None, mr_tool_calls = [c]\<rparr>)
               else ret \<lparr>mr_assistant_text = Some text_mock_clarify, mr_tool_calls = []\<rparr>))"

definition mock_stream :: "ext \<Rightarrow> stream_fn" where
  "mock_stream x msgs tools =
     bind_io (on_host (mock_complete x msgs tools)) (\<lambda>r.
       case mr_assistant_text r of
         None \<Rightarrow> ret r
       | Some t \<Rightarrow> bind_io (send_pieces (split_inclusive (CHR '' '') t)) (\<lambda>_. ret r))"

definition mock_provider :: "ext \<Rightarrow> model_provider" where
  "mock_provider x =
     \<lparr>mp_name = ''mock'', mp_health_check = ret (), mp_complete = mock_complete x, mp_stream = mock_stream x\<rparr>"

interpretation mock_clean: clean_stream "mock_stream x" for x
  by unfold_locales
    (auto simp: mock_stream_def on_host_def send_pieces_def io_simps
       split: option.splits sum.splits prod.splits)

text \<open>The mock never fails: every branch ends in a response.\<close>

lemma mock_complete_total: "\<exists>r h'. mock_complete x msgs tools h = (Inr r, h')"
  by (simp add: mock_complete_def propose_def new_v4_def io_defs Let_def)

lemma mock_one_call: "mock_complete x msgs tools h = (Inr r, h') \<Longrightarrow> length (mr_tool_calls r) \<le> 1"
  by (auto simp: mock_complete_def propose_def new_v4_def io_defs Let_def split: if_splits)

section \<open>The fallback chain\<close>

fun fallback_complete :: "model_provider list \<Rightarrow> string option \<Rightarrow> complete_fn" where
  "fallback_complete [] last_err msgs tools = raise (unwrap_or last_err ''fallback provider chain empty'')"
| "fallback_complete (p # ps) last_err msgs tools =
     bind_io (attempt (mp_complete p msgs tools)) (\<lambda>r.
       case r of Inr resp \<Rightarrow> ret resp | Inl e \<Rightarrow> fallback_complete ps (Some e) msgs tools)"

fun fallback_stream :: "model_provider list \<Rightarrow> string option \<Rightarrow> stream_fn" where
  "fallback_stream [] last_err msgs tools = raise (unwrap_or last_err ''fallback provider chain empty'')"
| "fallback_stream (p # ps) last_err msgs tools =
     bind_io (attempt (mp_stream p msgs tools)) (\<lambda>r.
       case r of Inr resp \<Rightarrow> ret resp | Inl e \<Rightarrow> fallback_stream ps (Some e) msgs tools)"

fun fallback_health :: "model_provider list \<Rightarrow> (host, string, unit) io" where
  "fallback_health [] = raise ''no healthy providers in fallback chain''"
| "fallback_health (p # ps) =
     bind_io (attempt (mp_health_check p)) (\<lambda>r. case r of Inr u \<Rightarrow> ret () | Inl e \<Rightarrow> fallback_health ps)"

definition fallback_provider :: "model_provider list \<Rightarrow> model_provider" where
  "fallback_provider ps =
     \<lparr>mp_name = ''fallback'', mp_health_check = fallback_health ps,
      mp_complete = fallback_complete ps None, mp_stream = fallback_stream ps None\<rparr>"

text \<open>A chain of clean providers is clean.\<close>

lemma fallback_stream_clean:
  assumes "\<forall>p \<in> set ps. clean_stream (mp_stream p)"
  shows "clean_stream (fallback_stream ps le)"
  using assms
proof (induction ps arbitrary: le)
  case Nil
  show ?case by unfold_locales (auto simp: raise_def)
next
  case (Cons p ps)
  have p: "clean_stream (mp_stream p)" and rest: "clean_stream (fallback_stream ps le)" for le
    using Cons by auto
  show ?case
  proof (unfold_locales, goal_cases)
    case (1 msgs tools h d r h' d')
    then show ?case
      using honest_stream.pieces [OF clean_stream.axioms(1) [OF p]] clean_stream.quiet [OF p] honest_stream.pieces [OF clean_stream.axioms(1) [OF rest]]
      by (fastforce simp: io_simps split: prod.splits sum.splits)
  next
    case (2 msgs tools h d e h' d')
    then show ?case
      using clean_stream.quiet [OF p] clean_stream.quiet [OF rest]
      by (fastforce simp: io_simps split: prod.splits sum.splits)
  qed
qed

text \<open>Adding a provider that never fails at the end makes the chain total.\<close>

lemma fallback_complete_total:
  assumes "p \<in> set ps" and "\<And>h. \<exists>r h'. mp_complete p msgs tools h = (Inr r, h')"
  shows "\<exists>r h'. fallback_complete ps le msgs tools h = (Inr r, h')"
  using assms(1)
proof (induction ps arbitrary: le h)
  case (Cons q qs)
  show ?case
  proof (cases "mp_complete q msgs tools h")
    case (Pair a h')
    then show ?thesis
      using Cons assms(2) [of h] by (cases a) (auto simp: io_defs)
  qed
qed simp

lemma mock_stream_total: "\<exists>r t. mock_stream x msgs tools s = (Inr r, t)"
proof -
  obtain h ds where s: "s = (h, ds)" by fastforce
  obtain r h' where "mock_complete x msgs tools h = (Inr r, h')" using mock_complete_total by blast
  then show ?thesis
    by (cases "mr_assistant_text r") (simp_all add: s mock_stream_def on_host_def send_pieces_def io_simps)
qed

lemma fallback_stream_total:
  assumes "p \<in> set ps" and "\<And>s. \<exists>r t. mp_stream p msgs tools s = (Inr r, t)"
  shows "\<exists>r t. fallback_stream ps le msgs tools s = (Inr r, t)"
  using assms(1)
proof (induction ps arbitrary: le s)
  case (Cons q qs)
  obtain a t where run: "mp_stream q msgs tools s = (a, t)" by (metis prod.collapse)
  show ?case
  proof (cases a)
    case (Inl e)
    then have "p \<noteq> q" using run assms(2) [of s] by auto
    then have "\<exists>r u. fallback_stream qs (Some e) msgs tools t = (Inr r, u)" using Cons by simp
    with run Inl show ?thesis by (simp add: bind_io_def attempt_def)
  qed (simp add: run bind_io_def attempt_def ret_def)
qed simp

section \<open>Building a provider\<close>

record openai_config =
  oc_api_base :: string
  oc_api_key :: string
  oc_model :: string
  oc_label :: string

definition openai_remote :: "string \<Rightarrow> string \<Rightarrow> string \<Rightarrow> openai_config" where
  "openai_remote base key model =
     \<lparr>oc_api_base = base, oc_api_key = key, oc_model = model, oc_label = ''remote''\<rparr>"

definition openai_ollama :: "string \<Rightarrow> string \<Rightarrow> openai_config" where
  "openai_ollama base model =
     \<lparr>oc_api_base = base, oc_api_key = ''ollama'', oc_model = model, oc_label = ''local-ollama''\<rparr>"

definition build_provider ::
  "ext \<Rightarrow> (openai_config \<Rightarrow> model_provider) \<Rightarrow> provider_kind \<Rightarrow> string option \<Rightarrow> string option \<Rightarrow>
   string option \<Rightarrow> string option \<Rightarrow> string option \<Rightarrow> (host, string, model_provider) io" where
  "build_provider x openai kind remote_base remote_key remote_model local_base local_model =
     (let remote_model' = unwrap_or remote_model ''gpt-4o-mini'';
          local_model' = unwrap_or local_model ''llama3.2'';
          local_base' = unwrap_or local_base ''http://127.0.0.1:11434/v1'';
          ollama = openai (openai_ollama local_base' local_model')
      in case kind of
           Mock \<Rightarrow> ret (mock_provider x)
         | Remote \<Rightarrow>
             (case remote_base of
                None \<Rightarrow> raise ''remote api base required''
              | Some base \<Rightarrow>
                  (case remote_key of
                     None \<Rightarrow> raise ''remote api key required''
                   | Some key \<Rightarrow> ret (openai (openai_remote base key remote_model'))))
         | Local \<Rightarrow> bind_io (attempt (mp_health_check ollama)) (\<lambda>_. ret ollama)
         | Auto \<Rightarrow>
             bind_io (attempt (mp_health_check ollama)) (\<lambda>healthy.
               let chain = (case healthy of Inr _ \<Rightarrow> [ollama] | Inl _ \<Rightarrow> []);
                   chain' = (case (remote_base, remote_key) of
                      (Some base, Some key) \<Rightarrow> chain @ [openai (openai_remote base key remote_model')]
                    | _ \<Rightarrow> chain)
               in ret (fallback_provider (chain' @ [mock_provider x]))))"

text \<open>In automatic mode the chain ends with the mock provider, so neither way of asking fails.\<close>

lemma auto_provider_total:
  assumes "build_provider x openai Auto rb rk rm lb lm h = (Inr p, h')"
  shows "\<exists>r h''. mp_complete p msgs tools g = (Inr r, h'')"
    and "\<exists>r t. mp_stream p msgs tools s = (Inr r, t)"
proof -
  have total: "\<exists>r h'. mp_complete (mock_provider x) msgs tools h = (Inr r, h')" for h
    by (simp add: mock_provider_def mock_complete_total)
  have total_stream: "\<exists>r t. mp_stream (mock_provider x) msgs tools s = (Inr r, t)" for s
    unfolding mock_provider_def model_provider.select_convs by (rule mock_stream_total)
  from assms obtain chain where p: "p = fallback_provider (chain @ [mock_provider x])"
    by (auto simp: build_provider_def io_defs Let_def split: prod.splits sum.splits)
  show "\<exists>r h''. mp_complete p msgs tools g = (Inr r, h'')"
    using fallback_complete_total [OF _ total, of "chain @ [mock_provider x]"]
    by (simp add: p fallback_provider_def)
  show "\<exists>r t. mp_stream p msgs tools s = (Inr r, t)"
    unfolding p fallback_provider_def model_provider.select_convs
    by (rule fallback_stream_total [OF _ total_stream]) simp
qed

end
