(* ===== verification/Window.thy ===== *)
theory Window
  imports Prelude
begin

text \<open>
  Bounded histories. Two components keep only the most recent entries of an unbounded sequence: the
  event feed keeps exactly the last ones, the conversation store keeps at most so many and may drop a
  few more. Both promise the same to their readers: what is kept is a suffix of what was pushed, and it
  is bounded.
\<close>

locale bounded_window =
  fixes push :: "'a \<Rightarrow> 's \<Rightarrow> 's"
    and items :: "'s \<Rightarrow> 'a list"
    and cap :: "'s \<Rightarrow> nat"
    and inv :: "'s \<Rightarrow> bool"
  assumes push_inv: "inv s \<Longrightarrow> inv (push x s)"
    and push_cap: "cap (push x s) = cap s"
    and push_suffix: "inv s \<Longrightarrow> suffix (items (push x s)) (items s @ [x])"
    and inv_bound: "inv s \<Longrightarrow> length (items s) \<le> cap s"
begin

lemma run_inv: "inv s \<Longrightarrow> inv (fold push xs s)"
  by (induction xs arbitrary: s) (simp_all add: push_inv)

lemma run_cap: "cap (fold push xs s) = cap s"
  by (induction xs arbitrary: s) (simp_all add: push_cap)

lemma run_bound: "inv s \<Longrightarrow> length (items (fold push xs s)) \<le> cap s"
  using inv_bound [OF run_inv] by (simp add: run_cap)

lemma run_suffix: "inv s \<Longrightarrow> suffix (items (fold push xs s)) (items s @ xs)"
proof (induction xs arbitrary: s)
  case (Cons x xs)
  then have "suffix (items (fold push xs (push x s))) (items (push x s) @ xs)"
    by (simp add: push_inv)
  moreover have "suffix (items (push x s) @ xs) ((items s @ [x]) @ xs)"
    using push_suffix [OF Cons.prems] by (auto simp: suffix_def)
  ultimately show ?case by (auto intro: suffix_order.trans)
qed simp

end

locale exact_window =
  fixes push :: "'a \<Rightarrow> 's \<Rightarrow> 's"
    and items :: "'s \<Rightarrow> 'a list"
    and cap :: "'s \<Rightarrow> nat"
    and inv :: "'s \<Rightarrow> bool"
  assumes keeps_inv: "inv s \<Longrightarrow> inv (push x s)"
    and keeps_cap: "cap (push x s) = cap s"
    and push_exact: "inv s \<Longrightarrow> items (push x s) = last_n (cap s) (items s @ [x])"
    and within: "inv s \<Longrightarrow> length (items s) \<le> cap s"
    and cap_pos: "inv s \<Longrightarrow> 0 < cap s"
begin

lemma run_exact: "inv s \<Longrightarrow> items (fold push xs s) = last_n (cap s) (items s @ xs)"
proof (induction xs rule: rev_induct)
  case Nil
  then show ?case by (simp add: within)
next
  case (snoc x xs)
  have "inv (fold push xs s)" and "cap (fold push xs s) = cap s"
    using snoc.prems by (induction xs arbitrary: s) (simp_all add: keeps_inv keeps_cap)
  then have "items (fold push (xs @ [x]) s) = last_n (cap s) (items (fold push xs s) @ [x])"
    by (simp add: push_exact)
  also have "\<dots> = last_n (cap s) (items s @ xs @ [x])"
    using snoc last_n_snoc [OF cap_pos [OF snoc.prems], of "items s @ xs" x] by simp
  finally show ?case by simp
qed

end

sublocale exact_window \<subseteq> bounded_window push items cap inv
  by unfold_locales (simp_all only: keeps_inv keeps_cap push_exact last_n_suffix within)

end
