(* ===== verification/Conversation.thy ===== *)
theory Conversation
  imports ModelProvider Window
begin

text \<open>
  \<open>crates/ai-runtime/src/conversation.rs\<close>: the multi-turn history of each chat session, a
  \<open>HashMap\<close> from session to messages behind a mutex that no code can poison. Histories are cut to
  the newest \<open>max_messages\<close>; a cut that lands on tool results without their context drops those too.
\<close>

record conversation_store =
  cs_inner :: "(uuid \<times> chat_message list) list"
  cs_max_messages :: nat

definition conv_new :: "nat \<Rightarrow> conversation_store" where
  "conv_new max_messages = \<lparr>cs_inner = [], cs_max_messages = max max_messages 4\<rparr>"

definition session_count :: "conversation_store \<Rightarrow> nat" where
  "session_count c = length (cs_inner c)"

definition conv_get :: "conversation_store \<Rightarrow> uuid \<Rightarrow> chat_message list" where
  "conv_get c sid = unwrap_or (map_of (cs_inner c) sid) []"

definition orphan_result :: "chat_message \<Rightarrow> bool" where
  "orphan_result m \<longleftrightarrow> cm_role m = ''user'' \<and> starts_with (cm_content m) ''tool_result:''"

definition trim_messages :: "chat_message list \<Rightarrow> nat \<Rightarrow> chat_message list" where
  "trim_messages messages limit =
     (if length messages \<le> limit then messages
      else dropWhile orphan_result (drop (length messages - limit) messages))"

definition conv_save :: "uuid \<Rightarrow> chat_message list \<Rightarrow> conversation_store \<Rightarrow> conversation_store" where
  "conv_save sid messages c =
     (let trimmed = trim_messages messages (cs_max_messages c)
      in if trimmed = [] then c\<lparr>cs_inner := AList.delete sid (cs_inner c)\<rparr>
         else c\<lparr>cs_inner := AList.update sid trimmed (cs_inner c)\<rparr>)"

definition conv_append :: "uuid \<Rightarrow> chat_message \<Rightarrow> conversation_store \<Rightarrow> conversation_store" where
  "conv_append sid message c =
     c\<lparr>cs_inner := AList.update sid
          (trim_messages (conv_get c sid @ [message]) (cs_max_messages c)) (cs_inner c)\<rparr>"

definition conv_reset :: "uuid \<Rightarrow> conversation_store \<Rightarrow> bool \<times> conversation_store" where
  "conv_reset sid c =
     (map_of (cs_inner c) sid \<noteq> None, c\<lparr>cs_inner := AList.delete sid (cs_inner c)\<rparr>)"

definition conv_clear_all :: "conversation_store \<Rightarrow> conversation_store" where
  "conv_clear_all c = c\<lparr>cs_inner := []\<rparr>"

definition conv_wf :: "conversation_store \<Rightarrow> bool" where
  "conv_wf c \<longleftrightarrow>
     4 \<le> cs_max_messages c \<and> distinct (map fst (cs_inner c))
     \<and> (\<forall>(sid, ms) \<in> set (cs_inner c). length ms \<le> cs_max_messages c)"

section \<open>Trimming\<close>

lemma trim_suffix: "suffix (trim_messages ms n) ms"
  by (auto simp: trim_messages_def intro: suffix_order.trans [OF suffix_dropWhile suffix_drop])

lemma trim_bound: "length (trim_messages ms n) \<le> n"
  by (auto simp: trim_messages_def intro: order.trans [OF length_dropWhile_le])

lemma trim_no_orphan: "n < length ms \<Longrightarrow> trim_messages ms n \<noteq> [] \<Longrightarrow> \<not> orphan_result (hd (trim_messages ms n))"
  using hd_dropWhile [of orphan_result "drop (length ms - n) ms"] by (simp add: trim_messages_def)

lemma trim_idem: "trim_messages (trim_messages ms n) n = trim_messages ms n"
  by (simp add: trim_bound trim_messages_def [of "trim_messages ms n"])

text \<open>Nothing that is not an orphaned tool result is lost beyond the oldest messages.\<close>

lemma trim_keeps:
  assumes "n < length ms"
  shows "\<exists>dropped. drop (length ms - n) ms = dropped @ trim_messages ms n \<and> (\<forall>m \<in> set dropped. orphan_result m)"
proof (intro exI conjI)
  let ?t = "drop (length ms - n) ms"
  show "?t = takeWhile orphan_result ?t @ trim_messages ms n"
    using assms by (simp add: trim_messages_def)
  show "\<forall>m \<in> set (takeWhile orphan_result ?t). orphan_result m"
    by (auto dest: set_takeWhileD)
qed

section \<open>The store\<close>

lemma conv_wf_new: "conv_wf (conv_new n)"
  by (simp add: conv_wf_def conv_new_def)

lemma set_update_subset: "set (AList.update k v xs) \<subseteq> insert (k, v) (set xs)"
  by (induction xs) auto

lemma conv_wf_update:
  assumes "conv_wf c" and "length ms \<le> cs_max_messages c"
  shows "conv_wf (c\<lparr>cs_inner := AList.update sid ms (cs_inner c)\<rparr>)"
  using assms set_update_subset [of sid ms "cs_inner c"]
  by (fastforce simp: conv_wf_def distinct_update)

lemma conv_wf_delete: "conv_wf c \<Longrightarrow> conv_wf (c\<lparr>cs_inner := AList.delete sid (cs_inner c)\<rparr>)"
  by (auto simp: conv_wf_def AList.delete_eq distinct_map filter_set intro: inj_on_subset)

lemma conv_wf_get: "conv_wf c \<Longrightarrow> length (conv_get c sid) \<le> cs_max_messages c"
  by (auto simp: conv_wf_def conv_get_def unwrap_or_def split: option.splits dest!: map_of_SomeD)

lemma conv_wf_save: "conv_wf c \<Longrightarrow> conv_wf (conv_save sid ms c)"
  by (simp add: conv_save_def Let_def conv_wf_update conv_wf_delete trim_bound)

lemma conv_wf_append: "conv_wf c \<Longrightarrow> conv_wf (conv_append sid m c)"
  by (simp add: conv_append_def conv_wf_update trim_bound)

lemma conv_get_save:
  "conv_get (conv_save sid ms c) s =
     (if s = sid then trim_messages ms (cs_max_messages c) else conv_get c s)"
  by (auto simp: conv_get_def conv_save_def Let_def update_conv' delete_conv')

lemma conv_get_append:
  "conv_get (conv_append sid m c) s =
     (if s = sid then trim_messages (conv_get c sid @ [m]) (cs_max_messages c) else conv_get c s)"
  by (simp add: conv_append_def conv_get_def [of "c\<lparr>cs_inner := _\<rparr>"] update_conv')
    (simp add: conv_get_def)

lemma conv_get_reset: "conv_get (snd (conv_reset sid c)) s = (if s = sid then [] else conv_get c s)"
  by (simp add: conv_reset_def conv_get_def delete_conv')

text \<open>One session of the store is a bounded window of the messages appended to it.\<close>

interpretation chat: bounded_window "conv_append sid" "\<lambda>c. conv_get c sid" cs_max_messages conv_wf for sid
proof (unfold_locales, goal_cases)
  case (3 s x)
  show ?case by (simp only: conv_get_append trim_suffix refl if_True)
qed (simp_all add: conv_wf_append conv_wf_get, simp add: conv_append_def)

end
