(* ===== verification/PolicyEngine.thy ===== *)
theory PolicyEngine
  imports ToolRegistry
begin

text \<open>
  \<open>crates/policy-engine\<close>: the gate in front of every tool call. The set of tools granted for the
  session is a list without duplicates (a \<open>HashSet\<close>; nothing depends on its order, since
  \<open>session_grants\<close> sorts it). Its mutex is never poisoned: no code panics while holding it.
\<close>

record policy_decision =
  pd_verdict :: policy_verdict
  pd_reason :: string

record policy_engine =
  session_allows :: "string list"

definition policy_new :: policy_engine where
  "policy_new = \<lparr>session_allows = []\<rparr>"

definition hard_deny :: "string \<Rightarrow> bool" where
  "hard_deny tool \<longleftrightarrow> tool = ''storage.format'' \<or> tool = ''system.poweroff'' \<or> tool = ''process.kill_init''"

definition looks_like_injection :: "ext \<Rightarrow> json \<Rightarrow> bool" where
  "looks_like_injection x args =
     (let s = to_lowercase (lower_tables x) (json_text x args)
      in contains s ''ignore policies'' \<or> contains s ''kill -9 1'' \<or> contains s ''rm -rf''
         \<or> contains s ''drop privileges'')"

definition signalling_tool :: "string \<Rightarrow> bool" where
  "signalling_tool tool \<longleftrightarrow> tool = ''process.kill_request'' \<or> tool = ''system.reboot_request''"

definition decide :: "ext \<Rightarrow> policy_engine \<Rightarrow> tool_spec \<Rightarrow> json \<Rightarrow> policy_decision" where
  "decide x e spec args =
     (if hard_deny (ts_name spec)
      then \<lparr>pd_verdict = Deny, pd_reason = ''tool `'' @ ts_name spec @ ''` is denied by default policy''\<rparr>
      else if looks_like_injection x args \<and> signalling_tool (ts_name spec)
      then \<lparr>pd_verdict = Deny, pd_reason = ''rejected suspicious arguments''\<rparr>
      else if ts_name spec = ''process.kill_request'' \<and> unwrap_or (get_u64 args ''pid'') 0 \<le> 1
      then \<lparr>pd_verdict = Deny, pd_reason = ''refusing process.kill_request for pid <= 1''\<rparr>
      else if ts_name spec \<in> set (session_allows e)
      then \<lparr>pd_verdict = Allow, pd_reason = ''session grant''\<rparr>
      else if ts_requires_confirmation spec \<or> ts_risk spec = High \<or> ts_risk spec = Critical
      then \<lparr>pd_verdict = AskUser, pd_reason = ''tool `'' @ ts_name spec @ ''` requires confirmation''\<rparr>
      else \<lparr>pd_verdict = Allow, pd_reason = ''read-only / low-risk tool''\<rparr>)"

definition grant_session :: "string \<Rightarrow> policy_engine \<Rightarrow> policy_engine" where
  "grant_session tool e = e\<lparr>session_allows := List.insert tool (session_allows e)\<rparr>"

definition has_session_grant :: "policy_engine \<Rightarrow> string \<Rightarrow> bool" where
  "has_session_grant e tool \<longleftrightarrow> tool \<in> set (session_allows e)"

definition session_grants :: "policy_engine \<Rightarrow> string list" where
  "session_grants e = sort (session_allows e)"

definition clear_session_grants :: "policy_engine \<Rightarrow> policy_engine" where
  "clear_session_grants e = e\<lparr>session_allows := []\<rparr>"

definition decide_named :: "ext \<Rightarrow> string \<Rightarrow> tool_spec option \<Rightarrow> json \<Rightarrow> policy_decision" where
  "decide_named x tool spec args =
     (if hard_deny tool
      then \<lparr>pd_verdict = Deny, pd_reason = ''tool `'' @ tool @ ''` is denied by default policy''\<rparr>
      else if looks_like_injection x args \<and> signalling_tool tool
      then \<lparr>pd_verdict = Deny, pd_reason = ''rejected suspicious arguments''\<rparr>
      else if tool = ''process.kill_request'' \<and> unwrap_or (get_u64 args ''pid'') 0 \<le> 1
      then \<lparr>pd_verdict = Deny, pd_reason = ''refusing process.kill_request for pid <= 1''\<rparr>
      else (case spec of
          Some sp \<Rightarrow> decide x policy_new sp args
        | None \<Rightarrow> \<lparr>pd_verdict = Deny, pd_reason = ''unknown tool `'' @ tool @ ''`''\<rparr>))"

record pending_confirmation =
  pc_call_id :: uuid
  pc_tool :: string
  pc_arguments :: json
  pc_summary :: string

section \<open>The gate as an interface\<close>

text \<open>What the runtime relies on: calls that are blocked outright stay blocked whatever is granted,
  a grant opens exactly the tool it names, and clearing removes every grant.\<close>

locale policy_gate =
  fixes verdict :: "'e \<Rightarrow> 's \<Rightarrow> 'a \<Rightarrow> policy_verdict"
    and tool_of :: "'s \<Rightarrow> string"
    and blocked :: "'s \<Rightarrow> 'a \<Rightarrow> bool"
    and grant :: "string \<Rightarrow> 'e \<Rightarrow> 'e"
    and clear :: "'e \<Rightarrow> 'e"
    and granted :: "'e \<Rightarrow> string \<Rightarrow> bool"
    and harmless :: "'s \<Rightarrow> bool"
  assumes verdict_cases:
      "verdict e s a =
         (if blocked s a then Deny else if granted e (tool_of s) \<or> harmless s then Allow else AskUser)"
    and granted_grant: "granted (grant t e) u \<longleftrightarrow> u = t \<or> granted e u"
    and granted_clear: "\<not> granted (clear e) u"
begin

lemma blocked_iff_deny: "verdict e s a = Deny \<longleftrightarrow> blocked s a"
  by (simp add: verdict_cases)

lemma ask_iff: "verdict e s a = AskUser \<longleftrightarrow> \<not> blocked s a \<and> \<not> granted e (tool_of s) \<and> \<not> harmless s"
  by (simp add: verdict_cases)

lemma allow_after_grants:
  "verdict (fold grant ts e) s a = Allow \<longleftrightarrow>
     \<not> blocked s a \<and> (harmless s \<or> tool_of s \<in> set ts \<or> granted e (tool_of s))"
proof -
  have "granted (fold grant ts e) u \<longleftrightarrow> u \<in> set ts \<or> granted e u" for u
    by (induction ts arbitrary: e) (auto simp: granted_grant)
  then show ?thesis by (auto simp: verdict_cases)
qed

lemma clear_asks:
  "\<not> blocked s a \<Longrightarrow> \<not> harmless s \<Longrightarrow> verdict (clear e) s a = AskUser"
  by (simp add: verdict_cases granted_clear)

end

definition blocked_call :: "ext \<Rightarrow> tool_spec \<Rightarrow> json \<Rightarrow> bool" where
  "blocked_call x spec args \<longleftrightarrow>
     hard_deny (ts_name spec)
     \<or> looks_like_injection x args \<and> signalling_tool (ts_name spec)
     \<or> ts_name spec = ''process.kill_request'' \<and> unwrap_or (get_u64 args ''pid'') 0 \<le> 1"

definition low_risk :: "tool_spec \<Rightarrow> bool" where
  "low_risk spec \<longleftrightarrow> \<not> ts_requires_confirmation spec \<and> (ts_risk spec = Low \<or> ts_risk spec = Medium)"

lemma decide_verdict:
  "pd_verdict (decide x e spec args) =
     (if blocked_call x spec args then Deny
      else if has_session_grant e (ts_name spec) \<or> low_risk spec then Allow else AskUser)"
proof -
  have "low_risk spec \<longleftrightarrow>
      \<not> (ts_requires_confirmation spec \<or> ts_risk spec = High \<or> ts_risk spec = Critical)"
    by (cases "ts_risk spec") (simp_all add: low_risk_def)
  then show ?thesis
    unfolding decide_def blocked_call_def has_session_grant_def if_distrib [of pd_verdict] policy_decision.simps
    by simp
qed

interpretation gate: policy_gate "\<lambda>e s a. pd_verdict (decide x e s a)" ts_name "blocked_call x"
    grant_session clear_session_grants has_session_grant low_risk for x
  by unfold_locales
    (auto simp: decide_verdict has_session_grant_def grant_session_def clear_session_grants_def)

section \<open>The grant set\<close>

datatype policy_op = Grant string | ClearGrants

fun policy_step :: "policy_op \<Rightarrow> policy_engine \<Rightarrow> policy_engine" where
  "policy_step (Grant t) e = grant_session t e"
| "policy_step ClearGrants e = clear_session_grants e"

text \<open>The abstract grant set: what was granted since the last clearing.\<close>

fun granted_since_clear :: "policy_op list \<Rightarrow> string set \<Rightarrow> string set" where
  "granted_since_clear [] G = G"
| "granted_since_clear (Grant t # ops) G = granted_since_clear ops (insert t G)"
| "granted_since_clear (ClearGrants # ops) G = granted_since_clear ops {}"

definition policy_wf :: "policy_engine \<Rightarrow> bool" where
  "policy_wf e \<longleftrightarrow> distinct (session_allows e)"

lemma policy_step_wf: "policy_wf e \<Longrightarrow> policy_wf (policy_step op e)"
  by (cases op) (auto simp: policy_wf_def grant_session_def clear_session_grants_def)

lemma policy_run_set:
  "set (session_allows (fold policy_step ops e)) = granted_since_clear ops (set (session_allows e))"
proof (induction ops arbitrary: e)
  case (Cons op ops)
  then show ?case by (cases op) (auto simp: grant_session_def clear_session_grants_def)
qed simp

lemma policy_run_wf: "policy_wf e \<Longrightarrow> policy_wf (fold policy_step ops e)"
  by (induction ops arbitrary: e) (simp_all add: policy_step_wf)

lemma decide_blocked:
  "blocked_call x spec args \<Longrightarrow> decide x e spec args = decide x e' spec args"
  unfolding decide_def blocked_call_def by (elim disjE conjE) simp_all

end
