(* ===== verification/MemoryStore.thy ===== *)
theory MemoryStore
  imports AuditLog ToolRegistry "HOL-Library.Multiset"
begin

text \<open>
  \<open>crates/memory-store\<close>: durable facts as JSON lines. The file is a log; the view is the latest
  fact of each key, without the deleted ones, newest first. The view is built through a
  \<open>HashMap\<close>, whose iteration order Rust leaves open: it is the argument \<open>it\<close>, a permutation, and
  it only decides between facts of the same timestamp, since the sort is stable.
\<close>

record memory_fact =
  mf_id :: uuid
  mf_ts :: datetime
  mf_key :: string
  mf_value :: string
  mf_tags :: "string list"
  mf_source :: "string option"
  mf_deleted :: bool

definition fact_new :: "string \<Rightarrow> string \<Rightarrow> ('z ambient_scheme, 'e, memory_fact) io" where
  "fact_new key value =
     bind_io new_v4 (\<lambda>i. bind_io utc_now (\<lambda>t.
       ret \<lparr>mf_id = i, mf_ts = t, mf_key = key, mf_value = value, mf_tags = [], mf_source = None,
            mf_deleted = False\<rparr>))"

section \<open>The line codec\<close>

definition fact_json :: "ext \<Rightarrow> memory_fact \<Rightarrow> json" where
  "fact_json x f =
     Object [(''id'', uuid_json x (mf_id f)), (''ts'', time_json x (mf_ts f)), (''key'', String (mf_key f)),
             (''value'', String (mf_value f)), (''tags'', strings_json (mf_tags f)),
             (''source'', opt_json String (mf_source f)), (''deleted'', Bool (mf_deleted f))]"

text \<open>A field with \<open>#[serde(default)]\<close>: absent is the default, anything else must parse.\<close>

definition get_default :: "(json \<Rightarrow> 'a option) \<Rightarrow> 'a \<Rightarrow> json \<Rightarrow> string \<Rightarrow> 'a option" where
  "get_default f dflt v k = (case get v k of None \<Rightarrow> Some dflt | Some w \<Rightarrow> f w)"

fun all_some :: "'a option list \<Rightarrow> 'a list option" where
  "all_some [] = Some []"
| "all_some (x # xs) = (case x of None \<Rightarrow> None | Some y \<Rightarrow> map_option (Cons y) (all_some xs))"

lemma all_some_map_Some [simp]: "all_some (map Some xs) = Some xs"
  by (induction xs) simp_all

definition as_strings :: "json \<Rightarrow> string list option" where
  "as_strings v = Option.bind (as_array v) (\<lambda>vs. all_some (map as_str vs))"

lemma as_strings_json [simp]: "as_strings (strings_json ss) = Some ss"
  by (simp add: as_strings_def strings_json_def comp_def)

definition fact_of_json :: "ext \<Rightarrow> json \<Rightarrow> memory_fact option" where
  "fact_of_json x v =
     Option.bind (get_uuid x v ''id'') (\<lambda>i.
     Option.bind (get_time x v ''ts'') (\<lambda>t.
     Option.bind (get_str v ''key'') (\<lambda>k.
     Option.bind (get_str v ''value'') (\<lambda>vl.
     Option.bind (get_default as_strings [] v ''tags'') (\<lambda>tags.
     Option.bind (get_opt as_str v ''source'') (\<lambda>src.
     Option.bind (get_default as_bool False v ''deleted'') (\<lambda>del.
       Some \<lparr>mf_id = i, mf_ts = t, mf_key = k, mf_value = vl, mf_tags = tags, mf_source = src,
             mf_deleted = del\<rparr>)))))))"

definition fact_line :: "ext \<Rightarrow> memory_fact \<Rightarrow> string" where
  "fact_line x f = json_text x (fact_json x f)"

definition fact_parse :: "ext \<Rightarrow> string \<Rightarrow> string + memory_fact" where
  "fact_parse x l =
     (case Option.bind (json_parse x l) (fact_of_json x) of None \<Rightarrow> Inl (parse_error x l) | Some f \<Rightarrow> Inr f)"

definition fact_codec :: "ext \<Rightarrow> memory_fact \<Rightarrow> bool" where
  "fact_codec x f \<longleftrightarrow>
     text_codec_on x {fact_json x f} \<and> time_codec_on x {mf_ts f} \<and> uuid_codec_on x {mf_id f}"

lemma fact_json_roundtrip: "fact_codec x f \<Longrightarrow> fact_of_json x (fact_json x f) = Some f"
  by (cases "mf_source f")
    (simp_all add: fact_codec_def uuid_codec_on_def time_codec_on_def fact_of_json_def fact_json_def
      get_uuid_def get_time_def get_opt_def get_default_def uuid_json_def time_json_def opt_json_def get_str_def)

interpretation fact_lines: jsonl "fact_line x" "fact_parse x" "fact_codec x" for x
  by unfold_locales
    (auto simp: fact_parse_def fact_line_def fact_json_roundtrip fact_codec_def text_codec_on_def)

section \<open>The store\<close>

record memory_store =
  ms_path :: string

definition memory_open :: "string \<Rightarrow> (host, string, memory_store) io" where
  "memory_open path = (\<lambda>h.
     let h' = h\<lparr>open_next := Suc (open_next h)\<rparr>
     in if open_src h (open_next h) then (Inr \<lparr>ms_path = path\<rparr>, h')
        else (Inl (''open memory store '' @ path), h'))"

definition memory_append :: "ext \<Rightarrow> memory_fact \<Rightarrow> (host, string, unit) io" where
  "memory_append x f = append_record (fact_line x) MemoryFile f"

definition remember :: "ext \<Rightarrow> memory_fact \<Rightarrow> (host, string, memory_fact) io" where
  "remember x f =
     bind_io (if mf_id f = nil_uuid then bind_io new_v4 (\<lambda>i. ret (f\<lparr>mf_id := i\<rparr>)) else ret f) (\<lambda>f1.
     bind_io (if timestamp_secs (mf_ts f1) = 0 then bind_io utc_now (\<lambda>t. ret (f1\<lparr>mf_ts := t\<rparr>)) else ret f1) (\<lambda>f2.
     bind_io (memory_append x f2) (\<lambda>_. ret f2)))"

definition memory_read_all :: "ext \<Rightarrow> memory_store \<Rightarrow> (host, string, memory_fact list) io" where
  "memory_read_all x ms = read_records (fact_parse x) MemoryFile (ms_path ms)"

text \<open>The compacted view of a log.\<close>

definition insert_fact :: "memory_fact \<Rightarrow> (string \<times> memory_fact) list \<Rightarrow> (string \<times> memory_fact) list" where
  "insert_fact f m = AList.update (mf_key f) f m"

definition latest_view :: "(memory_fact list \<Rightarrow> memory_fact list) \<Rightarrow> memory_fact list \<Rightarrow> memory_fact list" where
  "latest_view it fs =
     sort_key (\<lambda>f. Reverse (mf_ts f))
       (filter (\<lambda>f. \<not> mf_deleted f) (it (map snd (fold insert_fact fs []))))"

definition latest_by_key ::
  "(memory_fact list \<Rightarrow> memory_fact list) \<Rightarrow> ext \<Rightarrow> memory_store \<Rightarrow> (host, string, memory_fact list) io" where
  "latest_by_key it x ms = bind_io (memory_read_all x ms) (\<lambda>fs. ret (latest_view it fs))"

definition list_recent ::
  "(memory_fact list \<Rightarrow> memory_fact list) \<Rightarrow> ext \<Rightarrow> memory_store \<Rightarrow> nat \<Rightarrow> (host, string, memory_fact list) io" where
  "list_recent it x ms limit =
     bind_io (latest_by_key it x ms) (\<lambda>fs.
       ret (if limit < length fs then take limit fs else fs))"

definition fact_matches :: "ext \<Rightarrow> string \<Rightarrow> memory_fact \<Rightarrow> bool" where
  "fact_matches x q f \<longleftrightarrow>
     contains (to_lowercase (lower_tables x) (mf_key f)) q
     \<or> contains (to_lowercase (lower_tables x) (mf_value f)) q
     \<or> list_ex (\<lambda>t. contains (to_lowercase (lower_tables x) t) q) (mf_tags f)"

definition recall ::
  "(memory_fact list \<Rightarrow> memory_fact list) \<Rightarrow> ext \<Rightarrow> memory_store \<Rightarrow> string \<Rightarrow> (host, string, memory_fact list) io" where
  "recall it x ms query =
     (let q = to_lowercase (lower_tables x) (trim query)
      in if q = [] then list_recent it x ms 20
         else bind_io (latest_by_key it x ms) (\<lambda>fs. ret (filter (fact_matches x q) fs)))"

definition forget ::
  "(memory_fact list \<Rightarrow> memory_fact list) \<Rightarrow> ext \<Rightarrow> memory_store \<Rightarrow> string \<Rightarrow> (host, string, memory_fact option) io" where
  "forget it x ms key =
     bind_io (latest_by_key it x ms) (\<lambda>fs.
       case find (\<lambda>f. mf_key f = key) fs of
         None \<Rightarrow> ret None
       | Some prev \<Rightarrow>
           bind_io new_v4 (\<lambda>i. bind_io utc_now (\<lambda>t.
             let tomb = prev\<lparr>mf_id := i, mf_ts := t, mf_deleted := True\<rparr>
             in bind_io (memory_append x tomb) (\<lambda>_. ret (Some tomb)))))"

definition format_context ::
  "(memory_fact list \<Rightarrow> memory_fact list) \<Rightarrow> ext \<Rightarrow> memory_store \<Rightarrow> nat \<Rightarrow> (host, string, string) io" where
  "format_context it x ms limit =
     bind_io (list_recent it x ms limit) (\<lambda>fs.
       ret (if fs = [] then []
            else [newline, newline] @ ''Known facts (memory):'' @ [newline] @
              concat (map (\<lambda>f. ''- '' @ mf_key f @ '': '' @ mf_value f @ [newline]) fs)))"

section \<open>Tools\<close>

definition object_schema :: json where
  "object_schema = Object [(''type'', String ''object'')]"

definition string_schema :: json where
  "string_schema = Object [(''type'', String ''string'')]"

definition remember_spec :: tool_spec where
  "remember_spec =
     \<lparr>ts_name = ''memory.remember'', ts_description = ''Store a durable fact (key/value) in local memory'',
      ts_risk = Low, ts_timeout_ms = 1000,
      ts_input_schema = Object
        [(''type'', String ''object''),
         (''properties'', Object
            [(''key'', string_schema), (''value'', string_schema),
             (''tags'', Object [(''type'', String ''array''), (''items'', string_schema)])]),
         (''required'', strings_json [''key'', ''value''])],
      ts_output_schema = object_schema, ts_requires_confirmation = False\<rparr>"

definition recall_spec :: tool_spec where
  "recall_spec =
     \<lparr>ts_name = ''memory.recall'', ts_description = ''Search local memory facts by substring query'',
      ts_risk = Low, ts_timeout_ms = 1000,
      ts_input_schema = Object
        [(''type'', String ''object''), (''properties'', Object [(''query'', string_schema)]),
         (''required'', strings_json [''query''])],
      ts_output_schema = object_schema, ts_requires_confirmation = False\<rparr>"

definition forget_spec :: tool_spec where
  "forget_spec =
     \<lparr>ts_name = ''memory.forget'', ts_description = ''Soft-delete a memory fact by key'',
      ts_risk = Medium, ts_timeout_ms = 1000,
      ts_input_schema = Object
        [(''type'', String ''object''), (''properties'', Object [(''key'', string_schema)]),
         (''required'', strings_json [''key''])],
      ts_output_schema = object_schema, ts_requires_confirmation = False\<rparr>"

definition ok_output :: "json \<Rightarrow> tool_output" where
  "ok_output v = \<lparr>to_ok = True, to_value = v, to_error = None\<rparr>"

definition require_str :: "json \<Rightarrow> string \<Rightarrow> ('s, tool_error, string) io" where
  "require_str args k =
     (case get_str args k of None \<Rightarrow> raise (InvalidArgs (k @ '' required'')) | Some s \<Rightarrow> ret s)"

definition remember_execute :: "ext \<Rightarrow> json \<Rightarrow> tool_context \<Rightarrow> (host, tool_error, tool_output) io" where
  "remember_execute x args ctx =
     bind_io (require_str args ''key'') (\<lambda>key.
     bind_io (require_str args ''value'') (\<lambda>value.
       let tags = (case get_array args ''tags'' of None \<Rightarrow> [] | Some vs \<Rightarrow> List.map_filter as_str vs)
       in bind_io (fact_new key value) (\<lambda>f.
          bind_io (map_err Execution (remember x (f\<lparr>mf_tags := tags, mf_source := Some ''tool''\<rparr>))) (\<lambda>f'.
            ret (ok_output (fact_json x f'))))))"

definition recall_execute ::
  "(memory_fact list \<Rightarrow> memory_fact list) \<Rightarrow> ext \<Rightarrow> memory_store \<Rightarrow> json \<Rightarrow> tool_context \<Rightarrow>
   (host, tool_error, tool_output) io" where
  "recall_execute it x ms args ctx =
     bind_io (map_err Execution (recall it x ms (unwrap_or (get_str args ''query'') []))) (\<lambda>fs.
       ret (ok_output (Object [(''facts'', Array (map (fact_json x) fs)), (''count'', nat_json (length fs))])))"

definition forget_execute ::
  "(memory_fact list \<Rightarrow> memory_fact list) \<Rightarrow> ext \<Rightarrow> memory_store \<Rightarrow> json \<Rightarrow> tool_context \<Rightarrow>
   (host, tool_error, tool_output) io" where
  "forget_execute it x ms args ctx =
     bind_io (require_str args ''key'') (\<lambda>key.
     bind_io (map_err Execution (forget it x ms key)) (\<lambda>tomb.
       ret (ok_output (Object [(''forgotten'', Bool (tomb \<noteq> None)), (''key'', String key)]))))"

definition memory_tools ::
  "(memory_fact list \<Rightarrow> memory_fact list) \<Rightarrow> ext \<Rightarrow> memory_store \<Rightarrow> tool_executor list" where
  "memory_tools it x ms =
     [\<lparr>te_spec = remember_spec, te_execute = remember_execute x\<rparr>,
      \<lparr>te_spec = recall_spec, te_execute = recall_execute it x ms\<rparr>,
      \<lparr>te_spec = forget_spec, te_execute = forget_execute it x ms\<rparr>]"

definition install_memory_tools ::
  "(memory_fact list \<Rightarrow> memory_fact list) \<Rightarrow> ext \<Rightarrow> memory_store \<Rightarrow> tool_registry \<Rightarrow> tool_registry" where
  "install_memory_tools it x ms r = fold register (memory_tools it x ms) r"

section \<open>The view\<close>

text \<open>The abstract store: a key is bound to the last fact the log has for it.\<close>

definition last_fact :: "memory_fact list \<Rightarrow> string \<Rightarrow> memory_fact option" where
  "last_fact fs k = find (\<lambda>f. mf_key f = k) (rev fs)"

definition live_fact :: "memory_fact list \<Rightarrow> string \<Rightarrow> memory_fact option" where
  "live_fact fs k =
     (case last_fact fs k of None \<Rightarrow> None | Some f \<Rightarrow> if mf_deleted f then None else Some f)"

definition some_order :: "('a list \<Rightarrow> 'a list) \<Rightarrow> bool" where
  "some_order it \<longleftrightarrow> (\<forall>xs. mset (it xs) = mset xs)"

lemma some_order_set: "some_order it \<Longrightarrow> set (it xs) = set xs"
  unfolding some_order_def by (metis set_mset_mset)

lemma last_fact_snoc: "last_fact (fs @ [f]) k = (if mf_key f = k then Some f else last_fact fs k)"
  by (simp add: last_fact_def)

lemma live_fact_snoc:
  "live_fact (fs @ [f]) k =
     (if mf_key f = k then (if mf_deleted f then None else Some f) else live_fact fs k)"
  by (simp add: live_fact_def last_fact_snoc)

lemma live_fact_key: "live_fact fs k = Some f \<Longrightarrow> mf_key f = k \<and> \<not> mf_deleted f"
  by (auto simp: live_fact_def last_fact_def find_Some_iff split: option.splits if_splits)

lemma compact_map: "map_of (fold insert_fact fs []) k = last_fact fs k"
proof (induction fs rule: rev_induct)
  case Nil
  then show ?case by (simp add: last_fact_def)
next
  case (snoc f fs)
  then show ?case by (simp add: insert_fact_def last_fact_snoc update_conv')
qed

lemma compact_distinct: "distinct (map fst (fold insert_fact fs []))"
  by (induction fs rule: rev_induct) (simp_all add: insert_fact_def distinct_update)

lemma compact_keys: "(k, f) \<in> set (fold insert_fact fs []) \<longleftrightarrow> last_fact fs k = Some f"
  using compact_distinct [of fs] by (metis compact_map map_of_eq_Some_iff)

lemma compact_snd: "set (map snd (fold insert_fact fs [])) = {f. last_fact fs (mf_key f) = Some f}"
proof -
  have "f \<in> set (map snd (fold insert_fact fs [])) \<longleftrightarrow> (\<exists>k. last_fact fs k = Some f)" for f
    by (auto simp: compact_keys image_iff) (metis compact_keys snd_conv)
  moreover have "last_fact fs k = Some f \<Longrightarrow> mf_key f = k" for k f
    by (auto simp: last_fact_def find_Some_iff)
  ultimately show ?thesis by blast
qed

lemma compact_values: "distinct (map mf_key (map snd (fold insert_fact fs [])))"
proof -
  let ?m = "fold insert_fact fs []"
  have key: "mf_key (snd p) = fst p" if "p \<in> set ?m" for p
    using that compact_keys [of "fst p" "snd p" fs] by (auto simp: last_fact_def find_Some_iff)
  then have "map mf_key (map snd ?m) = map fst ?m" by simp
  then show ?thesis using compact_distinct [of fs] by metis
qed

lemma view_set:
  assumes "some_order it"
  shows "set (latest_view it fs) = {f. live_fact fs (mf_key f) = Some f}"
  using some_order_set [OF assms] compact_snd [of fs]
  by (auto simp: latest_view_def live_fact_def split: option.splits if_splits)

lemma view_keys_distinct:
  assumes "some_order it"
  shows "distinct (map mf_key (latest_view it fs))"
proof -
  let ?vs = "map snd (fold insert_fact fs [])"
  have "mset (map mf_key (it ?vs)) = mset (map mf_key ?vs)"
    using assms by (simp add: some_order_def del: map_map)
  then have "distinct (map mf_key (it ?vs))"
    using compact_values mset_eq_imp_distinct_iff by blast
  then show ?thesis
    by (simp add: latest_view_def distinct_map inj_on_def)
qed

lemma view_newest_first: "sorted (map (\<lambda>f. Reverse (mf_ts f)) (latest_view it fs))"
  by (simp add: latest_view_def)

lemma view_find:
  assumes "some_order it"
  shows "find (\<lambda>f. mf_key f = k) (latest_view it fs) = live_fact fs k"
proof (cases "live_fact fs k")
  case None
  then show ?thesis
    using view_set [OF assms, of fs] by (auto simp: find_None_iff)
next
  case (Some f)
  have inview: "g \<in> set (latest_view it fs) \<and> mf_key g = k \<longleftrightarrow> g = f" for g
    using view_set [OF assms, of fs] Some live_fact_key [OF Some] by auto
  then have "find (\<lambda>f. mf_key f = k) (latest_view it fs) \<noteq> None"
    by (auto simp: find_None_iff)
  then obtain g where g: "find (\<lambda>f. mf_key f = k) (latest_view it fs) = Some g" by auto
  then have "g \<in> set (latest_view it fs) \<and> mf_key g = k"
    by (auto simp: find_Some_iff)
  with inview Some g show ?thesis by simp
qed

section \<open>The operations on a readable file\<close>

lemma latest_run:
  assumes "open_src h (open_next h)" and "holds (fact_parse x) (files h MemoryFile) fs"
  shows "latest_by_key it x ms h = (Inr (latest_view it fs), h\<lparr>open_next := Suc (open_next h)\<rparr>)"
  using read_records_run [OF assms] by (simp add: latest_by_key_def memory_read_all_def io_defs)

lemma recall_run:
  assumes "open_src h (open_next h)" and "holds (fact_parse x) (files h MemoryFile) fs"
    and "to_lowercase (lower_tables x) (trim query) \<noteq> []"
  shows "recall it x ms query h =
    (Inr (filter (fact_matches x (to_lowercase (lower_tables x) (trim query))) (latest_view it fs)),
     h\<lparr>open_next := Suc (open_next h)\<rparr>)"
  using assms(3) latest_run [OF assms(1,2)] by (simp add: recall_def Let_def io_defs)

lemma remember_appends:
  assumes "remember x f h = (Inr f', h')"
  shows "mf_key f' = mf_key f \<and> mf_value f' = mf_value f \<and> mf_tags f' = mf_tags f
    \<and> mf_source f' = mf_source f \<and> mf_deleted f' = mf_deleted f
    \<and> files h' MemoryFile = files h MemoryFile @ fact_line x f' @ [newline]"
  using assms
  by (auto simp: remember_def memory_append_def append_record_def write_all_def new_v4_def utc_now_def
      io_defs Let_def split: if_splits write_outcome.splits sum.splits prod.splits)

lemma forget_absent:
  assumes "open_src h (open_next h)" and "holds (fact_parse x) (files h MemoryFile) fs"
    and "some_order it" and "live_fact fs key = None"
  shows "forget it x ms key h = (Inr None, h\<lparr>open_next := Suc (open_next h)\<rparr>)"
  using latest_run [OF assms(1,2)] assms(4) by (simp add: forget_def view_find [OF assms(3)] io_defs)

lemma forget_appends:
  assumes "forget it x ms key h = (Inr (Some tomb), h')" and "some_order it"
    and "holds (fact_parse x) (files h MemoryFile) fs" and "open_src h (open_next h)"
  shows "mf_key tomb = key \<and> mf_deleted tomb
    \<and> files h' MemoryFile = files h MemoryFile @ fact_line x tomb @ [newline]"
proof -
  obtain prev where prev: "live_fact fs key = Some prev"
    using forget_absent [OF assms(4,3,2), of key ms] assms(1) by (cases "live_fact fs key") auto
  from live_fact_key [OF prev] assms(1) show ?thesis
    by (auto simp: forget_def latest_run [OF assms(4,3)] view_find [OF assms(2)] prev memory_append_def
        append_record_def write_all_def new_v4_def utc_now_def io_defs Let_def
        split: write_outcome.splits)
qed

section \<open>Files only grow\<close>

lemma file_grows_latest [climbs_intros]: "climbs (file_grows g) (latest_by_key it x ms)"
  by (simp add: latest_by_key_def memory_read_all_def file_growth.climbs_bind file_growth.climbs_ret
      file_grows_read_records)

lemma file_grows_remember [climbs_intros]: "climbs (file_grows g) (remember x f)"
  unfolding remember_def memory_append_def
  by (intro file_growth.climbs_bind file_growth.climbs_if file_growth.climbs_ret file_grows_append
      file_grows_new_v4 file_grows_utc_now)

lemma file_grows_forget [climbs_intros]: "climbs (file_grows g) (forget it x ms key)"
  unfolding forget_def memory_append_def Let_def
  by (intro file_growth.climbs_bind file_grows_latest)
    (auto split: option.splits intro!: file_growth.climbs_bind file_growth.climbs_ret file_grows_append
      file_grows_new_v4 file_grows_utc_now)

lemma file_grows_recall [climbs_intros]: "climbs (file_grows g) (recall it x ms q)"
  unfolding recall_def list_recent_def Let_def
  by (intro file_growth.climbs_if file_growth.climbs_bind file_growth.climbs_ret file_grows_latest)

end
