(* ===== verification/Doubles.thy ===== *)
theory Doubles
  imports Json
begin

text \<open>
  Arithmetic on \<open>f64\<close>: each operation rounds the exact result to the nearest double, ties to even, with the
  infinities and NaN of IEEE 754; \<open>round\<close>, \<open>max\<close>, \<open>clamp\<close> and parsing from decimal text as the standard
  library has them. The sign of zero is not kept, so a division by zero takes the zero as positive; the
  program divides only by constants and by numbers it has bounded from below.
\<close>

section \<open>Rounding to the nearest double\<close>

fun bit_length :: "nat \<Rightarrow> nat" where
  "bit_length n = (if n = 0 then 0 else Suc (bit_length (n div 2)))"

declare bit_length.simps [simp del]

definition two_to :: "int \<Rightarrow> rat" where
  "two_to e = (if 0 \<le> e then 2 ^ nat e else 1 / 2 ^ nat (- e))"

text \<open>The exponent \<open>k\<close> with \<open>2 ^ k \<le> q < 2 ^ (k + 1)\<close>, for a positive \<open>q\<close>.\<close>

definition exponent_of :: "rat \<Rightarrow> int" where
  "exponent_of q =
     (case quotient_of q of (n, d) \<Rightarrow>
        (let k = int (bit_length (nat n)) - int (bit_length (nat d)) in if two_to k \<le> q then k else k - 1))"

definition half_even :: "rat \<Rightarrow> int" where
  "half_even u =
     (let f = floor u; r = u - of_int f
      in if r < 1 / 2 then f else if 1 / 2 < r then f + 1 else if even f then f else f + 1)"

definition round_abs :: "rat \<Rightarrow> rat" where
  "round_abs q = (let e = max (exponent_of q - 52) (- 1074) in of_int (half_even (q / two_to e)) * two_to e)"

definition to_f64 :: "rat \<Rightarrow> f64" where
  "to_f64 q =
     (if q = 0 then Fin 0
      else (let v = round_abs \<bar>q\<bar>
            in if two_to 1024 \<le> v then (if 0 < q then PInf else NInf) else Fin (if 0 < q then v else - v)))"

section \<open>Operations\<close>

fun f64_neg :: "f64 \<Rightarrow> f64" where
  "f64_neg (Fin a) = Fin (- a)"
| "f64_neg PInf = NInf"
| "f64_neg NInf = PInf"
| "f64_neg NaN = NaN"

fun f64_add :: "f64 \<Rightarrow> f64 \<Rightarrow> f64" where
  "f64_add (Fin a) (Fin b) = to_f64 (a + b)"
| "f64_add NaN y = NaN"
| "f64_add x NaN = NaN"
| "f64_add PInf NInf = NaN"
| "f64_add NInf PInf = NaN"
| "f64_add PInf y = PInf"
| "f64_add NInf y = NInf"
| "f64_add x y = y"

definition f64_sub :: "f64 \<Rightarrow> f64 \<Rightarrow> f64" where
  "f64_sub x y = f64_add x (f64_neg y)"

fun f64_sign :: "f64 \<Rightarrow> rat" where
  "f64_sign (Fin a) = sgn a"
| "f64_sign PInf = 1"
| "f64_sign NInf = - 1"
| "f64_sign NaN = 0"

definition infinite_of :: "rat \<Rightarrow> f64" where
  "infinite_of s = (if s = 0 then NaN else if 0 < s then PInf else NInf)"

fun f64_mul :: "f64 \<Rightarrow> f64 \<Rightarrow> f64" where
  "f64_mul (Fin a) (Fin b) = to_f64 (a * b)"
| "f64_mul x y = (if x = NaN \<or> y = NaN then NaN else infinite_of (f64_sign x * f64_sign y))"

fun f64_div :: "f64 \<Rightarrow> f64 \<Rightarrow> f64" where
  "f64_div (Fin a) (Fin b) = (if b = 0 then infinite_of (sgn a) else to_f64 (a / b))"
| "f64_div NaN y = NaN"
| "f64_div x NaN = NaN"
| "f64_div (Fin a) y = Fin 0"
| "f64_div x (Fin b) = infinite_of (f64_sign x * (if b < 0 then - 1 else 1))"
| "f64_div x y = NaN"

text \<open>\<open>f64::round\<close>: halves away from zero.\<close>

definition round_away :: "rat \<Rightarrow> int" where
  "round_away q = (if 0 \<le> q then floor (q + 1 / 2) else - floor (1 / 2 - q))"

fun f64_round :: "f64 \<Rightarrow> f64" where
  "f64_round (Fin a) = Fin (of_int (round_away a))"
| "f64_round x = x"

text \<open>\<open>f64::max\<close> ignores a NaN; \<open>f64::clamp\<close> keeps it.\<close>

definition f64_max :: "f64 \<Rightarrow> f64 \<Rightarrow> f64" where
  "f64_max x y = (if x = NaN then y else if y = NaN then x else if f64_le x y then y else x)"

definition f64_clamp :: "f64 \<Rightarrow> f64 \<Rightarrow> f64 \<Rightarrow> f64" where
  "f64_clamp lo hi x = (if f64_gt lo x then lo else if f64_gt x hi then hi else x)"

text \<open>\<open>(x * 10.0).round() / 10.0\<close>, as the readings are rounded everywhere.\<close>

definition one_decimal :: "f64 \<Rightarrow> f64" where
  "one_decimal x = f64_div (f64_round (f64_mul x (Fin 10))) (Fin 10)"

text \<open>JSON has no infinities and no NaN: they become null.\<close>

fun f64_json :: "f64 \<Rightarrow> json" where
  "f64_json (Fin q) = Number (Double q)"
| "f64_json x = Null"

section \<open>Parsing\<close>

text \<open>\<open>str::parse\<close> to an unsigned integer of a given width: an optional plus sign, then digits.\<close>

definition parse_unsigned :: "nat \<Rightarrow> string \<Rightarrow> nat option" where
  "parse_unsigned bound s =
     (let ds = (if starts_with s ''+'' then tl s else s)
      in if ds \<noteq> [] \<and> list_all is_digit ds \<and> digits_value ds < bound then Some (digits_value ds) else None)"

definition parse_u64 :: "string \<Rightarrow> u64 option" where
  "parse_u64 s = map_option of_nat (parse_unsigned (2 ^ 64) s)"

definition parse_u32 :: "string \<Rightarrow> u32 option" where
  "parse_u32 s = map_option of_nat (parse_unsigned (2 ^ 32) s)"

text \<open>A decimal: sign, digits with an optional point, an optional exponent; or a name of a special value.\<close>

definition ten_to :: "int \<Rightarrow> rat" where
  "ten_to e = (if 0 \<le> e then 10 ^ nat e else 1 / 10 ^ nat (- e))"

definition parse_exponent :: "string \<Rightarrow> int option" where
  "parse_exponent s =
     (if s = [] then Some 0
      else if hd s = CHR ''e'' \<or> hd s = CHR ''E''
      then (let t = tl s;
                negative = starts_with t ''-'';
                ds = (if negative \<or> starts_with t ''+'' then tl t else t)
            in if ds \<noteq> [] \<and> list_all is_digit ds
               then Some (if negative then - int (digits_value ds) else int (digits_value ds)) else None)
      else None)"

definition parse_decimal :: "string \<Rightarrow> rat option" where
  "parse_decimal s =
     (let whole = takeWhile is_digit s;
          rest = dropWhile is_digit s;
          pointed = starts_with rest ''.'';
          frac = (if pointed then takeWhile is_digit (tl rest) else []);
          tail = (if pointed then dropWhile is_digit (tl rest) else rest)
      in if whole = [] \<and> frac = [] then None
         else map_option (\<lambda>e. of_nat (digits_value (whole @ frac)) * ten_to (e - int (length frac)))
                (parse_exponent tail))"

definition parse_f64 :: "string \<Rightarrow> f64 option" where
  "parse_f64 s =
     (let negative = starts_with s ''-'';
          body = (if negative \<or> starts_with s ''+'' then tl s else s);
          word = map ascii_lower body;
          magnitude = (if word = ''inf'' \<or> word = ''infinity'' then Some PInf
                       else if word = ''nan'' then Some NaN
                       else map_option to_f64 (parse_decimal body))
      in map_option (if negative then f64_neg else (\<lambda>v. v)) magnitude)"

section \<open>Facts\<close>

lemma to_f64_not_NaN [simp]: "to_f64 q \<noteq> NaN"
  by (simp add: to_f64_def Let_def)

lemma to_f64_0 [simp]: "to_f64 0 = Fin 0"
  by (simp add: to_f64_def)

lemma half_even_nonneg: "0 \<le> u \<Longrightarrow> 0 \<le> half_even u"
  by (auto simp: half_even_def Let_def)

lemma two_to_pos: "0 < two_to e"
  by (simp add: two_to_def)

lemma round_abs_nonneg: "0 \<le> q \<Longrightarrow> 0 \<le> round_abs q"
  using two_to_pos by (auto simp: round_abs_def Let_def less_imp_le intro!: mult_nonneg_nonneg half_even_nonneg)

text \<open>Rounding keeps the sign.\<close>

lemma to_f64_nonneg: "0 \<le> q \<Longrightarrow> f64_le (Fin 0) (to_f64 q)"
  using round_abs_nonneg [of q] by (auto simp: to_f64_def Let_def)

lemma clamp_range:
  assumes "x \<noteq> NaN" and "lo \<le> hi"
  shows "\<exists>c. f64_clamp (Fin lo) (Fin hi) x = Fin c \<and> lo \<le> c \<and> c \<le> hi"
  using assms by (cases x) (auto simp: f64_clamp_def f64_gt_def)

lemma f64_of_nat_Fin: "\<exists>q. f64_of_nat n = Fin q \<and> 0 \<le> q"
  by (auto simp: f64_of_nat_def Let_def)

text \<open>An order on all doubles, with NaN at the top; below it agrees with \<open>partial_cmp\<close>.\<close>

fun f64_rank :: "f64 \<Rightarrow> nat \<times> rat" where
  "f64_rank NInf = (0, 0)"
| "f64_rank (Fin q) = (1, q)"
| "f64_rank PInf = (2, 0)"
| "f64_rank NaN = (3, 0)"

lemma f64_rank_inject: "f64_rank x = f64_rank y \<longleftrightarrow> x = y"
  by (cases x; cases y) auto

instantiation f64 :: linorder
begin

definition less_eq_f64 :: "f64 \<Rightarrow> f64 \<Rightarrow> bool" where
  "less_eq_f64 x y \<longleftrightarrow>
     fst (f64_rank x) < fst (f64_rank y) \<or> fst (f64_rank x) = fst (f64_rank y) \<and> snd (f64_rank x) \<le> snd (f64_rank y)"

definition less_f64 :: "f64 \<Rightarrow> f64 \<Rightarrow> bool" where
  "less_f64 x y \<longleftrightarrow>
     fst (f64_rank x) < fst (f64_rank y) \<or> fst (f64_rank x) = fst (f64_rank y) \<and> snd (f64_rank x) < snd (f64_rank y)"

instance
  by standard (auto simp: less_eq_f64_def less_f64_def f64_rank_inject [symmetric] prod_eq_iff)

end

lemma f64_le_order: "x \<noteq> NaN \<Longrightarrow> y \<noteq> NaN \<Longrightarrow> f64_le x y \<longleftrightarrow> x \<le> y"
  by (cases x; cases y) (auto simp: less_eq_f64_def)

end
