(* ===== verification/SystemBackend.thy ===== *)
theory SystemBackend
  imports MemoryStore Doubles
begin

text \<open>
  \<open>crates/system-tools\<close>: the readings, the backend interface, the fixtures of the mock backend and the
  signal names. A decimal literal of the source is the double nearest to it, written as its exact fraction.
\<close>

record process_info =
  pi_pid :: u32
  pi_name :: string
  pi_cpu :: f64
  pi_mem_mb :: f64

record system_metrics =
  sm_cpu_usage :: f64
  sm_load_average :: f64
  sm_mem_used_mb :: f64
  sm_mem_total_mb :: f64
  sm_mem_used_pct :: f64
  sm_disk_read_mb_s :: f64

datatype tools_mode = MockTools | RealLinux

definition double_json :: "rat \<Rightarrow> json" where
  "double_json q = Number (Double q)"

definition process_info_json :: "process_info \<Rightarrow> json" where
  "process_info_json p =
     Object [(''pid'', u32_json (pi_pid p)), (''name'', String (pi_name p)), (''cpu'', f64_json (pi_cpu p)),
             (''mem_mb'', f64_json (pi_mem_mb p))]"

definition system_metrics_json :: "system_metrics \<Rightarrow> json" where
  "system_metrics_json m =
     Object [(''cpu_usage'', f64_json (sm_cpu_usage m)), (''load_average'', f64_json (sm_load_average m)),
             (''mem_used_mb'', f64_json (sm_mem_used_mb m)), (''mem_total_mb'', f64_json (sm_mem_total_mb m)),
             (''mem_used_pct'', f64_json (sm_mem_used_pct m)), (''disk_read_mb_s'', f64_json (sm_disk_read_mb_s m))]"

section \<open>Backends\<close>

record system_backend =
  sb_metrics :: "(host, tool_error, system_metrics) io"
  sb_processes :: "(host, tool_error, process_info list) io"
  sb_network_status :: "(host, tool_error, json) io"
  sb_disk :: "(host, tool_error, json) io"
  sb_temperature :: "(host, tool_error, json) io"
  sb_journal :: "nat \<Rightarrow> string option \<Rightarrow> (host, tool_error, json) io"
  sb_kill :: "u32 \<Rightarrow> string \<Rightarrow> (host, tool_error, json) io"

definition mock_metrics :: system_metrics where
  "mock_metrics =
     \<lparr>sm_cpu_usage = Fin 97, sm_load_average = Fin (4728779608739021 / 562949953421312), sm_mem_used_mb = Fin 5200,
      sm_mem_total_mb = Fin 8192, sm_mem_used_pct = Fin (127 / 2), sm_disk_read_mb_s = Fin 120\<rparr>"

definition mock_processes :: "process_info list" where
  "mock_processes =
     [\<lparr>pi_pid = 4312, pi_name = ''runaway-worker'', pi_cpu = Fin 88, pi_mem_mb = Fin 900\<rparr>,
      \<lparr>pi_pid = 120, pi_name = ''systemd'', pi_cpu = Fin (5404319552844595 / 18014398509481984), pi_mem_mb = Fin 40\<rparr>,
      \<lparr>pi_pid = 880, pi_name = ''sshd'', pi_cpu = Fin (3602879701896397 / 36028797018963968), pi_mem_mb = Fin 20\<rparr>]"

definition mock_network :: json where
  "mock_network =
     Object [(''online'', Bool True), (''source'', String ''mock''),
       (''interfaces'', Array [Object
          [(''name'', String ''eth0''), (''operstate'', String ''up''),
           (''ipv4'', Array [String ''192.168.1.50/24'']),
           (''rx_bytes'', nat_json 1250000), (''tx_bytes'', nat_json 420000)]]),
       (''default_route'', String ''192.168.1.1'')]"

definition mock_disk :: json where
  "mock_disk =
     Object [(''source'', String ''mock''),
       (''mounts'', Array [Object
          [(''path'', String ''/''), (''total_mb'', double_json 32000), (''used_mb'', double_json 22400),
           (''avail_mb'', double_json 9600), (''used_pct'', double_json 70)]]),
       (''root_used_pct'', double_json 70)]"

definition mock_temperature :: json where
  "mock_temperature =
     Object [(''source'', String ''mock''), (''celsius'', double_json (125 / 2)),
       (''zones'', Array [Object [(''name'', String ''cpu-thermal''), (''celsius'', double_json (125 / 2))]])]"

definition mock_journal_lines :: "string list" where
  "mock_journal_lines =
     [''2026-08-03T10:00:01 saaios-runtime[1]: listening on /tmp/saaios.sock'',
      ''2026-08-03T10:00:05 kernel: CPU soft lockup suspected on runaway-worker'',
      ''2026-08-03T10:00:08 systemd[1]: Started Session 42 of user pi'']"

definition mock_journal :: "nat \<Rightarrow> string option \<Rightarrow> json" where
  "mock_journal n unit =
     (let entries0 = (case unit of
            None \<Rightarrow> mock_journal_lines
          | Some u \<Rightarrow>
              (let kept = filter (\<lambda>e. contains e u) mock_journal_lines
               in if kept = [] then [''(no mock lines for unit='' @ u @ '')''] else kept));
          entries = take (max n 1) entries0
      in Object [(''source'', String ''mock''), (''lines'', strings_json entries),
                 (''count'', nat_json (length entries))])"

definition mock_kill :: "u32 \<Rightarrow> string \<Rightarrow> (host, tool_error, json) io" where
  "mock_kill pid signal =
     (if pid \<le> 1 then raise (InvalidArgs ''refusing to signal pid <= 1'')
      else ret (Object [(''killed'', Bool True), (''pid'', u32_json pid), (''signal'', String signal),
                        (''mode'', String ''mock'')]))"

definition mock_backend :: system_backend where
  "mock_backend =
     \<lparr>sb_metrics = ret mock_metrics, sb_processes = ret mock_processes, sb_network_status = ret mock_network,
      sb_disk = ret mock_disk, sb_temperature = ret mock_temperature,
      sb_journal = (\<lambda>n u. ret (mock_journal n u)), sb_kill = mock_kill\<rparr>"

definition allowed_signals :: "string list" where
  "allowed_signals = [''TERM'', ''KILL'', ''HUP'', ''INT'', ''QUIT'', ''USR1'', ''USR2'']"

definition normalize_signal :: "ext \<Rightarrow> string \<Rightarrow> tool_error + string" where
  "normalize_signal x signal =
     (let s = to_uppercase (upper_tables x) (strip_all (trim signal) ''SIG'')
      in if s \<in> set allowed_signals then Inr s
         else if s = [] then Inr ''TERM''
         else Inl (InvalidArgs (''unsupported signal '' @ s @ ''; allowed TERM|KILL|HUP|INT|QUIT|USR1|USR2'')))"

end
