(* ===== verification/Utf8.thy ===== *)
theory Utf8
  imports Prelude
begin

text \<open>
  \<open>String::from_utf8_lossy\<close> of the standard library on bytes: well-formed characters pass, every maximal
  ill-formed piece becomes one replacement character. The streaming provider applies it to each chunk of
  the network, the Linux readers to the output of commands.
\<close>

definition byte_in :: "nat \<Rightarrow> nat \<Rightarrow> char \<Rightarrow> bool" where
  "byte_in lo hi c \<longleftrightarrow> lo \<le> (of_char c :: nat) \<and> of_char c \<le> hi"

definition continuation :: "char \<Rightarrow> bool" where
  "continuation c \<longleftrightarrow> byte_in 0x80 0xBF c"

text \<open>Which second bytes a leading byte of a three- or four-byte character admits.\<close>

definition second_of_3 :: "nat \<Rightarrow> char \<Rightarrow> bool" where
  "second_of_3 lead c \<longleftrightarrow>
     (if lead = 0xE0 then byte_in 0xA0 0xBF c else if lead = 0xED then byte_in 0x80 0x9F c else continuation c)"

definition second_of_4 :: "nat \<Rightarrow> char \<Rightarrow> bool" where
  "second_of_4 lead c \<longleftrightarrow>
     (if lead = 0xF0 then byte_in 0x90 0xBF c else if lead = 0xF4 then byte_in 0x80 0x8F c else continuation c)"

text \<open>How many of the bytes satisfy the tests, one test per byte, up to the first that does not.\<close>

fun accepted :: "(char \<Rightarrow> bool) list \<Rightarrow> string \<Rightarrow> nat" where
  "accepted [] s = 0"
| "accepted (p # ps) [] = 0"
| "accepted (p # ps) (c # s) = (if p c then Suc (accepted ps s) else 0)"

text \<open>What must follow a leading byte; \<open>None\<close> when no character starts with it.\<close>

definition followers :: "nat \<Rightarrow> (char \<Rightarrow> bool) list option" where
  "followers lead =
     (if lead < 0x80 then Some []
      else if 0xC2 \<le> lead \<and> lead \<le> 0xDF then Some [continuation]
      else if 0xE0 \<le> lead \<and> lead \<le> 0xEF then Some [second_of_3 lead, continuation]
      else if 0xF0 \<le> lead \<and> lead \<le> 0xF4 then Some [second_of_4 lead, continuation, continuation]
      else None)"

text \<open>The first character, or the longest ill-formed piece that a replacement character stands for:
  whether it is well-formed, and how many bytes it has.\<close>

definition utf8_head :: "char \<Rightarrow> string \<Rightarrow> bool \<times> nat" where
  "utf8_head c s =
     (case followers (of_char c) of
        None \<Rightarrow> (False, 1)
      | Some ps \<Rightarrow> (let n = accepted ps s in (n = length ps, Suc n)))"

definition replacement :: string where
  "replacement = [CHR 0xEF, CHR 0xBF, CHR 0xBD]"

function utf8_lossy :: "string \<Rightarrow> string" where
  "utf8_lossy [] = []"
| "utf8_lossy (c # s) =
     (case utf8_head c s of (good, n) \<Rightarrow>
        (if good then take n (c # s) else replacement) @ utf8_lossy (drop n (c # s)))"
  by pat_completeness auto
termination
  by (relation "measure length")
    (auto simp: utf8_head_def Let_def split: option.splits)

declare utf8_lossy.simps(2) [simp del]

text \<open>A text is well-formed when decoding leaves it alone.\<close>

definition utf8_ok :: "string \<Rightarrow> bool" where
  "utf8_ok s \<longleftrightarrow> utf8_lossy s = s"

lemma accepted_le: "accepted ps s \<le> length s"
  by (induction ps s rule: accepted.induct) auto

lemma accepted_append: "accepted ps s = length ps \<Longrightarrow> accepted ps (s @ t) = length ps"
proof (induction ps s rule: accepted.induct)
  case (3 p ps c s)
  then show ?case by (auto split: if_splits)
qed auto

lemma utf8_head_good:
  assumes "utf8_head c s = (True, n)"
  shows "utf8_head c (s @ t) = (True, n)" and "0 < n" and "n \<le> length (c # s)"
  using assms accepted_le [of _ s] accepted_append [of _ s t]
  by (auto simp: utf8_head_def Let_def split: option.splits)

lemma utf8_head_pos: "utf8_head c s = (g, n) \<Longrightarrow> 0 < n"
  by (auto simp: utf8_head_def Let_def split: option.splits)

lemma utf8_head_replacement: "utf8_head (CHR 0xEF) (CHR 0xBF # CHR 0xBD # s) = (True, 3)"
  by (simp add: utf8_head_def followers_def second_of_3_def continuation_def byte_in_def)

text \<open>Well-formed text in front is passed through, whatever follows it.\<close>

lemma utf8_lossy_append:
  assumes "utf8_ok a"
  shows "utf8_lossy (a @ b) = a @ utf8_lossy b"
  using assms
proof (induction a rule: utf8_lossy.induct)
  case 1
  then show ?case by simp
next
  case (2 c s)
  obtain g n where hd: "utf8_head c s = (g, n)" by fastforce
  have eq: "(if g then take n (c # s) else replacement) @ utf8_lossy (drop n (c # s)) = c # s"
    using 2(2) hd by (simp add: utf8_ok_def utf8_lossy.simps(2))
  have g
  proof (rule ccontr)
    assume "\<not> g"
    with eq have "c # s = CHR 0xEF # CHR 0xBF # CHR 0xBD # utf8_lossy (drop n (c # s))"
      by (simp add: replacement_def)
    then have "utf8_head c s = (True, 3)" by (metis list.inject utf8_head_replacement)
    with hd \<open>\<not> g\<close> show False by simp
  qed
  with hd have "utf8_head c s = (True, n)" by simp
  note good = utf8_head_good [OF this]
  from eq \<open>g\<close> have rest: "utf8_ok (drop n (c # s))"
    by (metis append_take_drop_id same_append_eq utf8_ok_def)
  have "utf8_lossy ((c # s) @ b) = take n ((c # s) @ b) @ utf8_lossy (drop n ((c # s) @ b))"
    using good(1) [of b] by (simp add: utf8_lossy.simps(2))
  also have "\<dots> = take n (c # s) @ utf8_lossy (drop n (c # s) @ b)"
    using good(3) take_append [of n "c # s" b] drop_append [of n "c # s" b] by simp
  also have "\<dots> = take n (c # s) @ drop n (c # s) @ utf8_lossy b"
    using 2(1) [OF hd [symmetric] rest] by simp
  finally show ?case by simp
qed

lemma utf8_ok_append: "utf8_ok a \<Longrightarrow> utf8_ok b \<Longrightarrow> utf8_ok (a @ b)"
  unfolding utf8_ok_def [of "a @ b"] by (simp add: utf8_lossy_append) (simp add: utf8_ok_def)

lemma utf8_ok_concat: "list_all utf8_ok cs \<Longrightarrow> utf8_ok (concat cs)"
  by (induction cs) (simp_all add: utf8_ok_append utf8_ok_def [of "[]"])

end
