(* ===== verification/LinuxReaders.thy ===== *)
theory LinuxReaders
  imports SystemBackend Utf8
begin

text \<open>
  \<open>crates/system-tools\<close>: the readers of \<open>LinuxBackend\<close> over procfs, sysfs and the output of commands. What
  the operating system answers is the argument \<open>os_files\<close>: a file, a directory or a command gives an answer
  that may differ from one access to the next, and the host counts the accesses (\<open>os_next\<close>). The parsing,
  the arithmetic on doubles, the sampling and the ranking are the source's.
\<close>

record os_files =
  of_text :: "nat \<Rightarrow> string \<Rightarrow> string + string" \<comment> \<open>\<open>std::fs::read_to_string\<close>\<close>
  of_dir :: "nat \<Rightarrow> string \<Rightarrow> string + string list" \<comment> \<open>the names \<open>std::fs::read_dir\<close> yields\<close>
  of_exists :: "nat \<Rightarrow> string \<Rightarrow> bool"
  of_command :: "nat \<Rightarrow> string list \<Rightarrow> string + (bool \<times> string \<times> string)" \<comment> \<open>success, stdout, stderr\<close>
  of_cpus :: "nat option" \<comment> \<open>\<open>std::thread::available_parallelism\<close>\<close>
  of_order :: "(u32 \<times> string \<times> u64 \<times> f64) list \<Rightarrow> (u32 \<times> string \<times> u64 \<times> f64) list"
    \<comment> \<open>the iteration order of the process table\<close>

section \<open>Access to the operating system\<close>

definition os_access :: "(nat \<Rightarrow> 'a) \<Rightarrow> (host, 'e, 'a) io" where
  "os_access f = (\<lambda>h. (Inr (f (os_next h)), h\<lparr>os_next := Suc (os_next h)\<rparr>))"

definition os_text :: "os_files \<Rightarrow> string \<Rightarrow> (host, 'e, string + string) io" where
  "os_text os path = os_access (\<lambda>n. of_text os n path)"

definition os_dir :: "os_files \<Rightarrow> string \<Rightarrow> (host, 'e, string + string list) io" where
  "os_dir os path = os_access (\<lambda>n. of_dir os n path)"

definition os_exists :: "os_files \<Rightarrow> string \<Rightarrow> (host, 'e, bool) io" where
  "os_exists os path = os_access (\<lambda>n. of_exists os n path)"

definition os_command :: "os_files \<Rightarrow> string list \<Rightarrow> (host, 'e, string + (bool \<times> string \<times> string)) io" where
  "os_command os argv = os_access (\<lambda>n. of_command os n argv)"

text \<open>Run one call after the other over a list and collect what they give.\<close>

fun collect :: "('a \<Rightarrow> ('s, 'e, 'b option) io) \<Rightarrow> 'a list \<Rightarrow> ('s, 'e, 'b list) io" where
  "collect f [] = ret []"
| "collect f (x # xs) =
     bind_io (f x) (\<lambda>r. bind_io (collect f xs) (\<lambda>rs. ret (case r of None \<Rightarrow> rs | Some y \<Rightarrow> y # rs)))"

section \<open>Words of a line\<close>

fun until_ws :: "string \<Rightarrow> string" where
  "until_ws [] = []"
| "until_ws (c # s) = (if ws_len (c # s) \<noteq> 0 then [] else c # until_ws s)"

text \<open>\<open>str::split_whitespace\<close>.\<close>

function words :: "string \<Rightarrow> string list" where
  "words s =
     (let t = trim_start s
      in if t = [] then [] else if until_ws t = [] then [] else until_ws t # words (drop (length (until_ws t)) t))"
  by pat_completeness auto
termination
proof (relation "measure length", goal_cases)
  case (2 s t)
  then have "length t \<le> length s" "0 < length (until_ws t)" "0 < length t"
    using trim_start_suffix [of s] suffix_length_le by auto
  then have "length t - length (until_ws t) < length s" by linarith
  then show ?case by simp
qed simp

declare words.simps [simp del]

section \<open>Memory and CPU\<close>

definition parse_kb :: "string \<Rightarrow> f64 option" where
  "parse_kb v = (case words v of [] \<Rightarrow> None | w # ws \<Rightarrow> parse_f64 w)"

fun meminfo_lines :: "string list \<Rightarrow> f64 \<times> f64 \<Rightarrow> (f64 \<times> f64) option" where
  "meminfo_lines [] acc = Some acc"
| "meminfo_lines (l # ls) (tot, available) =
     (case strip_prefix l ''MemTotal:'' of
        Some v \<Rightarrow> Option.bind (parse_kb v) (\<lambda>k. meminfo_lines ls (k, available))
      | None \<Rightarrow>
          (case strip_prefix l ''MemAvailable:'' of
             Some v \<Rightarrow> Option.bind (parse_kb v) (\<lambda>k. meminfo_lines ls (tot, k))
           | None \<Rightarrow> meminfo_lines ls (tot, available)))"

definition parse_meminfo :: "string \<Rightarrow> (f64 \<times> f64) option" where
  "parse_meminfo content =
     map_option (\<lambda>(tot, available). (f64_div (f64_sub tot available) (Fin 1024), f64_div tot (Fin 1024)))
       (meminfo_lines (text_lines content) (Fin 0, Fin 0))"

definition read_meminfo :: "os_files \<Rightarrow> (host, 'e, (f64 \<times> f64) option) io" where
  "read_meminfo os =
     bind_io (os_text os ''/proc/meminfo'') (\<lambda>r. ret (case r of Inl e \<Rightarrow> None | Inr t \<Rightarrow> parse_meminfo t))"

text \<open>The CPU line of \<open>/proc/stat\<close>: total and idle time. The sums wrap, as they do in a release build.\<close>

definition first_line :: "string \<Rightarrow> string option" where
  "first_line content = (case text_lines content of [] \<Rightarrow> None | l # ls \<Rightarrow> Some l)"

definition parse_cpu_times :: "string \<Rightarrow> (u64 \<times> u64) option" where
  "parse_cpu_times content =
     Option.bind (first_line content) (\<lambda>line.
       let parts = List.map_filter parse_u64 (drop 1 (words line))
       in if length parts < 4 then None
          else Some (sum_list parts, parts ! 3 + (if 4 < length parts then parts ! 4 else 0)))"

definition read_cpu_times :: "os_files \<Rightarrow> (host, 'e, (u64 \<times> u64) option) io" where
  "read_cpu_times os =
     bind_io (os_text os ''/proc/stat'') (\<lambda>r. ret (case r of Inl e \<Rightarrow> None | Inr t \<Rightarrow> parse_cpu_times t))"

definition saturating_sub :: "u64 \<Rightarrow> u64 \<Rightarrow> u64" where
  "saturating_sub a b = (if b \<le> a then a - b else 0)"

definition saturating_add :: "u64 \<Rightarrow> u64 \<Rightarrow> u64" where
  "saturating_add a b = (if a \<le> - 1 - b then a + b else - 1)"

definition f64_of_u64 :: "u64 \<Rightarrow> f64" where
  "f64_of_u64 n = f64_of_nat (unat n)"

definition cpu_usage_between :: "u64 \<times> u64 \<Rightarrow> u64 \<times> u64 \<Rightarrow> f64" where
  "cpu_usage_between a b =
     (let idle_delta = f64_of_u64 (saturating_sub (snd b) (snd a));
          total_delta = f64_of_u64 (max (saturating_sub (fst b) (fst a)) 1)
      in f64_clamp (Fin 0) (Fin 100)
           (f64_mul (f64_sub (Fin 1) (f64_div idle_delta total_delta)) (Fin 100)))"

definition sample_cpu_usage :: "os_files \<Rightarrow> (host, 'e, f64 option) io" where
  "sample_cpu_usage os =
     bind_io (read_cpu_times os) (\<lambda>a.
       case a of
         None \<Rightarrow> ret None
       | Some ta \<Rightarrow> bind_io (read_cpu_times os) (\<lambda>b. ret (map_option (cpu_usage_between ta) b)))"

definition linux_metrics :: "os_files \<Rightarrow> (host, tool_error, system_metrics) io" where
  "linux_metrics os =
     bind_io (os_text os ''/proc/loadavg'') (\<lambda>r.
       case r of
         Inl e \<Rightarrow> raise (Execution e)
       | Inr load \<Rightarrow>
           bind_io (read_meminfo os) (\<lambda>m.
           bind_io (sample_cpu_usage os) (\<lambda>cpu.
             let load_average = unwrap_or (case words load of [] \<Rightarrow> None | w # ws \<Rightarrow> parse_f64 w) (Fin 0);
                 mem = unwrap_or m (Fin 0, Fin 0);
                 pct = (if f64_gt (snd mem) (Fin 0) then f64_mul (f64_div (fst mem) (snd mem)) (Fin 100) else Fin 0)
             in ret \<lparr>sm_cpu_usage = unwrap_or cpu (Fin 0), sm_load_average = load_average,
                     sm_mem_used_mb = fst mem, sm_mem_total_mb = snd mem,
                     sm_mem_used_pct = one_decimal pct, sm_disk_read_mb_s = Fin 0\<rparr>)))"

section \<open>Processes\<close>

definition parse_total_jiffies :: "string \<Rightarrow> u64 option" where
  "parse_total_jiffies content =
     Option.bind (first_line content) (\<lambda>line.
       foldl (\<lambda>acc part. Option.bind acc (\<lambda>s. map_option (saturating_add s) (parse_u64 part)))
         (Some 0) (drop 1 (words line)))"

definition read_total_jiffies :: "os_files \<Rightarrow> (host, 'e, u64 option) io" where
  "read_total_jiffies os =
     bind_io (os_text os ''/proc/stat'') (\<lambda>r. ret (case r of Inl e \<Rightarrow> None | Inr t \<Rightarrow> parse_total_jiffies t))"

text \<open>\<open>str::rfind\<close> on a byte, and \<open>str::get(n..)\<close>: no text when the index is past the end or inside a character.\<close>

definition rfind :: "char \<Rightarrow> string \<Rightarrow> nat option" where
  "rfind c s = (if c \<in> set s then Some (length s - Suc (length (takeWhile (\<lambda>d. d \<noteq> c) (rev s)))) else None)"

definition str_from :: "nat \<Rightarrow> string \<Rightarrow> string option" where
  "str_from n s =
     (if length s < n then None else if n < length s \<and> continuation (s ! n) then None else Some (drop n s))"

definition nth_opt :: "'a list \<Rightarrow> nat \<Rightarrow> 'a option" where
  "nth_opt xs i = (if i < length xs then Some (xs ! i) else None)"

definition parse_proc_stat_jiffies :: "string \<Rightarrow> u64 option" where
  "parse_proc_stat_jiffies stat =
     Option.bind (rfind (CHR '')'') stat) (\<lambda>close.
     Option.bind (str_from (close + 2) stat) (\<lambda>after.
       let parts = words after in
       Option.bind (Option.bind (nth_opt parts 11) parse_u64) (\<lambda>utime.
       Option.bind (Option.bind (nth_opt parts 12) parse_u64) (\<lambda>stime.
         Some (saturating_add utime stime)))))"

fun rss_lines :: "string list \<Rightarrow> f64 option" where
  "rss_lines [] = None"
| "rss_lines (l # ls) =
     (case strip_prefix l ''VmRSS:'' of
        None \<Rightarrow> rss_lines ls
      | Some rest \<Rightarrow> map_option (\<lambda>kb. f64_div kb (Fin 1024)) (parse_kb rest))"

definition read_vm_rss_mb :: "os_files \<Rightarrow> u32 \<Rightarrow> (host, 'e, f64 option) io" where
  "read_vm_rss_mb os pid =
     bind_io (os_text os (''/proc/'' @ dec (unat pid) @ ''/status'')) (\<lambda>r.
       ret (case r of Inl e \<Rightarrow> None | Inr t \<Rightarrow> rss_lines (text_lines t)))"

text \<open>The process table: identifier, name, CPU time and memory; at most 256 entries.\<close>

type_synonym proc_table = "(u32 \<times> string \<times> u64 \<times> f64) list"

definition read_proc_entry :: "os_files \<Rightarrow> u32 \<Rightarrow> (host, 'e, (string \<times> u64 \<times> f64) option) io" where
  "read_proc_entry os pid =
     (let dir = ''/proc/'' @ dec (unat pid) in
      bind_io (os_text os (dir @ ''/stat'')) (\<lambda>r.
        case (case r of Inl e \<Rightarrow> None | Inr t \<Rightarrow> parse_proc_stat_jiffies t) of
          None \<Rightarrow> ret None
        | Some jiffies \<Rightarrow>
            bind_io (os_text os (dir @ ''/comm'')) (\<lambda>c.
            bind_io (read_vm_rss_mb os pid) (\<lambda>mem.
              ret (Some (trim (case c of Inl e \<Rightarrow> ''unknown'' | Inr t \<Rightarrow> t), jiffies, unwrap_or mem (Fin 0)))))))"

fun snapshot_entries :: "os_files \<Rightarrow> string list \<Rightarrow> proc_table \<Rightarrow> (host, 'e, proc_table) io" where
  "snapshot_entries os [] tab = ret tab"
| "snapshot_entries os (name # names) tab =
     (let shown = utf8_lossy name in
      case (if list_all is_digit shown then parse_u32 shown else None) of
        None \<Rightarrow> snapshot_entries os names tab
      | Some pid \<Rightarrow>
          bind_io (read_proc_entry os pid) (\<lambda>r.
            case r of
              None \<Rightarrow> snapshot_entries os names tab
            | Some entry \<Rightarrow>
                (let tab' = AList.update pid entry tab
                 in if 256 \<le> length tab' then ret tab' else snapshot_entries os names tab')))"

definition snapshot_process_cpu :: "os_files \<Rightarrow> (host, tool_error, proc_table) io" where
  "snapshot_process_cpu os =
     bind_io (os_dir os ''/proc'') (\<lambda>r.
       case r of Inl e \<Rightarrow> raise (Execution e) | Inr names \<Rightarrow> snapshot_entries os names [])"

definition share_of :: "f64 \<Rightarrow> f64 \<Rightarrow> u64 \<Rightarrow> u64 \<Rightarrow> f64" where
  "share_of total_delta ncpus j1 j2 =
     f64_clamp (Fin 0) (f64_mul (Fin 100) ncpus)
       (f64_mul (f64_mul (f64_div (f64_of_u64 (saturating_sub j2 j1)) total_delta) ncpus) (Fin 100))"

definition process_row :: "f64 \<Rightarrow> f64 \<Rightarrow> proc_table \<Rightarrow> u32 \<times> string \<times> u64 \<times> f64 \<Rightarrow> process_info option" where
  "process_row total_delta ncpus sample2 =
     (\<lambda>(pid, name, j1, mem1).
        map_option (\<lambda>(name2, j2, mem2).
          \<lparr>pi_pid = pid, pi_name = name, pi_cpu = one_decimal (share_of total_delta ncpus j1 j2),
           pi_mem_mb = f64_max mem2 mem1\<rparr>)
          (map_of sample2 pid))"

definition rank_processes :: "process_info list \<Rightarrow> process_info list" where
  "rank_processes ps = take 32 (sort_key (\<lambda>p. Reverse (pi_cpu p)) ps)"

definition linux_processes :: "os_files \<Rightarrow> (host, tool_error, process_info list) io" where
  "linux_processes os =
     bind_io (read_total_jiffies os) (\<lambda>t1.
     bind_io (snapshot_process_cpu os) (\<lambda>sample1.
     bind_io (read_total_jiffies os) (\<lambda>t2.
     bind_io (snapshot_process_cpu os) (\<lambda>sample2.
       let total1 = unwrap_or t1 0;
           total2 = unwrap_or t2 total1;
           total_delta = f64_of_u64 (max (saturating_sub total2 total1) 1);
           ncpus = (case of_cpus os of None \<Rightarrow> Fin 1 | Some n \<Rightarrow> f64_of_nat n)
       in ret (rank_processes (List.map_filter (process_row total_delta ncpus sample2) (of_order os sample1)))))))"

section \<open>Network\<close>

fun inet_addr :: "string list \<Rightarrow> string option" where
  "inet_addr [] = None"
| "inet_addr (w # ws) = (if w = ''inet'' then (case ws of [] \<Rightarrow> None | a # rest \<Rightarrow> Some a) else inet_addr ws)"

definition read_iface_ipv4 :: "os_files \<Rightarrow> string \<Rightarrow> (host, 'e, string list) io" where
  "read_iface_ipv4 os name =
     bind_io (os_command os [''ip'', ''-4'', ''-o'', ''addr'', ''show'', ''dev'', name]) (\<lambda>r.
       ret (case r of
              Inl e \<Rightarrow> []
            | Inr (good, out, err) \<Rightarrow> List.map_filter (\<lambda>l. inet_addr (words l)) (text_lines (utf8_lossy out))))"

text \<open>\<open>u32::from_str_radix(gw, 16)\<close> and the bytes from the least significant one.\<close>

definition hex_digit :: "char \<Rightarrow> nat option" where
  "hex_digit c =
     (let n = of_char c :: nat
      in if 48 \<le> n \<and> n \<le> 57 then Some (n - 48)
         else if 97 \<le> n \<and> n \<le> 102 then Some (n - 87)
         else if 65 \<le> n \<and> n \<le> 70 then Some (n - 55) else None)"

definition parse_hex_u32 :: "string \<Rightarrow> u32 option" where
  "parse_hex_u32 s =
     (let ds = (if starts_with s ''+'' then tl s else s);
          v = foldl (\<lambda>n c. 16 * n + unwrap_or (hex_digit c) 0) 0 ds
      in if ds \<noteq> [] \<and> list_all (\<lambda>c. hex_digit c \<noteq> None) ds \<and> v < 2 ^ 32 then Some (of_nat v) else None)"

definition dotted :: "u32 \<Rightarrow> string" where
  "dotted n = join ''.'' (map (\<lambda>k. dec (unat (drop_bit (8 * k) n) mod 256)) [0, 1, 2, 3])"

fun gateway_lines :: "string list \<Rightarrow> string option" where
  "gateway_lines [] = None"
| "gateway_lines (l # ls) =
     (case words l of
        iface # dest # gw # rest \<Rightarrow>
          if dest = ''00000000''
          then (case parse_hex_u32 gw of Some n \<Rightarrow> Some (dotted n) | None \<Rightarrow> gateway_lines ls)
          else gateway_lines ls
      | _ \<Rightarrow> gateway_lines ls)"

definition read_default_gateway :: "os_files \<Rightarrow> (host, 'e, string option) io" where
  "read_default_gateway os =
     bind_io (os_text os ''/proc/net/route'') (\<lambda>r.
       ret (case r of Inl e \<Rightarrow> None | Inr t \<Rightarrow> gateway_lines (drop 1 (text_lines t))))"

definition counter_json :: "string + string \<Rightarrow> json" where
  "counter_json r =
     opt_json (\<lambda>n. Number (PosInt n)) (case r of Inl e \<Rightarrow> None | Inr t \<Rightarrow> parse_u64 (trim t))"

definition read_interface :: "os_files \<Rightarrow> string \<Rightarrow> (host, 'e, json) io" where
  "read_interface os entry =
     (let name = utf8_lossy entry; path = ''/sys/class/net/'' @ entry in
      bind_io (os_text os (path @ ''/operstate'')) (\<lambda>oper.
      bind_io (os_text os (path @ ''/statistics/rx_bytes'')) (\<lambda>rx.
      bind_io (os_text os (path @ ''/statistics/tx_bytes'')) (\<lambda>tx.
      bind_io (read_iface_ipv4 os name) (\<lambda>ipv4.
        ret (Object [(''name'', String name),
          (''operstate'', String (trim (case oper of Inl e \<Rightarrow> ''unknown'' | Inr t \<Rightarrow> t))),
          (''ipv4'', strings_json ipv4), (''rx_bytes'', counter_json rx), (''tx_bytes'', counter_json tx)]))))))"

definition linux_network :: "os_files \<Rightarrow> (host, tool_error, json) io" where
  "linux_network os =
     bind_io (os_exists os ''/sys/class/net'') (\<lambda>there.
     bind_io (if there then os_dir os ''/sys/class/net'' else ret (Inl [])) (\<lambda>r.
     bind_io (collect (\<lambda>e. bind_io (read_interface os e) (\<lambda>i. ret (Some i)))
       (case r of Inl e \<Rightarrow> [] | Inr names \<Rightarrow> names)) (\<lambda>interfaces.
     bind_io (read_default_gateway os) (\<lambda>route.
       ret (Object
         [(''online'', Bool (list_ex (\<lambda>i. get i ''operstate'' = Some (String ''up'')) interfaces)),
          (''source'', String ''linux''), (''interfaces'', Array interfaces),
          (''default_route'', opt_json String route)])))))"

section \<open>Disk\<close>

definition number_or :: "f64 \<Rightarrow> string \<Rightarrow> f64" where
  "number_or d s = unwrap_or (parse_f64 s) d"

definition to_megabytes :: "f64 \<Rightarrow> f64" where
  "to_megabytes kb = one_decimal (f64_div kb (Fin 1024))"

definition used_percent :: "string \<Rightarrow> f64 \<Rightarrow> f64 \<Rightarrow> f64" where
  "used_percent col tot used =
     (case parse_f64 (strip_all_end col ''%'') of
        Some v \<Rightarrow> v
      | None \<Rightarrow> if f64_gt tot (Fin 0) then f64_mul (f64_div used tot) (Fin 100) else Fin 0)"

text \<open>One line of the table: the mount point, its row and its use in percent.\<close>

definition mount_row :: "string list \<Rightarrow> (string \<times> json \<times> f64) option" where
  "mount_row cols =
     (if length cols < 6 then None
      else (let path = cols ! 5;
                tot = number_or (Fin 0) (strip_all_end (cols ! 1) ''K'');
                used = number_or (Fin 0) (strip_all_end (cols ! 2) ''K'');
                avail = number_or (Fin 0) (strip_all_end (cols ! 3) ''K'');
                pct = used_percent (cols ! 4) tot used
            in Some (path,
                 Object [(''path'', String path), (''total_mb'', f64_json (to_megabytes tot)),
                         (''used_mb'', f64_json (to_megabytes used)),
                         (''avail_mb'', f64_json (to_megabytes avail)), (''used_pct'', f64_json pct)], pct)))"

text \<open>The loop over the lines: a mount point counts once, at its first line.\<close>

fun mount_lines :: "string list \<Rightarrow> string list \<Rightarrow> json list \<times> f64 option \<Rightarrow> json list \<times> f64 option" where
  "mount_lines [] seen acc = acc"
| "mount_lines (l # ls) seen (mounts, slash) =
     (case mount_row (words l) of
        None \<Rightarrow> mount_lines ls seen (mounts, slash)
      | Some (path, row, pct) \<Rightarrow>
          if path \<in> set seen then mount_lines ls seen (mounts, slash)
          else mount_lines ls (path # seen) (mounts @ [row], if path = ''/'' then Some pct else slash))"

definition linux_disk :: "os_files \<Rightarrow> (host, tool_error, json) io" where
  "linux_disk os =
     bind_io (os_command os [''df'', ''-Bk'', ''/'', ''/home'', ''/var'', ''/tmp'']) (\<lambda>r.
       ret (case r of
              Inl e \<Rightarrow> Object [(''source'', String ''linux''), (''mounts'', Array []), (''root_used_pct'', Null),
                              (''error'', String ''df unavailable'')]
            | Inr (good, out, err) \<Rightarrow>
                (case mount_lines (drop 1 (text_lines (utf8_lossy out))) [] ([], None) of (mounts, slash) \<Rightarrow>
                   Object [(''source'', String ''linux''), (''mounts'', Array mounts),
                           (''root_used_pct'', opt_json f64_json slash)])))"

section \<open>Temperature\<close>

definition celsius_of :: "f64 \<Rightarrow> f64" where
  "celsius_of raw = (if f64_gt raw (Fin 1000) then f64_div raw (Fin 1000) else raw)"

definition zone_json :: "string \<Rightarrow> f64 \<Rightarrow> json" where
  "zone_json name raw = Object [(''name'', String name), (''celsius'', f64_json (one_decimal (celsius_of raw)))]"

definition reading :: "string + string \<Rightarrow> f64 option" where
  "reading r = (case r of Inl e \<Rightarrow> None | Inr t \<Rightarrow> parse_f64 (trim t))"

definition read_zone :: "os_files \<Rightarrow> string \<Rightarrow> (host, 'e, json option) io" where
  "read_zone os entry =
     (let name = utf8_lossy entry; dir = ''/sys/class/thermal/'' @ entry in
      if \<not> starts_with name ''thermal_zone'' then ret None
      else bind_io (os_text os (dir @ ''/temp'')) (\<lambda>temp.
        case reading temp of
          None \<Rightarrow> ret None
        | Some raw \<Rightarrow>
            bind_io (os_text os (dir @ ''/type'')) (\<lambda>ty.
              ret (Some (zone_json (trim (case ty of Inl e \<Rightarrow> name | Inr t \<Rightarrow> t)) raw)))))"

definition read_hwmon :: "os_files \<Rightarrow> string \<Rightarrow> (host, 'e, json option) io" where
  "read_hwmon os entry =
     (let dir = ''/sys/class/hwmon/'' @ entry in
      bind_io (os_text os (dir @ ''/name'')) (\<lambda>label.
      bind_io (os_text os (dir @ ''/temp1_input'')) (\<lambda>temp.
        ret (map_option (zone_json (trim (case label of Inl e \<Rightarrow> ''hwmon'' | Inr t \<Rightarrow> t))) (reading temp)))))"

definition read_entries :: "os_files \<Rightarrow> string \<Rightarrow> (string \<Rightarrow> (host, 'e, json option) io) \<Rightarrow> (host, 'e, json list) io" where
  "read_entries os dir f =
     bind_io (os_exists os dir) (\<lambda>there.
       if there
       then bind_io (os_dir os dir) (\<lambda>r. case r of Inl e \<Rightarrow> ret [] | Inr names \<Rightarrow> collect f names)
       else ret [])"

definition hottest :: "json list \<Rightarrow> f64 option" where
  "hottest zones =
     foldl (\<lambda>acc v. Some (case acc of None \<Rightarrow> v | Some a \<Rightarrow> f64_max a v)) None
       (List.map_filter (\<lambda>z. Option.bind (get z ''celsius'') as_f64) zones)"

definition linux_temperature :: "os_files \<Rightarrow> (host, tool_error, json) io" where
  "linux_temperature os =
     bind_io (read_entries os ''/sys/class/thermal'' (read_zone os)) (\<lambda>zones0.
     bind_io (if zones0 = [] then read_entries os ''/sys/class/hwmon'' (read_hwmon os) else ret zones0) (\<lambda>zones.
       ret (Object [(''source'', String ''linux''), (''celsius'', opt_json f64_json (hottest zones)),
                    (''zones'', Array zones)])))"

section \<open>Journal\<close>

definition journal_args :: "nat \<Rightarrow> string option \<Rightarrow> string list" where
  "journal_args n unit =
     [''journalctl'', ''-n'', dec n, ''--no-pager'', ''-o'', ''short-iso'']
     @ (case unit of None \<Rightarrow> [] | Some u \<Rightarrow> if u = [] then [] else [''-u'', u])"

definition journal_failed :: "string \<Rightarrow> json" where
  "journal_failed err =
     Object [(''source'', String ''linux''), (''lines'', Array []), (''count'', nat_json 0), (''error'', String err)]"

definition linux_journal :: "os_files \<Rightarrow> nat \<Rightarrow> string option \<Rightarrow> (host, tool_error, json) io" where
  "linux_journal os requested unit =
     (let n = min (max requested 1) 200 in
      bind_io (os_command os (journal_args n unit)) (\<lambda>r.
        case r of
          Inl e \<Rightarrow> ret (journal_failed e)
        | Inr (good, out, err) \<Rightarrow>
            if good \<or> out \<noteq> []
            then (let entries = filter (\<lambda>l. l \<noteq> []) (text_lines (utf8_lossy out))
                  in ret (Object [(''source'', String ''linux''), (''lines'', strings_json entries),
                                  (''count'', nat_json (length entries)), (''unit'', opt_json String unit)]))
            else (let msg = trim (utf8_lossy err) in
              bind_io (os_command os [''dmesg'', ''-T'']) (\<lambda>d.
                case d of
                  Inr (good2, out2, err2) \<Rightarrow>
                    (let entries = last_n n (text_lines (utf8_lossy out2))
                     in ret (Object [(''source'', String ''dmesg''), (''lines'', strings_json entries),
                                     (''count'', nat_json (length entries)), (''journalctl_error'', String msg)]))
                | Inl e \<Rightarrow> ret (journal_failed msg)))))"

section \<open>Only the count of accesses changes\<close>

definition os_reads_climb :: "(host \<Rightarrow> host \<Rightarrow> bool) \<Rightarrow> bool" where
  "os_reads_climb R \<longleftrightarrow> (\<forall>h n. R h (h\<lparr>os_next := n\<rparr>))"

lemma os_access_climbs: "os_reads_climb R \<Longrightarrow> climbs R (os_access f)"
  by (simp add: os_reads_climb_def climbs_def os_access_def)

text \<open>Every reader is built from accesses, sequencing and branching.\<close>

locale os_frame = state_preorder R for R :: "host \<Rightarrow> host \<Rightarrow> bool" +
  assumes reads_climb: "os_reads_climb R"
begin

lemma access [climbs_intros]:
  "climbs R (os_text os path)" "climbs R (os_dir os path)" "climbs R (os_exists os path)"
  "climbs R (os_command os argv)"
  by (simp_all add: os_text_def os_dir_def os_exists_def os_command_def os_access_climbs reads_climb)

lemma collect_climbs [climbs_intros]: "(\<And>x. climbs R (f x)) \<Longrightarrow> climbs R (collect f xs)"
  by (induction xs) (auto intro!: climbs_intros)

lemma metrics_climbs: "climbs R (linux_metrics os)"
  by (auto simp: linux_metrics_def read_meminfo_def sample_cpu_usage_def read_cpu_times_def Let_def
      split: sum.split option.split intro!: climbs_intros)

lemma entry_climbs [climbs_intros]: "climbs R (read_proc_entry os pid)"
  by (auto simp: read_proc_entry_def read_vm_rss_mb_def Let_def split: option.split intro!: climbs_intros)

lemma entries_climb [climbs_intros]: "climbs R (snapshot_entries os names tab)"
  by (induction os names tab rule: snapshot_entries.induct)
    (auto simp: Let_def split: option.split intro!: climbs_intros)

lemma processes_climbs: "climbs R (linux_processes os)"
  by (auto simp: linux_processes_def read_total_jiffies_def snapshot_process_cpu_def Let_def
      split: sum.split intro!: climbs_intros)

lemma network_climbs: "climbs R (linux_network os)"
  by (auto simp: linux_network_def read_interface_def read_iface_ipv4_def read_default_gateway_def Let_def
      intro!: climbs_intros)

lemma disk_climbs: "climbs R (linux_disk os)"
  unfolding linux_disk_def by (intro climbs_intros)

lemma read_entries_climb [climbs_intros]: "(\<And>e. climbs R (f e)) \<Longrightarrow> climbs R (read_entries os dir f)"
  by (auto simp: read_entries_def split: sum.split intro!: climbs_intros)

lemma temperature_climbs: "climbs R (linux_temperature os)"
  by (auto simp: linux_temperature_def read_zone_def read_hwmon_def Let_def split: option.split intro!: climbs_intros)

lemma journal_climbs: "climbs R (linux_journal os n u)"
  by (auto simp: linux_journal_def Let_def split: sum.split intro!: climbs_intros)

end

end
