(* ===== verification/SystemTools.thy ===== *)
theory SystemTools
  imports LinuxReaders
begin

text \<open>
  \<open>crates/system-tools\<close>: the Linux backend (the readers of LinuxReaders and the kill path, \<open>real_kill\<close>),
  the seven tools over a backend, and the registry the service builds from them. Every signal that reaches
  the kill command is recorded in \<open>signals\<close> of the host.
\<close>

text \<open>The process of the runtime, what procfs knows of processes, the outcome of the kill command (it cannot be
  started, or it ends with a status), and the files and commands the readers use.\<close>

record os_probes =
  os_self :: u32
  os_proc_exists :: "host \<Rightarrow> u32 \<Rightarrow> bool"
  os_kill_status :: "host \<Rightarrow> u32 \<Rightarrow> string \<Rightarrow> string + (bool \<times> string)"
  os_sys :: os_files

definition real_kill :: "ext \<Rightarrow> os_probes \<Rightarrow> u32 \<Rightarrow> string \<Rightarrow> (host, tool_error, json) io" where
  "real_kill x os pid signal =
     (if pid \<le> 1 then raise (InvalidArgs ''refusing to signal pid <= 1'')
      else if pid = os_self os
      then raise (InvalidArgs ''refusing to signal the saaios-runtime process'')
      else (case normalize_signal x signal of
          Inl e \<Rightarrow> raise e
        | Inr sig \<Rightarrow>
            bind_io (reads (\<lambda>h. os_proc_exists os h pid)) (\<lambda>ex.
              if \<not> ex then raise (Execution (''pid '' @ dec (unat pid) @ '' not found''))
              else bind_io (reads (\<lambda>h. os_kill_status os h pid sig)) (\<lambda>st.
                case st of
                  Inl msg \<Rightarrow> raise (Execution msg)
                | Inr (good, status) \<Rightarrow>
                    bind_io (modifies (\<lambda>h. h\<lparr>signals := signals h @ [(pid, sig)]\<rparr>)) (\<lambda>_.
                      if good
                      then ret (Object [(''killed'', Bool True), (''dry_run'', Bool False),
                             (''pid'', u32_json pid), (''signal'', String sig), (''mode'', String ''linux'')])
                      else raise (Execution (''kill -'' @ sig @ '' '' @ dec (unat pid) @ '' failed with '' @ status)))))))"

definition linux_backend :: "ext \<Rightarrow> os_probes \<Rightarrow> system_backend" where
  "linux_backend x os =
     \<lparr>sb_metrics = linux_metrics (os_sys os), sb_processes = linux_processes (os_sys os),
      sb_network_status = linux_network (os_sys os), sb_disk = linux_disk (os_sys os),
      sb_temperature = linux_temperature (os_sys os), sb_journal = linux_journal (os_sys os),
      sb_kill = real_kill x os\<rparr>"

section \<open>The tools\<close>

definition read_tool :: "string \<Rightarrow> string \<Rightarrow> u64 \<Rightarrow> json \<Rightarrow> tool_spec" where
  "read_tool name description timeout schema =
     \<lparr>ts_name = name, ts_description = description, ts_risk = Low, ts_timeout_ms = timeout,
      ts_input_schema = schema, ts_output_schema = object_schema, ts_requires_confirmation = False\<rparr>"

definition no_args_schema :: json where
  "no_args_schema = Object [(''type'', String ''object''), (''properties'', Object [])]"

definition metrics_tool :: "system_backend \<Rightarrow> tool_executor" where
  "metrics_tool b =
     \<lparr>te_spec = read_tool ''system.metrics'' ''Collect CPU, memory and load metrics'' 2000 no_args_schema,
      te_execute = (\<lambda>args ctx. bind_io (sb_metrics b) (\<lambda>m. ret (ok_output (system_metrics_json m))))\<rparr>"

definition process_list_tool :: "system_backend \<Rightarrow> tool_executor" where
  "process_list_tool b =
     \<lparr>te_spec = read_tool ''process.list'' ''List running processes with CPU usage'' 3000 no_args_schema,
      te_execute = (\<lambda>args ctx. bind_io (sb_processes b) (\<lambda>ps.
        ret (ok_output (Object [(''processes'', Array (map process_info_json ps))]))))\<rparr>"

definition network_status_tool :: "system_backend \<Rightarrow> tool_executor" where
  "network_status_tool b =
     \<lparr>te_spec = read_tool ''network.status'' ''Basic network status'' 2000 no_args_schema,
      te_execute = (\<lambda>args ctx. bind_io (sb_network_status b) (\<lambda>v. ret (ok_output v)))\<rparr>"

definition disk_tool :: "system_backend \<Rightarrow> tool_executor" where
  "disk_tool b =
     \<lparr>te_spec = read_tool ''system.disk'' ''Disk usage for root and key mounts'' 2000 no_args_schema,
      te_execute = (\<lambda>args ctx. bind_io (sb_disk b) (\<lambda>v. ret (ok_output v)))\<rparr>"

definition temperature_tool :: "system_backend \<Rightarrow> tool_executor" where
  "temperature_tool b =
     \<lparr>te_spec = read_tool ''system.temperature'' ''Read thermal sensors (CPU/SoC zones when available)'' 2000
        no_args_schema,
      te_execute = (\<lambda>args ctx. bind_io (sb_temperature b) (\<lambda>v. ret (ok_output v)))\<rparr>"

definition journal_tool :: "system_backend \<Rightarrow> tool_executor" where
  "journal_tool b =
     \<lparr>te_spec = read_tool ''system.journal'' ''Tail recent system journal / log lines'' 4000
        (Object [(''type'', String ''object''),
           (''properties'', Object
              [(''lines'', Object [(''type'', String ''integer''), (''minimum'', nat_json 1), (''maximum'', nat_json 200)]),
               (''unit'', string_schema)])]),
      te_execute = (\<lambda>args ctx.
        bind_io (sb_journal b (unat (unwrap_or (get_u64 args ''lines'') 40)) (get_str args ''unit'')) (\<lambda>v.
          ret (ok_output v)))\<rparr>"

definition kill_spec :: tool_spec where
  "kill_spec =
     \<lparr>ts_name = ''process.kill_request'',
      ts_description = ''Send a signal to a process (default SIGTERM). Requires confirmation.'',
      ts_risk = High, ts_timeout_ms = 2000,
      ts_input_schema = Object
        [(''type'', String ''object''),
         (''properties'', Object
            [(''pid'', Object [(''type'', String ''integer'')]),
             (''signal'', Object [(''type'', String ''string''),
                (''description'', String ''TERM|KILL|HUP|INT (default TERM)'')])]),
         (''required'', strings_json [''pid''])],
      ts_output_schema = object_schema, ts_requires_confirmation = True\<rparr>"

text \<open>The process identifier is read as 64 bits and cut to 32.\<close>

definition kill_execute :: "system_backend \<Rightarrow> json \<Rightarrow> tool_context \<Rightarrow> (host, tool_error, tool_output) io" where
  "kill_execute b args ctx =
     (case get_u64 args ''pid'' of
        None \<Rightarrow> raise (InvalidArgs ''pid required'')
      | Some pid64 \<Rightarrow>
          bind_io (sb_kill b (ucast pid64) (unwrap_or (get_str args ''signal'') ''TERM'')) (\<lambda>v.
            ret (ok_output v)))"

definition kill_tool :: "system_backend \<Rightarrow> tool_executor" where
  "kill_tool b = \<lparr>te_spec = kill_spec, te_execute = kill_execute b\<rparr>"

definition system_tools :: "system_backend \<Rightarrow> tool_executor list" where
  "system_tools b =
     [metrics_tool b, process_list_tool b, network_status_tool b, disk_tool b, temperature_tool b,
      journal_tool b, kill_tool b]"

definition install_system_tools :: "ext \<Rightarrow> os_probes \<Rightarrow> tools_mode \<Rightarrow> tool_registry \<Rightarrow> tool_registry" where
  "install_system_tools x os mode r =
     fold register (system_tools (case mode of MockTools \<Rightarrow> mock_backend | RealLinux \<Rightarrow> linux_backend x os)) r"

section \<open>Signals\<close>

lemma normalize_signal_allowed: "normalize_signal x s = Inr sig \<Longrightarrow> sig \<in> set allowed_signals"
  by (auto simp: normalize_signal_def allowed_signals_def Let_def split: if_splits)

definition same_signals :: "host \<Rightarrow> host \<Rightarrow> bool" where
  "same_signals h h' \<longleftrightarrow> signals h' = signals h"

text \<open>Only processes other than init and the runtime itself are signalled, and with known signals.\<close>

definition sane_signals :: "os_probes \<Rightarrow> host \<Rightarrow> host \<Rightarrow> bool" where
  "sane_signals os h h' \<longleftrightarrow>
     (\<exists>new. signals h' = signals h @ new
        \<and> (\<forall>(pid, sig) \<in> set new. 1 < pid \<and> pid \<noteq> os_self os \<and> sig \<in> set allowed_signals))"

lemma same_sane: "same_signals h h' \<Longrightarrow> sane_signals os h h'"
  by (auto simp: same_signals_def sane_signals_def)

interpretation same_signals: state_preorder same_signals
  by unfold_locales (auto simp: same_signals_def)

interpretation sane_signals: state_preorder "sane_signals os" for os
proof unfold_locales
  fix s t u
  assume "sane_signals os s t" and "sane_signals os t u"
  then obtain ms ns where
    "signals t = signals s @ ms" "\<forall>(pid, sig) \<in> set ms. 1 < pid \<and> pid \<noteq> os_self os \<and> sig \<in> set allowed_signals"
    "signals u = signals t @ ns" "\<forall>(pid, sig) \<in> set ns. 1 < pid \<and> pid \<noteq> os_self os \<and> sig \<in> set allowed_signals"
    by (auto simp: sane_signals_def)
  then show "sane_signals os s u"
    unfolding sane_signals_def by (intro exI [of _ "ms @ ns"]) auto
qed (simp add: same_sane same_signals_def)

lemma real_kill_sane: "climbs (sane_signals os) (real_kill x os pid signal)"
proof -
  have send: "climbs (sane_signals os) (modifies (\<lambda>h. h\<lparr>signals := signals h @ [(pid, sig)]\<rparr>) :: (host, tool_error, unit) io)"
    if "1 < pid" "pid \<noteq> os_self os" "sig \<in> set allowed_signals" for sig
    using that by (auto simp: climbs_def modifies_def sane_signals_def)
  show ?thesis
    unfolding real_kill_def
    by (auto split: sum.split intro!: climbs_intros send dest: normalize_signal_allowed)
qed

lemma mock_kill_same: "climbs same_signals (mock_kill pid signal)"
  unfolding mock_kill_def by (auto intro!: climbs_intros)

section \<open>Tools and preorders on the host\<close>

definition readers_climb :: "(host \<Rightarrow> host \<Rightarrow> bool) \<Rightarrow> system_backend \<Rightarrow> bool" where
  "readers_climb R b \<longleftrightarrow>
     climbs R (sb_metrics b) \<and> climbs R (sb_processes b) \<and> climbs R (sb_network_status b)
     \<and> climbs R (sb_disk b) \<and> climbs R (sb_temperature b) \<and> (\<forall>n u. climbs R (sb_journal b n u))"

lemma mock_readers_climb: "state_preorder R \<Longrightarrow> readers_climb R mock_backend"
  by (simp add: readers_climb_def mock_backend_def state_preorder.climbs_ret)

lemma linux_readers_climb: "state_preorder R \<Longrightarrow> os_reads_climb R \<Longrightarrow> readers_climb R (linux_backend x os)"
  by (simp add: readers_climb_def linux_backend_def os_frame.metrics_climbs os_frame.processes_climbs
      os_frame.network_climbs os_frame.disk_climbs os_frame.temperature_climbs os_frame.journal_climbs
      os_frame_def os_frame_axioms_def)

lemma system_tools_climb:
  assumes "state_preorder R" and "readers_climb R b" and "t \<in> set (system_tools b)"
    and "ts_name (te_spec t) = ''process.kill_request'' \<longrightarrow> (\<forall>pid s. climbs R (sb_kill b pid s))"
  shows "climbs R (te_execute t args ctx)"
proof -
  note rules = state_preorder.climbs_bind [OF assms(1)] state_preorder.climbs_ret [OF assms(1)]
    state_preorder.climbs_raise [OF assms(1)]
  from assms(3) consider "t = metrics_tool b" | "t = process_list_tool b" | "t = network_status_tool b"
    | "t = disk_tool b" | "t = temperature_tool b" | "t = journal_tool b" | "t = kill_tool b"
    by (auto simp: system_tools_def)
  then show ?thesis
  proof cases
    case 7
    with assms(4) have "\<And>pid s. climbs R (sb_kill b pid s)" by (simp add: kill_tool_def kill_spec_def)
    then show ?thesis
      using 7 by (auto simp: kill_tool_def kill_execute_def split: option.split intro!: rules)
  qed (use assms(2) in \<open>auto simp: readers_climb_def metrics_tool_def process_list_tool_def
         network_status_tool_def disk_tool_def temperature_tool_def journal_tool_def intro!: rules\<close>)
qed

section \<open>The registry of the program\<close>

text \<open>What the service installs at start: the system tools, and the memory tools when there is a store.\<close>

definition boot_registry ::
  "ext \<Rightarrow> os_probes \<Rightarrow> tools_mode \<Rightarrow> (memory_fact list \<Rightarrow> memory_fact list) \<Rightarrow> memory_store option \<Rightarrow> tool_registry" where
  "boot_registry x os mode it mem =
     (let r = install_system_tools x os mode registry_new
      in case mem of None \<Rightarrow> r | Some ms \<Rightarrow> install_memory_tools it x ms r)"

definition mode_backend :: "ext \<Rightarrow> os_probes \<Rightarrow> tools_mode \<Rightarrow> system_backend" where
  "mode_backend x os mode = (case mode of MockTools \<Rightarrow> mock_backend | RealLinux \<Rightarrow> linux_backend x os)"

lemma fold_register_get:
  "registry_get (fold register ts r) n = Some t \<Longrightarrow> t \<in> set ts \<or> registry_get r n = Some t"
proof (induction ts arbitrary: r)
  case (Cons a ts)
  then have "t \<in> set ts \<or> registry_get (register a r) n = Some t" by simp
  then show ?case by (auto simp: registry.lookup_insert split: if_splits)
qed simp

lemma boot_registry_get:
  assumes "registry_get (boot_registry x os mode it mem) n = Some t"
  shows "t \<in> set (system_tools (mode_backend x os mode)) \<or> (\<exists>ms. mem = Some ms \<and> t \<in> set (memory_tools it x ms))"
  using assms
  by (auto simp: boot_registry_def install_system_tools_def install_memory_tools_def mode_backend_def Let_def
      split: option.splits dest!: fold_register_get)

lemma boot_registry_wf: "registry_wf (boot_registry x os mode it mem)"
  by (auto simp: boot_registry_def install_system_tools_def install_memory_tools_def Let_def
      intro!: register_list_wf registry_wf_new split: option.split)

text \<open>A preorder that drawing an identifier, reading the clock and accessing the operating system climb.\<close>

definition draws_climb :: "(host \<Rightarrow> host \<Rightarrow> bool) \<Rightarrow> bool" where
  "draws_climb R \<longleftrightarrow>
     (\<forall>h n. R h (h\<lparr>uuid_next := n\<rparr>) \<and> R h (h\<lparr>clock_next := n\<rparr>) \<and> R h (h\<lparr>os_next := n\<rparr>))"

lemma draws_climb_new_v4: "draws_climb R \<Longrightarrow> climbs R new_v4"
  by (simp add: draws_climb_def climbs_def new_v4_def)

lemma draws_climb_utc_now: "draws_climb R \<Longrightarrow> climbs R utc_now"
  by (simp add: draws_climb_def climbs_def utc_now_def)

lemma mode_readers_climb:
  assumes "state_preorder R" and "draws_climb R"
  shows "readers_climb R (mode_backend x os mode)"
proof -
  have "os_reads_climb R" using assms(2) by (simp add: draws_climb_def os_reads_climb_def)
  then show ?thesis
    using assms(1) by (cases mode) (simp_all add: mode_backend_def mock_readers_climb linux_readers_climb)
qed

lemma draws_same_signals: "draws_climb same_signals"
  by (simp add: draws_climb_def same_signals_def)

text \<open>The memory tools touch nothing but the memory file and the sources of identifiers and time.\<close>

lemma same_signals_host [climbs_intros]:
  "climbs same_signals new_v4" "climbs same_signals utc_now"
  "climbs same_signals (append_record enc f r)" "climbs same_signals (read_records d f path)"
  by (auto simp: climbs_def same_signals_def new_v4_def utc_now_def append_record_def write_all_def
      read_records_def read_file_def io_defs Let_def split: write_outcome.split sum.split)

lemma memory_tools_climb:
  assumes "state_preorder R" and "draws_climb R"
    and "\<And>f. climbs R (memory_append x f)" and "\<And>m. climbs R (memory_read_all x m)"
    and "t \<in> set (memory_tools it x ms)"
  shows "climbs R (te_execute t args ctx)"
proof -
  note rules = state_preorder.climbs_bind [OF assms(1)] state_preorder.climbs_ret [OF assms(1)]
    state_preorder.climbs_raise [OF assms(1)] state_preorder.climbs_map_err [OF assms(1)] draws_climb_new_v4 [OF assms(2)]
    draws_climb_utc_now [OF assms(2)] assms(3,4)
  have req: "climbs R (require_str args k)" for k
    by (auto simp: require_str_def split: option.split intro!: rules)
  have new: "climbs R (fact_new k v :: (host, tool_error, memory_fact) io)" for k v
    unfolding fact_new_def by (intro rules)
  have rem: "climbs R (remember x f)" for f
    unfolding remember_def by (auto intro!: rules)
  have latest: "climbs R (latest_by_key it x ms)"
    unfolding latest_by_key_def by (intro rules)
  have rec: "climbs R (recall it x ms q)" for q
    by (auto simp: recall_def list_recent_def Let_def intro!: rules latest)
  have fgt: "climbs R (forget it x ms k)" for k
    by (auto simp: forget_def Let_def split: option.split intro!: rules latest)
  from assms(5) consider "te_execute t = remember_execute x" | "te_execute t = recall_execute it x ms"
    | "te_execute t = forget_execute it x ms"
    by (auto simp: memory_tools_def)
  then show ?thesis
    by cases (auto simp: remember_execute_def recall_execute_def forget_execute_def Let_def
        intro!: rules req new rem rec fgt)
qed

end
