(* ===== verification/RuntimeSafety.thy ===== *)
theory RuntimeSafety
  imports AiRuntime SystemTools
begin

text \<open>
  What a user request and a confirmation can do to the state. The locale \<open>runtime_frame\<close> collects
  what the primitive steps of the runtime must respect for a preorder on states to be climbed by a whole
  request; its instances give the safety properties: grants and slots are not touched, everything
  published is in the audit file, only permitted calls reach a tool.
\<close>

section \<open>The frame of a request\<close>

locale runtime_frame = state_preorder Q
  for Q :: "runtime_state \<Rightarrow> runtime_state \<Rightarrow> bool" +
  fixes x :: ext
    and rt :: ai_runtime
    and corr :: uuid
    and ok :: "policy_engine \<Rightarrow> bool"
  assumes record_ok: "k \<noteq> Event \<Longrightarrow> climbs Q (record_event x k corr p j)"
    and emit_ok: "climbs Q (emit_progress w ev :: unit rt)"
    and model_ok: "climbs Q (model_call (ai_provider rt) w msgs tools)"
    and policy_ok: "(\<And>pol. ok pol \<Longrightarrow> climbs Q (f pol)) \<Longrightarrow> climbs Q (bind_io (reads a_policy) f :: flow rt)"
    and tool_ok: "ok pol \<Longrightarrow> pd_verdict (runtime_decide x (ai_tools rt) pol n args) = Allow \<Longrightarrow>
      climbs Q (awaiting (map_err tool_error_text (registry_execute (ai_tools rt) n args ctx)))"
    and persist_ok: "climbs Q (persist_history sid ms)"
    and context_ok: "climbs Q (memory_context x rt)"
begin

lemma push_ok: "climbs Q (push_event w ev t)"
  unfolding push_event_def by (intro climbs_bind emit_ok climbs_ret)

lemma result_ok: "climbs Q (record_tool_result x corr p res)"
  unfolding record_tool_result_def by (rule record_ok) simp

lemma deny_ok: "climbs Q (deny_call x w corr c reason t)"
  unfolding deny_call_def by (intro climbs_bind result_ok push_ok climbs_ret)

lemma ask_ok: "climbs Q (ask_call x w corr sid c t)"
  unfolding ask_call_def Let_def by (intro climbs_bind record_ok push_ok persist_ok climbs_ret) simp

lemma run_ok:
  assumes "ok pol" and "pd_verdict (runtime_decide x (ai_tools rt) pol (ptc_name c) (ptc_arguments c)) = Allow"
  shows "climbs Q (run_call x rt w corr c t)"
  unfolding run_call_def Let_def
  by (intro climbs_bind tool_ok [OF assms] result_ok push_ok climbs_ret)

lemma call_ok: "climbs Q (handle_call x rt w corr sid c t)"
  unfolding handle_call_def Let_def
  by (intro climbs_bind record_ok push_ok policy_ok)
    (auto split: policy_verdict.split intro: deny_ok ask_ok run_ok)

lemma calls_ok: "climbs Q (handle_calls x rt w corr sid cs t)"
  by (induction cs arbitrary: t) (auto intro!: climbs_ret climbs_bind call_ok split: flow.split)

lemma text_ok: "climbs Q (take_text x w corr txt t)"
  by (auto simp: take_text_def split: option.split intro!: climbs_bind climbs_ret record_ok push_ok)

lemma loop_ok: "climbs Q (model_loop x rt w corr sid n t)"
  by (induction n arbitrary: t)
    (auto intro!: climbs_ret climbs_bind model_ok text_ok calls_ok climbs_if split: flow.split)

lemma finish_ok: "climbs Q (finish_request x w corr sid t)"
  unfolding finish_request_def Let_def by (intro climbs_bind record_ok push_ok persist_ok climbs_ret) simp

lemma inner_ok: "climbs Q (handle_user_text_inner x rt text corr sid w)"
  unfolding handle_user_text_inner_def
  by (intro climbs_bind record_ok context_ok climbs_reads loop_ok)
    (auto split: flow.split intro: finish_ok climbs_ret)

end

section \<open>Primitive steps on the host\<close>

text \<open>Everything but the progress channel, the counters of the environment, the conversations and the
  bus is reached through the host. \<open>outside\<close> says what such steps leave alone.\<close>

definition outside :: "runtime_state \<Rightarrow> runtime_state \<Rightarrow> bool" where
  "outside s t \<longleftrightarrow>
     a_policy t = a_policy s \<and> a_slots t = a_slots s \<and> a_convs t = a_convs s
     \<and> a_room_src t = a_room_src s \<and> a_cut_src t = a_cut_src s"

interpretation outside: state_preorder outside
  by unfold_locales (auto simp: outside_def)

lemma outside_on_plant [climbs_intros]: "climbs outside (on_plant m)"
  by (simp add: climbs_def outside_def on_plant_def split_beta)

lemma outside_publish [climbs_intros]: "climbs outside (publish_envelope e)"
  by (simp add: climbs_def outside_def publish_envelope_def modifies_def)

lemma outside_record [climbs_intros]: "climbs outside (record_envelope x e)"
  unfolding record_envelope_run by (intro outside.climbs_bind outside_on_plant outside_publish)

lemma outside_record_event [climbs_intros]: "climbs outside (record_event x k c p j)"
  unfolding record_event_def
  by (intro outside.climbs_bind outside.climbs_map_err outside.climbs_ret outside_on_plant outside_record)

lemma outside_emit [climbs_intros]: "climbs outside (emit_progress w ev)"
  by (simp add: climbs_def outside_def emit_progress_def modifies_def)

lemma outside_deltas [climbs_intros]: "climbs outside (send_deltas ds)"
  by (induction ds) (auto intro!: outside.climbs_ret outside.climbs_bind outside_emit)

lemma outside_awaiting [climbs_intros]: "climbs outside (awaiting m)"
  unfolding climbs_def
proof
  fix s
  have step: "outside s (s\<lparr>a_cut_next := n\<rparr>)" for n
    by (simp add: outside_def)
  have "climbs outside (on_plant m)" and "climbs outside (map_err Failed (on_plant m))"
    by (intro outside.climbs_map_err outside_on_plant)+
  then have "outside u (snd (on_plant m u))" and "outside u (snd (map_err Failed (on_plant m) u))" for u
    by (simp_all add: climbs_def)
  then show "outside s (snd (awaiting m s))"
    using step by (auto simp: awaiting_def next_cut_def split: await_outcome.split intro: outside.R_trans)
qed

text \<open>A relation that streaming respects is respected by a model call.\<close>

lemma model_call_climbs:
  assumes "state_preorder Q"
    and complete: "climbs Q (awaiting (mp_complete p msgs tools))"
    and cut: "\<And>s n. Q s (s\<lparr>a_cut_next := n\<rparr>)"
    and stream: "\<And>s. Q s (s\<lparr>p_host := fst (snd (mp_stream p msgs tools (p_host s, [])))\<rparr>)"
    and emit: "\<And>ev. climbs Q (emit_progress True ev :: unit rt)"
  shows "climbs Q (model_call p w msgs tools)"
proof -
  note pre = state_preorder.climbs_bind [OF assms(1)] state_preorder.climbs_ret [OF assms(1)]
    state_preorder.climbs_raise [OF assms(1)]
  note trans = state_preorder.R_trans [OF assms(1)]
  have deltas: "climbs Q (send_deltas ds :: unit rt)" for ds
    by (induction ds) (auto intro!: pre emit)
  have streamed: "climbs Q (stream_call p msgs tools shown)" for shown
    unfolding climbs_def
  proof
    fix s :: runtime_state
    obtain r h ds where m: "mp_stream p msgs tools (p_host s, []) = (r, (h, ds))"
      by (metis prod.collapse)
    have "climbs Q (bind_io (send_deltas (shown ds)) (\<lambda>_. case r of Inl e \<Rightarrow> raise (Failed e) | Inr a \<Rightarrow> ret a))"
      by (intro pre deltas) (auto split: sum.split intro: pre)
    then have "Q (s\<lparr>p_host := h\<rparr>) (snd (stream_call p msgs tools shown s))"
      using m by (simp add: stream_call_def climbs_def)
    moreover have "Q s (s\<lparr>p_host := h\<rparr>)" using stream [of s] m by simp
    ultimately show "Q s (snd (stream_call p msgs tools shown s))" by (blast intro: trans)
  qed
  have step: "Q s (snd (stream_call p msgs tools shown (s\<lparr>a_cut_next := n\<rparr>)))" for s n shown
    by (rule trans [OF cut [of s n]]) (use streamed in \<open>simp add: climbs_def\<close>)
  show ?thesis
  proof (cases w)
    case True
    then show ?thesis
      using cut step
      by (auto simp: model_call_def climbs_def next_cut_def split: await_outcome.split)
  next
    case False
    with complete show ?thesis by (simp add: model_call_def)
  qed
qed

lemma outside_model_call [climbs_intros]: "climbs outside (model_call p w msgs tools)"
  by (rule model_call_climbs [OF outside.state_preorder_axioms outside_awaiting _ _ outside_emit])
    (simp_all add: outside_def)

lemma outside_memory_context [climbs_intros]: "climbs outside (memory_context x rt)"
  by (auto simp: memory_context_def split: option.split sum.split
      intro!: outside.climbs_ret outside.climbs_bind outside.climbs_attempt outside_on_plant)

section \<open>Grants and slots are not touched\<close>

definition keeps_gate :: "runtime_state \<Rightarrow> runtime_state \<Rightarrow> bool" where
  "keeps_gate s t \<longleftrightarrow> a_policy t = a_policy s \<and> a_slots t = a_slots s"

lemma keeps_gate_outside: "climbs outside m \<Longrightarrow> climbs keeps_gate m"
  by (auto simp: climbs_def outside_def keeps_gate_def)

lemma keeps_gate_preorder: "state_preorder keeps_gate"
  by unfold_locales (auto simp: keeps_gate_def)

interpretation gate_frame: runtime_frame keeps_gate x rt corr "\<lambda>_. True" for x rt corr
proof (intro runtime_frame.intro keeps_gate_preorder runtime_frame_axioms.intro, goal_cases)
  case (4 f)
  then show ?case
    by (intro state_preorder.climbs_bind state_preorder.climbs_reads keeps_gate_preorder) simp
next
  case (6 sid ms)
  then show ?case by (simp add: climbs_def keeps_gate_def persist_history_def modifies_def)
qed (intro keeps_gate_outside climbs_intros)+

lemma inner_keeps_gate: "handle_user_text_inner x rt text corr sid w s = (r, t) \<Longrightarrow> keeps_gate s t"
  by (rule gate_frame.climbs_run [OF gate_frame.inner_ok])

section \<open>Only permitted calls reach a tool\<close>

text \<open>What a host relation must allow for a request under the grants \<open>pol\<close>: drawing identifiers and
  reading the clock, appending to the audit log, reading the memory file, the provider, and of the tools
  only the calls the gate lets through.\<close>

definition provider_climbs :: "(host \<Rightarrow> host \<Rightarrow> bool) \<Rightarrow> model_provider \<Rightarrow> bool" where
  "provider_climbs R p \<longleftrightarrow>
     (\<forall>msgs tools. climbs R (mp_complete p msgs tools)
        \<and> (\<forall>h ds. R h (fst (snd (mp_stream p msgs tools (h, ds)))))) "

definition allowed_tools_climb :: "(host \<Rightarrow> host \<Rightarrow> bool) \<Rightarrow> ext \<Rightarrow> tool_registry \<Rightarrow> policy_engine \<Rightarrow> bool" where
  "allowed_tools_climb R x tools pol \<longleftrightarrow>
     (\<forall>n t args ctx. registry_get tools n = Some t \<longrightarrow>
        pd_verdict (runtime_decide x tools pol n args) = Allow \<longrightarrow> climbs R (te_execute t args ctx))"

definition host_relation :: "(host \<Rightarrow> host \<Rightarrow> bool) \<Rightarrow> ext \<Rightarrow> bool" where
  "host_relation R x \<longleftrightarrow>
     state_preorder R \<and> draws_climb R \<and> (\<forall>e. climbs R (append_envelope x e)) \<and> (\<forall>h n. R h (h\<lparr>open_next := n\<rparr>))"

definition host_contract :: "(host \<Rightarrow> host \<Rightarrow> bool) \<Rightarrow> ext \<Rightarrow> ai_runtime \<Rightarrow> bool" where
  "host_contract R x rt \<longleftrightarrow> host_relation R x \<and> provider_climbs R (ai_provider rt)"

definition gated :: "(host \<Rightarrow> host \<Rightarrow> bool) \<Rightarrow> policy_engine \<Rightarrow> runtime_state \<Rightarrow> runtime_state \<Rightarrow> bool" where
  "gated R pol s t \<longleftrightarrow> (a_policy s = pol \<longrightarrow> a_policy t = pol \<and> R (p_host s) (p_host t))"

lemma gated_preorder: "state_preorder R \<Longrightarrow> state_preorder (gated R pol)"
  unfolding state_preorder_def gated_def by blast

lemma gated_outside:
  assumes "climbs outside m" and "\<And>s. R (p_host s) (p_host (snd (m s)))"
  shows "climbs (gated R pol) m"
  using assms by (auto simp: climbs_def gated_def outside_def)

lemma gated_on_plant: "climbs R m \<Longrightarrow> climbs (gated R pol) (on_plant m)"
  by (rule gated_outside [OF outside_on_plant]) (simp add: climbs_def on_plant_def split_beta)

lemma gated_awaiting:
  assumes "state_preorder R" and "climbs R m"
  shows "climbs (gated R pol) (awaiting m)"
proof (rule gated_outside [OF outside_awaiting])
  fix s :: runtime_state
  have "R (p_host s) (snd (m (p_host s)))" and "R (p_host s) (p_host s)"
    using assms by (auto simp: climbs_def state_preorder_def)
  then show "R (p_host s) (p_host (snd (awaiting m s)))"
    by (auto simp: awaiting_def next_cut_def on_plant_def map_err_def split_beta
        split: await_outcome.split sum.split prod.split)
qed

lemma gated_no_host:
  assumes "state_preorder R" and "climbs outside m" and "\<And>s. p_host (snd (m s)) = p_host s"
  shows "climbs (gated R pol) m"
  using assms by (intro gated_outside) (auto simp: state_preorder_def)

lemma gated_record_event:
  assumes "host_relation R x"
  shows "climbs (gated R pol) (record_event x k c p j)"
proof -
  have pre: "state_preorder R" using assms by (simp add: host_relation_def)
  note rules = state_preorder.climbs_bind [OF gated_preorder [OF pre]]
    state_preorder.climbs_map_err [OF gated_preorder [OF pre]]
    state_preorder.climbs_ret [OF gated_preorder [OF pre]] gated_on_plant
  have new: "climbs R (envelope_new k c p j)"
    using assms unfolding envelope_new_def
    by (auto simp: host_relation_def intro!: state_preorder.climbs_bind state_preorder.climbs_ret
        draws_climb_new_v4 draws_climb_utc_now)
  have pub: "climbs (gated R pol) (publish_envelope e :: (runtime_state, string, unit) io)" for e
    by (rule gated_no_host [OF pre outside_publish]) (simp add: publish_envelope_def modifies_def)
  have "climbs R (append_envelope x e)" for e
    using assms by (simp add: host_relation_def)
  then show ?thesis
    unfolding record_event_def record_envelope_run
    by (intro rules new pub)
qed

lemma gated_frame:
  assumes "host_contract R x rt" and "allowed_tools_climb R x (ai_tools rt) pol"
  shows "runtime_frame (gated R pol) x rt corr (\<lambda>p. p = pol)"
proof -
  have pre: "state_preorder R" and opened: "R h (h\<lparr>open_next := n\<rparr>)"
    and prov: "provider_climbs R (ai_provider rt)" for h n
    using assms by (simp_all add: host_contract_def host_relation_def)
  have emit: "climbs (gated R pol) (emit_progress w ev :: unit rt)" for w ev
    by (rule gated_no_host [OF pre outside_emit]) (simp add: emit_progress_def modifies_def)
  show ?thesis
  proof (intro runtime_frame.intro gated_preorder pre runtime_frame_axioms.intro, goal_cases)
    case (1 k p j)
    show ?case using gated_record_event assms(1) by (simp add: host_contract_def)
  next
    case (2 w ev)
    show ?case by (rule emit)
  next
    case (3 w msgs tools)
    have complete: "climbs R (mp_complete (ai_provider rt) msgs tools)"
      and stream: "R h (fst (snd (mp_stream (ai_provider rt) msgs tools (h, []))))" for h
      using prov by (simp_all add: provider_climbs_def)
    show ?case
      by (rule model_call_climbs [OF gated_preorder [OF pre] gated_awaiting [OF pre complete] _ _ emit])
        (auto simp: gated_def intro: stream state_preorder.R_refl [OF pre])
  next
    case (4 f)
    then show ?case by (simp add: climbs_def gated_def reads_def bind_io_def)
  next
    case (5 q n args ctx)
    have "climbs R (registry_execute (ai_tools rt) n args ctx)"
    proof (cases "registry_get (ai_tools rt) n")
      case None
      then show ?thesis by (simp add: registry_execute_def state_preorder.climbs_raise [OF pre])
    next
      case (Some t)
      then have "climbs R (te_execute t args ctx)"
        using assms(2) 5 by (simp add: allowed_tools_climb_def)
      with Some show ?thesis by (simp add: registry_execute_def state_preorder.climbs_raise [OF pre])
    qed
    then show ?case by (intro gated_awaiting pre state_preorder.climbs_map_err [OF pre])
  next
    case (6 sid ms)
    show ?case
      by (simp add: climbs_def gated_def persist_history_def modifies_def state_preorder.R_refl [OF pre])
  next
    case 7
    have "climbs R (read_file f path)" for f path
      using opened by (simp add: climbs_def read_file_def Let_def)
    then have "climbs R (format_context it x ms k)" for it ms k
      unfolding format_context_def list_recent_def latest_by_key_def memory_read_all_def read_records_def
      by (auto intro!: state_preorder.climbs_bind [OF pre] state_preorder.climbs_ret [OF pre]
          state_preorder.climbs_raise [OF pre] split: sum.split)
    then show ?case
      by (auto simp: memory_context_def split: option.split sum.split
          intro!: state_preorder.climbs_bind [OF gated_preorder [OF pre]]
            state_preorder.climbs_ret [OF gated_preorder [OF pre]]
            state_preorder.climbs_attempt [OF gated_preorder [OF pre]] gated_on_plant)
  qed
qed

text \<open>A whole request, with its slot: the host has only moved as the permitted calls move it.\<close>

lemma session_request_host:
  assumes contract: "host_contract R x rt" and tools: "allowed_tools_climb R x (ai_tools rt) (a_policy s)"
    and run: "handle_user_text_in_session x rt text session w s = (r, t)"
  shows "a_policy t = a_policy s \<and> R (p_host s) (p_host t)"
proof -
  let ?G = "gated R (a_policy s)"
  have pre: "state_preorder R" and draws: "draws_climb R"
    using contract by (simp_all add: host_contract_def host_relation_def)
  note rules = state_preorder.climbs_bind [OF gated_preorder [OF pre]]
    state_preorder.climbs_ret [OF gated_preorder [OF pre]] state_preorder.climbs_raise [OF gated_preorder [OF pre]]
    state_preorder.climbs_reads [OF gated_preorder [OF pre]]
    state_preorder.climbs_attempt [OF gated_preorder [OF pre]] gated_on_plant draws_climb_new_v4 [OF draws]
  have slots: "climbs ?G (modifies (\<lambda>s. s\<lparr>a_slots := f s\<rparr>) :: unit rt)" for f
    by (simp add: climbs_def gated_def modifies_def state_preorder.R_refl [OF pre])
  have "climbs ?G (handle_user_text_in_session x rt text session w)"
    unfolding handle_user_text_in_session_def begin_request_def end_request_def
    by (auto split: option.split sum.split prod.split
        intro!: rules slots runtime_frame.inner_ok [OF gated_frame [OF contract tools]])
  from state_preorder.climbs_run [OF gated_preorder [OF pre] this run] show ?thesis
    by (simp add: gated_def)
qed

section \<open>Confirmations\<close>

lemma host_rel_gated: "(\<And>pol. climbs (gated R pol) m) \<Longrightarrow> climbs (host_rel R) m"
  by (auto simp: climbs_def gated_def host_rel_def)

lemma confirm_host:
  assumes contract: "host_relation R x"
    and tools: "\<And>t ctx. scope \<noteq> Cancel \<Longrightarrow> registry_get (ai_tools rt) tool = Some t \<Longrightarrow>
      \<not> blocked_call x (te_spec t) args \<Longrightarrow> climbs R (te_execute t args ctx)"
    and run: "confirm_in_session x rt corr session call_id tool args scope s = (r, t)"
  shows "R (p_host s) (p_host t)"
proof -
  have pre: "state_preorder R" using contract by (simp add: host_relation_def)
  have hpre: "state_preorder (host_rel R :: runtime_state \<Rightarrow> _)" by (rule host_rel_preorder [OF pre])
  note rules = state_preorder.climbs_bind [OF hpre] state_preorder.climbs_ret [OF hpre]
    state_preorder.climbs_raise [OF hpre] state_preorder.climbs_reads [OF hpre]
    state_preorder.climbs_map_err [OF hpre] host_rel_on_plant
  have recorded: "climbs (host_rel R) (record_event x k c p j)" for k c p j
    by (rule host_rel_gated [OF gated_record_event [OF contract]])
  have note_ok: "climbs (host_rel R) (append_note session n)" for n
    using state_preorder.R_refl [OF pre]
    by (auto simp: append_note_def climbs_def host_rel_def modifies_def ret_def split: option.split)
  have grant: "climbs (host_rel R) (modifies (\<lambda>s. s\<lparr>a_policy := f s\<rparr>) :: unit rt)" for f
    using state_preorder.R_refl [OF pre] by (simp add: climbs_def host_rel_def modifies_def)
  have exec: "climbs (host_rel R) (confirm_execute x rt corr session i call_id tool args)"
    if "scope \<noteq> Cancel" "registry_get (ai_tools rt) tool = Some e" "\<not> blocked_call x (te_spec e) args" for i e
  proof -
    have "climbs R (registry_execute (ai_tools rt) tool args ctx)" for ctx
      using tools [OF that] that(2) by (simp add: registry_execute_def state_preorder.climbs_raise [OF pre])
    then show ?thesis
      unfolding confirm_execute_def Let_def record_tool_result_def
      by (intro rules recorded note_ok state_preorder.climbs_map_err [OF pre])
  qed
  have decided: "climbs (host_rel R) (bind_io (reads (\<lambda>s. decide x (a_policy s) (te_spec e) args)) (\<lambda>dec.
      if pd_verdict dec = Deny then raise (Failed m) else confirm_execute x rt corr session i call_id tool args))"
    if "scope \<noteq> Cancel" "registry_get (ai_tools rt) tool = Some e" for i e m
    using exec [OF that] state_preorder.R_refl [OF pre]
    by (auto simp: climbs_def host_rel_def bind_io_def reads_def raise_def gate.blocked_iff_deny)
  have "climbs (host_rel R) (confirm_in_session x rt corr session call_id tool args scope)"
    unfolding confirm_in_session_def
    by (auto split: option.split intro!: rules recorded note_ok grant decided)
  from state_preorder.climbs_run [OF hpre this run] show ?thesis by (simp add: host_rel_def)
qed

text \<open>Grants change only by a session confirmation, and then by exactly the tool it names.\<close>

lemma outside_confirm_execute:
  "a_policy (snd (confirm_execute x rt corr session i cid tool args s)) = a_policy s"
proof -
  have noted: "climbs keeps_gate (append_note session n)" for n
    by (auto simp: append_note_def climbs_def keeps_gate_def modifies_def ret_def split: option.split)
  have "climbs keeps_gate (confirm_execute x rt corr session i cid tool args)"
    unfolding confirm_execute_def Let_def record_tool_result_def
    by (intro gate_frame.climbs_bind gate_frame.climbs_ret gate_frame.climbs_map_err noted
        keeps_gate_outside outside_record_event outside_on_plant)
  then show ?thesis by (simp add: climbs_def keeps_gate_def)
qed

lemma confirm_grants:
  assumes "confirm_in_session x rt corr session call_id tool args scope s = (r, t)"
  shows "a_policy t = a_policy s \<or> scope = Session \<and> a_policy t = grant_session tool (a_policy s)"
proof -
  obtain e u where e: "record_event x ConfirmationResponse corr None (confirm_payload x call_id scope) s = (e, u)"
    by (cases "record_event x ConfirmationResponse corr None (confirm_payload x call_id scope) s")
  have u: "a_policy u = a_policy s"
    using outside.climbs_run [OF outside_record_event e] by (simp add: outside_def)
  have note_ok: "a_policy (snd (append_note session n v)) = a_policy v" for n v
    by (simp add: append_note_def ret_def modifies_def split: option.split)
  have tail: "a_policy t = a_policy v" if "(case registry_get (ai_tools rt) tool of None \<Rightarrow> raise (Failed m)
      | Some te \<Rightarrow> bind_io (reads (\<lambda>s. decide x (a_policy s) (te_spec te) args)) (\<lambda>dec.
          if pd_verdict dec = Deny then raise (Failed m') else confirm_execute x rt corr session i call_id tool args)) v = (r, t)"
    for i m m' v
    using that outside_confirm_execute [of x rt corr session i call_id tool args v]
    by (auto simp: bind_io_def reads_def raise_def split: option.splits if_splits)
  show ?thesis
  proof (cases e)
    case (Inl a)
    then show ?thesis using assms e u by (simp add: confirm_in_session_def bind_io_def)
  next
    case (Inr i)
    show ?thesis
    proof (cases scope)
      case Cancel
      then show ?thesis
        using assms e u Inr note_ok [of _ u]
        by (auto simp: confirm_in_session_def bind_io_def ret_def split: prod.splits sum.splits)
          (metis snd_conv)+
    next
      case Once
      then have "a_policy t = a_policy u"
        using assms e Inr by (intro tail [where v = u]) (simp add: confirm_in_session_def bind_io_def ret_def)
      with u show ?thesis by simp
    next
      case Session
      then have "a_policy t = grant_session tool (a_policy u)"
        using assms e Inr
        by (intro tail [where v = "u\<lparr>a_policy := grant_session tool (a_policy u)\<rparr>", THEN trans])
          (simp_all add: confirm_in_session_def bind_io_def modifies_def)
      with u Session show ?thesis by simp
    qed
  qed
qed

section \<open>The audit file covers what is published\<close>

lemma trail_still: "p_host t = p_host s \<Longrightarrow> p_bus t = p_bus s \<Longrightarrow> trail x s t"
  by (rule trail_host) simp_all

lemma trail_record_event [climbs_intros]: "climbs (trail x) (record_event x k c p j)"
  unfolding record_event_def
  by (intro trail.climbs_bind trail.climbs_map_err trail.climbs_ret trail_on_plant trail_record_envelope)
    (simp add: climbs_def file_grows_def envelope_new_run)

lemma trail_emit [climbs_intros]: "climbs (trail x) (emit_progress w ev)"
  by (auto simp: climbs_def emit_progress_def modifies_def intro!: trail_still)

lemma trail_awaiting:
  fixes m :: "(host, string, 'a) io"
  assumes "climbs (file_grows AuditFile) m"
  shows "climbs (trail x) (awaiting m)"
  unfolding climbs_def
proof
  fix s :: runtime_state
  have cut: "trail x s (s\<lparr>a_cut_next := n\<rparr>)" for n by (rule trail_still) simp_all
  have "climbs (trail x) (on_plant m :: (runtime_state, string, 'a) io)"
    and "climbs (trail x) (map_err Failed (on_plant m) :: 'a rt)"
    by (intro trail.climbs_map_err trail_on_plant assms)+
  then have "trail x u (snd (on_plant m u))" and "trail x u (snd (map_err Failed (on_plant m) u))"
    for u :: runtime_state
    by (simp_all add: climbs_def)
  with cut show "trail x s (snd (awaiting m s))"
    by (auto simp: awaiting_def next_cut_def split: await_outcome.split intro: trail.R_trans)
qed

lemma file_grows_format_context [climbs_intros]: "climbs (file_grows f) (format_context it x ms k)"
  unfolding format_context_def list_recent_def
  by (intro file_growth.climbs_bind file_growth.climbs_ret file_grows_latest)

definition tools_climb :: "(host \<Rightarrow> host \<Rightarrow> bool) \<Rightarrow> tool_registry \<Rightarrow> bool" where
  "tools_climb R tools \<longleftrightarrow> (\<forall>n t args ctx. registry_get tools n = Some t \<longrightarrow> climbs R (te_execute t args ctx))"

lemma trail_frame:
  assumes "provider_climbs (file_grows AuditFile) (ai_provider rt)" and "tools_climb (file_grows AuditFile) (ai_tools rt)"
  shows "runtime_frame (trail x) x rt corr (\<lambda>_. True)"
proof (intro runtime_frame.intro trail.state_preorder_axioms runtime_frame_axioms.intro, goal_cases)
  case (3 w msgs tools)
  have complete: "climbs (file_grows AuditFile) (mp_complete (ai_provider rt) msgs tools)"
    and stream: "file_grows AuditFile h (fst (snd (mp_stream (ai_provider rt) msgs tools (h, []))))" for h
    using assms(1) by (simp_all add: provider_climbs_def)
  show ?case
    by (rule model_call_climbs [OF trail.state_preorder_axioms trail_awaiting [OF complete] _ _ trail_emit])
      (use stream in \<open>auto simp: file_grows_def intro: trail_host\<close>)
next
  case (5 q n args ctx)
  show ?case
    using assms(2)
    by (intro trail_awaiting file_growth.climbs_map_err registry_execute_climbs file_growth.state_preorder_axioms)
      (simp add: tools_climb_def)
next
  case (6 sid ms)
  show ?case by (auto simp: climbs_def persist_history_def modifies_def intro!: trail_still)
qed (auto simp: memory_context_def split: option.split sum.split
  intro!: trail_record_event trail_emit trail.climbs_bind trail.climbs_reads trail.climbs_ret trail.climbs_attempt
    trail_on_plant file_grows_format_context)

section \<open>One correlation id per request\<close>

definition same_correlation :: "uuid \<Rightarrow> runtime_state \<Rightarrow> runtime_state \<Rightarrow> bool" where
  "same_correlation c s t \<longleftrightarrow>
     (\<exists>es. p_bus t = p_bus s @ es \<and> (\<forall>e \<in> set es. env_correlation_id e = c))"

interpretation correlated: state_preorder "same_correlation c" for c
  by unfold_locales (auto simp: same_correlation_def)

lemma correlated_still: "p_bus t = p_bus s \<Longrightarrow> same_correlation c s t"
  by (simp add: same_correlation_def)

lemma correlated_record_event [climbs_intros]: "climbs (same_correlation c) (record_event x k c p j)"
  by (auto simp: climbs_def same_correlation_def record_event_def record_envelope_run publish_envelope_def
      on_plant_def envelope_new_run io_defs split: sum.split prod.split)

lemma correlated_awaiting [climbs_intros]: "climbs (same_correlation c) (awaiting m)"
  by (auto simp: climbs_def awaiting_def next_cut_def on_plant_def io_defs intro!: correlated_still
      split: await_outcome.split sum.split prod.split)

interpretation correlation_frame: runtime_frame "same_correlation corr" x rt corr "\<lambda>_. True" for x rt corr
proof (intro runtime_frame.intro correlated.state_preorder_axioms runtime_frame_axioms.intro, goal_cases)
  case (3 w msgs tools)
  show ?case
    by (rule model_call_climbs [OF correlated.state_preorder_axioms correlated_awaiting])
      (auto simp: climbs_def emit_progress_def modifies_def intro!: correlated_still)
qed (auto simp: memory_context_def persist_history_def emit_progress_def climbs_def modifies_def on_plant_def io_defs
  intro!: correlated_still correlated_record_event [unfolded climbs_def, rule_format]
    correlated_awaiting [unfolded climbs_def, rule_format]
  split: option.split sum.split prod.split)

end
