(* ===== verification/RuntimeResults.thy ===== *)
theory RuntimeResults
  imports RuntimeSafety
begin

text \<open>
  How a user request ends. It fails, with the conversations as they were; or it stops at the first call
  that needs the user, with a confirmation request as the last thing published; or it completes with a
  diagnose result. The relation \<open>flow_ok\<close> says so for every part of the loop, and composes.
\<close>

section \<open>What the steps return\<close>

lemma record_event_Inr:
  assumes "record_event x k c p j s = (Inr i, t)"
  shows "\<exists>e. p_bus t = p_bus s @ [e] \<and> env_msg_id e = i \<and> env_kind e = k \<and> env_payload e = j
    \<and> env_correlation_id e = c \<and> env_causation_id e = p"
  using assms
  by (auto simp: record_event_def record_envelope_run publish_envelope_def on_plant_def envelope_new_run
      io_defs split: sum.splits prod.splits)

lemma push_event_run:
  "\<exists>u. push_event w ev t s = (Inr (t\<lparr>tu_events := tu_events t @ [ev]\<rparr>), u) \<and> outside s u \<and> p_bus u = p_bus s
     \<and> p_host u = p_host s"
  by (simp add: push_event_def emit_progress_def outside_def io_defs)

lemma outside_push [climbs_intros]: "climbs outside (push_event w ev t)"
  unfolding push_event_def by (intro outside.climbs_bind outside.climbs_ret outside_emit)

lemma outside_result [climbs_intros]: "climbs outside (record_tool_result x corr p res)"
  unfolding record_tool_result_def by (rule outside_record_event)

lemma outside_deny [climbs_intros]: "climbs outside (deny_call x w corr c reason t)"
  unfolding deny_call_def by (intro outside.climbs_bind outside.climbs_ret outside_push outside_result)

lemma outside_run [climbs_intros]: "climbs outside (run_call x rt w corr c t)"
  unfolding run_call_def Let_def
  by (intro outside.climbs_bind outside.climbs_ret outside_push outside_result outside_awaiting)

lemma outside_text [climbs_intros]: "climbs outside (take_text x w corr txt t)"
  by (auto simp: take_text_def split: option.split
      intro!: outside.climbs_bind outside.climbs_ret outside_push outside_record_event)

section \<open>The shape of a result\<close>

definition asked :: "ext \<Rightarrow> ai_runtime \<Rightarrow> policy_engine \<Rightarrow> handle_outcome \<Rightarrow> envelope \<Rightarrow> bool" where
  "asked x rt pol out e \<longleftrightarrow>
     (\<exists>pc. ho_pending out = Some pc
        \<and> pd_verdict (runtime_decide x (ai_tools rt) pol (pc_tool pc) (pc_arguments pc)) = AskUser
        \<and> env_kind e = ConfirmationRequest
        \<and> env_payload e = confirmation_request_json x
            \<lparr>cr_call_id = pc_call_id pc, cr_tool = pc_tool pc, cr_summary = pc_summary pc, cr_arguments = pc_arguments pc\<rparr>)"

definition saved :: "uuid \<Rightarrow> chat_message list \<Rightarrow> runtime_state \<Rightarrow> runtime_state \<Rightarrow> bool" where
  "saved sid ms s t \<longleftrightarrow> (\<exists>more. a_convs t = conv_save sid (drop 1 (ms @ more)) (a_convs s))"

lemma savedI: "a_convs t = conv_save sid (drop 1 ms) (a_convs s) \<Longrightarrow> saved sid ms s t"
  unfolding saved_def by (intro exI [of _ "[]"]) simp

definition flow_ok ::
  "ext \<Rightarrow> ai_runtime \<Rightarrow> uuid \<Rightarrow> uuid \<Rightarrow> runtime_state \<Rightarrow> turn \<Rightarrow> halt + flow \<Rightarrow> runtime_state \<Rightarrow> bool" where
  "flow_ok x rt corr sid s t r u \<longleftrightarrow>
     (case r of
        Inl e \<Rightarrow> outside s u
      | Inr (Continue t') \<Rightarrow> outside s u \<and> prefix (tu_messages t) (tu_messages t')
      | Inr (Return out) \<Rightarrow>
          ho_correlation_id out = corr \<and> ho_session_id out = sid
          \<and> saved sid (tu_messages t) s u \<and> p_bus u \<noteq> [] \<and> asked x rt (a_policy s) out (last (p_bus u)))"

lemma flow_ok_trans:
  assumes "flow_ok x rt corr sid s t (Inr (Continue t')) v" and "flow_ok x rt corr sid v t' r u"
  shows "flow_ok x rt corr sid s t r u"
  using assms
  by (auto simp: flow_ok_def saved_def outside_def prefix_def simp del: drop_append
      split: sum.splits flow.splits)

lemma flow_ok_outside:
  assumes "outside s v" and "prefix (tu_messages t) (tu_messages t')" and "flow_ok x rt corr sid v t' r u"
  shows "flow_ok x rt corr sid s t r u"
  using assms by (intro flow_ok_trans [OF _ assms(3)]) (simp add: flow_ok_def)

lemma flow_ok_climbs:
  assumes "climbs outside m" and "m s = (r, u)"
    and "\<And>f. r = Inr f \<Longrightarrow> \<exists>t'. f = Continue t' \<and> prefix (tu_messages t) (tu_messages t')"
  shows "flow_ok x rt corr sid s t r u"
  using outside.climbs_run [OF assms(1,2)] assms(3)
  by (auto simp: flow_ok_def split: sum.split)

lemma deny_ok_flow: "deny_call x w corr c reason t s = (r, u) \<Longrightarrow> flow_ok x rt corr sid s t r u"
  by (rule flow_ok_climbs [OF outside_deny], assumption)
    (auto simp: deny_call_def push_event_def ret_def prefix_def dest!: bind_io_Inr)

lemma run_ok_flow: "run_call x rt w corr c t s = (r, u) \<Longrightarrow> flow_ok x rt corr sid s t r u"
  by (rule flow_ok_climbs [OF outside_run], assumption)
    (auto simp: run_call_def push_event_def ret_def prefix_def Let_def dest!: bind_io_Inr)

lemma ask_ok_flow:
  assumes run: "ask_call x w corr sid c t s = (r, u)"
    and ask: "pd_verdict (runtime_decide x (ai_tools rt) (a_policy s) (ptc_name c) (ptc_arguments c)) = AskUser"
  shows "flow_ok x rt corr sid s t r u"
proof -
  define summary where "summary = text_run @ ptc_name c @ text_with_args @ json_text x (ptc_arguments c) @ ''?''"
  define conf where "conf = \<lparr>cr_call_id = ptc_call_id c, cr_tool = ptc_name c, cr_summary = summary,
    cr_arguments = ptc_arguments c\<rparr>"
  obtain e v where rec: "record_event x ConfirmationRequest corr (Some (tu_causation t))
      (confirmation_request_json x conf) s = (e, v)"
    by (cases "record_event x ConfirmationRequest corr (Some (tu_causation t))
      (confirmation_request_json x conf) s")
  have out: "outside s v" by (rule outside.climbs_run [OF outside_record_event rec])
  show ?thesis
  proof (cases e)
    case (Inl a)
    then show ?thesis
      using run rec out
      by (auto simp: ask_call_def Let_def bind_io_def conf_def summary_def flow_ok_def)
  next
    case (Inr i)
    from record_event_Inr [OF rec [unfolded Inr]] obtain env where
      env: "p_bus v = p_bus s @ [env]" "env_kind env = ConfirmationRequest"
        "env_payload env = confirmation_request_json x conf"
      by blast
    show ?thesis
      using run rec out Inr env ask
      by (auto simp: ask_call_def Let_def bind_io_def conf_def summary_def flow_ok_def push_event_def
          emit_progress_def persist_history_def modifies_def ret_def asked_def outside_def
          intro!: savedI)
  qed
qed

lemma handle_call_flow:
  assumes "handle_call x rt w corr sid c t s = (r, u)"
  shows "flow_ok x rt corr sid s t r u"
proof -
  let ?m = "\<lambda>t1. bind_io (reads a_policy) (\<lambda>pol.
    let dec = runtime_decide x (ai_tools rt) pol (ptc_name c) (ptc_arguments c)
    in bind_io (record_event x PolicyDecision corr (Some (tu_causation t1))
         (policy_decision_record_json x \<lparr>pdr_call_id = ptc_call_id c, pdr_tool = ptc_name c,
            pdr_verdict = pd_verdict dec, pdr_reason = pd_reason dec\<rparr>)) (\<lambda>e2.
       bind_io (push_event w (EvPolicy (ptc_call_id c) (ptc_name c) (verdict_name (pd_verdict dec)) (pd_reason dec))
         (t1\<lparr>tu_causation := e2\<rparr>)) (\<lambda>t2.
       case pd_verdict dec of
         Deny \<Rightarrow> deny_call x w corr c (pd_reason dec) t2
       | AskUser \<Rightarrow> ask_call x w corr sid c t2
       | Allow \<Rightarrow> run_call x rt w corr c t2)))"
  have decided: "flow_ok x rt corr sid v t1 r u" if m: "?m t1 v = (r, u)" for t1 v
  proof -
    let ?dec = "runtime_decide x (ai_tools rt) (a_policy v) (ptc_name c) (ptc_arguments c)"
    obtain e a where rec: "record_event x PolicyDecision corr (Some (tu_causation t1))
         (policy_decision_record_json x \<lparr>pdr_call_id = ptc_call_id c, pdr_tool = ptc_name c,
            pdr_verdict = pd_verdict ?dec, pdr_reason = pd_reason ?dec\<rparr>) v = (e, a)"
      by fastforce
    have oa: "outside v a" by (rule outside.climbs_run [OF outside_record_event rec])
    show ?thesis
    proof (cases e)
      case (Inl err)
      then show ?thesis using m rec oa by (auto simp: bind_io_def reads_def flow_ok_def Let_def)
    next
      case (Inr e2)
      let ?ev = "EvPolicy (ptc_call_id c) (ptc_name c) (verdict_name (pd_verdict ?dec)) (pd_reason ?dec)"
      obtain b where b: "push_event w ?ev (t1\<lparr>tu_causation := e2\<rparr>) a =
          (Inr (t1\<lparr>tu_causation := e2, tu_events := tu_events t1 @ [?ev]\<rparr>), b)" "outside a b"
        using push_event_run [of w ?ev "t1\<lparr>tu_causation := e2\<rparr>" a] by auto
      have ob: "outside v b" by (rule outside.R_trans [OF oa b(2)])
      let ?t2 = "t1\<lparr>tu_causation := e2, tu_events := tu_events t1 @ [?ev]\<rparr>"
      have "(case pd_verdict ?dec of Deny \<Rightarrow> deny_call x w corr c (pd_reason ?dec) ?t2
          | AskUser \<Rightarrow> ask_call x w corr sid c ?t2 | Allow \<Rightarrow> run_call x rt w corr c ?t2) b = (r, u)"
        using m rec Inr b by (simp add: bind_io_def reads_def Let_def)
      moreover have "a_policy b = a_policy v" using ob by (simp add: outside_def)
      ultimately have "flow_ok x rt corr sid b ?t2 r u"
        by (auto split: policy_verdict.splits intro: deny_ok_flow run_ok_flow ask_ok_flow)
      then show ?thesis by (rule flow_ok_outside [OF ob, rotated]) simp
    qed
  qed
  obtain e v where rec: "record_event x ToolCall corr (Some (tu_causation t))
      (tool_call_request_json x \<lparr>tcr_call_id = ptc_call_id c, tcr_tool = ptc_name c,
         tcr_arguments = ptc_arguments c\<rparr>) s = (e, v)"
    by fastforce
  have ov: "outside s v" by (rule outside.climbs_run [OF outside_record_event rec])
  show ?thesis
  proof (cases e)
    case (Inl err)
    then show ?thesis
      using assms rec ov by (auto simp: handle_call_def bind_io_def flow_ok_def Let_def)
  next
    case (Inr i)
    let ?ev = "EvToolCall (ptc_call_id c) (ptc_name c) (ptc_arguments c)"
    obtain b where b: "push_event w ?ev (t\<lparr>tu_causation := i\<rparr>) v =
        (Inr (t\<lparr>tu_causation := i, tu_events := tu_events t @ [?ev]\<rparr>), b)" "outside v b"
      using push_event_run [of w ?ev "t\<lparr>tu_causation := i\<rparr>" v] by auto
    have "?m (t\<lparr>tu_causation := i, tu_events := tu_events t @ [?ev]\<rparr>) b = (r, u)"
      using assms rec Inr b by (simp add: handle_call_def bind_io_def [of "record_event _ ToolCall _ _ _"]
        bind_io_def [of "push_event _ _ (t\<lparr>tu_causation := i\<rparr>)"] Let_def)
    from decided [OF this] show ?thesis
      by (rule flow_ok_outside [OF outside.R_trans [OF ov b(2)], rotated]) simp
  qed
qed

lemma handle_calls_flow:
  "handle_calls x rt w corr sid cs t s = (r, u) \<Longrightarrow> flow_ok x rt corr sid s t r u"
proof (induction cs arbitrary: t s)
  case Nil
  then show ?case by (auto simp: ret_def flow_ok_def outside_def)
next
  case (Cons c cs)
  obtain f v where f: "handle_call x rt w corr sid c t s = (f, v)" by fastforce
  note first = handle_call_flow [OF f]
  show ?case
  proof (cases f)
    case (Inr g)
    then show ?thesis
      using Cons f first by (cases g) (auto simp: bind_io_def ret_def intro: flow_ok_trans)
  qed (use Cons f first in \<open>auto simp: bind_io_def flow_ok_def\<close>)
qed

section \<open>The loop and the request\<close>

lemma take_text_flow:
  assumes "take_text x w corr txt t s = (Inr t', u)"
  shows "outside s u \<and> prefix (tu_messages t) (tu_messages t')"
  using outside.climbs_run [OF outside_text assms] assms
  by (auto simp: take_text_def push_event_def ret_def prefix_def split: option.splits dest!: bind_io_Inr)

lemma model_loop_flow:
  "model_loop x rt w corr sid n t s = (r, u) \<Longrightarrow> flow_ok x rt corr sid s t r u"
proof (induction n arbitrary: t s)
  case 0
  then show ?case by (auto simp: ret_def flow_ok_def outside_def)
next
  case (Suc n)
  obtain a v where a: "model_call (ai_provider rt) w (tu_messages t) (tool_definitions rt) s = (a, v)" by fastforce
  have sv: "outside s v" by (rule outside.climbs_run [OF outside_model_call a])
  show ?case
  proof (cases a)
    case (Inl e)
    then show ?thesis using Suc.prems a sv by (auto simp: bind_io_def flow_ok_def)
  next
    case (Inr resp)
    obtain b y where b: "take_text x w corr (mr_assistant_text resp) t v = (b, y)" by fastforce
    have vy: "outside v y" by (rule outside.climbs_run [OF outside_text b])
    show ?thesis
    proof (cases b)
      case (Inl e)
      then show ?thesis
        using Suc.prems a Inr b outside.R_trans [OF sv vy] by (auto simp: bind_io_def flow_ok_def)
    next
      case (Inr t1)
      from take_text_flow [OF b [unfolded Inr]] have t1: "prefix (tu_messages t) (tu_messages t1)" by simp
      obtain c z where c: "handle_calls x rt w corr sid (mr_tool_calls resp) t1 y = (c, z)" by fastforce
      note calls = handle_calls_flow [OF c]
      have "flow_ok x rt corr sid y t1 r u"
        using Suc a \<open>a = Inr resp\<close> b Inr c calls
        by (cases c)
          (auto simp: bind_io_def ret_def split: if_splits flow.splits intro: flow_ok_trans
            simp: flow_ok_def [of x rt corr sid y t1 "Inr (Continue t1)" y] outside.R_refl)
      then show ?thesis by (rule flow_ok_outside [OF outside.R_trans [OF sv vy] t1])
    qed
  qed
qed

definition completed :: "handle_outcome \<Rightarrow> envelope \<Rightarrow> bool" where
  "completed out e \<longleftrightarrow>
     ho_pending out = None \<and> env_kind e = DiagnoseResult
     \<and> env_payload e = diagnose_result_json (ho_diagnose out) \<and> dr_summary (ho_diagnose out) \<noteq> []"

lemma texts_nonempty: "text_process \<noteq> []" "text_no_culprit \<noteq> []" "text_not_finished \<noteq> []"
  by (simp_all add: text_process_def text_no_culprit_def text_not_finished_def)

lemma closing_summary_nonempty: "dr_summary (closing_summary t) \<noteq> []"
  by (auto simp: closing_summary_def Let_def texts_nonempty split: option.split)

lemma finish_request_result:
  assumes "finish_request x w corr sid t s = (r, u)"
  shows "case r of
      Inl e \<Rightarrow> outside s u
    | Inr out \<Rightarrow> ho_correlation_id out = corr \<and> ho_session_id out = sid \<and> saved sid (tu_messages t) s u
        \<and> p_bus u \<noteq> [] \<and> completed out (last (p_bus u))"
proof -
  obtain e v where rec: "record_event x DiagnoseResult corr (Some (tu_causation t))
      (diagnose_result_json (closing_summary t)) s = (e, v)"
    by fastforce
  have out: "outside s v" by (rule outside.climbs_run [OF outside_record_event rec])
  show ?thesis
  proof (cases e)
    case (Inl a)
    then show ?thesis using assms rec out by (auto simp: finish_request_def Let_def bind_io_def)
  next
    case (Inr i)
    from record_event_Inr [OF rec [unfolded Inr]] obtain env where
      "p_bus v = p_bus s @ [env]" "env_kind env = DiagnoseResult"
      "env_payload env = diagnose_result_json (closing_summary t)"
      by blast
    then show ?thesis
      using assms rec out Inr
      by (auto simp: finish_request_def Let_def bind_io_def push_event_def emit_progress_def
          persist_history_def modifies_def ret_def completed_def closing_summary_nonempty outside_def
          intro!: savedI)
  qed
qed

lemma inner_result:
  assumes "handle_user_text_inner x rt text corr sid w s = (r, u)"
  shows "case r of
      Inl e \<Rightarrow> a_convs u = a_convs s
    | Inr out \<Rightarrow>
        ho_correlation_id out = corr \<and> ho_session_id out = sid \<and> p_bus u \<noteq> []
        \<and> (\<exists>more. a_convs u = conv_save sid (conv_get (a_convs s) sid @ user_message text # more) (a_convs s))
        \<and> (completed out (last (p_bus u)) \<or> asked x rt (a_policy s) out (last (p_bus u)))"
proof -
  obtain a v where a: "record_event x UserRequest corr None (user_request_json text) s = (a, v)" by fastforce
  have sv: "outside s v" by (rule outside.climbs_run [OF outside_record_event a])
  show ?thesis
  proof (cases a)
    case (Inl e)
    then show ?thesis
      using assms a sv by (auto simp: handle_user_text_inner_def bind_io_def outside_def)
  next
    case (Inr req)
    obtain b y where b: "memory_context x rt v = (b, y)" by fastforce
    have vy: "outside s y" by (rule outside.R_trans [OF sv outside.climbs_run [OF outside_memory_context b]])
    show ?thesis
    proof (cases b)
      case (Inl e)
      then show ?thesis
        using assms a Inr b vy by (auto simp: handle_user_text_inner_def bind_io_def outside_def)
    next
      case (Inr ctx)
      define t where "t = first_turn (system_prompt @ ctx) (conv_get (a_convs y) sid) text req"
      have hist: "conv_get (a_convs y) sid = conv_get (a_convs s) sid"
        using vy by (simp add: outside_def)
      obtain f z where f: "model_loop x rt w corr sid (rb_max_tool_iters (ai_budgets rt)) t y = (f, z)" by fastforce
      have flow: "flow_ok x rt corr sid s t f z"
        by (rule flow_ok_outside [OF vy _ model_loop_flow [OF f]]) simp
      have keep: "\<exists>more. a_convs u = conv_save sid (conv_get (a_convs s) sid @ user_message text # more) (a_convs s)"
        if "saved sid (tu_messages t) s u" for u
        using that by (auto simp: saved_def t_def first_turn_def hist)
      show ?thesis
      proof (cases f)
        case (Inl e)
        then show ?thesis
          using assms a \<open>a = Inr req\<close> b Inr f flow
          by (auto simp: handle_user_text_inner_def bind_io_def reads_def t_def flow_ok_def outside_def)
      next
        case (Inr g)
        have run: "(case g of Continue t' \<Rightarrow> finish_request x w corr sid t' | Return out \<Rightarrow> ret out) z = (r, u)"
          using assms a \<open>a = Inr req\<close> b \<open>b = Inr ctx\<close> f Inr
          by (simp add: handle_user_text_inner_def bind_io_def reads_def t_def)
        show ?thesis
        proof (cases g)
          case (Return out)
          then show ?thesis
            using run flow Inr keep [of u] by (auto simp: ret_def flow_ok_def)
        next
          case (Continue t')
          then have t': "outside s z" "prefix (tu_messages t) (tu_messages t')"
            using flow Inr by (simp_all add: flow_ok_def)
          then have "saved sid (tu_messages t') z u \<Longrightarrow> saved sid (tu_messages t) s u"
            by (auto simp: saved_def outside_def prefix_def simp del: drop_append)
          with run Continue t' keep [of u] finish_request_result [of x w corr sid t' z r u] show ?thesis
            by (auto simp: outside_def split: sum.splits)
        qed
      qed
    qed
  qed
qed

section \<open>The slot around a request\<close>

definition session_of :: "uuid option \<Rightarrow> runtime_state \<Rightarrow> uuid" where
  "session_of session s =
     (case session of Some u \<Rightarrow> u | None \<Rightarrow> uuid_src (p_host s) (Suc (uuid_next (p_host s))))"

definition drawn :: "uuid option \<Rightarrow> runtime_state \<Rightarrow> runtime_state" where
  "drawn session s =
     s\<lparr>p_host := (p_host s)\<lparr>uuid_next := uuid_next (p_host s) + (if session = None then 2 else 1)\<rparr>\<rparr>"

lemma drawn_simps [simp]:
  "a_convs (drawn session s) = a_convs s" "a_policy (drawn session s) = a_policy s"
  "a_slots (drawn session s) = a_slots s" "p_bus (drawn session s) = p_bus s"
  by (simp_all add: drawn_def)

lemma session_run:
  "handle_user_text_in_session x rt text session w s =
     (let corr = uuid_src (p_host s) (uuid_next (p_host s)); sid = session_of session s; s1 = drawn session s
      in case try_acquire (a_slots s) of
           None \<Rightarrow> (Inl (Failed (''AI runtime busy: max_concurrent_requests='' @
             dec (rb_max_concurrent_requests (ai_budgets rt)) @ corr_note x corr)), s1)
         | Some n \<Rightarrow>
             (case handle_user_text_inner x rt text corr sid w (s1\<lparr>a_slots := n\<rparr>) of
                (r, u) \<Rightarrow> (case r of Inl e \<Rightarrow> Inl (halt_text x rt corr e) | Inr out \<Rightarrow> Inr out,
                           u\<lparr>a_slots := release (a_slots u)\<rparr>)))"
  by (cases session)
    (simp_all add: handle_user_text_in_session_def begin_request_def end_request_def session_of_def drawn_def on_plant_def new_v4_def io_defs Let_def
      split: option.split prod.split sum.split)

lemma session_slots:
  assumes "handle_user_text_in_session x rt text session w s = (r, t)"
  shows "a_slots t = a_slots s"
  using assms
  by (auto simp: session_run Let_def try_acquire_def release_def keeps_gate_def
      split: nat.splits prod.splits dest!: inner_keeps_gate)

lemma session_busy:
  assumes "a_slots s = 0"
  shows "\<exists>msg. handle_user_text_in_session x rt text session w s = (Inl (Failed msg), drawn session s)"
  using assms by (simp add: session_run Let_def try_acquire_def)

lemma session_result:
  assumes "handle_user_text_in_session x rt text session w s = (r, t)"
  shows "case r of
      Inl e \<Rightarrow> e \<noteq> TimedOut \<and> a_convs t = a_convs s
    | Inr out \<Rightarrow>
        ho_session_id out = session_of session s \<and> p_bus t \<noteq> []
        \<and> (\<exists>more. a_convs t =
             conv_save (ho_session_id out) (conv_get (a_convs s) (ho_session_id out) @ user_message text # more) (a_convs s))
        \<and> (completed out (last (p_bus t)) \<or> asked x rt (a_policy s) out (last (p_bus t)))"
proof (cases "try_acquire (a_slots s)")
  case None
  then show ?thesis using assms by (auto simp: session_run Let_def)
next
  case (Some n)
  let ?corr = "uuid_src (p_host s) (uuid_next (p_host s))"
  obtain q u where q: "handle_user_text_inner x rt text ?corr (session_of session s) w
      ((drawn session s)\<lparr>a_slots := n\<rparr>) = (q, u)"
    by fastforce
  have halt: "halt_text x rt ?corr e \<noteq> TimedOut" for e by (cases e) simp_all
  show ?thesis
    using assms inner_result [OF q] halt
    by (cases q) (auto simp: session_run Let_def Some q)
qed

section \<open>Concurrent requests and the slots\<close>

text \<open>Requests of several clients share the slots. Between its start and its end a request works in slices, and so
  does everything else that runs (confirmations, the background tasks); none of it touches the slots. Here any number
  of requests interleave: each starts with \<open>begin_request\<close> or is turned away by it, and ends with \<open>end_request\<close>,
  whatever came of its work; in between the state may change in any way that leaves the slots alone.\<close>

record crew =
  cr_state :: runtime_state
  cr_requests :: "uuid list" \<comment> \<open>the requests in progress, by correlation\<close>

definition crew_start :: "runtime_state \<Rightarrow> crew" where
  "crew_start s = \<lparr>cr_state = s, cr_requests = []\<rparr>"

inductive crew_step :: "ext \<Rightarrow> ai_runtime \<Rightarrow> crew \<Rightarrow> crew \<Rightarrow> bool" for x rt where
  arrives:
    "begin_request x rt session (cr_state c) = (Inr (corr, sid), t) \<Longrightarrow>
       crew_step x rt c \<lparr>cr_state = t, cr_requests = cr_requests c @ [corr]\<rparr>"
| turned_away:
    "begin_request x rt session (cr_state c) = (Inl e, t) \<Longrightarrow> crew_step x rt c (c\<lparr>cr_state := t\<rparr>)"
| works:
    "a_slots t = a_slots (cr_state c) \<Longrightarrow> crew_step x rt c (c\<lparr>cr_state := t\<rparr>)"
| ends:
    "cr_requests c = as @ corr # bs \<Longrightarrow> end_request x rt corr r (cr_state c) = (q, t) \<Longrightarrow>
       crew_step x rt c \<lparr>cr_state = t, cr_requests = as @ bs\<rparr>"

lemma begin_run:
  "begin_request x rt session s =
     (let corr = uuid_src (p_host s) (uuid_next (p_host s))
      in case try_acquire (a_slots s) of
           None \<Rightarrow> (Inl (Failed (''AI runtime busy: max_concurrent_requests='' @
             dec (rb_max_concurrent_requests (ai_budgets rt)) @ corr_note x corr)), drawn session s)
         | Some n \<Rightarrow> (Inr (corr, session_of session s), (drawn session s)\<lparr>a_slots := n\<rparr>))"
  by (cases session)
    (simp_all add: begin_request_def session_of_def drawn_def on_plant_def new_v4_def io_defs Let_def split: option.split)

lemma end_slots: "a_slots (snd (end_request x rt corr r s)) = Suc (a_slots s)"
  by (cases r) (simp_all add: end_request_def release_def io_defs)

lemma crew_step_sum:
  assumes "crew_step x rt c d"
  shows "a_slots (cr_state d) + length (cr_requests d) = a_slots (cr_state c) + length (cr_requests c)"
  using assms
proof cases
  case (ends as corr bs r q t)
  then show ?thesis using end_slots [of x rt corr r "cr_state c"] by simp
qed (auto simp: begin_run Let_def try_acquire_def split: nat.splits)

lemma crew_run_sum:
  assumes "(crew_step x rt)\<^sup>*\<^sup>* (crew_start s) c"
  shows "a_slots (cr_state c) + length (cr_requests c) = a_slots s"
  using assms by (induction rule: rtranclp_induct) (simp_all add: crew_start_def crew_step_sum)

text \<open>A whole request, run on its own, is a run of the relation.\<close>

lemma request_is_crew_run:
  "(crew_step x rt)\<^sup>*\<^sup>* \<lparr>cr_state = s, cr_requests = cs\<rparr>
     \<lparr>cr_state = snd (handle_user_text_in_session x rt text session w s), cr_requests = cs\<rparr>"
proof (cases "begin_request x rt session s")
  case (Pair b u)
  show ?thesis
  proof (cases b)
    case (Inl e)
    then have "handle_user_text_in_session x rt text session w s = (Inl e, u)"
      using Pair by (simp add: handle_user_text_in_session_def bind_io_def)
    then show ?thesis using crew_step.turned_away [of x rt session "\<lparr>cr_state = s, cr_requests = cs\<rparr>"] Pair Inl by auto
  next
    case (Inr p)
    then obtain corr sid where p: "begin_request x rt session s = (Inr (corr, sid), u)" using Pair by (cases p) auto
    obtain r v where r: "handle_user_text_inner x rt text corr sid w u = (r, v)" by fastforce
    obtain q t where e: "end_request x rt corr r v = (q, t)" by fastforce
    have "handle_user_text_in_session x rt text session w s = (q, t)"
      using p r e by (simp add: handle_user_text_in_session_def bind_io_def attempt_def)
    moreover have "crew_step x rt \<lparr>cr_state = s, cr_requests = cs\<rparr> \<lparr>cr_state = u, cr_requests = cs @ [corr]\<rparr>"
      using crew_step.arrives [of x rt session "\<lparr>cr_state = s, cr_requests = cs\<rparr>"] p by auto
    moreover have "crew_step x rt \<lparr>cr_state = u, cr_requests = cs @ [corr]\<rparr> \<lparr>cr_state = v, cr_requests = cs @ [corr]\<rparr>"
      using crew_step.works [of v "\<lparr>cr_state = u, cr_requests = cs @ [corr]\<rparr>" x rt] inner_keeps_gate [OF r]
      by (simp add: keeps_gate_def)
    moreover have "crew_step x rt \<lparr>cr_state = v, cr_requests = cs @ [corr]\<rparr> \<lparr>cr_state = t, cr_requests = cs\<rparr>"
      using crew_step.ends [of "\<lparr>cr_state = v, cr_requests = cs @ [corr]\<rparr>" cs corr "[]" x rt r q t] e by simp
    ultimately show ?thesis by (auto intro: converse_rtranclp_into_rtranclp)
  qed
qed

section \<open>The top process\<close>

lemma f64_of_nat_finite: "\<exists>q. f64_of_nat n = Fin q"
  by (simp add: f64_of_nat_def Let_def)

lemma f64_of_int_Fin: "\<exists>q. f64_of_int i = Fin q"
proof -
  obtain q where "f64_of_nat (nat (- i)) = Fin q" using f64_of_nat_finite by blast
  then show ?thesis by (simp add: f64_of_int_def f64_of_nat_finite)
qed

lemma as_f64_Fin: "as_f64 v = Some f \<Longrightarrow> \<exists>q. f = Fin q"
  using f64_of_nat_finite f64_of_int_Fin by (cases v rule: as_f64.cases) auto

definition cpu_of :: "json \<Rightarrow> rat" where
  "cpu_of p = (case unwrap_or (Option.bind (get p ''cpu'') as_f64) (Fin 0) of Fin q \<Rightarrow> q | _ \<Rightarrow> 0)"

lemma cpu_of_Fin: "get p ''cpu'' = Some c \<Longrightarrow> unwrap_or (as_f64 c) (Fin 0) = Fin (cpu_of p)"
  by (cases "as_f64 c") (auto simp: cpu_of_def dest: as_f64_Fin)

text \<open>A process entry stands for the triple the scan keeps.\<close>

definition stands_for :: "json \<Rightarrow> u32 \<times> string \<times> f64 \<Rightarrow> bool" where
  "stands_for p b \<longleftrightarrow>
     (case b of (pid, name, cpu) \<Rightarrow>
        (\<exists>n. get_u64 p ''pid'' = Some n \<and> pid = ucast n) \<and> get_str p ''name'' = Some name \<and> cpu = Fin (cpu_of p))"

lemma top_scan_best:
  assumes "top_scan ps best = Some r"
    and "best = None \<and> seen = [] \<or>
      (\<exists>b p. best = Some b \<and> p \<in> set seen \<and> stands_for p b \<and> (\<forall>q \<in> set seen. cpu_of q \<le> cpu_of p))"
  shows "r = None \<and> seen @ ps = [] \<or>
    (\<exists>b p. r = Some b \<and> p \<in> set (seen @ ps) \<and> stands_for p b \<and> (\<forall>q \<in> set (seen @ ps). cpu_of q \<le> cpu_of p))"
  using assms
proof (induction ps arbitrary: best seen)
  case Nil
  then show ?case by auto
next
  case (Cons a ps)
  from Cons.prems(1) obtain n name c where a: "get_u64 a ''pid'' = Some n" "get_str a ''name'' = Some name"
    "get a ''cpu'' = Some c"
    by (auto simp: Option.bind_eq_Some_conv)
  let ?b = "(ucast n :: u32, name, Fin (cpu_of a))"
  have sa: "stands_for a ?b" using a by (auto simp: stands_for_def)
  define best' where "best' = (case best of
      None \<Rightarrow> Some ?b | Some (bp, bn, bc) \<Rightarrow> if f64_gt (Fin (cpu_of a)) bc then Some ?b else best)"
  have scan: "top_scan ps best' = Some r"
    using Cons.prems(1) a cpu_of_Fin [OF a(3)]
    by (cases best) (auto simp: Let_def best'_def split: prod.splits if_splits)
  have "best' = None \<and> seen @ [a] = [] \<or>
      (\<exists>b p. best' = Some b \<and> p \<in> set (seen @ [a]) \<and> stands_for p b \<and> (\<forall>q \<in> set (seen @ [a]). cpu_of q \<le> cpu_of p))"
  proof (cases best)
    case None
    with Cons.prems(2) have "best' = Some ?b" and "seen = []" by (simp_all add: best'_def)
    with sa show ?thesis by auto
  next
    case (Some b)
    with Cons.prems(2) obtain p where p: "p \<in> set seen" "stands_for p b" "\<forall>q \<in> set seen. cpu_of q \<le> cpu_of p"
      by auto
    then obtain bp bn where b: "b = (bp, bn, Fin (cpu_of p))"
      by (cases b) (auto simp: stands_for_def)
    show ?thesis
    proof (cases "cpu_of p < cpu_of a")
      case True
      then have "best' = Some ?b" by (simp add: best'_def Some b)
      moreover have "\<forall>q \<in> set (seen @ [a]). cpu_of q \<le> cpu_of a" using True p(3) by auto
      ultimately show ?thesis using sa by auto
    next
      case False
      then have "best' = Some b" by (simp add: best'_def Some b)
      with p False show ?thesis by auto
    qed
  qed
  from Cons.IH [OF scan this] show ?case by simp
qed

lemma top_process_max:
  assumes "top_process v = Some (pid, name)"
  shows "\<exists>ps p cpu. get_array v ''processes'' = Some ps \<and> p \<in> set ps \<and> stands_for p (pid, name, cpu)
    \<and> (\<forall>q \<in> set ps. cpu_of q \<le> cpu_of p)"
proof -
  from assms obtain ps cpu where "get_array v ''processes'' = Some ps" "top_scan ps None = Some (Some (pid, name, cpu))"
    by (auto simp: top_process_def Option.bind_eq_Some_conv)
  with top_scan_best [of ps None "Some (pid, name, cpu)" "[]"] show ?thesis by auto
qed

end
