(* ===== verification/Lines.thy ===== *)
theory Lines
  imports Prelude
begin

text \<open>
  Reading lines out of a byte stream that arrives in chunks: the buffer keeps what has no line feed yet, and
  every complete line is handed on as soon as it is there. The streaming provider and the web console both
  read so. The point of the lemmas is that how the stream is cut does not matter.
\<close>

text \<open>Take every complete line out of the buffer, each without its line feed.\<close>

function drain_with :: "(string \<Rightarrow> 'a \<Rightarrow> 'a) \<Rightarrow> string \<Rightarrow> 'a \<Rightarrow> string \<times> 'a" where
  "drain_with f buf a =
     (if newline \<in> set buf
      then drain_with f (tl (dropWhile (\<lambda>c. c \<noteq> newline) buf)) (f (takeWhile (\<lambda>c. c \<noteq> newline) buf) a)
      else (buf, a))"
  by pat_completeness auto
termination
proof (relation "measure (\<lambda>(f, buf, a). length buf)", goal_cases)
  case (2 f buf a)
  then have "dropWhile (\<lambda>c. c \<noteq> newline) buf \<noteq> []" by (simp add: dropWhile_eq_Nil_conv)
  then have "length (tl (dropWhile (\<lambda>c. c \<noteq> newline) buf)) < length (dropWhile (\<lambda>c. c \<noteq> newline) buf)"
    by (cases "dropWhile (\<lambda>c. c \<noteq> newline) buf") simp_all
  also have "\<dots> \<le> length buf" by (rule length_dropWhile_le)
  finally show ?case by simp
qed simp

declare drain_with.simps [simp del]

lemma drain_with_line:
  assumes "newline \<notin> set l"
  shows "drain_with f (l @ newline # rest) a = drain_with f rest (f l a)"
proof -
  have "takeWhile (\<lambda>c. c \<noteq> newline) (l @ newline # rest) = l"
    and "dropWhile (\<lambda>c. c \<noteq> newline) (l @ newline # rest) = newline # rest"
    using assms by (simp_all add: takeWhile_append dropWhile_append)
  then show ?thesis by (subst drain_with.simps) simp
qed

lemma drain_with_none: "newline \<notin> set buf \<Longrightarrow> drain_with f buf a = (buf, a)"
  by (subst drain_with.simps) simp

text \<open>Induction on the lines of a text: one complete line in front, or no complete line at all.\<close>

lemma lines_induct [case_names line rest]:
  assumes line: "\<And>l s. newline \<notin> set l \<Longrightarrow> P s \<Longrightarrow> P (l @ newline # s)"
    and rest: "\<And>s. newline \<notin> set s \<Longrightarrow> P s"
  shows "P s"
proof (induction "length s" arbitrary: s rule: less_induct)
  case less
  show ?case
  proof (cases "newline \<in> set s")
    case True
    then obtain l t where "s = l @ newline # t" "newline \<notin> set l" by (meson split_list_first)
    with less line show ?thesis by simp
  qed (rule rest)
qed

lemma drain_with_append:
  "drain_with f (s @ t) a = (case drain_with f s a of (r, b) \<Rightarrow> drain_with f (r @ t) b)"
proof (induction s arbitrary: a rule: lines_induct)
  case (line l s)
  then show ?case by (simp add: drain_with_line)
qed (simp add: drain_with_none)

lemma drain_with_rest: "drain_with f s a = (r, b) \<Longrightarrow> newline \<notin> set r"
proof (induction s arbitrary: a rule: lines_induct)
  case (line l s)
  then show ?case by (simp add: drain_with_line)
qed (simp add: drain_with_none)

text \<open>What every line keeps, draining keeps.\<close>

lemma drain_with_invariant:
  assumes "\<And>l a. I a \<Longrightarrow> I (f l a)" and "I a"
  shows "I (snd (drain_with f s a))"
  using assms(2)
proof (induction s arbitrary: a rule: lines_induct)
  case (line l s)
  then show ?case by (simp add: drain_with_line assms(1))
qed (simp add: drain_with_none)

text \<open>A text made of complete lines is drained line by line, and leaves nothing.\<close>

lemma drain_with_lines:
  assumes "\<And>l. l \<in> set ls \<Longrightarrow> newline \<notin> set l"
  shows "drain_with f (concat (map (\<lambda>l. l @ [newline]) ls)) a = ([], fold f ls a)"
  using assms
proof (induction ls arbitrary: a)
  case (Cons l ls)
  then show ?case using drain_with_line [of l f _ a] by simp
qed (simp add: drain_with_none)

text \<open>The whole reader: a chunk is put behind what is left over, and drained.\<close>

fun feed_chunks :: "(string \<Rightarrow> 'a \<Rightarrow> 'a) \<Rightarrow> string list \<Rightarrow> string \<Rightarrow> 'a \<Rightarrow> string \<times> 'a" where
  "feed_chunks f [] buf a = (buf, a)"
| "feed_chunks f (c # cs) buf a = (case drain_with f (buf @ c) a of (r, b) \<Rightarrow> feed_chunks f cs r b)"

lemma feed_chunks_concat:
  assumes "newline \<notin> set buf"
  shows "feed_chunks f cs buf a = drain_with f (buf @ concat cs) a"
  using assms
proof (induction cs arbitrary: buf a)
  case (Cons c cs)
  obtain r b where d: "drain_with f (buf @ c) a = (r, b)" by fastforce
  have "drain_with f (buf @ c @ concat cs) a = drain_with f (r @ concat cs) b"
    using drain_with_append [of f "buf @ c" "concat cs" a] d by simp
  with Cons d drain_with_rest [OF d] show ?case by simp
qed (simp add: drain_with_none)

end
