(* ===== verification/OpenAi.thy ===== *)
theory OpenAi
  imports ModelProvider Utf8 Lines
begin

text \<open>
  \<open>crates/model-provider\<close>: the provider that speaks the OpenAI chat protocol over HTTP
  (\<open>OpenAiCompatProvider\<close>). The HTTP client (reqwest) is an argument: what a request is answered with,
  or how it fails, and into which chunks the network cuts a streamed body. Everything the source does
  around it is here: the URLs and bodies of the requests, the reading of an answer, and the reader of
  server-sent events, which collects text and tool calls from lines that arrive in arbitrary chunks.
\<close>

section \<open>Requests\<close>

datatype http_method = HttpGet | HttpPost

record http_request =
  hq_method :: http_method
  hq_url :: string
  hq_bearer :: "string option"
  hq_body :: "json option"

text \<open>The client: send and insist on a success status; then read the body as JSON; or take the body as
  chunks, of which one may be the error that ends them.\<close>

record http_client =
  http_status :: "http_request \<Rightarrow> (host, string, unit) io"
  http_json :: "http_request \<Rightarrow> (host, string, json) io"
  http_chunks :: "http_request \<Rightarrow> (host, string, (string + string) list) io"

definition bearer :: "openai_config \<Rightarrow> string option" where
  "bearer cfg = (if oc_api_key cfg = [] then None else Some (oc_api_key cfg))"

definition openai_health :: "http_client \<Rightarrow> openai_config \<Rightarrow> (host, string, unit) io" where
  "openai_health c cfg =
     (if contains (oc_label cfg) ''ollama'' \<or> contains (oc_api_base cfg) ''11434''
      then (let base = strip_all_end (strip_all_end (oc_api_base cfg) ''/'') ''/v1''
            in bind_io (http_json c \<lparr>hq_method = HttpGet, hq_url = base @ ''/api/tags'', hq_bearer = None, hq_body = None\<rparr>)
                 (\<lambda>_. ret ()))
      else http_status c
             \<lparr>hq_method = HttpGet, hq_url = strip_all_end (oc_api_base cfg) ''/'' @ ''/models'',
              hq_bearer = bearer cfg, hq_body = None\<rparr>)"

definition chat_message_json :: "chat_message \<Rightarrow> json" where
  "chat_message_json m = Object [(''role'', String (cm_role m)), (''content'', String (cm_content m))]"

definition tool_def_json :: "tool_definition \<Rightarrow> json" where
  "tool_def_json t =
     Object [(''type'', String ''function''),
             (''function'', Object [(''name'', String (td_name t)), (''description'', String (td_description t)),
                                    (''parameters'', td_parameters t)])]"

definition chat_request :: "openai_config \<Rightarrow> bool \<Rightarrow> chat_message list \<Rightarrow> tool_definition list \<Rightarrow> http_request" where
  "chat_request cfg streaming msgs tools =
     \<lparr>hq_method = HttpPost, hq_url = strip_all_end (oc_api_base cfg) ''/'' @ ''/chat/completions'',
      hq_bearer = bearer cfg,
      hq_body = Some (Object
        ([(''model'', String (oc_model cfg)), (''messages'', Array (map chat_message_json msgs)),
          (''tools'', Array (map tool_def_json tools)), (''tool_choice'', String ''auto'')]
         @ (if streaming then [(''stream'', Bool True)] else [])))\<rparr>"

section \<open>An answer in one piece\<close>

text \<open>Arguments that are not JSON become an empty object. Identifiers are drawn call by call.\<close>

definition call_arguments :: "ext \<Rightarrow> string \<Rightarrow> json" where
  "call_arguments x raw = unwrap_or (json_parse x raw) (Object [])"

fun propose_all :: "(string \<times> json) list \<Rightarrow> (host, string, proposed_tool_call list) io" where
  "propose_all [] = ret []"
| "propose_all ((name, args) # cs) =
     bind_io (propose name args) (\<lambda>c. bind_io (propose_all cs) (\<lambda>rest. ret (c # rest)))"

definition answered_call :: "ext \<Rightarrow> json \<Rightarrow> string \<times> json" where
  "answered_call x item =
     (unwrap_or (Option.bind (pointer ''/function/name'' item) as_str) [],
      call_arguments x (unwrap_or (Option.bind (pointer ''/function/arguments'' item) as_str) ''{}''))"

definition openai_complete :: "ext \<Rightarrow> http_client \<Rightarrow> openai_config \<Rightarrow> complete_fn" where
  "openai_complete x c cfg msgs tools =
     bind_io (http_json c (chat_request cfg False msgs tools)) (\<lambda>value.
       case pointer ''/choices/0/message'' value of
         None \<Rightarrow> raise ''missing message in provider response''
       | Some message \<Rightarrow>
           bind_io (propose_all (map (answered_call x) (unwrap_or (get_array message ''tool_calls'') []))) (\<lambda>calls.
             ret \<lparr>mr_assistant_text = get_str message ''content'', mr_tool_calls = calls\<rparr>))"

section \<open>The reader of server-sent events\<close>

text \<open>What the loop collects: the text so far, the pieces sent, and for each index of a tool call the name
  and the fragments of its arguments.\<close>

record sse_acc =
  sa_text :: string
  sa_sent :: "string list"
  sa_tools :: "(string \<times> string) list"

definition sse_start :: sse_acc where
  "sse_start = \<lparr>sa_text = [], sa_sent = [], sa_tools = []\<rparr>"

definition pad_to :: "nat \<Rightarrow> (string \<times> string) list \<Rightarrow> (string \<times> string) list" where
  "pad_to idx ts = ts @ replicate (Suc idx - length ts) ([], [])"

definition call_index :: "json \<Rightarrow> nat" where
  "call_index item = unat (unwrap_or (get_u64 item ''index'') 0)"

definition name_fragment :: "json \<Rightarrow> string" where
  "name_fragment item = unwrap_or (Option.bind (pointer ''/function/name'' item) as_str) []"

definition args_fragment :: "json \<Rightarrow> string" where
  "args_fragment item = unwrap_or (Option.bind (pointer ''/function/arguments'' item) as_str) []"

definition merge_call :: "json \<Rightarrow> (string \<times> string) list \<Rightarrow> (string \<times> string) list" where
  "merge_call item ts =
     (let idx = call_index item;
          ts1 = pad_to idx ts;
          (name, args) = ts1 ! idx
      in ts1[idx := (if name_fragment item = [] then name else name_fragment item, args @ args_fragment item)])"

definition sse_delta :: "json \<Rightarrow> sse_acc \<Rightarrow> sse_acc" where
  "sse_delta delta a =
     (let piece = unwrap_or (get_str delta ''content'') [];
          a1 = (if piece = [] then a else a\<lparr>sa_text := sa_text a @ piece, sa_sent := sa_sent a @ [piece]\<rparr>)
      in a1\<lparr>sa_tools := fold merge_call (unwrap_or (get_array delta ''tool_calls'') []) (sa_tools a1)\<rparr>)"

definition sse_line :: "ext \<Rightarrow> string \<Rightarrow> sse_acc \<Rightarrow> sse_acc" where
  "sse_line x raw a =
     (let line = trim (if raw \<noteq> [] \<and> last raw = carriage then butlast raw else raw)
      in if line = [] then a
         else case strip_prefix line ''data:'' of
           None \<Rightarrow> a
         | Some d \<Rightarrow>
             (let payload = trim d
              in if payload = ''[DONE]'' then a
                 else case Option.bind (json_parse x payload) (pointer ''/choices/0/delta'') of
                   None \<Rightarrow> a
                 | Some delta \<Rightarrow> sse_delta delta a))"

text \<open>Take every complete line out of the buffer.\<close>

definition drain :: "ext \<Rightarrow> string \<Rightarrow> sse_acc \<Rightarrow> string \<times> sse_acc" where
  "drain x buf a = drain_with (sse_line x) buf a"

fun read_chunks :: "ext \<Rightarrow> (string + string) list \<Rightarrow> string \<Rightarrow> sse_acc \<Rightarrow> string option \<times> sse_acc" where
  "read_chunks x [] buf a = (None, a)"
| "read_chunks x (Inl e # cs) buf a = (Some (''stream read: '' @ e), a)"
| "read_chunks x (Inr bytes # cs) buf a =
     (case drain x (buf @ utf8_lossy bytes) a of (buf', a') \<Rightarrow> read_chunks x cs buf' a')"

definition streamed_calls :: "ext \<Rightarrow> (string \<times> string) list \<Rightarrow> (string \<times> json) list" where
  "streamed_calls x ts = map (\<lambda>(name, raw). (name, call_arguments x raw)) (filter (\<lambda>(name, raw). name \<noteq> []) ts)"

text \<open>The call with a delta channel; without one the runtime uses \<open>openai_complete\<close>.\<close>

definition openai_stream :: "ext \<Rightarrow> http_client \<Rightarrow> openai_config \<Rightarrow> stream_fn" where
  "openai_stream x c cfg msgs tools =
     bind_io (on_host (http_chunks c (chat_request cfg True msgs tools))) (\<lambda>chunks.
       case read_chunks x chunks [] sse_start of (failure, a) \<Rightarrow>
         bind_io (send_pieces (sa_sent a)) (\<lambda>_.
           case failure of
             Some e \<Rightarrow> raise e
           | None \<Rightarrow>
               bind_io (on_host (propose_all (streamed_calls x (sa_tools a)))) (\<lambda>calls.
                 ret \<lparr>mr_assistant_text = (if sa_text a = [] then None else Some (sa_text a)),
                      mr_tool_calls = calls\<rparr>)))"

definition openai_provider :: "ext \<Rightarrow> http_client \<Rightarrow> openai_config \<Rightarrow> model_provider" where
  "openai_provider x c cfg =
     \<lparr>mp_name = oc_label cfg, mp_health_check = openai_health c cfg,
      mp_complete = openai_complete x c cfg, mp_stream = openai_stream x c cfg\<rparr>"

section \<open>Chunks do not matter\<close>

lemma read_chunks_concat:
  assumes "list_all utf8_ok cs" and "newline \<notin> set buf"
  shows "read_chunks x (map Inr cs @ tail) buf a =
    (case drain x (buf @ concat cs) a of (r, b) \<Rightarrow> read_chunks x tail r b)"
  using assms
proof (induction cs arbitrary: buf a)
  case Nil
  then show ?case by (simp add: drain_def drain_with_none)
next
  case (Cons c cs)
  obtain r b where d: "drain x (buf @ c) a = (r, b)" by fastforce
  have "drain x (buf @ c @ concat cs) a = drain x (r @ concat cs) b"
    using drain_with_append [of "sse_line x" "buf @ c" "concat cs" a] d by (simp add: drain_def)
  with Cons d drain_with_rest [OF d [unfolded drain_def]] show ?case by (simp add: utf8_ok_def)
qed

lemma read_chunks_join:
  assumes "list_all utf8_ok cs"
  shows "read_chunks x (map Inr cs @ tail) [] a = read_chunks x (Inr (concat cs) # tail) [] a"
  using read_chunks_concat [OF assms, of "[]" x tail a]
    read_chunks_concat [of "[concat cs]" "[]" x tail a] utf8_ok_concat [OF assms]
  by simp

section \<open>The pieces sent are the text\<close>

definition sent_is_text :: "sse_acc \<Rightarrow> bool" where
  "sent_is_text a \<longleftrightarrow> concat (sa_sent a) = sa_text a"

lemma sent_start: "sent_is_text sse_start"
  by (simp add: sent_is_text_def sse_start_def)

lemma sent_delta: "sent_is_text a \<Longrightarrow> sent_is_text (sse_delta d a)"
  by (simp add: sent_is_text_def sse_delta_def Let_def)

lemma sent_line: "sent_is_text a \<Longrightarrow> sent_is_text (sse_line x l a)"
  by (simp add: sse_line_def Let_def sent_delta split: option.split)

lemma sent_drain: "sent_is_text a \<Longrightarrow> sent_is_text (snd (drain x s a))"
  unfolding drain_def by (rule drain_with_invariant) (rule sent_line)

lemma sent_chunks: "sent_is_text a \<Longrightarrow> sent_is_text (snd (read_chunks x cs buf a))"
proof (induction x cs buf a rule: read_chunks.induct)
  case (3 x bytes cs buf a)
  obtain r b where d: "drain x (buf @ utf8_lossy bytes) a = (r, b)" by fastforce
  have "sent_is_text b" using sent_drain [OF 3(2), of x "buf @ utf8_lossy bytes"] d by simp
  with 3(1) [of r b] d show ?case by simp
qed simp_all

interpretation openai_honest: honest_stream "openai_stream x c cfg" for x c cfg
proof (unfold_locales, goal_cases)
  case (1 msgs tools h d r h' d')
  show ?case
  proof (cases "http_chunks c (chat_request cfg True msgs tools) h")
    case (Pair res g)
    with 1 obtain chunks where res: "res = Inr chunks"
      by (cases res) (auto simp: openai_stream_def on_host_def io_simps)
    obtain f a where run: "read_chunks x chunks [] sse_start = (f, a)" by fastforce
    have "concat (sa_sent a) = sa_text a"
      using sent_chunks [OF sent_start, of x chunks "[]"] run by (simp add: sent_is_text_def)
    with 1 Pair res run show ?thesis
      by (cases f) (auto simp: openai_stream_def on_host_def send_pieces_def io_simps split: sum.splits prod.splits)
  qed
qed

section \<open>The tool calls collected\<close>

text \<open>What the slot of an index holds; a slot that was not reached is empty.\<close>

definition slot :: "nat \<Rightarrow> (string \<times> string) list \<Rightarrow> string \<times> string" where
  "slot i ts = (if i < length ts then ts ! i else ([], []))"

lemma slot_pad: "slot i (pad_to n ts) = slot i ts"
  by (auto simp: slot_def pad_to_def nth_append)

lemma length_pad: "length (pad_to n ts) = max (Suc n) (length ts)"
  by (simp add: pad_to_def)

lemma slot_update:
  "slot i ((pad_to n ts)[n := v]) = (if i = n then v else slot i ts)"
  by (auto simp: slot_def pad_to_def nth_append nth_list_update)

lemma slot_merge:
  "slot i (merge_call item ts) =
     (if i = call_index item
      then (if name_fragment item = [] then fst (slot i ts) else name_fragment item,
            snd (slot i ts) @ args_fragment item)
      else slot i ts)"
proof -
  have "pad_to n ts ! n = slot n ts" for n
    using slot_pad [of n n ts] by (simp add: slot_def length_pad split: if_splits)
  then show ?thesis
    by (simp add: merge_call_def Let_def split_beta slot_update)
qed

text \<open>The last name given for the index, and all its argument fragments in order.\<close>

definition items_of :: "nat \<Rightarrow> json list \<Rightarrow> json list" where
  "items_of i items = filter (\<lambda>item. call_index item = i) items"

lemma slot_fold_merge:
  "slot i (fold merge_call items ts) =
     (last (fst (slot i ts) # filter (\<lambda>n. n \<noteq> []) (map name_fragment (items_of i items))),
      snd (slot i ts) @ concat (map args_fragment (items_of i items)))"
  by (induction items arbitrary: ts) (auto simp: slot_merge items_of_def)

end
