(* ===== verification/RuntimeBoot.thy ===== *)
theory RuntimeBoot
  imports RuntimeResults OpenAi
begin

text \<open>
  The runtime as the service starts it: the registry of \<open>boot_registry\<close>, and the host relations of the
  safety properties (signals, growth of the audit file) shown to be respected by its tools.
\<close>

section \<open>The gate of the runtime\<close>

lemma injection_runtime: "looks_like_injection_runtime x args \<Longrightarrow> looks_like_injection x args"
  by (auto simp: looks_like_injection_runtime_def looks_like_injection_def Let_def)

lemma runtime_decide_known:
  assumes "registry_get tools n = Some t" and "ts_name (te_spec t) = n"
  shows "pd_verdict (runtime_decide x tools pol n args) = pd_verdict (decide x pol (te_spec t) args)"
proof (cases "hard_deny n \<or> looks_like_injection_runtime x args \<and> signalling_tool n")
  case True
  then have "blocked_call x (te_spec t) args"
    using assms(2) injection_runtime by (auto simp: blocked_call_def)
  then have "pd_verdict (decide x pol (te_spec t) args) = Deny" by (simp add: gate.blocked_iff_deny)
  with True assms show ?thesis by (auto simp: runtime_decide_def)
next
  case False
  with assms show ?thesis by (auto simp: runtime_decide_def)
qed

lemma runtime_decide_allow:
  assumes "registry_wf tools" and "registry_get tools n = Some t"
    and "pd_verdict (runtime_decide x tools pol n args) = Allow"
  shows "\<not> blocked_call x (te_spec t) args
    \<and> (has_session_grant pol (ts_name (te_spec t)) \<or> low_risk (te_spec t))"
  using assms(3) runtime_decide_known [OF assms(2) registry_get_name [OF assms(1,2)], of x pol args]
  by (auto simp: decide_verdict split: if_splits)

section \<open>Tools of the service\<close>

lemma boot_tool_cases:
  assumes "registry_get (boot_registry x os mode it mem) n = Some t"
  obtains "t \<in> set (system_tools (mode_backend x os mode))" | ms where "t \<in> set (memory_tools it x ms)"
  using boot_registry_get [OF assms] by blast

lemma kill_not_low_risk: "\<not> low_risk kill_spec"
  by (simp add: low_risk_def kill_spec_def)

lemma system_tool_kill:
  assumes "t \<in> set (system_tools b)" and "ts_name (te_spec t) = ''process.kill_request''"
  shows "te_spec t = kill_spec"
  using assms
  by (auto simp: system_tools_def metrics_tool_def process_list_tool_def network_status_tool_def disk_tool_def
      temperature_tool_def journal_tool_def kill_tool_def read_tool_def)

lemma boot_kill_spec:
  assumes "registry_get (boot_registry x os mode it mem) ''process.kill_request'' = Some t"
  shows "te_spec t = kill_spec"
  using assms
proof (cases rule: boot_tool_cases)
  case 1
  then show ?thesis using registry_get_name [OF boot_registry_wf assms] system_tool_kill by blast
next
  case (2 ms)
  then show ?thesis
    using registry_get_name [OF boot_registry_wf assms]
    by (auto simp: memory_tools_def remember_spec_def recall_spec_def forget_spec_def)
qed

text \<open>A relation that reading and memory respect is respected by every tool, if it respects the kill path,
  or if the kill tool cannot be reached.\<close>

lemma boot_tools_climb:
  assumes pre: "state_preorder R" and draws: "draws_climb R"
    and memory: "\<And>f. climbs R (memory_append x f)" "\<And>m. climbs R (memory_read_all x m)"
    and get: "registry_get (boot_registry x os mode it mem) n = Some t"
    and kill: "te_spec t = kill_spec \<Longrightarrow> \<forall>pid s. climbs R (sb_kill (mode_backend x os mode) pid s)"
  shows "climbs R (te_execute t args ctx)"
  using get
proof (cases rule: boot_tool_cases)
  case 1
  have "ts_name (te_spec t) = ''process.kill_request'' \<longrightarrow>
      (\<forall>pid s. climbs R (sb_kill (mode_backend x os mode) pid s))"
    using system_tool_kill [OF 1] kill by blast
  then show ?thesis
    using system_tools_climb [OF pre mode_readers_climb [OF pre draws] 1] by simp
next
  case (2 ms)
  then show ?thesis using memory_tools_climb [OF pre draws memory] by blast
qed

text \<open>The names under which the tools are registered.\<close>

lemma system_names:
  "map (\<lambda>t. ts_name (te_spec t)) (system_tools b) =
     [''system.metrics'', ''process.list'', ''network.status'', ''system.disk'', ''system.temperature'',
      ''system.journal'', ''process.kill_request'']"
  by (simp add: system_tools_def metrics_tool_def process_list_tool_def network_status_tool_def disk_tool_def
      temperature_tool_def journal_tool_def kill_tool_def read_tool_def kill_spec_def)

lemma boot_names:
  "map (\<lambda>t. ts_name (te_spec t)) (system_tools b @ memory_tools it x ms) =
     [''system.metrics'', ''process.list'', ''network.status'', ''system.disk'', ''system.temperature'',
      ''system.journal'', ''process.kill_request'', ''memory.remember'', ''memory.recall'', ''memory.forget'']"
  by (simp add: system_names memory_tools_def remember_spec_def recall_spec_def forget_spec_def)

lemma system_poweroff_absent:
  "''system.poweroff'' \<notin> (\<lambda>t. ts_name (te_spec t)) ` set (system_tools b)"
proof -
  have "''system.poweroff'' \<notin> set (map (\<lambda>t. ts_name (te_spec t)) (system_tools b))"
    unfolding system_names by simp
  then show ?thesis by simp
qed

section \<open>Signals\<close>

lemma same_signals_memory:
  "climbs same_signals (memory_append x f)" "climbs same_signals (memory_read_all x m)"
  by (simp_all add: memory_append_def memory_read_all_def same_signals_host)

lemma climbs_sane: "climbs same_signals m \<Longrightarrow> climbs (sane_signals os) m"
  by (auto simp: climbs_def intro: same_sane)

lemma draws_sane: "draws_climb (sane_signals os)"
  using draws_same_signals by (auto simp: draws_climb_def intro: same_sane)

lemma provider_sane: "provider_climbs same_signals p \<Longrightarrow> provider_climbs (sane_signals os) p"
  by (auto simp: provider_climbs_def climbs_def intro: same_sane)

lemma relation_same_signals: "host_relation same_signals x"
proof -
  have "climbs same_signals (append_envelope x e)" for e
    by (simp add: append_envelope_def audit_append_def same_signals_host)
  then show ?thesis
    by (simp add: host_relation_def same_signals.state_preorder_axioms draws_same_signals)
      (simp add: same_signals_def)
qed

lemma relation_sane: "host_relation (sane_signals os) x"
  using relation_same_signals [of x] draws_sane [of os]
  by (auto simp: host_relation_def sane_signals.state_preorder_axioms intro: climbs_sane same_sane)

lemma contract_same_signals:
  "provider_climbs same_signals (ai_provider rt) \<Longrightarrow> host_contract same_signals x rt"
  by (simp add: host_contract_def relation_same_signals)

lemma contract_sane:
  "provider_climbs same_signals (ai_provider rt) \<Longrightarrow> host_contract (sane_signals os) x rt"
  by (simp add: host_contract_def relation_sane provider_sane)

lemma boot_kill_sane: "climbs (sane_signals os) (sb_kill (mode_backend x os mode) pid s)"
  by (cases mode)
    (simp_all add: mode_backend_def linux_backend_def mock_backend_def real_kill_sane climbs_sane mock_kill_same)

lemma ungranted_kill:
  assumes "registry_get (boot_registry x os mode it mem) n = Some t"
    and "pd_verdict (runtime_decide x (boot_registry x os mode it mem) pol n args) = Allow"
    and "\<not> has_session_grant pol ''process.kill_request''"
  shows "te_spec t \<noteq> kill_spec"
  using runtime_decide_allow [OF boot_registry_wf assms(1,2)] assms(3) kill_not_low_risk
  by (auto simp: kill_spec_def)

lemma ungranted_tools_same_signals:
  assumes "\<not> has_session_grant pol ''process.kill_request''"
  shows "allowed_tools_climb same_signals x (boot_registry x os mode it mem) pol"
  unfolding allowed_tools_climb_def
  using boot_tools_climb [OF same_signals.state_preorder_axioms draws_same_signals same_signals_memory]
    ungranted_kill [OF _ _ assms]
  by blast

lemma boot_tools_sane:
  assumes "registry_get (boot_registry x os mode it mem) n = Some t"
  shows "climbs (sane_signals os) (te_execute t args ctx)"
  using boot_tools_climb [OF sane_signals.state_preorder_axioms draws_sane
      climbs_sane [OF same_signals_memory(1)] climbs_sane [OF same_signals_memory(2)] assms]
    boot_kill_sane by blast

lemma boot_tools_unsignalled:
  assumes "registry_get (boot_registry x os mode it mem) n = Some t" and "n \<noteq> ''process.kill_request''"
  shows "climbs same_signals (te_execute t args ctx)"
proof -
  have "te_spec t \<noteq> kill_spec"
    using registry_get_name [OF boot_registry_wf assms(1)] assms(2) by (auto simp: kill_spec_def)
  then show ?thesis
    using boot_tools_climb [OF same_signals.state_preorder_axioms draws_same_signals same_signals_memory assms(1)]
    by blast
qed

section \<open>The audit file\<close>

lemma draws_file_grows: "draws_climb (file_grows f)"
  by (simp add: draws_climb_def file_grows_def)

lemma real_kill_files: "climbs (file_grows f) (real_kill x os pid s)"
proof -
  have "climbs (file_grows f) (modifies (\<lambda>h. h\<lparr>signals := g h\<rparr>) :: (host, tool_error, unit) io)" for g
    by (simp add: climbs_def modifies_def file_grows_def)
  then show ?thesis
    unfolding real_kill_def by (auto split: sum.split intro!: file_growth.climbs_bind
        file_growth.climbs_reads file_growth.climbs_raise file_growth.climbs_ret)
qed

lemma boot_kill_files: "climbs (file_grows f) (sb_kill (mode_backend x os mode) pid s)"
  by (cases mode)
    (auto simp: mode_backend_def linux_backend_def mock_backend_def real_kill_files mock_kill_def
      intro!: file_growth.climbs_raise file_growth.climbs_ret)

lemma boot_tools_files: "tools_climb (file_grows f) (boot_registry x os mode it mem)"
proof -
  have "climbs (file_grows f) (memory_append x a)" "climbs (file_grows f) (memory_read_all x m)" for a m
    by (simp_all add: memory_append_def memory_read_all_def file_grows_append file_grows_read_records)
  from boot_tools_climb [OF file_growth.state_preorder_axioms draws_file_grows this]
  show ?thesis using boot_kill_files by (auto simp: tools_climb_def)
qed

section \<open>Providers\<close>

lemma mock_provider_climbs:
  assumes "state_preorder R" and "draws_climb R"
  shows "provider_climbs R (mock_provider x)"
proof -
  have complete: "climbs R (mock_complete x msgs tools)" for msgs tools
    unfolding mock_complete_def propose_def Let_def
    by (intro state_preorder.climbs_if [OF assms(1)] state_preorder.climbs_bind [OF assms(1)]
        state_preorder.climbs_ret [OF assms(1)] draws_climb_new_v4 assms(2))
  have "R h (fst (snd (mock_stream x msgs tools (h, ds))))" for h ds msgs tools
  proof -
    have "R h (snd (mock_complete x msgs tools h))" using complete by (simp add: climbs_def)
    then show ?thesis
      by (auto simp: mock_stream_def on_host_def send_pieces_def bind_io_def ret_def
          split: prod.splits sum.splits option.splits)
  qed
  with complete show ?thesis by (simp add: provider_climbs_def mock_provider_def)
qed

text \<open>A fallback chain respects what its members respect.\<close>

lemma fallback_complete_climbs:
  assumes "state_preorder R" and "\<forall>p \<in> set ps. climbs R (mp_complete p msgs tools)"
  shows "climbs R (fallback_complete ps le msgs tools)"
  using assms(2)
  by (induction ps arbitrary: le)
    (auto split: sum.split intro!: state_preorder.climbs_raise [OF assms(1)] state_preorder.climbs_bind [OF assms(1)]
      state_preorder.climbs_attempt [OF assms(1)] state_preorder.climbs_ret [OF assms(1)])

lemma fallback_stream_climbs:
  assumes "state_preorder R" and "\<forall>p \<in> set ps. provider_climbs R p"
  shows "R h (fst (snd (fallback_stream ps le msgs tools (h, ds))))"
  using assms(2)
proof (induction ps arbitrary: le h ds)
  case Nil
  then show ?case by (simp add: raise_def state_preorder.R_refl [OF assms(1)])
next
  case (Cons p ps)
  obtain r g es where run: "mp_stream p msgs tools (h, ds) = (r, (g, es))" by (metis prod.collapse)
  have "R h (fst (snd (mp_stream p msgs tools (h, ds))))" using Cons.prems by (simp add: provider_climbs_def)
  then have first: "R h g" by (simp add: run)
  show ?case
  proof (cases r)
    case (Inl e)
    have "R g (fst (snd (fallback_stream ps (Some e) msgs tools (g, es))))"
      using Cons by simp
    with first have "R h (fst (snd (fallback_stream ps (Some e) msgs tools (g, es))))"
      using state_preorder.R_trans [OF assms(1)] by blast
    then show ?thesis by (simp add: run Inl bind_io_def attempt_def)
  next
    case (Inr a)
    with first show ?thesis by (simp add: run bind_io_def attempt_def ret_def)
  qed
qed

lemma fallback_provider_climbs:
  assumes "state_preorder R" and "\<forall>p \<in> set ps. provider_climbs R p"
  shows "provider_climbs R (fallback_provider ps)"
  using fallback_complete_climbs [OF assms(1), of ps] fallback_stream_climbs [OF assms] assms(2)
  by (simp add: provider_climbs_def fallback_provider_def)

text \<open>The provider that speaks HTTP respects what its client and the drawing of identifiers respect.\<close>

definition client_climbs :: "(host \<Rightarrow> host \<Rightarrow> bool) \<Rightarrow> http_client \<Rightarrow> bool" where
  "client_climbs R c \<longleftrightarrow>
     (\<forall>q. climbs R (http_status c q) \<and> climbs R (http_json c q) \<and> climbs R (http_chunks c q))"

lemma propose_all_climbs: "state_preorder R \<Longrightarrow> draws_climb R \<Longrightarrow> climbs R (propose_all cs)"
  by (induction cs rule: propose_all.induct)
    (auto simp: propose_def intro!: state_preorder.climbs_ret state_preorder.climbs_bind draws_climb_new_v4)

lemma openai_provider_climbs:
  assumes pre: "state_preorder R" and draws: "draws_climb R" and client: "client_climbs R c"
  shows "provider_climbs R (openai_provider x c cfg)"
proof -
  note rules = state_preorder.climbs_ret [OF pre] state_preorder.climbs_raise [OF pre]
    state_preorder.climbs_bind [OF pre] propose_all_climbs [OF pre draws]
  have json: "climbs R (http_json c q)" "climbs R (http_chunks c q)" for q
    using client by (simp_all add: client_climbs_def)
  have complete: "climbs R (openai_complete x c cfg msgs tools)" for msgs tools
    unfolding openai_complete_def by (auto split: option.split intro!: rules json)
  have "R h (fst (snd (openai_stream x c cfg msgs tools (h, ds))))" for h ds msgs tools
  proof -
    obtain r g where run: "http_chunks c (chat_request cfg True msgs tools) h = (r, g)" by fastforce
    have step: "R h g" using json(2) run by (metis climbs_def snd_conv)
    have calls: "R g (snd (propose_all cs g))" for cs
      using propose_all_climbs [OF pre draws] by (simp add: climbs_def)
    have both: "R h (snd (propose_all cs g))" for cs
      using pre step calls by (metis state_preorder.R_trans)
    have end_state: "propose_all cs g = (res, g') \<Longrightarrow> R h g'" for cs res g'
      using both by (metis snd_conv)
    show ?thesis
      using run step
      by (cases r)
        (auto simp: openai_stream_def on_host_def send_pieces_def bind_io_def ret_def raise_def
          split: prod.splits sum.splits option.splits intro: end_state)
  qed
  with complete show ?thesis by (simp add: provider_climbs_def openai_provider_def)
qed

text \<open>Whatever provider the service builds respects what its client and the sources respect.\<close>

lemma openai_health_climbs:
  assumes "state_preorder R" and "client_climbs R c"
  shows "climbs R (mp_health_check (openai_provider x c cfg))"
  using assms
  by (auto simp: openai_provider_def openai_health_def client_climbs_def
      intro!: state_preorder.climbs_bind state_preorder.climbs_ret)

lemma build_provider_climbs:
  assumes pre: "state_preorder R" and draws: "draws_climb R" and client: "client_climbs R c"
  shows "climbs R (build_provider x (openai_provider x c) kind rb rk rm lb lm)"
    and "build_provider x (openai_provider x c) kind rb rk rm lb lm h = (Inr p, h') \<Longrightarrow> provider_climbs R p"
proof -
  note rules = state_preorder.climbs_ret [OF pre] state_preorder.climbs_raise [OF pre]
    state_preorder.climbs_bind [OF pre] state_preorder.climbs_attempt [OF pre]
    openai_health_climbs [OF pre client]
  note providers = openai_provider_climbs [OF pre draws client] mock_provider_climbs [OF pre draws]
  show "climbs R (build_provider x (openai_provider x c) kind rb rk rm lb lm)"
    by (cases kind) (auto simp: build_provider_def Let_def split: option.split intro!: rules)
  show "provider_climbs R p" if "build_provider x (openai_provider x c) kind rb rk rm lb lm h = (Inr p, h')"
    using that providers
    by (cases kind)
      (auto simp: build_provider_def Let_def ret_def raise_def bind_io_def attempt_def
        split: option.splits sum.splits prod.splits intro!: fallback_provider_climbs pre)
qed

end
