(* ===== verification/Automation.thy ===== *)
theory Automation
  imports EventBus Texts "HOL-Library.AList"
begin

text \<open>
  \<open>crates/automation-engine\<close>: rules that turn bus envelopes into actions, with a cooldown per rule.
  The state is the host, the bus and the table of last firings behind its mutex. A cooldown too large
  for chrono makes \<open>ChronoDuration::seconds\<close> panic while the mutex is held, which poisons it: later
  checks panic and later firings are no longer recorded.
\<close>

datatype trigger_kind = NamedEvent string | ToolResultThreshold string string f64

datatype automation_action =
    Notify string
  | SuggestDiagnose string
  | AutoDiagnose string
  | EmitEvent string json

record automation_rule =
  ru_id :: string
  ru_name :: string
  ru_enabled :: bool
  ru_trigger :: trigger_kind
  ru_action :: automation_action
  ru_cooldown_secs :: u64

record automation_fire =
  af_rule_id :: string
  af_rule_name :: string
  af_action :: automation_action
  af_correlation_id :: uuid
  af_causation_id :: uuid
  af_detail :: string

record automation_state = plant +
  au_last_fired :: "(string \<times> datetime) list"
  au_poisoned :: bool

record automation_engine =
  ae_rules :: "automation_rule list"

datatype panic = Panicked

text \<open>\<open>set_auto_diagnose_rule\<close> changes the first rule with the built-in name.\<close>

fun set_enabled :: "string \<Rightarrow> bool \<Rightarrow> automation_rule list \<Rightarrow> automation_rule list" where
  "set_enabled i b [] = []"
| "set_enabled i b (r # rs) = (if ru_id r = i then r\<lparr>ru_enabled := b\<rparr> # rs else r # set_enabled i b rs)"

definition set_auto_diagnose_rule :: "bool \<Rightarrow> automation_engine \<Rightarrow> automation_engine" where
  "set_auto_diagnose_rule b eng = eng\<lparr>ae_rules := set_enabled ''high-cpu-auto-diagnose'' b (ae_rules eng)\<rparr>"

definition default_rules :: "automation_rule list" where
  "default_rules =
     [\<lparr>ru_id = ''high-cpu-suggest'', ru_name = ''High CPU suggests diagnose'', ru_enabled = True,
       ru_trigger = ToolResultThreshold ''system.metrics'' ''cpu_usage'' (Fin 85),
       ru_action = SuggestDiagnose text_prompt_slow, ru_cooldown_secs = 30\<rparr>,
      \<lparr>ru_id = ''high-cpu-auto-diagnose'', ru_name = ''High CPU auto diagnose'', ru_enabled = False,
       ru_trigger = ToolResultThreshold ''system.metrics'' ''cpu_usage'' (Fin 85),
       ru_action = AutoDiagnose text_prompt_slow, ru_cooldown_secs = 120\<rparr>,
      \<lparr>ru_id = ''high-cpu-notify'', ru_name = ''High CPU notification'', ru_enabled = True,
       ru_trigger = ToolResultThreshold ''system.metrics'' ''cpu_usage'' (Fin 85),
       ru_action = Notify ''CPU usage is critically high (>= 85%)'', ru_cooldown_secs = 30\<rparr>,
      \<lparr>ru_id = ''high-mem-notify'', ru_name = ''High memory notification'', ru_enabled = True,
       ru_trigger = ToolResultThreshold ''system.metrics'' ''mem_used_pct'' (Fin 90),
       ru_action = Notify ''Memory usage is critically high (>= 90%)'', ru_cooldown_secs = 60\<rparr>,
      \<lparr>ru_id = ''high-temp-notify'', ru_name = ''High temperature notification'', ru_enabled = True,
       ru_trigger = ToolResultThreshold ''system.temperature'' ''celsius'' (Fin 80),
       ru_action = Notify ''SoC/CPU temperature is high (>= 80C)'', ru_cooldown_secs = 60\<rparr>,
      \<lparr>ru_id = ''named-temp-warning'', ru_name = ''Temperature warning passthrough'', ru_enabled = True,
       ru_trigger = NamedEvent ''TemperatureWarning'',
       ru_action = Notify ''Temperature warning received'', ru_cooldown_secs = 10\<rparr>]"

section \<open>Matching\<close>

definition named_detail :: "string \<Rightarrow> string" where
  "named_detail name = ''named event `'' @ name @ ''`''"

definition threshold_detail :: "ext \<Rightarrow> string \<Rightarrow> string \<Rightarrow> f64 \<Rightarrow> f64 \<Rightarrow> string" where
  "threshold_detail x tool field value gte =
     tool @ ''.'' @ field @ ''='' @ f64_text x value @ '' >= '' @ f64_text x gte"

text \<open>\<open>AutomationEngine::matches\<close>.\<close>

definition engine_matches :: "ext \<Rightarrow> automation_rule \<Rightarrow> envelope \<Rightarrow> string option" where
  "engine_matches x rule env =
     (case ru_trigger rule of
        NamedEvent name \<Rightarrow>
          if env_kind env \<noteq> Event then None
          else Option.bind (get_str (env_payload env) ''event'') (\<lambda>n.
                 if n = name then Some (named_detail name) else None)
      | ToolResultThreshold tool field gte \<Rightarrow>
          if env_kind env \<noteq> ToolResult then None
          else Option.bind (get_str (env_payload env) ''tool'') (\<lambda>t.
                 if t \<noteq> tool then None
                 else Option.bind (get_bool (env_payload env) ''ok'') (\<lambda>ok.
                   if \<not> ok then None
                   else Option.bind (Option.bind (pointer (''/output/'' @ field) (env_payload env)) as_f64) (\<lambda>v.
                     if f64_ge v gte then Some (threshold_detail x tool field v gte) else None))))"

text \<open>\<open>Matcher::matches\<close>, the offline helper.\<close>

definition matcher_matches :: "ext \<Rightarrow> automation_rule \<Rightarrow> envelope \<Rightarrow> string option" where
  "matcher_matches x rule env =
     (case ru_trigger rule of
        NamedEvent name \<Rightarrow>
          if env_kind env \<noteq> Event then None
          else Option.bind (get_str (env_payload env) ''event'') (\<lambda>n.
                 if n = name then Some (named_detail name) else None)
      | ToolResultThreshold tool field gte \<Rightarrow>
          if env_kind env \<noteq> ToolResult then None
          else Option.bind (get_str (env_payload env) ''tool'') (\<lambda>t.
                 if t \<noteq> tool then None
                 else Option.bind (get (env_payload env) ''ok'') (\<lambda>ok.
                   if as_bool ok \<noteq> Some True then None
                   else Option.bind (Option.bind (pointer (''/output/'' @ field) (env_payload env)) as_f64) (\<lambda>v.
                     if f64_ge v gte then Some (threshold_detail x tool field v gte) else None))))"

definition fire_of :: "automation_rule \<Rightarrow> envelope \<Rightarrow> string \<Rightarrow> automation_fire" where
  "fire_of rule env detail =
     \<lparr>af_rule_id = ru_id rule, af_rule_name = ru_name rule, af_action = ru_action rule,
      af_correlation_id = env_correlation_id env, af_causation_id = env_msg_id env, af_detail = detail\<rparr>"

fun evaluate_once :: "ext \<Rightarrow> automation_rule list \<Rightarrow> envelope \<Rightarrow> automation_fire list" where
  "evaluate_once x [] env = []"
| "evaluate_once x (r # rs) env =
     (if \<not> ru_enabled r then evaluate_once x rs env
      else case matcher_matches x r env of
          Some detail \<Rightarrow> fire_of r env detail # evaluate_once x rs env
        | None \<Rightarrow> evaluate_once x rs env)"

section \<open>Cooldowns\<close>

text \<open>\<open>ChronoDuration::seconds(secs as i64)\<close> in nanoseconds; outside chrono's range it panics.\<close>

definition chrono_seconds :: "u64 \<Rightarrow> int option" where
  "chrono_seconds secs =
     (let s = sint secs in if \<bar>s\<bar> \<le> 9223372036854775 then Some (s * 1000000000) else None)"

definition in_cooldown :: "string \<Rightarrow> u64 \<Rightarrow> (automation_state, panic, bool) io" where
  "in_cooldown rule_id secs =
     bind_io (reads au_poisoned) (\<lambda>p.
       if p then raise Panicked
       else bind_io (reads (\<lambda>s. map_of (au_last_fired s) rule_id)) (\<lambda>last.
         case last of
           None \<Rightarrow> ret False
         | Some t \<Rightarrow>
             bind_io (on_plant utc_now) (\<lambda>now.
               case chrono_seconds secs of
                 None \<Rightarrow> bind_io (modifies (\<lambda>s. s\<lparr>au_poisoned := True\<rparr>)) (\<lambda>_. raise Panicked)
               | Some d \<Rightarrow> ret (nanos now - nanos t < d))))"

definition mark_fired :: "string \<Rightarrow> (automation_state, 'e, unit) io" where
  "mark_fired rule_id =
     bind_io (reads au_poisoned) (\<lambda>p.
       if p then ret ()
       else bind_io (on_plant utc_now) (\<lambda>now.
         modifies (\<lambda>s. s\<lparr>au_last_fired := AList.update rule_id now (au_last_fired s)\<rparr>)))"

fun evaluate_rules ::
  "ext \<Rightarrow> automation_rule list \<Rightarrow> envelope \<Rightarrow> (automation_state, panic, automation_fire list) io" where
  "evaluate_rules x [] env = ret []"
| "evaluate_rules x (r # rs) env =
     (if \<not> ru_enabled r then evaluate_rules x rs env
      else case engine_matches x r env of
          Some detail \<Rightarrow>
            bind_io (in_cooldown (ru_id r) (ru_cooldown_secs r)) (\<lambda>cooling.
              if cooling then evaluate_rules x rs env
              else bind_io (evaluate_rules x rs env) (\<lambda>fs. ret (fire_of r env detail # fs)))
        | None \<Rightarrow> evaluate_rules x rs env)"

definition evaluate :: "ext \<Rightarrow> automation_engine \<Rightarrow> envelope \<Rightarrow> (automation_state, panic, automation_fire list) io" where
  "evaluate x eng env = evaluate_rules x (ae_rules eng) env"

section \<open>Applying a firing\<close>

definition fire_payload :: "automation_fire \<Rightarrow> json" where
  "fire_payload f =
     (case af_action f of
        Notify message \<Rightarrow>
          Object [(''event'', String ''AutomationNotify''), (''rule_id'', String (af_rule_id f)),
                  (''rule_name'', String (af_rule_name f)), (''message'', String message),
                  (''detail'', String (af_detail f))]
      | SuggestDiagnose prompt \<Rightarrow>
          Object [(''event'', String ''AutomationSuggestDiagnose''), (''rule_id'', String (af_rule_id f)),
                  (''rule_name'', String (af_rule_name f)), (''prompt'', String prompt),
                  (''detail'', String (af_detail f))]
      | AutoDiagnose prompt \<Rightarrow>
          Object [(''event'', String ''AutomationAutoDiagnose''), (''rule_id'', String (af_rule_id f)),
                  (''rule_name'', String (af_rule_name f)), (''prompt'', String prompt),
                  (''detail'', String (af_detail f))]
      | EmitEvent name payload \<Rightarrow>
          Object [(''event'', String name), (''rule_id'', String (af_rule_id f)),
                  (''rule_name'', String (af_rule_name f)), (''detail'', String (af_detail f)),
                  (''data'', payload)])"

definition apply_fire :: "ext \<Rightarrow> automation_fire \<Rightarrow> (automation_state, string, envelope) io" where
  "apply_fire x f =
     bind_io (mark_fired (af_rule_id f)) (\<lambda>_.
     bind_io (on_plant (envelope_new Event (af_correlation_id f) (Some (af_causation_id f)) (fire_payload f))) (\<lambda>out.
     bind_io (record_envelope x out) (\<lambda>_. ret out)))"

section \<open>The loop\<close>

definition own_event :: "envelope \<Rightarrow> bool" where
  "own_event env \<longleftrightarrow>
     env_kind env = Event
     \<and> (case get_str (env_payload env) ''event'' of None \<Rightarrow> False | Some n \<Rightarrow> starts_with n ''Automation'')"

fun apply_all :: "ext \<Rightarrow> automation_fire list \<Rightarrow> (automation_state, panic, unit) io" where
  "apply_all x [] = ret ()"
| "apply_all x (f # fs) = bind_io (attempt (apply_fire x f)) (\<lambda>_. apply_all x fs)"

definition automation_turn ::
  "ext \<Rightarrow> automation_engine \<Rightarrow> recv_result \<Rightarrow> (automation_state, panic, bool) io" where
  "automation_turn x eng got =
     (case got of
        Got env \<Rightarrow>
          if own_event env then ret True
          else bind_io (evaluate x eng env) (\<lambda>fs. bind_io (apply_all x fs) (\<lambda>_. ret True))
      | Lagged n \<Rightarrow> ret True
      | Closed \<Rightarrow> ret False)"

definition run_loop :: "ext \<Rightarrow> automation_engine \<Rightarrow> recv_result list \<Rightarrow> (automation_state, panic, unit) io" where
  "run_loop x eng = recv_loop (automation_turn x eng)"

section \<open>The engine against the offline matcher\<close>

lemma engine_matches_matcher: "engine_matches x r env = matcher_matches x r env"
proof -
  have key: "Option.bind (get_bool p k) (\<lambda>ok. if \<not> ok then None else m)
      = Option.bind (get p k) (\<lambda>ok. if as_bool ok \<noteq> Some True then None else m)" for p k and m :: "string option"
    by (cases "get p k"; cases "Option.bind (get p k) as_bool") (auto simp: get_bool_def)
  show ?thesis unfolding engine_matches_def matcher_matches_def key ..
qed

text \<open>How a threshold rule matches a result, in terms of the value at its field.\<close>

lemma matcher_threshold:
  assumes "env_kind env = ToolResult" and "get_str (env_payload env) ''tool'' = Some tool"
    and "get_bool (env_payload env) ''ok'' = Some True"
    and "Option.bind (pointer p (env_payload env)) as_f64 = Some (Fin v)" and "p = ''/output/'' @ field"
  shows "matcher_matches x \<lparr>ru_id = i, ru_name = n, ru_enabled = b, ru_trigger = ToolResultThreshold tool field (Fin g),
      ru_action = a, ru_cooldown_secs = c\<rparr> env
    = (if g \<le> v then Some (threshold_detail x tool field (Fin v) (Fin g)) else None)"
  using assms by (simp add: engine_matches_def flip: engine_matches_matcher del: Option.bind_assoc)

lemma matcher_other_tool:
  assumes "env_kind env = ToolResult" and "get_str (env_payload env) ''tool'' = Some tool" and "tool \<noteq> tool'"
  shows "matcher_matches x \<lparr>ru_id = i, ru_name = n, ru_enabled = b, ru_trigger = ToolResultThreshold tool' field g,
      ru_action = a, ru_cooldown_secs = c\<rparr> env = None"
  using assms by (simp add: matcher_matches_def)

lemma matcher_no_event:
  assumes "env_kind env \<noteq> Event"
  shows "matcher_matches x \<lparr>ru_id = i, ru_name = n, ru_enabled = b, ru_trigger = NamedEvent e,
      ru_action = a, ru_cooldown_secs = c\<rparr> env = None"
  using assms by (simp add: matcher_matches_def)

lemma evaluate_rules_fresh:
  assumes "\<not> au_poisoned s" and "\<forall>r \<in> set rs. map_of (au_last_fired s) (ru_id r) = None"
  shows "evaluate_rules x rs env s = (Inr (evaluate_once x rs env), s)"
  using assms(2)
  by (induction rs)
    (auto simp: assms(1) engine_matches_matcher in_cooldown_def io_defs split: option.split)

text \<open>A check of the cooldown only draws from the clock and may poison the mutex.\<close>

definition only_clock :: "automation_state \<Rightarrow> automation_state \<Rightarrow> bool" where
  "only_clock s t \<longleftrightarrow>
     au_last_fired t = au_last_fired s \<and> p_bus t = p_bus s \<and> files (p_host t) = files (p_host s)
     \<and> signals (p_host t) = signals (p_host s) \<and> clock_src (p_host t) = clock_src (p_host s)
     \<and> clock_next (p_host s) \<le> clock_next (p_host t)"

interpretation only_clock: state_preorder only_clock
  by unfold_locales (auto simp: only_clock_def)

lemma only_clock_in_cooldown: "climbs only_clock (in_cooldown i secs)"
  by (auto simp: climbs_def only_clock_def in_cooldown_def on_plant_def io_simps
      split: option.split)

lemma only_clock_evaluate: "climbs only_clock (evaluate_rules x rs env)"
  by (induction rs)
    (auto intro!: only_clock.climbs_ret only_clock.climbs_bind only_clock_in_cooldown
      only_clock.climbs_if split: option.split)

lemma in_cooldown_fresh:
  assumes "in_cooldown i secs s = (Inr b, t)" and "map_of (au_last_fired s) i = None"
  shows "\<not> b"
  using assms by (auto simp: in_cooldown_def io_defs split: if_splits)

text \<open>Evaluation selects from the matcher's firings, and leaves out only rules that have fired.\<close>

lemma evaluate_rules_sound:
  assumes "evaluate_rules x rs env s = (Inr fs, t)"
  shows "subseq fs (evaluate_once x rs env)
    \<and> (\<forall>f \<in> set (evaluate_once x rs env). map_of (au_last_fired s) (af_rule_id f) = None \<longrightarrow> f \<in> set fs)"
  using assms
proof (induction rs arbitrary: s fs t)
  case Nil
  then show ?case by (simp add: ret_def)
next
  case (Cons r rs)
  show ?case
  proof (cases "ru_enabled r \<and> matcher_matches x r env \<noteq> None")
    case False
    then show ?thesis using Cons by (auto simp: engine_matches_matcher split: if_splits)
  next
    case True
    then obtain d where d: "ru_enabled r" "matcher_matches x r env = Some d" by auto
    with Cons.prems obtain b u where
      cool: "in_cooldown (ru_id r) (ru_cooldown_secs r) s = (Inr b, u)"
      by (auto simp: engine_matches_matcher dest!: bind_io_Inr)
    have lf: "au_last_fired u = au_last_fired s"
      using only_clock.climbs_run [OF only_clock_in_cooldown cool] by (simp add: only_clock_def)
    show ?thesis
    proof (cases b)
      case True
      then have "evaluate_rules x rs env u = (Inr fs, t)"
        using Cons.prems d cool by (simp add: engine_matches_matcher bind_io_def)
      from Cons.IH [OF this] True in_cooldown_fresh [OF cool] d lf show ?thesis
        by (auto simp: fire_of_def)
    next
      case False
      then obtain gs where gs: "evaluate_rules x rs env u = (Inr gs, t)" and fs: "fs = fire_of r env d # gs"
        using Cons.prems d cool
        by (auto simp: engine_matches_matcher bind_io_def ret_def split: prod.splits sum.splits)
      from Cons.IH [OF gs] d lf show ?thesis unfolding fs by simp
    qed
  qed
qed

text \<open>The cooldown: while every reading of the clock stays below the last firing plus the cooldown, a
  rule that has fired does not fire.\<close>

definition quiet_until :: "automation_state \<Rightarrow> string \<Rightarrow> int \<Rightarrow> bool" where
  "quiet_until s i deadline \<longleftrightarrow> (\<forall>n \<ge> clock_next (p_host s). nanos (clock_src (p_host s) n) < deadline)"

lemma in_cooldown_quiet:
  assumes "in_cooldown i secs s = (Inr b, t)" and "map_of (au_last_fired s) i = Some t0"
    and "chrono_seconds secs = Some d" and "quiet_until s i (nanos t0 + d)"
  shows b
  using assms
  by (auto simp: in_cooldown_def quiet_until_def on_plant_def io_simps split: if_splits)

lemma quiet_until_mono: "only_clock s t \<Longrightarrow> quiet_until s i d \<Longrightarrow> quiet_until t i d"
  by (auto simp: only_clock_def quiet_until_def)

lemma evaluate_rules_quiet:
  assumes "evaluate_rules x rs env s = (Inr fs, t)" and "map_of (au_last_fired s) i = Some t0"
    and "\<forall>r \<in> set rs. ru_id r = i \<longrightarrow> chrono_seconds (ru_cooldown_secs r) = Some d"
    and "quiet_until s i (nanos t0 + d)"
  shows "\<forall>f \<in> set fs. af_rule_id f \<noteq> i"
  using assms
proof (induction rs arbitrary: s fs t)
  case Nil
  then show ?case by (simp add: ret_def)
next
  case (Cons r rs)
  show ?case
  proof (cases "ru_enabled r \<and> engine_matches x r env \<noteq> None")
    case False
    then show ?thesis using Cons by (auto split: if_splits)
  next
    case True
    then obtain e where e: "ru_enabled r" "engine_matches x r env = Some e" by auto
    with Cons.prems(1) obtain b u where
      cool: "in_cooldown (ru_id r) (ru_cooldown_secs r) s = (Inr b, u)"
      by (auto dest!: bind_io_Inr)
    have oc: "only_clock s u" by (rule only_clock.climbs_run [OF only_clock_in_cooldown cool])
    have "ru_id r = i \<Longrightarrow> b"
      using in_cooldown_quiet [of i _ s b u t0 d] cool Cons.prems(2,3,4) by auto
    moreover obtain gs where "evaluate_rules x rs env u = (Inr gs, t)"
        and "fs = (if b then gs else fire_of r env e # gs)"
      using Cons.prems(1) e cool
      by (cases b) (auto simp: bind_io_def ret_def split: prod.splits sum.splits)
    moreover have "\<forall>f \<in> set gs. af_rule_id f \<noteq> i" if "evaluate_rules x rs env u = (Inr gs, t)"
      using Cons.IH [OF that] Cons.prems oc quiet_until_mono [OF oc] by (auto simp: only_clock_def)
    ultimately show ?thesis by (auto simp: fire_of_def)
  qed
qed

section \<open>Applying a firing\<close>

lemma trail_mark_fired [climbs_intros]: "climbs (trail x) (mark_fired i)"
  unfolding mark_fired_def
  by (intro trail.climbs_bind trail.climbs_if trail.climbs_reads trail.climbs_ret trail_on_plant
      file_grows_utc_now trail.climbs_modifies)
    (simp_all add: trail_host)

lemma file_grows_envelope_new [climbs_intros]: "climbs (file_grows f) (envelope_new k c p j)"
  unfolding envelope_new_def
  by (intro file_growth.climbs_bind file_growth.climbs_ret file_grows_new_v4 file_grows_utc_now)

lemma trail_apply_fire [climbs_intros]: "climbs (trail x) (apply_fire x f)"
  unfolding apply_fire_def
  by (intro trail.climbs_bind trail.climbs_ret trail_mark_fired trail_on_plant file_grows_envelope_new
      trail_record_envelope)

lemma trail_apply_all [climbs_intros]: "climbs (trail x) (apply_all x fs)"
  by (induction fs) (auto intro!: trail.climbs_ret trail.climbs_bind trail.climbs_attempt trail_apply_fire)

lemma trail_evaluate [climbs_intros]: "climbs (trail x) (evaluate_rules y rs env)"
  unfolding climbs_def
proof
  fix s
  have "only_clock s (snd (evaluate_rules y rs env s))"
    using only_clock_evaluate by (simp add: climbs_def)
  then show "trail x s (snd (evaluate_rules y rs env s))"
    by (intro trail_host) (simp_all add: only_clock_def)
qed

lemma trail_run_loop [climbs_intros]: "climbs (trail x) (run_loop x eng rs)"
  unfolding run_loop_def automation_turn_def evaluate_def
  by (intro recv_loop_climbs trail.state_preorder_axioms)
    (auto intro!: trail.climbs_ret trail.climbs_bind trail.climbs_if trail_apply_all trail_evaluate
      split: recv_result.split)

lemma fire_payload_own:
  assumes "\<forall>n p. af_action f \<noteq> EmitEvent n p" and "env_kind e = Event" and "env_payload e = fire_payload f"
  shows "own_event e"
  using assms
  by (cases "af_action f") (simp_all add: own_event_def fire_payload_def)

lemma apply_fire_Inr:
  assumes "apply_fire x f s = (Inr out, t)"
  shows "env_kind out = Event \<and> env_payload out = fire_payload f
    \<and> env_correlation_id out = af_correlation_id f \<and> env_causation_id out = Some (af_causation_id f)
    \<and> p_bus t = p_bus s @ [out]
    \<and> files (p_host t) AuditFile = files (p_host s) AuditFile @ envelope_line x out"
proof -
  obtain u where u: "(mark_fired (af_rule_id f) :: (automation_state, string, unit) io) s = (Inr (), u)"
    using assms by (auto simp: apply_fire_def dest!: bind_io_Inr)
  have "p_bus u = p_bus s \<and> files (p_host u) = files (p_host s)"
    using u by (auto simp: mark_fired_def on_plant_def io_simps split: if_splits)
  with assms u show ?thesis
    by (auto simp: apply_fire_def bind_io_def [of "mark_fired _"] envelope_new_run on_plant_def
        bind_io_def ret_def split: prod.splits sum.splits dest!: record_envelope_Inr)
qed

text \<open>The firing is recorded before anything that can fail.\<close>

lemma apply_fire_marks:
  assumes "\<not> au_poisoned s" and "apply_fire x f s = (r, t)"
  shows "map_of (au_last_fired t) (af_rule_id f) = Some (clock_src (p_host s) (clock_next (p_host s)))"
  using assms
  by (auto simp: apply_fire_def mark_fired_def record_envelope_run append_envelope_def audit_append_def
      append_record_def write_all_def publish_envelope_def envelope_new_def on_plant_def io_simps Let_def
      update_conv' split: write_outcome.splits)

section \<open>The cooldown over a run\<close>

text \<open>The engine runs turn after turn, and between its turns the rest of the program runs, which reads the clock but
  knows nothing of the marks.\<close>

definition elsewhere :: "automation_state \<Rightarrow> automation_state \<Rightarrow> bool" where
  "elsewhere s t \<longleftrightarrow>
     au_last_fired t = au_last_fired s \<and> clock_src (p_host t) = clock_src (p_host s)
     \<and> clock_next (p_host s) \<le> clock_next (p_host t)"

inductive engine_step :: "ext \<Rightarrow> automation_engine \<Rightarrow> automation_state \<Rightarrow> automation_state \<Rightarrow> bool" for x eng where
  turn: "automation_turn x eng got s = (r, t) \<Longrightarrow> engine_step x eng s t"
| others: "elsewhere s t \<Longrightarrow> engine_step x eng s t"

definition keeps_mark :: "string \<Rightarrow> automation_state \<Rightarrow> automation_state \<Rightarrow> bool" where
  "keeps_mark i s t \<longleftrightarrow>
     map_of (au_last_fired t) i = map_of (au_last_fired s) i \<and> clock_src (p_host t) = clock_src (p_host s)
     \<and> clock_next (p_host s) \<le> clock_next (p_host t)"

interpretation keeps_mark: state_preorder "keeps_mark i" for i
  by unfold_locales (auto simp: keeps_mark_def)

lemma keeps_mark_weaker: "only_clock s t \<Longrightarrow> keeps_mark i s t" "elsewhere s t \<Longrightarrow> keeps_mark i s t"
  by (simp_all add: only_clock_def elsewhere_def keeps_mark_def)

lemma keeps_mark_fired: "j \<noteq> i \<Longrightarrow> climbs (keeps_mark i) (mark_fired j)"
  by (auto simp: climbs_def keeps_mark_def mark_fired_def on_plant_def io_simps update_conv')

lemma keeps_mark_apply:
  assumes "af_rule_id f \<noteq> i"
  shows "climbs (keeps_mark i) (apply_fire x f)"
proof -
  have "climbs (keeps_mark i) (on_plant (envelope_new k c p j))" for k c p j
    by (auto simp: climbs_def keeps_mark_def envelope_new_run on_plant_def)
  moreover have "climbs (keeps_mark i) (record_envelope x e)" for e
    by (auto simp: climbs_def keeps_mark_def record_envelope_run append_envelope_def audit_append_def append_record_def
        write_all_def publish_envelope_def on_plant_def io_simps Let_def split: write_outcome.splits)
  ultimately show ?thesis
    unfolding apply_fire_def
    by (intro keeps_mark.climbs_bind keeps_mark.climbs_ret keeps_mark_fired assms)
qed

lemma keeps_mark_apply_all: "i \<notin> af_rule_id ` set fs \<Longrightarrow> climbs (keeps_mark i) (apply_all x fs)"
  by (induction fs)
    (auto intro!: keeps_mark.climbs_ret keeps_mark.climbs_bind keeps_mark.climbs_attempt keeps_mark_apply)

text \<open>The mark of a rule that cools down, until the deadline.\<close>

definition cooling :: "string \<Rightarrow> datetime \<Rightarrow> int \<Rightarrow> automation_state \<Rightarrow> bool" where
  "cooling i t0 d s \<longleftrightarrow> map_of (au_last_fired s) i = Some t0 \<and> quiet_until s i (nanos t0 + d)"

lemma cooling_kept: "keeps_mark i s t \<Longrightarrow> cooling i t0 d s \<Longrightarrow> cooling i t0 d t"
  by (auto simp: keeps_mark_def cooling_def quiet_until_def)

lemma cooling_evaluate:
  assumes "evaluate x eng env s = (r, t)" and "cooling i t0 d s"
    and "\<forall>q \<in> set (ae_rules eng). ru_id q = i \<longrightarrow> chrono_seconds (ru_cooldown_secs q) = Some d"
  shows "cooling i t0 d t \<and> (case r of Inl p \<Rightarrow> True | Inr fs \<Rightarrow> i \<notin> af_rule_id ` set fs)"
proof -
  have "only_clock s t"
    using assms(1) unfolding evaluate_def by (rule only_clock.climbs_run [OF only_clock_evaluate])
  then have "cooling i t0 d t" using assms(2) by (rule cooling_kept [OF keeps_mark_weaker(1)])
  moreover have "i \<notin> af_rule_id ` set fs" if "r = Inr fs" for fs
  proof -
    have "evaluate_rules x (ae_rules eng) env s = (Inr fs, t)" using assms(1) that by (simp add: evaluate_def)
    from evaluate_rules_quiet [OF this _ assms(3), of t0] assms(2) show ?thesis unfolding cooling_def by blast
  qed
  ultimately show ?thesis by (cases r) simp_all
qed

lemma cooling_turn:
  assumes "automation_turn x eng got s = (r, t)" and "cooling i t0 d s"
    and rules: "\<forall>q \<in> set (ae_rules eng). ru_id q = i \<longrightarrow> chrono_seconds (ru_cooldown_secs q) = Some d"
  shows "cooling i t0 d t"
proof (cases got)
  case (Got env)
  show ?thesis
  proof (cases "own_event env")
    case True
    with Got assms(1,2) show ?thesis by (simp add: automation_turn_def ret_def)
  next
    case False
    obtain q u where ev: "evaluate x eng env s = (q, u)" by fastforce
    note after = cooling_evaluate [OF ev assms(2) rules]
    show ?thesis
    proof (cases q)
      case (Inl p)
      then show ?thesis using assms(1) Got False ev after by (simp add: automation_turn_def bind_io_def)
    next
      case (Inr fs)
      with after have "climbs (keeps_mark i) (bind_io (apply_all x fs) (\<lambda>_. ret True) :: (_, panic, bool) io)"
        by (intro keeps_mark.climbs_bind keeps_mark.climbs_ret keeps_mark_apply_all) simp
      moreover have "bind_io (apply_all x fs) (\<lambda>_. ret True) u = (r, t)"
        using assms(1) Got False ev Inr by (simp add: automation_turn_def bind_io_def [of "evaluate x eng env"])
      ultimately have "keeps_mark i u t" by (rule keeps_mark.climbs_run)
      with after show ?thesis by (blast intro: cooling_kept)
    qed
  qed
qed (use assms in \<open>simp_all add: automation_turn_def ret_def\<close>)

lemma cooling_run:
  assumes "(engine_step x eng)\<^sup>*\<^sup>* s t" and "cooling i t0 d s"
    and "\<forall>q \<in> set (ae_rules eng). ru_id q = i \<longrightarrow> chrono_seconds (ru_cooldown_secs q) = Some d"
  shows "cooling i t0 d t"
  using assms(1,2)
proof (induction rule: rtranclp_induct)
  case (step t u)
  from step.hyps(2) show ?case
  proof cases
    case (turn got r)
    with step cooling_turn assms(3) show ?thesis by blast
  next
    case others
    with step cooling_kept keeps_mark_weaker(2) show ?thesis by blast
  qed
qed

section \<open>Own events\<close>

text \<open>The loop skips its own events: receiving only those, it does nothing at all.\<close>

lemma run_loop_own: "\<forall>e \<in> set es. own_event e \<Longrightarrow> run_loop x eng (map Got es) s = (Inr (), s)"
  unfolding run_loop_def by (induction es) (simp_all add: automation_turn_def bind_io_def ret_def)

end
