(* ===== verification/Telemetry.thy ===== *)
theory Telemetry
  imports Automation SystemTools
begin

text \<open>
  \<open>crates/telemetry\<close>: the periodic sampler that runs the metrics tool and publishes its result as if a
  request had asked for it. The ticks of the timer are events from outside; each one after the first is
  one call of \<open>sample_once\<close>, whose errors are logged and dropped.
\<close>

record telemetry_state = plant +
  tl_samples :: u64

record telemetry_sampler =
  tl_tools :: tool_registry
  tl_interval_secs :: nat

record telemetry_stats =
  tls_samples :: u64
  tls_interval_secs :: nat
  tls_uptime_secs :: nat

definition sampler_new :: "tool_registry \<Rightarrow> nat \<Rightarrow> telemetry_sampler" where
  "sampler_new tools interval = \<lparr>tl_tools = tools, tl_interval_secs = max interval 1\<rparr>"

definition sampler_stats :: "telemetry_sampler \<Rightarrow> nat \<Rightarrow> telemetry_state \<Rightarrow> telemetry_stats" where
  "sampler_stats ts uptime s =
     \<lparr>tls_samples = tl_samples s, tls_interval_secs = tl_interval_secs ts, tls_uptime_secs = uptime\<rparr>"

definition sample_once :: "ext \<Rightarrow> telemetry_sampler \<Rightarrow> (telemetry_state, string, envelope) io" where
  "sample_once x ts =
     bind_io (on_plant new_v4) (\<lambda>corr.
     bind_io (on_plant new_v4) (\<lambda>cid.
     bind_io (on_plant (map_err tool_error_text (registry_execute (tl_tools ts) ''system.metrics'' (Object [])
       \<lparr>tc_correlation_id = corr, tc_call_id = cid\<rparr>))) (\<lambda>out.
     bind_io (on_plant (envelope_new ToolResult corr None (tool_call_result_json x
       \<lparr>res_call_id = cid, res_tool = ''system.metrics'', res_ok = to_ok out, res_output = to_value out,
        res_error = to_error out\<rparr>))) (\<lambda>env.
     bind_io (record_envelope x env) (\<lambda>_.
     bind_io (modifies (\<lambda>s. s\<lparr>tl_samples := tl_samples s + 1\<rparr>)) (\<lambda>_. ret env))))))"

text \<open>The task: the first tick is skipped, the others sample.\<close>

fun sampler_ticks :: "ext \<Rightarrow> telemetry_sampler \<Rightarrow> nat \<Rightarrow> (telemetry_state, string, unit) io" where
  "sampler_ticks x ts 0 = ret ()"
| "sampler_ticks x ts (Suc n) = bind_io (attempt (sample_once x ts)) (\<lambda>_. sampler_ticks x ts n)"

definition sampler_run :: "ext \<Rightarrow> telemetry_sampler \<Rightarrow> nat \<Rightarrow> (telemetry_state, string, unit) io" where
  "sampler_run x ts ticks = sampler_ticks x ts (ticks - 1)"

lemma sample_once_Inr:
  assumes "sample_once x ts s = (Inr env, t)"
  shows "p_bus t = p_bus s @ [env] \<and> tl_samples t = tl_samples s + 1
    \<and> env_kind env = ToolResult \<and> env_causation_id env = None
    \<and> get_str (env_payload env) ''tool'' = Some ''system.metrics''"
proof -
  have "get_str (tool_call_result_json x \<lparr>res_call_id = c, res_tool = ''system.metrics'', res_ok = b,
      res_output = v, res_error = e\<rparr>) ''tool'' = Some ''system.metrics''" for c b v e
    by (simp add: tool_call_result_json_def)
  then show ?thesis
    using assms
    by (auto simp: sample_once_def record_envelope_run publish_envelope_def on_plant_def envelope_new_run
        new_v4_def io_defs split: sum.splits prod.splits)
qed

lemma sample_once_Inl:
  assumes "sample_once x ts s = (Inl e, t)"
  shows "p_bus t = p_bus s \<and> tl_samples t = tl_samples s"
  using assms
  by (auto simp: sample_once_def record_envelope_run publish_envelope_def on_plant_def envelope_new_run
      new_v4_def io_defs split: sum.splits prod.splits)

text \<open>What the samples count is what was published.\<close>

lemma sampler_ticks_count:
  "\<exists>k \<le> n. length (p_bus (snd (sampler_ticks x ts n s))) = length (p_bus s) + k
     \<and> tl_samples (snd (sampler_ticks x ts n s)) = tl_samples s + of_nat k"
proof (induction n arbitrary: s)
  case 0
  then show ?case by (simp add: ret_def)
next
  case (Suc n)
  obtain r t where r: "sample_once x ts s = (r, t)" by fastforce
  have run: "snd (sampler_ticks x ts (Suc n) s) = snd (sampler_ticks x ts n t)"
    by (simp add: bind_io_def attempt_def r)
  obtain k where k: "k \<le> n" "length (p_bus (snd (sampler_ticks x ts n t))) = length (p_bus t) + k"
    "tl_samples (snd (sampler_ticks x ts n t)) = tl_samples t + of_nat k"
    using Suc.IH [of t] by blast
  show ?case
  proof (cases r)
    case (Inl e)
    then have "k \<le> Suc n" and "p_bus t = p_bus s" and "tl_samples t = tl_samples s"
      using sample_once_Inl [of x ts s e t] r k by auto
    with k run show ?thesis by auto
  next
    case (Inr env)
    then have "p_bus t = p_bus s @ [env]" and "tl_samples t = tl_samples s + 1"
      using sample_once_Inr [of x ts s env t] r by auto
    then have "length (p_bus (snd (sampler_ticks x ts (Suc n) s))) = length (p_bus s) + Suc k"
      and "tl_samples (snd (sampler_ticks x ts (Suc n) s)) = tl_samples s + of_nat (Suc k)"
      by (simp_all only: run k) simp_all
    with k(1) show ?thesis by (intro exI [of _ "Suc k"]) simp
  qed
qed

text \<open>A sample of the mock tools makes the default rules fire: the loop from sampler to automation.\<close>

lemma mock_sample_payload:
  assumes "registry_get (tl_tools ts) ''system.metrics'' = Some (metrics_tool mock_backend)"
    and "write_src (p_host s) (write_next (p_host s)) = Written"
  shows "\<exists>env t. sample_once x ts s = (Inr env, t)
    \<and> pointer ''/output/cpu_usage'' (env_payload env) = Some (f64_json (Fin 97))
    \<and> get_bool (env_payload env) ''ok'' = Some True"
  using assms
  by (simp add: sample_once_def registry_execute_def metrics_tool_def mock_backend_def record_envelope_run
      publish_envelope_def on_plant_def envelope_new_run append_envelope_def audit_append_def append_record_def
      write_all_def new_v4_def io_defs Let_def tool_call_result_json_def ok_output_def system_metrics_json_def
      mock_metrics_def pointer_def step_into_def uuid_json_def opt_json_def)

end
