(* ===== verification/EventFeed.thy ===== *)
theory EventFeed
  imports Host Window
begin

text \<open>
  \<open>services/saaios-runtime/src/event_feed.rs\<close>: the ring buffer of recent automation events behind
  the \<open>EventsTail\<close> request. The deque is a list, oldest entry first.
\<close>

record feed_item =
  fi_ts :: string
  fi_event :: string
  fi_correlation_id :: "uuid option"
  fi_summary :: string
  fi_payload :: json

record event_feed =
  ef_items :: "feed_item list"
  ef_capacity :: nat

definition feed_new :: "nat \<Rightarrow> event_feed" where
  "feed_new capacity = \<lparr>ef_items = [], ef_capacity = max capacity 1\<rparr>"

definition feed_push :: "feed_item \<Rightarrow> event_feed \<Rightarrow> event_feed" where
  "feed_push item f =
     (let kept = (if ef_capacity f \<le> length (ef_items f) then drop 1 (ef_items f) else ef_items f)
      in f\<lparr>ef_items := kept @ [item]\<rparr>)"

definition feed_tail :: "nat \<Rightarrow> event_feed \<Rightarrow> feed_item list" where
  "feed_tail limit f =
     (let n = min limit (length (ef_items f)) in rev (take n (rev (ef_items f))))"

definition feed_wf :: "event_feed \<Rightarrow> bool" where
  "feed_wf f \<longleftrightarrow> 0 < ef_capacity f \<and> length (ef_items f) \<le> ef_capacity f"

lemma feed_wf_new: "feed_wf (feed_new c)"
  by (simp add: feed_wf_def feed_new_def)

lemma feed_tail_last_n: "feed_tail limit f = last_n limit (ef_items f)"
  by (simp add: feed_tail_def last_n_def rev_take min_def Let_def)

interpretation feed: exact_window feed_push ef_items ef_capacity feed_wf
proof (unfold_locales, goal_cases)
  case (3 s x)
  then show ?case
    by (cases "ef_capacity s \<le> length (ef_items s)")
      (auto simp: feed_wf_def feed_push_def last_n_def Let_def drop_Suc)
qed (auto simp: feed_wf_def feed_push_def Let_def)

end
