(* ===== verification/Config.thy ===== *)
theory Config
  imports MemoryStore
begin

text \<open>
  \<open>crates/config\<close>: the configuration file with its defaults, the overlay of the environment and of the
  command line, and the settings they resolve to. The environment, the existence and content of files
  and the TOML parser are arguments; the parser yields the table of the file as a JSON-like value, and
  what the derive attributes make of it (absent sections and fields take the defaults, present ones
  must have the right type) is defined here. A section written as a TOML array, which serde would also take
  field by field, is treated as ill-typed.
\<close>

record runtime_config =
  rc_sock :: string
  rc_audit :: string
  rc_real_linux :: bool
  rc_mock_planner :: bool

record provider_config =
  pv_kind :: string
  pv_api_base :: "string option"
  pv_api_key :: "string option"
  pv_model :: "string option"
  pv_local_base :: "string option"
  pv_local_model :: "string option"

record budgets_config =
  bc_max_concurrent :: u64
  bc_request_timeout_secs :: u64
  bc_max_tool_iters :: u64

record memory_config =
  mc_enabled :: bool
  mc_path :: string

record automation_config =
  ac_enabled :: bool
  ac_auto_diagnose :: bool

datatype telemetry_mode = TelemetryAuto | TelemetryOn | TelemetryOff

record telemetry_config =
  tm_mode :: telemetry_mode
  tm_interval_secs :: u64

record saaios_config =
  cf_runtime :: runtime_config
  cf_provider :: provider_config
  cf_budgets :: budgets_config
  cf_memory :: memory_config
  cf_automation :: automation_config
  cf_telemetry :: telemetry_config

definition default_runtime :: runtime_config where
  "default_runtime =
     \<lparr>rc_sock = ''/tmp/saaios.sock'', rc_audit = ''saaios-audit.jsonl'', rc_real_linux = False,
      rc_mock_planner = False\<rparr>"

definition default_provider :: provider_config where
  "default_provider =
     \<lparr>pv_kind = ''auto'', pv_api_base = None, pv_api_key = None, pv_model = Some ''gpt-4o-mini'',
      pv_local_base = Some ''http://127.0.0.1:11434/v1'', pv_local_model = Some ''llama3.2''\<rparr>"

definition default_budgets :: budgets_config where
  "default_budgets = \<lparr>bc_max_concurrent = 1, bc_request_timeout_secs = 30, bc_max_tool_iters = 6\<rparr>"

definition default_memory :: memory_config where
  "default_memory = \<lparr>mc_enabled = True, mc_path = ''saaios-memory.jsonl''\<rparr>"

definition default_automation :: automation_config where
  "default_automation = \<lparr>ac_enabled = True, ac_auto_diagnose = False\<rparr>"

definition default_telemetry :: telemetry_config where
  "default_telemetry = \<lparr>tm_mode = TelemetryAuto, tm_interval_secs = 30\<rparr>"

definition default_config :: saaios_config where
  "default_config =
     \<lparr>cf_runtime = default_runtime, cf_provider = default_provider, cf_budgets = default_budgets,
      cf_memory = default_memory, cf_automation = default_automation, cf_telemetry = default_telemetry\<rparr>"

section \<open>Reading a file\<close>

text \<open>A section: absent is the default, a present one must be a table. TOML has no null, so an
  optional field is absent or a string.\<close>

definition toml_opt :: "string option \<Rightarrow> json \<Rightarrow> string \<Rightarrow> string option option" where
  "toml_opt dflt v k = get_default (map_option Some \<circ> as_str) dflt v k"

definition runtime_of_toml :: "json \<Rightarrow> runtime_config option" where
  "runtime_of_toml v =
     (let d = default_runtime in if \<not> is_object v then None else
      Option.bind (get_default as_str (rc_sock d) v ''sock'') (\<lambda>a.
      Option.bind (get_default as_str (rc_audit d) v ''audit'') (\<lambda>b.
      Option.bind (get_default as_bool (rc_real_linux d) v ''real_linux'') (\<lambda>c.
      Option.bind (get_default as_bool (rc_mock_planner d) v ''mock_planner'') (\<lambda>e.
        Some \<lparr>rc_sock = a, rc_audit = b, rc_real_linux = c, rc_mock_planner = e\<rparr>)))))"

definition provider_of_toml :: "json \<Rightarrow> provider_config option" where
  "provider_of_toml v =
     (let d = default_provider in if \<not> is_object v then None else
      Option.bind (get_default as_str (pv_kind d) v ''kind'') (\<lambda>k.
      Option.bind (toml_opt (pv_api_base d) v ''api_base'') (\<lambda>a.
      Option.bind (toml_opt (pv_api_key d) v ''api_key'') (\<lambda>b.
      Option.bind (toml_opt (pv_model d) v ''model'') (\<lambda>c.
      Option.bind (toml_opt (pv_local_base d) v ''local_base'') (\<lambda>e.
      Option.bind (toml_opt (pv_local_model d) v ''local_model'') (\<lambda>f.
        Some \<lparr>pv_kind = k, pv_api_base = a, pv_api_key = b, pv_model = c, pv_local_base = e,
              pv_local_model = f\<rparr>)))))))"

definition budgets_of_toml :: "json \<Rightarrow> budgets_config option" where
  "budgets_of_toml v =
     (let d = default_budgets in if \<not> is_object v then None else
      Option.bind (get_default as_u64 (bc_max_concurrent d) v ''max_concurrent'') (\<lambda>a.
      Option.bind (get_default as_u64 (bc_request_timeout_secs d) v ''request_timeout_secs'') (\<lambda>b.
      Option.bind (get_default as_u64 (bc_max_tool_iters d) v ''max_tool_iters'') (\<lambda>c.
        Some \<lparr>bc_max_concurrent = a, bc_request_timeout_secs = b, bc_max_tool_iters = c\<rparr>))))"

definition memory_of_toml :: "json \<Rightarrow> memory_config option" where
  "memory_of_toml v =
     (let d = default_memory in if \<not> is_object v then None else
      Option.bind (get_default as_bool (mc_enabled d) v ''enabled'') (\<lambda>a.
      Option.bind (get_default as_str (mc_path d) v ''path'') (\<lambda>b.
        Some \<lparr>mc_enabled = a, mc_path = b\<rparr>)))"

definition automation_of_toml :: "json \<Rightarrow> automation_config option" where
  "automation_of_toml v =
     (let d = default_automation in if \<not> is_object v then None else
      Option.bind (get_default as_bool (ac_enabled d) v ''enabled'') (\<lambda>a.
      Option.bind (get_default as_bool (ac_auto_diagnose d) v ''auto_diagnose'') (\<lambda>b.
        Some \<lparr>ac_enabled = a, ac_auto_diagnose = b\<rparr>)))"

definition mode_of_toml :: "json \<Rightarrow> telemetry_mode option" where
  "mode_of_toml v =
     (if as_str v = Some ''auto'' then Some TelemetryAuto
      else if as_str v = Some ''on'' then Some TelemetryOn
      else if as_str v = Some ''off'' then Some TelemetryOff else None)"

definition telemetry_of_toml :: "json \<Rightarrow> telemetry_config option" where
  "telemetry_of_toml v =
     (let d = default_telemetry in if \<not> is_object v then None else
      Option.bind (get_default mode_of_toml (tm_mode d) v ''mode'') (\<lambda>a.
      Option.bind (get_default as_u64 (tm_interval_secs d) v ''interval_secs'') (\<lambda>b.
        Some \<lparr>tm_mode = a, tm_interval_secs = b\<rparr>)))"

definition config_of_toml :: "json \<Rightarrow> saaios_config option" where
  "config_of_toml v =
     (let d = default_config in if \<not> is_object v then None else
      Option.bind (get_default runtime_of_toml (cf_runtime d) v ''runtime'') (\<lambda>a.
      Option.bind (get_default provider_of_toml (cf_provider d) v ''provider'') (\<lambda>b.
      Option.bind (get_default budgets_of_toml (cf_budgets d) v ''budgets'') (\<lambda>c.
      Option.bind (get_default memory_of_toml (cf_memory d) v ''memory'') (\<lambda>e.
      Option.bind (get_default automation_of_toml (cf_automation d) v ''automation'') (\<lambda>f.
      Option.bind (get_default telemetry_of_toml (cf_telemetry d) v ''telemetry'') (\<lambda>g.
        Some \<lparr>cf_runtime = a, cf_provider = b, cf_budgets = c, cf_memory = e, cf_automation = f,
              cf_telemetry = g\<rparr>)))))))"

text \<open>What surrounds the process: environment variables, readable files, the TOML parser.\<close>

record surroundings =
  su_env :: "string \<Rightarrow> string option"
  su_exists :: "string \<Rightarrow> bool"
  su_read :: "string \<Rightarrow> string option"
  su_toml :: "string \<Rightarrow> json option"

definition load_file :: "surroundings \<Rightarrow> string \<Rightarrow> string + saaios_config" where
  "load_file su path =
     (case su_read su path of
        None \<Rightarrow> Inl (''read config '' @ path)
      | Some text \<Rightarrow>
          (case Option.bind (su_toml su text) config_of_toml of
             None \<Rightarrow> Inl (''parse config '' @ path)
           | Some cfg \<Rightarrow> Inr cfg))"

definition discover_config_path :: "surroundings \<Rightarrow> string option \<Rightarrow> string option" where
  "discover_config_path su explicit =
     (case explicit of
        Some p \<Rightarrow> Some p
      | None \<Rightarrow>
          (let candidates = find (su_exists su) [''saaios.toml'', ''/etc/saaios/saaios.toml'']
           in case su_env su ''SAAIOS_CONFIG'' of
                Some p \<Rightarrow> if su_exists su p then Some p else candidates
              | None \<Rightarrow> candidates))"

section \<open>Resolving\<close>

record cli_overrides =
  cli_config :: "string option"
  cli_mock :: bool
  cli_mock_planner :: bool
  cli_provider :: "string option"
  cli_sock :: "string option"
  cli_audit :: "string option"
  cli_memory :: "string option"
  cli_no_memory :: bool
  cli_real_linux :: bool
  cli_max_concurrent :: "u64 option"
  cli_request_timeout_secs :: "u64 option"
  cli_max_tool_iters :: "u64 option"
  cli_no_automation :: bool
  cli_auto_diagnose :: bool
  cli_no_auto_diagnose :: bool
  cli_telemetry :: bool
  cli_no_telemetry :: bool
  cli_telemetry_interval_secs :: "u64 option"

record resolved_settings =
  st_config_path :: "string option"
  st_sock :: string
  st_audit :: string
  st_real_linux :: bool
  st_mock_planner :: bool
  st_provider_kind :: string
  st_api_base :: "string option"
  st_api_key :: "string option"
  st_model :: "string option"
  st_local_base :: "string option"
  st_local_model :: "string option"
  st_max_concurrent :: u64
  st_request_timeout_secs :: u64
  st_max_tool_iters :: u64
  st_memory_enabled :: bool
  st_memory_path :: string
  st_automation_enabled :: bool
  st_auto_diagnose :: bool
  st_telemetry_enabled :: bool
  st_telemetry_interval_secs :: u64

text \<open>\<open>if let Ok(v) = std::env::var(name) { field = Some(v) }\<close>.\<close>

definition env_over :: "surroundings \<Rightarrow> string \<Rightarrow> string option \<Rightarrow> string option" where
  "env_over su name current = (case su_env su name of Some v \<Rightarrow> Some v | None \<Rightarrow> current)"

definition mock_mode :: "surroundings \<Rightarrow> bool" where
  "mock_mode su \<longleftrightarrow> su_env su ''SAAIOS_MODE'' = Some ''mock''"

definition overlay_env :: "surroundings \<Rightarrow> cli_overrides \<Rightarrow> saaios_config \<Rightarrow> saaios_config" where
  "overlay_env su ov cfg =
     (let pv = cf_provider cfg;
          pv1 = pv\<lparr>pv_api_base := env_over su ''SAAIOS_API_BASE'' (pv_api_base pv),
                   pv_api_key := env_over su ''SAAIOS_API_KEY'' (pv_api_key pv),
                   pv_model := env_over su ''SAAIOS_MODEL'' (pv_model pv),
                   pv_local_base := env_over su ''SAAIOS_LOCAL_BASE'' (pv_local_base pv),
                   pv_local_model := env_over su ''SAAIOS_LOCAL_MODEL'' (pv_local_model pv)\<rparr>;
          pv2 = (case su_env su ''SAAIOS_PROVIDER'' of
                   Some v \<Rightarrow> if cli_provider ov = None then pv1\<lparr>pv_kind := v\<rparr> else pv1
                 | None \<Rightarrow> pv1)
      in if mock_mode su
         then cfg\<lparr>cf_provider := pv2\<lparr>pv_kind := ''mock''\<rparr>,
                  cf_runtime := (cf_runtime cfg)\<lparr>rc_mock_planner := True\<rparr>\<rparr>
         else cfg\<lparr>cf_provider := pv2\<rparr>)"

definition telemetry_on :: "string \<Rightarrow> bool" where
  "telemetry_on v \<longleftrightarrow> v \<in> set [''1'', ''true'', ''TRUE'', ''yes'', ''on'']"

definition telemetry_off :: "string \<Rightarrow> bool" where
  "telemetry_off v \<longleftrightarrow> v \<in> set [''0'', ''false'', ''FALSE'', ''no'', ''off'']"

definition resolve_telemetry :: "surroundings \<Rightarrow> cli_overrides \<Rightarrow> telemetry_mode \<Rightarrow> bool \<Rightarrow> bool" where
  "resolve_telemetry su ov mode real_linux =
     (let t0 = (case mode of TelemetryOn \<Rightarrow> True | TelemetryOff \<Rightarrow> False | TelemetryAuto \<Rightarrow> real_linux);
          t1 = (if cli_telemetry ov then True else t0);
          t2 = (if cli_no_telemetry ov then False else t1)
      in if \<not> cli_telemetry ov \<and> \<not> cli_no_telemetry ov
         then (case su_env su ''SAAIOS_TELEMETRY'' of
                 None \<Rightarrow> t2
               | Some v \<Rightarrow> if telemetry_on v then True else if telemetry_off v then False else t2)
         else t2)"

definition resolve :: "surroundings \<Rightarrow> cli_overrides \<Rightarrow> string + resolved_settings" where
  "resolve su ov =
     (let config_path = discover_config_path su (cli_config ov)
      in case (case config_path of None \<Rightarrow> Inr default_config | Some path \<Rightarrow> load_file su path) of
           Inl e \<Rightarrow> Inl e
         | Inr cfg0 \<Rightarrow>
             (let cfg = overlay_env su ov cfg0;
                  real_linux = (rc_real_linux (cf_runtime cfg) \<or> cli_real_linux ov);
                  planner0 = (rc_mock_planner (cf_runtime cfg) \<or> cli_mock_planner ov);
                  kind0 = unwrap_or (cli_provider ov) (pv_kind (cf_provider cfg));
                  kind1 = (if cli_mock ov \<or> mock_mode su then ''mock'' else kind0);
                  force = (cli_mock_planner ov \<or> mock_mode su);
                  planner = (if force then True else planner0);
                  kind = (if force then ''mock'' else kind1);
                  auto0 = (ac_auto_diagnose (cf_automation cfg) \<or> cli_auto_diagnose ov)
              in Inr
                \<lparr>st_config_path = config_path,
                 st_sock = unwrap_or (cli_sock ov) (rc_sock (cf_runtime cfg)),
                 st_audit = unwrap_or (cli_audit ov) (rc_audit (cf_runtime cfg)),
                 st_real_linux = real_linux,
                 st_mock_planner = planner,
                 st_provider_kind = kind,
                 st_api_base = pv_api_base (cf_provider cfg),
                 st_api_key = pv_api_key (cf_provider cfg),
                 st_model = pv_model (cf_provider cfg),
                 st_local_base = pv_local_base (cf_provider cfg),
                 st_local_model = pv_local_model (cf_provider cfg),
                 st_max_concurrent = max (unwrap_or (cli_max_concurrent ov) (bc_max_concurrent (cf_budgets cfg))) 1,
                 st_request_timeout_secs =
                   max (unwrap_or (cli_request_timeout_secs ov) (bc_request_timeout_secs (cf_budgets cfg))) 1,
                 st_max_tool_iters = max (unwrap_or (cli_max_tool_iters ov) (bc_max_tool_iters (cf_budgets cfg))) 1,
                 st_memory_enabled = (mc_enabled (cf_memory cfg) \<and> \<not> cli_no_memory ov),
                 st_memory_path = unwrap_or (cli_memory ov) (mc_path (cf_memory cfg)),
                 st_automation_enabled = (ac_enabled (cf_automation cfg) \<and> \<not> cli_no_automation ov),
                 st_auto_diagnose = (if cli_no_auto_diagnose ov then False else auto0),
                 st_telemetry_enabled = resolve_telemetry su ov (tm_mode (cf_telemetry cfg)) real_linux,
                 st_telemetry_interval_secs =
                   max (unwrap_or (cli_telemetry_interval_secs ov) (tm_interval_secs (cf_telemetry cfg))) 1\<rparr>))"

section \<open>Lemmas\<close>

lemma word_max_one: "(1 :: u64) \<le> max a 1"
  by simp

text \<open>What the file gives: the defaults, or the content of the file found.\<close>

definition base_config :: "surroundings \<Rightarrow> cli_overrides \<Rightarrow> string + saaios_config" where
  "base_config su ov =
     (case discover_config_path su (cli_config ov) of None \<Rightarrow> Inr default_config | Some path \<Rightarrow> load_file su path)"

lemma resolve_base: "base_config su ov = Inl e \<Longrightarrow> resolve su ov = Inl e"
  by (simp add: base_config_def resolve_def Let_def)

lemma overlay_env_other [simp]:
  "cf_budgets (overlay_env su ov cfg) = cf_budgets cfg"
  "cf_memory (overlay_env su ov cfg) = cf_memory cfg"
  "cf_automation (overlay_env su ov cfg) = cf_automation cfg"
  "cf_telemetry (overlay_env su ov cfg) = cf_telemetry cfg"
  "rc_sock (cf_runtime (overlay_env su ov cfg)) = rc_sock (cf_runtime cfg)"
  "rc_audit (cf_runtime (overlay_env su ov cfg)) = rc_audit (cf_runtime cfg)"
  "rc_real_linux (cf_runtime (overlay_env su ov cfg)) = rc_real_linux (cf_runtime cfg)"
  by (simp_all add: overlay_env_def Let_def)

lemma overlay_env_kind:
  "pv_kind (cf_provider (overlay_env su ov cfg)) =
     (if mock_mode su then ''mock''
      else if cli_provider ov = None then unwrap_or (su_env su ''SAAIOS_PROVIDER'') (pv_kind (cf_provider cfg))
      else pv_kind (cf_provider cfg))"
  by (simp add: overlay_env_def Let_def split: option.split)

lemma overlay_env_api:
  "pv_api_base (cf_provider (overlay_env su ov cfg)) =
     (if su_env su ''SAAIOS_API_BASE'' = None then pv_api_base (cf_provider cfg) else su_env su ''SAAIOS_API_BASE'')"
  "pv_api_key (cf_provider (overlay_env su ov cfg)) =
     (if su_env su ''SAAIOS_API_KEY'' = None then pv_api_key (cf_provider cfg) else su_env su ''SAAIOS_API_KEY'')"
  "pv_model (cf_provider (overlay_env su ov cfg)) =
     (if su_env su ''SAAIOS_MODEL'' = None then pv_model (cf_provider cfg) else su_env su ''SAAIOS_MODEL'')"
  by (auto simp: overlay_env_def env_over_def Let_def split: option.split)

text \<open>Which file that is, place by place.\<close>

lemma base_config_from:
  "base_config su ov =
     (case (if cli_config ov \<noteq> None then cli_config ov
            else if pred_option (su_exists su) (su_env su ''SAAIOS_CONFIG'') \<and> su_env su ''SAAIOS_CONFIG'' \<noteq> None
            then su_env su ''SAAIOS_CONFIG''
            else if su_exists su ''saaios.toml'' then Some ''saaios.toml''
            else if su_exists su ''/etc/saaios/saaios.toml'' then Some ''/etc/saaios/saaios.toml'' else None) of
        None \<Rightarrow> Inr default_config | Some path \<Rightarrow> load_file su path)"
  by (cases "su_env su ''SAAIOS_CONFIG''"; cases "cli_config ov")
    (simp_all add: base_config_def discover_config_path_def)

lemma telemetry_flags_none: "\<not> telemetry_on []" "\<not> telemetry_off []"
  by (simp_all add: telemetry_on_def telemetry_off_def)

lemma resolve_telemetry_layers:
  "resolve_telemetry su ov mode real_linux =
     (if cli_no_telemetry ov then False else if cli_telemetry ov then True
      else (let flag = unwrap_or (su_env su ''SAAIOS_TELEMETRY'') []
            in if telemetry_on flag then True else if telemetry_off flag then False
               else (case mode of TelemetryOn \<Rightarrow> True | TelemetryOff \<Rightarrow> False | TelemetryAuto \<Rightarrow> real_linux)))"
  by (cases "su_env su ''SAAIOS_TELEMETRY''") (simp_all add: resolve_telemetry_def Let_def telemetry_flags_none)

lemma resolve_bounds:
  assumes "base_config su ov = Inr cfg"
  shows "\<exists>st. resolve su ov = Inr st
    \<and> 1 \<le> st_max_concurrent st \<and> 1 \<le> st_request_timeout_secs st \<and> 1 \<le> st_max_tool_iters st
    \<and> 1 \<le> st_telemetry_interval_secs st
    \<and> st_telemetry_enabled st = resolve_telemetry su ov (tm_mode (cf_telemetry cfg)) (st_real_linux st)
    \<and> (cli_no_memory ov \<longrightarrow> \<not> st_memory_enabled st) \<and> (cli_no_automation ov \<longrightarrow> \<not> st_automation_enabled st)
    \<and> (cli_no_auto_diagnose ov \<longrightarrow> \<not> st_auto_diagnose st)"
  using assms by (simp add: resolve_def base_config_def Let_def)

text \<open>Every section and field of an empty file takes its default.\<close>

lemma config_of_empty: "config_of_toml (Object []) = Some default_config"
  by (simp add: config_of_toml_def get_default_def default_config_def Let_def)

lemma config_of_empty_sections:
  "config_of_toml (Object (map (\<lambda>n. (n, Object [])) ns)) = Some default_config"
proof -
  have get: "get (Object (map (\<lambda>n. (n, Object [])) ns)) k = (if k \<in> set ns then Some (Object []) else None)" for k
    by (induction ns) auto
  have "runtime_of_toml (Object []) = Some default_runtime" "provider_of_toml (Object []) = Some default_provider"
    "budgets_of_toml (Object []) = Some default_budgets" "memory_of_toml (Object []) = Some default_memory"
    "automation_of_toml (Object []) = Some default_automation"
    "telemetry_of_toml (Object []) = Some default_telemetry"
    by (simp_all add: runtime_of_toml_def provider_of_toml_def budgets_of_toml_def memory_of_toml_def
        automation_of_toml_def telemetry_of_toml_def get_default_def toml_opt_def Let_def)
  then show ?thesis
    by (simp add: config_of_toml_def get_default_def default_config_def Let_def get del: get.simps)
qed

end
