(* ===== verification/Samples.thy ===== *)
theory Samples
  imports RuntimeBoot Telemetry EventFeed Config
begin

text \<open>
  Concrete inputs: a text codec for one JSON value, a host whose writes succeed, a runtime with the mock
  provider and the mock tools. The properties with hypotheses are applied to these, which shows that the
  hypotheses can hold together.
\<close>

definition sample_ext :: "json \<Rightarrow> ext" where
  "sample_ext j =
     \<lparr>json_text = (\<lambda>v. if v = j then ''J'' else ''K''), json_parse = (\<lambda>s. if s = ''J'' then Some j else None),
      parse_error = (\<lambda>s. ''expected value''), lower_tables = (\<lambda>s. s), upper_tables = (\<lambda>s. s),
      uuid_text = (\<lambda>u. ''0''), uuid_parse = (\<lambda>s. Some nil_uuid),
      time_text = (\<lambda>t. ''0''), time_parse = (\<lambda>s. Some (Timestamp 0)), time_rfc3339 = (\<lambda>t. ''0''), f64_text = (\<lambda>f. ''0'')\<rparr>"

definition sample_host :: host where
  "sample_host =
     \<lparr>uuid_src = (\<lambda>n. nil_uuid), uuid_next = 0, clock_src = (\<lambda>n. Timestamp 0), clock_next = 0,
      files = (\<lambda>f. []), write_src = (\<lambda>n. Written), write_next = 0, open_src = (\<lambda>n. True), open_next = 0, os_next = 0,
      signals = []\<rparr>"

definition sample_os :: os_probes where
  "sample_os =
     \<lparr>os_self = 77, os_proc_exists = (\<lambda>h p. True), os_kill_status = (\<lambda>h p s. Inr (True, ''exit status: 0'')),
      os_sys = \<lparr>of_text = (\<lambda>n p. Inl ''not found''), of_dir = (\<lambda>n p. Inl ''not found''), of_exists = (\<lambda>n p. False),
        of_command = (\<lambda>n c. Inl ''not found''), of_cpus = None, of_order = (\<lambda>t. t)\<rparr>\<rparr>"

definition sample_runtime :: "ext \<Rightarrow> tools_mode \<Rightarrow> ai_runtime" where
  "sample_runtime x mode =
     \<lparr>ai_tools = boot_registry x sample_os mode (\<lambda>fs. fs) (Some \<lparr>ms_path = ''memory.jsonl''\<rparr>),
      ai_audit = \<lparr>al_path = ''audit.jsonl''\<rparr>, ai_provider = mock_provider x,
      ai_budgets = default_resource_budgets, ai_memory = Some \<lparr>ms_path = ''memory.jsonl''\<rparr>,
      ai_tool_order = (\<lambda>ts. ts), ai_fact_order = (\<lambda>fs. fs)\<rparr>"

definition sample_state :: runtime_state where
  "sample_state =
     \<lparr>p_host = sample_host, p_bus = [], a_policy = policy_new, a_convs = initial_convs, a_slots = 1,
      a_progress = [], a_room_src = (\<lambda>n. True), a_room_next = 0, a_cut_src = (\<lambda>n. Ready), a_cut_next = 0\<rparr>"

lemma sample_runtime_tools:
  "ai_tools (sample_runtime x mode) =
     boot_registry x sample_os mode (\<lambda>fs. fs) (Some \<lparr>ms_path = ''memory.jsonl''\<rparr>)"
  by (simp add: sample_runtime_def)

lemma sample_provider: "state_preorder R \<Longrightarrow> draws_climb R \<Longrightarrow> provider_climbs R (ai_provider (sample_runtime x mode))"
  by (simp add: sample_runtime_def mock_provider_climbs)

lemma sample_ungranted: "\<not> has_session_grant (a_policy sample_state) t"
  by (simp add: sample_state_def policy_new_def has_session_grant_def)

definition sample_record :: audit_record where
  "sample_record =
     \<lparr>ar_id = nil_uuid, ar_ts = Timestamp 0, ar_correlation_id = nil_uuid, ar_causation_id = None,
      ar_kind = UserRequest, ar_payload = Null\<rparr>"

definition sample_envelope :: envelope where
  "sample_envelope =
     \<lparr>env_v = 1, env_msg_id = nil_uuid, env_correlation_id = nil_uuid, env_causation_id = None,
      env_kind = UserRequest, env_ts = Timestamp 0, env_payload = Null\<rparr>"

definition audit_ext :: ext where
  "audit_ext = sample_ext (audit_json (sample_ext Null) sample_record)"

definition sample_fact :: memory_fact where
  "sample_fact =
     \<lparr>mf_id = nil_uuid, mf_ts = Timestamp 0, mf_key = ''host'', mf_value = ''pi'', mf_tags = [], mf_source = None,
      mf_deleted = False\<rparr>"

definition fact_ext :: "memory_fact \<Rightarrow> ext" where
  "fact_ext f = sample_ext (fact_json (sample_ext Null) f)"

lemma sample_texts [simp]:
  "uuid_text (sample_ext j) u = ''0''" "time_text (sample_ext j) t = ''0''"
  "uuid_parse (sample_ext j) s = Some nil_uuid" "time_parse (sample_ext j) s = Some (Timestamp 0)"
  "json_text (sample_ext j) v = (if v = j then ''J'' else ''K'')"
  "json_parse (sample_ext j) s = (if s = ''J'' then Some j else None)"
  "lower_tables (sample_ext j) = (\<lambda>s. s)" "upper_tables (sample_ext j) = (\<lambda>s. s)"
  "parse_error (sample_ext j) s = ''expected value''" "f64_text (sample_ext j) q = ''0''"
  by (simp_all add: sample_ext_def)

lemma sample_json_same: "audit_json (sample_ext i) r = audit_json (sample_ext j) r"
  "fact_json (sample_ext i) f = fact_json (sample_ext j) f"
  by (simp_all add: audit_json_def fact_json_def uuid_json_def time_json_def opt_json_def split: option.split)

lemma line_J: "one_line ''J''" "\<not> blank ''J''"
  by (simp_all add: one_line_def newline_def carriage_def blank_def trim_def trim_end_def trim_start_def
      strip_ws_done ws_byte_def)

lemma line_JJ: "one_line ''JJ''" "\<not> blank ''JJ''"
  by (simp_all add: one_line_def newline_def carriage_def blank_def trim_def trim_end_def trim_start_def
      strip_ws_done ws_byte_def ws_bytes2_def)

lemma trim_host: "trim ''host'' = ''host''" "map ascii_lower ''host'' = ''host''"
  by (simp_all add: trim_def trim_end_def trim_start_def strip_ws_done ws_byte_def ws_bytes2_def ws_bytes3_def
      ascii_lower_def)

lemma lower_host: "to_lowercase t ''host'' = ''host''"
  unfolding to_lowercase_def trim_host(2) by (simp add: is_ascii_def)

lemma sample_codec_on: "text_codec_on (sample_ext j) {j}"
  by (simp add: text_codec_on_def line_J)

lemma sample_audit_codec: "audit_codec audit_ext sample_record"
proof -
  have "text_codec_on audit_ext {audit_json audit_ext sample_record}"
    unfolding audit_ext_def by (metis sample_codec_on sample_json_same(1))
  then show ?thesis
    by (simp add: audit_codec_def time_codec_on_def uuid_codec_on_def)
      (simp add: audit_ext_def sample_record_def)
qed

lemma sample_fact_codec:
  assumes "mf_id f = nil_uuid" and "mf_ts f = Timestamp 0"
  shows "fact_codec (fact_ext f) f"
proof -
  have "text_codec_on (fact_ext f) {fact_json (fact_ext f) f}"
    unfolding fact_ext_def by (metis sample_codec_on sample_json_same(2))
  with assms show ?thesis
    by (simp add: fact_codec_def time_codec_on_def uuid_codec_on_def) (simp add: fact_ext_def)
qed

lemma sample_holds: "holds d (files sample_host f) []"
  by (simp add: sample_host_def holds_empty)

end
