(* ===== verification/Observations.thy ===== *)
theory Observations
  imports Samples
begin

text \<open>
  Behaviours of the code that a reader of its comments and messages would not expect, each as a lemma about
  the model: a refused confirmation that leaves its grant, an identifier that is cut to 32 bits after it
  was checked and shown, a signal name whose prefix is removed before its case is folded, a stream with the
  pieces of a provider that failed, and a setting of the environment that overrides the command line.
\<close>

lemma refused_confirmation_leaves_grant:
  assumes "record_event x ConfirmationResponse corr None (confirm_payload x cid Session) s = (Inr i, u)"
    and "case registry_get (ai_tools rt) tool of
           None \<Rightarrow> True | Some t \<Rightarrow> blocked_call x (te_spec t) args"
  shows "\<exists>msg t. confirm_in_session x rt corr sess cid tool args Session s = (Inl (Failed msg), t)
    \<and> has_session_grant (a_policy t) tool"
proof (cases "registry_get (ai_tools rt) tool")
  case None
  then show ?thesis
    by (simp add: confirm_in_session_def io_simps assms(1) has_session_grant_def grant_session_def)
next
  case (Some t)
  with assms(2) have "pd_verdict (decide x e (te_spec t) args) = Deny" for e
    by (simp add: decide_verdict)
  with Some show ?thesis
    by (simp add: confirm_in_session_def io_simps assms(1) has_session_grant_def grant_session_def)
qed

lemma kill_uses_low_bits:
  assumes "get_u64 args ''pid'' = Some p" and "get_u64 args' ''pid'' = Some q"
    and "(ucast p :: u32) = ucast q" and "get_str args ''signal'' = get_str args' ''signal''"
  shows "kill_execute b args ctx = kill_execute b args' ctx"
  using assms by (simp add: kill_execute_def)

lemma low_bits: "(ucast (4294971608 :: u64) :: u32) = ucast (4312 :: u64)"
  by code_simp

lemma kill_beyond_u32:
  "kill_execute b (Object [(''pid'', Number (PosInt 4294971608))]) ctx
     = kill_execute b (Object [(''pid'', Number (PosInt 4312))]) ctx"
  by (rule kill_uses_low_bits [where p = 4294971608 and q = 4312]) (simp_all add: get_u64_def get_str_def low_bits)

lemma trim_signals: "trim ''SIGterm'' = ''SIGterm''" "trim ''sigterm'' = ''sigterm''"
  by (simp_all add: trim_def trim_end_def trim_start_def strip_ws_done ws_byte_def ws_bytes2_def ws_bytes3_def)

lemma strip_signals: "strip_all ''SIGterm'' ''SIG'' = ''term''" "strip_all ''sigterm'' ''SIG'' = ''sigterm''"
  by code_simp+

lemma upper_signals: "to_uppercase t ''term'' = ''TERM''" "to_uppercase t ''sigterm'' = ''SIGTERM''"
proof -
  have "map ascii_upper ''term'' = ''TERM''" "map ascii_upper ''sigterm'' = ''SIGTERM''"
    by code_simp+
  then show "to_uppercase t ''term'' = ''TERM''" "to_uppercase t ''sigterm'' = ''SIGTERM''"
    unfolding to_uppercase_def by (simp_all add: is_ascii_def)
qed

lemma signal_prefix_is_case_sensitive:
  "normalize_signal x ''SIGterm'' = Inr ''TERM''"
  "\<exists>e. normalize_signal x ''sigterm'' = Inl e"
  by (simp_all add: normalize_signal_def trim_signals strip_signals upper_signals allowed_signals_def)

lemma failed_provider_leaves_its_pieces:
  assumes "mp_stream p msgs tools (h, []) = (Inl e, (g, pieces))"
    and "mp_stream q msgs tools (g, pieces) = (Inr r, (g', pieces @ later))"
  shows "fallback_stream [p, q] None msgs tools (h, []) = (Inr r, (g', pieces @ later))"
  using assms by (simp add: io_simps)

lemma environment_overrides_provider_flag:
  assumes "su_env su ''SAAIOS_MODE'' = Some ''mock''" and "resolve su ov = Inr st"
  shows "st_provider_kind st = ''mock''"
proof (cases "base_config su ov")
  case (Inl e)
  with assms(2) show ?thesis by (simp add: resolve_base)
next
  case (Inr cfg)
  with assms show ?thesis
    by (auto simp: resolve_def base_config_def Let_def overlay_env_kind mock_mode_def split: option.splits)
qed

end
