(* ===== verification/AbStatus.thy ===== *)
theory AbStatus
  imports Host
begin

text \<open>
  \<open>services/saaios-runtime/src/ab_status.rs\<close>: the layout of the two boot slots, read from the disk for the
  status request. What the disk answers is the argument \<open>ab_disk\<close>; each access is counted by the host.
\<close>

record ab_slot_status =
  as_name :: string
  as_active :: bool
  as_binary_present :: bool
  as_boot_ok :: bool
  as_boot_ok_at :: "string option"

record ab_status =
  ab_enabled :: bool
  ab_root :: string
  ab_current :: "string option"
  ab_slots :: "ab_slot_status list"

record ab_disk =
  ad_env_root :: "string option" \<comment> \<open>the variable \<open>SAAIOS_AB_ROOT\<close>\<close>
  ad_is_dir :: "nat \<Rightarrow> string \<Rightarrow> bool"
  ad_is_file :: "nat \<Rightarrow> string \<Rightarrow> bool"
  ad_text :: "nat \<Rightarrow> string \<Rightarrow> string option"
  ad_link :: "nat \<Rightarrow> string \<Rightarrow> string option"
  ad_utf8 :: "string \<Rightarrow> bool" \<comment> \<open>whether a name is valid UTF-8\<close>

definition disk_access :: "(nat \<Rightarrow> 'a) \<Rightarrow> (host, 'e, 'a) io" where
  "disk_access f = (\<lambda>h. (Inr (f (os_next h)), h\<lparr>os_next := Suc (os_next h)\<rparr>))"

definition ab_root_from_env :: "ab_disk \<Rightarrow> string" where
  "ab_root_from_env d = unwrap_or (ad_env_root d) ''/var/lib/saaios/ab''"

text \<open>\<open>Path::file_name\<close>: the last component, none for a root or a path that ends in two dots.\<close>

definition file_name :: "string \<Rightarrow> string option" where
  "file_name p =
     (let cs = filter (\<lambda>c. c \<noteq> [] \<and> c \<noteq> ''.'') (split_on (CHR ''/'') p)
      in if cs = [] \<or> last cs = ''..'' then None else Some (last cs))"

definition slot_of_link :: "ab_disk \<Rightarrow> string \<Rightarrow> string option" where
  "slot_of_link d target =
     (case Option.bind (file_name target) (\<lambda>n. if ad_utf8 d n then Some n else None) of
        Some n \<Rightarrow> Some n
      | None \<Rightarrow> if target = ''A'' \<or> target = ''B'' then Some target else None)"

definition slot_of_text :: "string \<Rightarrow> string option" where
  "slot_of_text t = (if trim t = ''A'' \<or> trim t = ''B'' then Some (trim t) else None)"

definition read_current_slot :: "ab_disk \<Rightarrow> string \<Rightarrow> (host, 'e, string option) io" where
  "read_current_slot d base =
     bind_io (disk_access (\<lambda>n. ad_link d n (base @ ''/current''))) (\<lambda>target.
       case Option.bind target (slot_of_link d) of
         Some n \<Rightarrow> ret (Some n)
       | None \<Rightarrow>
           bind_io (disk_access (\<lambda>n. ad_text d n (base @ ''/current_slot''))) (\<lambda>t.
             ret (Option.bind t slot_of_text)))"

definition read_slot :: "ab_disk \<Rightarrow> string \<Rightarrow> string option \<Rightarrow> string \<Rightarrow> (host, 'e, ab_slot_status) io" where
  "read_slot d base current name =
     (let dir = base @ ''/'' @ name in
      bind_io (disk_access (\<lambda>n. ad_is_file d n (dir @ ''/bin/saaios-runtime''))) (\<lambda>present.
      bind_io (disk_access (\<lambda>n. ad_is_file d n (dir @ ''/BOOT_OK''))) (\<lambda>ok.
      bind_io (if ok then disk_access (\<lambda>n. ad_text d n (dir @ ''/BOOT_OK'')) else ret None) (\<lambda>t.
        ret \<lparr>as_name = name, as_active = (current = Some name), as_binary_present = present, as_boot_ok = ok,
             as_boot_ok_at = Option.bind t (\<lambda>s. if trim s = [] then None else Some (trim s))\<rparr>))))"

definition read_ab_status :: "ab_disk \<Rightarrow> string \<Rightarrow> (host, 'e, ab_status) io" where
  "read_ab_status d base =
     bind_io (disk_access (\<lambda>n. ad_is_dir d n base)) (\<lambda>there.
       if \<not> there then ret \<lparr>ab_enabled = False, ab_root = base, ab_current = None, ab_slots = []\<rparr>
       else
         bind_io (read_current_slot d base) (\<lambda>current.
         bind_io (read_slot d base current ''A'') (\<lambda>a.
         bind_io (read_slot d base current ''B'') (\<lambda>b.
           ret \<lparr>ab_enabled = True, ab_root = base, ab_current = current, ab_slots = [a, b]\<rparr>))))"

definition ab_slot_json :: "ab_slot_status \<Rightarrow> json" where
  "ab_slot_json s =
     Object [(''name'', String (as_name s)), (''active'', Bool (as_active s)),
             (''binary_present'', Bool (as_binary_present s)), (''boot_ok'', Bool (as_boot_ok s)),
             (''boot_ok_at'', opt_json String (as_boot_ok_at s))]"

definition ab_status_json :: "ab_status \<Rightarrow> json" where
  "ab_status_json s =
     Object [(''enabled'', Bool (ab_enabled s)), (''root'', String (ab_root s)),
             (''current'', opt_json String (ab_current s)), (''slots'', Array (map ab_slot_json (ab_slots s)))]"

section \<open>What the status says\<close>

lemma read_ab_status_run:
  assumes "read_ab_status d base h = (Inr st, h')"
  shows "ab_root st = base
    \<and> (if ab_enabled st then map as_name (ab_slots st) = [''A'', ''B'']
         \<and> list_all (\<lambda>s. as_active s \<longleftrightarrow> ab_current st = Some (as_name s)) (ab_slots st)
       else ab_current st = None \<and> ab_slots st = [])
    \<and> list_all (\<lambda>s. as_boot_ok_at s = None \<or> as_boot_ok s) (ab_slots st)"
  using assms
  by (auto simp: read_ab_status_def read_current_slot_def read_slot_def disk_access_def io_simps Let_def
      split: if_splits option.splits)

text \<open>A link decides alone, whatever its target is called; the text file only counts when there is none.\<close>

lemma link_hides_text:
  assumes "ad_link d (os_next h) (base @ ''/current'') = Some target" and "file_name target = Some n" and "ad_utf8 d n"
  shows "fst (read_current_slot d base h) = Inr (Some n)"
  using assms by (simp add: read_current_slot_def slot_of_link_def disk_access_def io_simps)

end
