(* ===== verification/Wire.thy ===== *)
theory Wire
  imports AiRuntime EventFeed AbStatus
begin

text \<open>
  \<open>services/saaios-runtime/src/main.rs\<close>: the requests and responses of the socket protocol and their JSON
  form. A request is an object with the tag \<open>op\<close>; fields it does not know are ignored, fields with a default
  may be absent. A response has every field, null where there is nothing to say. Objects and enum names are read
  in the form the clients write them (serde would also take an object for its fields written as an array).
\<close>

section \<open>Requests\<close>

datatype client_request =
    Diagnose string "uuid option" bool
  | Confirm uuid uuid string json confirm_scope "bool option" "uuid option"
  | ChatReset uuid
  | AuditTail nat
  | MemoryRemember string string "string list"
  | MemoryRecall string
  | MemoryTail nat
  | MemoryForget string
  | Status
  | EventsTail nat
  | SessionGrants
  | ClearSessionGrants
  | Ping

definition default_once :: confirm_scope where
  "default_once = Once"

definition default_tail :: nat where
  "default_tail = 20"

definition scope_of_json :: "json \<Rightarrow> confirm_scope option" where
  "scope_of_json v = find (\<lambda>s. as_str v = Some (scope_name s)) [Once, Session, Cancel]"

definition get_limit :: "json \<Rightarrow> nat option" where
  "get_limit v = get_default (map_option unat \<circ> as_u64) default_tail v ''limit''"

definition get_session :: "ext \<Rightarrow> json \<Rightarrow> uuid option option" where
  "get_session x v = get_opt (\<lambda>w. Option.bind (as_str w) (uuid_parse x)) v ''session_id''"

definition confirm_of_json :: "ext \<Rightarrow> json \<Rightarrow> client_request option" where
  "confirm_of_json x v =
     Option.bind (get_uuid x v ''correlation_id'') (\<lambda>corr.
     Option.bind (get_uuid x v ''call_id'') (\<lambda>cid.
     Option.bind (get_str v ''tool'') (\<lambda>tool.
     Option.bind (get v ''arguments'') (\<lambda>args.
     Option.bind (get_default scope_of_json default_once v ''scope'') (\<lambda>scope.
     Option.bind (get_opt as_bool v ''confirmed'') (\<lambda>confirmed.
     Option.bind (get_session x v) (\<lambda>sess.
       Some (Confirm corr cid tool args scope confirmed sess))))))))"

definition request_of_json :: "ext \<Rightarrow> json \<Rightarrow> client_request option" where
  "request_of_json x v =
     Option.bind (get_str v ''op'') (\<lambda>op.
       if op = ''diagnose'' then
         Option.bind (get_str v ''text'') (\<lambda>text.
         Option.bind (get_session x v) (\<lambda>sess.
         Option.bind (get_default as_bool False v ''stream'') (\<lambda>stream. Some (Diagnose text sess stream))))
       else if op = ''confirm'' then confirm_of_json x v
       else if op = ''chat_reset'' then map_option ChatReset (get_uuid x v ''session_id'')
       else if op = ''audit_tail'' then map_option AuditTail (get_limit v)
       else if op = ''memory_remember'' then
         Option.bind (get_str v ''key'') (\<lambda>key.
         Option.bind (get_str v ''value'') (\<lambda>value.
         Option.bind (get_default as_strings [] v ''tags'') (\<lambda>tags. Some (MemoryRemember key value tags))))
       else if op = ''memory_recall'' then map_option MemoryRecall (get_default as_str [] v ''query'')
       else if op = ''memory_tail'' then map_option MemoryTail (get_limit v)
       else if op = ''memory_forget'' then map_option MemoryForget (get_str v ''key'')
       else if op = ''status'' then Some Status
       else if op = ''events_tail'' then map_option EventsTail (get_limit v)
       else if op = ''session_grants'' then Some SessionGrants
       else if op = ''clear_session_grants'' then Some ClearSessionGrants
       else if op = ''ping'' then Some Ping
       else None)"

section \<open>Responses\<close>

record pending_dto =
  pt_call_id :: uuid
  pt_tool :: string
  pt_arguments :: json
  pt_summary :: string

record runtime_status_dto =
  rs_ok :: bool
  rs_version :: string
  rs_uptime_secs :: u64
  rs_sock :: string
  rs_provider :: string
  rs_provider_kind :: string
  rs_tools_mode :: string
  rs_tool_count :: nat
  rs_tools :: "string list"
  rs_memory_enabled :: bool
  rs_memory_path :: "string option"
  rs_audit_path :: string
  rs_automation :: bool
  rs_telemetry :: bool
  rs_telemetry_samples :: u64
  rs_telemetry_interval_secs :: nat
  rs_max_concurrent :: nat
  rs_request_timeout_secs :: nat
  rs_session_grants :: "string list"
  rs_config_path :: "string option"
  rs_auto_diagnose :: bool
  rs_chat_sessions :: nat
  rs_ab :: "ab_status option"

record client_response =
  cl_ok :: bool
  cl_correlation_id :: "uuid option"
  cl_session_id :: "uuid option"
  cl_diagnose :: "diagnose_result option"
  cl_pending :: "pending_dto option"
  cl_error :: "string option"
  cl_tool_result :: "tool_call_result option"
  cl_audit_tail :: "audit_record list option"
  cl_session_grants :: "string list option"
  cl_memory_facts :: "memory_fact list option"
  cl_status :: "runtime_status_dto option"
  cl_events :: "feed_item list option"
  cl_progress :: "runtime_event list option"

text \<open>\<open>ClientResponse { ok, ..Default::default() }\<close>.\<close>

definition response_default :: "bool \<Rightarrow> client_response" where
  "response_default ok =
     \<lparr>cl_ok = ok, cl_correlation_id = None, cl_session_id = None, cl_diagnose = None, cl_pending = None,
      cl_error = None, cl_tool_result = None, cl_audit_tail = None, cl_session_grants = None,
      cl_memory_facts = None, cl_status = None, cl_events = None, cl_progress = None\<rparr>"

definition pending_dto_of :: "pending_confirmation \<Rightarrow> pending_dto" where
  "pending_dto_of p =
     \<lparr>pt_call_id = pc_call_id p, pt_tool = pc_tool p, pt_arguments = pc_arguments p, pt_summary = pc_summary p\<rparr>"

section \<open>The JSON form\<close>

fun runtime_event_json :: "ext \<Rightarrow> runtime_event \<Rightarrow> json" where
  "runtime_event_json x (AssistantDelta t) = Object [(''type'', String ''assistant_delta''), (''text'', String t)]"
| "runtime_event_json x (Assistant t) = Object [(''type'', String ''assistant''), (''text'', String t)]"
| "runtime_event_json x (EvToolCall i tool args) =
     Object [(''type'', String ''tool_call''), (''call_id'', uuid_json x i), (''tool'', String tool),
             (''arguments'', args)]"
| "runtime_event_json x (EvToolResult i tool ok err) =
     Object [(''type'', String ''tool_result''), (''call_id'', uuid_json x i), (''tool'', String tool),
             (''ok'', Bool ok), (''error'', opt_json String err)]"
| "runtime_event_json x (EvPolicy i tool verdict reason) =
     Object [(''type'', String ''policy''), (''call_id'', uuid_json x i), (''tool'', String tool),
             (''verdict'', String verdict), (''reason'', String reason)]"
| "runtime_event_json x (EvConfirmation r) =
     Object [(''type'', String ''confirmation''), (''request'', confirmation_request_json x r)]"
| "runtime_event_json x (Completed d) =
     Object [(''type'', String ''completed''), (''diagnose'', diagnose_result_json d)]"
| "runtime_event_json x (EvError m) = Object [(''type'', String ''error''), (''message'', String m)]"

definition feed_item_json :: "ext \<Rightarrow> feed_item \<Rightarrow> json" where
  "feed_item_json x i =
     Object [(''ts'', String (fi_ts i)), (''event'', String (fi_event i)),
             (''correlation_id'', opt_json (uuid_json x) (fi_correlation_id i)),
             (''summary'', String (fi_summary i)), (''payload'', fi_payload i)]"

definition pending_dto_json :: "ext \<Rightarrow> pending_dto \<Rightarrow> json" where
  "pending_dto_json x p =
     Object [(''call_id'', uuid_json x (pt_call_id p)), (''tool'', String (pt_tool p)),
             (''arguments'', pt_arguments p), (''summary'', String (pt_summary p))]"

definition status_json :: "runtime_status_dto \<Rightarrow> json" where
  "status_json s =
     Object [(''ok'', Bool (rs_ok s)), (''version'', String (rs_version s)),
       (''uptime_secs'', Number (PosInt (rs_uptime_secs s))), (''sock'', String (rs_sock s)),
       (''provider'', String (rs_provider s)), (''provider_kind'', String (rs_provider_kind s)),
       (''tools_mode'', String (rs_tools_mode s)), (''tool_count'', nat_json (rs_tool_count s)),
       (''tools'', strings_json (rs_tools s)), (''memory_enabled'', Bool (rs_memory_enabled s)),
       (''memory_path'', opt_json String (rs_memory_path s)), (''audit_path'', String (rs_audit_path s)),
       (''automation'', Bool (rs_automation s)), (''telemetry'', Bool (rs_telemetry s)),
       (''telemetry_samples'', Number (PosInt (rs_telemetry_samples s))),
       (''telemetry_interval_secs'', nat_json (rs_telemetry_interval_secs s)),
       (''max_concurrent'', nat_json (rs_max_concurrent s)),
       (''request_timeout_secs'', nat_json (rs_request_timeout_secs s)),
       (''session_grants'', strings_json (rs_session_grants s)),
       (''config_path'', opt_json String (rs_config_path s)), (''auto_diagnose'', Bool (rs_auto_diagnose s)),
       (''chat_sessions'', nat_json (rs_chat_sessions s)), (''ab'', opt_json ab_status_json (rs_ab s))]"

definition response_fields :: "ext \<Rightarrow> client_response \<Rightarrow> (string \<times> json) list" where
  "response_fields x r =
     [(''ok'', Bool (cl_ok r)), (''correlation_id'', opt_json (uuid_json x) (cl_correlation_id r)),
      (''session_id'', opt_json (uuid_json x) (cl_session_id r)),
      (''diagnose'', opt_json diagnose_result_json (cl_diagnose r)),
      (''pending'', opt_json (pending_dto_json x) (cl_pending r)), (''error'', opt_json String (cl_error r)),
      (''tool_result'', opt_json (tool_call_result_json x) (cl_tool_result r)),
      (''audit_tail'', opt_json (\<lambda>rs. Array (map (audit_json x) rs)) (cl_audit_tail r)),
      (''session_grants'', opt_json strings_json (cl_session_grants r)),
      (''memory_facts'', opt_json (\<lambda>fs. Array (map (fact_json x) fs)) (cl_memory_facts r)),
      (''status'', opt_json status_json (cl_status r)),
      (''events'', opt_json (\<lambda>is. Array (map (feed_item_json x) is)) (cl_events r)),
      (''progress'', opt_json (\<lambda>es. Array (map (runtime_event_json x) es)) (cl_progress r))]"

definition response_json :: "ext \<Rightarrow> client_response \<Rightarrow> json" where
  "response_json x r = Object (response_fields x r)"

section \<open>What the clients write is read back\<close>

text \<open>The fields \<open>#[derive(Serialize)]\<close> writes for a request.\<close>

definition request_json :: "ext \<Rightarrow> client_request \<Rightarrow> json" where
  "request_json x r = Object (case r of
       Diagnose text sess stream \<Rightarrow>
         [(''op'', String ''diagnose''), (''text'', String text), (''session_id'', opt_json (uuid_json x) sess),
          (''stream'', Bool stream)]
     | Confirm corr cid tool args scope confirmed sess \<Rightarrow>
         [(''op'', String ''confirm''), (''correlation_id'', uuid_json x corr), (''call_id'', uuid_json x cid),
          (''tool'', String tool), (''arguments'', args), (''scope'', String (scope_name scope)),
          (''confirmed'', opt_json Bool confirmed), (''session_id'', opt_json (uuid_json x) sess)]
     | ChatReset sid \<Rightarrow> [(''op'', String ''chat_reset''), (''session_id'', uuid_json x sid)]
     | AuditTail n \<Rightarrow> [(''op'', String ''audit_tail''), (''limit'', nat_json n)]
     | MemoryRemember k v tags \<Rightarrow>
         [(''op'', String ''memory_remember''), (''key'', String k), (''value'', String v), (''tags'', strings_json tags)]
     | MemoryRecall q \<Rightarrow> [(''op'', String ''memory_recall''), (''query'', String q)]
     | MemoryTail n \<Rightarrow> [(''op'', String ''memory_tail''), (''limit'', nat_json n)]
     | MemoryForget k \<Rightarrow> [(''op'', String ''memory_forget''), (''key'', String k)]
     | Status \<Rightarrow> [(''op'', String ''status'')]
     | EventsTail n \<Rightarrow> [(''op'', String ''events_tail''), (''limit'', nat_json n)]
     | SessionGrants \<Rightarrow> [(''op'', String ''session_grants'')]
     | ClearSessionGrants \<Rightarrow> [(''op'', String ''clear_session_grants'')]
     | Ping \<Rightarrow> [(''op'', String ''ping'')])"

fun request_uuids :: "client_request \<Rightarrow> uuid set" where
  "request_uuids (Diagnose text sess stream) = set_option sess"
| "request_uuids (Confirm corr cid tool args scope confirmed sess) = {corr, cid} \<union> set_option sess"
| "request_uuids (ChatReset sid) = {sid}"
| "request_uuids r = {}"

fun request_limit :: "client_request \<Rightarrow> nat" where
  "request_limit (AuditTail n) = n"
| "request_limit (MemoryTail n) = n"
| "request_limit (EventsTail n) = n"
| "request_limit r = 0"

lemma scope_of_name [simp]: "scope_of_json (String (scope_name s)) = Some s"
  by (cases s) (simp_all add: scope_of_json_def)

lemma get_session_back:
  "uuid_codec_on x (set_option sess) \<Longrightarrow> get v ''session_id'' = Some (opt_json (uuid_json x) sess) \<Longrightarrow>
     get_session x v = Some sess"
  by (cases sess) (simp_all add: get_session_def get_opt_def opt_json_def uuid_json_def uuid_codec_on_def)

lemma get_limit_back:
  "n < 2 ^ 64 \<Longrightarrow> get v ''limit'' = Some (nat_json n) \<Longrightarrow> get_limit v = Some n"
  by (simp add: get_limit_def get_default_def nat_json_def unat_of_nat)

lemma request_roundtrip:
  assumes "uuid_codec_on x (request_uuids r)" and "request_limit r < 2 ^ 64"
  shows "request_of_json x (request_json x r) = Some r"
proof (cases r)
  case (Diagnose t sess st)
  with assms show ?thesis
    by (simp add: request_of_json_def request_json_def get_str_def get_default_def
        get_session_back [where sess = sess])
next
  case (Confirm corr cid tool args scope confirmed sess)
  have "get_session x (request_json x r) = Some sess"
    using assms Confirm by (intro get_session_back) (auto simp: uuid_codec_on_def request_json_def)
  with assms Confirm show ?thesis
    by (cases confirmed)
      (simp_all add: request_of_json_def confirm_of_json_def request_json_def get_str_def get_default_def
        get_uuid_def get_opt_def opt_json_def uuid_json_def uuid_codec_on_def)
qed (use assms in \<open>simp_all add: request_of_json_def request_json_def get_str_def get_default_def get_uuid_def
      uuid_json_def uuid_codec_on_def get_limit_back\<close>)

end
