(* ===== verification/Server.thy ===== *)
theory Server
  imports Wire Telemetry Config RuntimeBoot
begin

text \<open>
  \<open>services/saaios-runtime/src/main.rs\<close>: the service. It resolves its settings into a registry, a
  provider and a runtime, answers one request per connection, and runs three background tasks on the bus: the
  automation engine, the worker that fills the event feed, and the worker that runs a diagnosis on its own.

  The state is the runtime, the feed, the last outcome, the sample counter and the marks of the automation
  engine. A connection adds what arrived on the socket, what was written to it and how each write ends. A
  request is one step here: requests of several connections do not interleave inside it.
\<close>

section \<open>State\<close>

record runtime_meta =
  mt_config_path :: "string option"
  mt_provider_name :: string
  mt_provider_kind :: string
  mt_tools_mode :: string
  mt_tool_names :: "string list"
  mt_memory_enabled :: bool
  mt_memory_path :: "string option"
  mt_audit_path :: string
  mt_sock :: string
  mt_automation :: bool
  mt_auto_diagnose :: bool
  mt_telemetry :: "telemetry_sampler option"
  mt_max_concurrent :: nat
  mt_request_timeout_secs :: nat

text \<open>What is fixed once the service runs; the disk of the boot slots and the time since the start are what
  the system answers.\<close>

record service =
  se_rt :: ai_runtime
  se_meta :: runtime_meta
  se_engine :: automation_engine
  se_disk :: ab_disk
  se_uptime :: "nat \<Rightarrow> u64"

record service_state =
  sv_rt :: runtime_state
  sv_feed :: event_feed
  sv_last_pending :: "handle_outcome option"
  sv_samples :: u64
  sv_last_fired :: "(string \<times> datetime) list"
  sv_poisoned :: bool

definition on_rt :: "(runtime_state, 'e, 'a) io \<Rightarrow> ('z service_state_scheme, 'e, 'a) io" where
  "on_rt m = (\<lambda>s. case m (sv_rt s) of (r, t) \<Rightarrow> (r, s\<lparr>sv_rt := t\<rparr>))"

definition on_machine :: "(host, 'e, 'a) io \<Rightarrow> ('z service_state_scheme, 'e, 'a) io" where
  "on_machine m = on_rt (on_plant m)"

text \<open>\<open>e.to_string()\<close> of the error of a request. A timeout has become a message by then.\<close>

fun halt_message :: "halt \<Rightarrow> string" where
  "halt_message (Failed m) = m"
| "halt_message TimedOut = []"
| "halt_message Aborted = []"

section \<open>Status\<close>

definition cargo_version :: string where
  "cargo_version = ''0.1.0''"

definition telemetry_view :: "'z service_state_scheme \<Rightarrow> telemetry_state" where
  "telemetry_view s =
     \<lparr>p_host = p_host (sv_rt s), p_bus = p_bus (sv_rt s), tl_samples = sv_samples s\<rparr>"

definition meta_status :: "service \<Rightarrow> ('z service_state_scheme, 'e, runtime_status_dto) io" where
  "meta_status sv =
     (let m = se_meta sv in
      bind_io (reads (\<lambda>s. map_option (\<lambda>ts. sampler_stats ts 0 (telemetry_view s)) (mt_telemetry m))) (\<lambda>tel.
      bind_io (on_machine (disk_access (se_uptime sv))) (\<lambda>up.
      bind_io (reads (\<lambda>s. runtime_session_grants (sv_rt s))) (\<lambda>grants.
      bind_io (reads (\<lambda>s. conversation_count (sv_rt s))) (\<lambda>chats.
      bind_io (on_machine (read_ab_status (se_disk sv) (ab_root_from_env (se_disk sv)))) (\<lambda>ab.
      ret \<lparr>rs_ok = True, rs_version = cargo_version, rs_uptime_secs = up, rs_sock = mt_sock m,
           rs_provider = mt_provider_name m, rs_provider_kind = mt_provider_kind m,
           rs_tools_mode = mt_tools_mode m, rs_tool_count = length (mt_tool_names m),
           rs_tools = mt_tool_names m, rs_memory_enabled = mt_memory_enabled m,
           rs_memory_path = mt_memory_path m, rs_audit_path = mt_audit_path m,
           rs_automation = mt_automation m, rs_telemetry = (mt_telemetry m \<noteq> None),
           rs_telemetry_samples = unwrap_or (map_option tls_samples tel) 0,
           rs_telemetry_interval_secs = unwrap_or (map_option tls_interval_secs tel) 0,
           rs_max_concurrent = mt_max_concurrent m, rs_request_timeout_secs = mt_request_timeout_secs m,
           rs_session_grants = grants, rs_config_path = mt_config_path m,
           rs_auto_diagnose = mt_auto_diagnose m, rs_chat_sessions = chats, rs_ab = Some ab\<rparr>))))))"

section \<open>Answers\<close>

definition error_response :: "string \<Rightarrow> client_response" where
  "error_response e = (response_default False)\<lparr>cl_error := Some e\<rparr>"

definition outcome_response :: "string list \<Rightarrow> handle_outcome \<Rightarrow> client_response" where
  "outcome_response grants out =
     (response_default True)\<lparr>cl_correlation_id := Some (ho_correlation_id out),
       cl_session_id := Some (ho_session_id out), cl_diagnose := Some (ho_diagnose out),
       cl_pending := map_option pending_dto_of (ho_pending out), cl_session_grants := Some grants,
       cl_progress := Some (ho_events out)\<rparr>"

text \<open>Both ways to ask for a diagnosis answer alike, and keep the outcome.\<close>

definition answer_diagnose ::
  "uuid option \<Rightarrow> halt + handle_outcome \<Rightarrow> ('z service_state_scheme, 'e, client_response) io" where
  "answer_diagnose sess r =
     (case r of
        Inl e \<Rightarrow> ret ((error_response (halt_message e))\<lparr>cl_session_id := sess\<rparr>)
      | Inr out \<Rightarrow>
          bind_io (reads (\<lambda>s. runtime_session_grants (sv_rt s))) (\<lambda>grants.
          bind_io (modifies (\<lambda>s. s\<lparr>sv_last_pending := Some out\<rparr>)) (\<lambda>_.
          ret (outcome_response grants out))))"

text \<open>The boolean of older clients: a refusal overrides the scope, an agreement never widens it.\<close>

definition confirm_scope_of :: "bool option \<Rightarrow> confirm_scope \<Rightarrow> confirm_scope" where
  "confirm_scope_of confirmed scope =
     (case confirmed of
        Some False \<Rightarrow> Cancel
      | Some True \<Rightarrow> if scope = Once then Once else scope
      | None \<Rightarrow> scope)"

definition respond_confirm ::
  "ext \<Rightarrow> service \<Rightarrow> uuid \<Rightarrow> uuid \<Rightarrow> string \<Rightarrow> json \<Rightarrow> confirm_scope \<Rightarrow> bool option \<Rightarrow> uuid option \<Rightarrow>
   ('z service_state_scheme, 'e, client_response) io" where
  "respond_confirm x sv corr cid tool args scope confirmed sess =
     bind_io (attempt (on_rt (confirm_in_session x (se_rt sv) corr sess cid tool args
       (confirm_scope_of confirmed scope)))) (\<lambda>r.
     bind_io (reads (\<lambda>s. runtime_session_grants (sv_rt s))) (\<lambda>grants.
     let base = (response_default True)\<lparr>cl_correlation_id := Some corr, cl_session_id := sess,
                  cl_session_grants := Some grants\<rparr>
     in ret (case r of
               Inr res \<Rightarrow> base\<lparr>cl_tool_result := Some res\<rparr>
             | Inl e \<Rightarrow> base\<lparr>cl_ok := False, cl_error := Some (halt_message e)\<rparr>)))"

text \<open>A call of the memory store, refused when there is none.\<close>

definition with_memory ::
  "service \<Rightarrow> (memory_store \<Rightarrow> (host, string, 'a) io) \<Rightarrow> ('a \<Rightarrow> client_response) \<Rightarrow>
   ('z service_state_scheme, 'e, client_response) io" where
  "with_memory sv call answer =
     (case ai_memory (se_rt sv) of
        None \<Rightarrow> ret (error_response ''memory disabled (--no-memory)'')
      | Some ms \<Rightarrow>
          bind_io (attempt (on_machine (call ms))) (\<lambda>r.
            ret (case r of Inl e \<Rightarrow> error_response e | Inr a \<Rightarrow> answer a)))"

definition facts_response :: "memory_fact list \<Rightarrow> client_response" where
  "facts_response fs = (response_default True)\<lparr>cl_memory_facts := Some fs\<rparr>"

definition console_fact :: "ext \<Rightarrow> string \<Rightarrow> string \<Rightarrow> string list \<Rightarrow> (host, string, memory_fact) io" where
  "console_fact x key value tags =
     bind_io (fact_new key value) (\<lambda>f. remember x (f\<lparr>mf_tags := tags, mf_source := Some ''console''\<rparr>))"

definition respond :: "ext \<Rightarrow> service \<Rightarrow> client_request \<Rightarrow> ('z service_state_scheme, 'e, client_response) io" where
  "respond x sv req =
     (case req of
        Ping \<Rightarrow> ret (response_default True)
      | Status \<Rightarrow> bind_io (meta_status sv) (\<lambda>st. ret ((response_default True)\<lparr>cl_status := Some st\<rparr>))
      | EventsTail n \<Rightarrow>
          bind_io (reads (\<lambda>s. feed_tail n (sv_feed s))) (\<lambda>items.
            ret ((response_default True)\<lparr>cl_events := Some items\<rparr>))
      | Diagnose txt sess stream \<Rightarrow>
          bind_io (attempt (on_rt (handle_user_text_in_session x (se_rt sv) txt sess False))) (answer_diagnose sess)
      | ChatReset sid \<Rightarrow>
          bind_io (attempt (on_rt (reset_chat_session sid))) (\<lambda>_.
            ret ((response_default True)\<lparr>cl_session_id := Some sid\<rparr>))
      | Confirm corr cid tool args scope confirmed sess \<Rightarrow>
          respond_confirm x sv corr cid tool args scope confirmed sess
      | AuditTail n \<Rightarrow>
          bind_io (attempt (on_machine (audit_tail x (se_rt sv) n))) (\<lambda>r.
            ret (case r of
                   Inl e \<Rightarrow> error_response e
                 | Inr rs \<Rightarrow> (response_default True)\<lparr>cl_audit_tail := Some rs\<rparr>))
      | MemoryRemember key value tags \<Rightarrow>
          with_memory sv (\<lambda>ms. console_fact x key value tags) (\<lambda>f. facts_response [f])
      | MemoryRecall query \<Rightarrow>
          with_memory sv (\<lambda>ms. recall (ai_fact_order (se_rt sv)) x ms query) facts_response
      | MemoryTail n \<Rightarrow> with_memory sv (\<lambda>ms. list_recent (ai_fact_order (se_rt sv)) x ms n) facts_response
      | MemoryForget key \<Rightarrow>
          with_memory sv (\<lambda>ms. forget (ai_fact_order (se_rt sv)) x ms key) (\<lambda>found.
            case found of
              Some f \<Rightarrow> facts_response []
            | None \<Rightarrow> error_response (''no fact for key='' @ key))
      | SessionGrants \<Rightarrow>
          bind_io (reads (\<lambda>s. runtime_session_grants (sv_rt s))) (\<lambda>grants.
            ret ((response_default True)\<lparr>cl_session_grants := Some grants\<rparr>))
      | ClearSessionGrants \<Rightarrow>
          bind_io (attempt (on_rt runtime_clear_grants)) (\<lambda>_.
            ret ((response_default True)\<lparr>cl_session_grants := Some []\<rparr>)))"

section \<open>A connection\<close>

text \<open>The socket: the outcome of the one read, the bytes written, how each write and the shutdown end.\<close>

record client_state = service_state +
  co_read :: "string + string"
  co_sent :: "string list"
  co_write_src :: "nat \<Rightarrow> write_outcome"
  co_write_next :: nat
  co_shutdown :: "string option"
  co_closed :: bool

datatype client_error = ReadError string | BadRequest | WriteError string | ShutdownError string

definition buffer_size :: nat where
  "buffer_size = 64 * 1024"

text \<open>One call of \<open>read\<close>: what has arrived, at most the size of the buffer.\<close>

definition read_request :: "(client_state, client_error, string) io" where
  "read_request = (\<lambda>s.
     case co_read s of Inl e \<Rightarrow> (Inl (ReadError e), s) | Inr bytes \<Rightarrow> (Inr (take buffer_size bytes), s))"

definition send_bytes :: "string \<Rightarrow> (client_state, client_error, unit) io" where
  "send_bytes bytes = (\<lambda>s.
     let s' = s\<lparr>co_write_next := Suc (co_write_next s)\<rparr>
     in case co_write_src s (co_write_next s) of
          Written \<Rightarrow> (Inr (), s'\<lparr>co_sent := co_sent s @ [bytes]\<rparr>)
        | WriteFailed k msg \<Rightarrow> (Inl (WriteError msg), s'\<lparr>co_sent := co_sent s @ [take k bytes]\<rparr>))"

definition shut :: "(client_state, client_error, unit) io" where
  "shut = (\<lambda>s.
     case co_shutdown s of
       Some e \<Rightarrow> (Inl (ShutdownError e), s)
     | None \<Rightarrow> (Inr (), s\<lparr>co_closed := True\<rparr>))"

definition progress_frame :: "ext \<Rightarrow> runtime_event \<Rightarrow> string" where
  "progress_frame x ev =
     json_text x (Object [(''type'', String ''progress''), (''event'', runtime_event_json x ev)]) @ [newline]"

definition done_frame :: "ext \<Rightarrow> client_response \<Rightarrow> string" where
  "done_frame x r = json_text x (Object (response_fields x r @ [(''type'', String ''done'')])) @ [newline]"

fun send_frames :: "ext \<Rightarrow> runtime_event list \<Rightarrow> (client_state, client_error, unit) io" where
  "send_frames x [] = ret ()"
| "send_frames x (ev # evs) = bind_io (send_bytes (progress_frame x ev)) (\<lambda>_. send_frames x evs)"

text \<open>The request runs in a task of its own, so a failed write ends the connection and not the request. The
  frames are the events that found room in the channel.\<close>

definition handle_diagnose_stream ::
  "ext \<Rightarrow> service \<Rightarrow> string \<Rightarrow> uuid option \<Rightarrow> (client_state, client_error, unit) io" where
  "handle_diagnose_stream x sv txt sess =
     bind_io (reads (\<lambda>s. length (a_progress (sv_rt s)))) (\<lambda>before.
     bind_io (attempt (on_rt (handle_user_text_in_session x (se_rt sv) txt sess True))) (\<lambda>r.
     bind_io (reads (\<lambda>s. drop before (a_progress (sv_rt s)))) (\<lambda>events.
     bind_io (send_frames x events) (\<lambda>_.
     bind_io (answer_diagnose sess r) (\<lambda>resp.
     bind_io (send_bytes (done_frame x resp)) (\<lambda>_. shut))))))"

definition decode_request :: "ext \<Rightarrow> string \<Rightarrow> client_request option" where
  "decode_request x bytes = Option.bind (json_parse x bytes) (request_of_json x)"

definition serve :: "ext \<Rightarrow> service \<Rightarrow> client_request \<Rightarrow> (client_state, client_error, unit) io" where
  "serve x sv req =
     (case req of
        Diagnose txt sess True \<Rightarrow> handle_diagnose_stream x sv txt sess
      | _ \<Rightarrow>
          bind_io (respond x sv req) (\<lambda>resp.
          bind_io (send_bytes (json_text x (response_json x resp))) (\<lambda>_. shut)))"

definition handle_client :: "ext \<Rightarrow> service \<Rightarrow> (client_state, client_error, unit) io" where
  "handle_client x sv =
     bind_io read_request (\<lambda>buf.
       if buf = [] then ret ()
       else case decode_request x buf of None \<Rightarrow> raise BadRequest | Some req \<Rightarrow> serve x sv req)"

section \<open>The event feed\<close>

definition automation_name :: "envelope \<Rightarrow> string option" where
  "automation_name env =
     (if env_kind env \<noteq> Event then None
      else case get_str (env_payload env) ''event'' of
        None \<Rightarrow> None
      | Some name \<Rightarrow> if starts_with name ''Automation'' then Some name else None)"

definition first_field :: "json \<Rightarrow> string list \<Rightarrow> json option" where
  "first_field p ks = Option.bind (find (\<lambda>k. get p k \<noteq> None) ks) (get p)"

definition feed_summary :: "string \<Rightarrow> json \<Rightarrow> string" where
  "feed_summary name p =
     unwrap_or (Option.bind (first_field p [''message'', ''prompt'', ''summary'']) as_str) name"

definition push_feed ::
  "ext \<Rightarrow> string \<Rightarrow> uuid \<Rightarrow> string \<Rightarrow> json \<Rightarrow> ('z service_state_scheme, 'e, unit) io" where
  "push_feed x name corr summary payload =
     bind_io (on_machine utc_now) (\<lambda>now.
       modifies (\<lambda>s. s\<lparr>sv_feed := feed_push
         \<lparr>fi_ts = time_rfc3339 x now, fi_event = name, fi_correlation_id = Some corr, fi_summary = summary,
          fi_payload = payload\<rparr> (sv_feed s)\<rparr>))"

definition feed_event :: "ext \<Rightarrow> envelope \<Rightarrow> (service_state, 'e, unit) io" where
  "feed_event x env =
     (case automation_name env of
        None \<Rightarrow> ret ()
      | Some name \<Rightarrow> push_feed x name (env_correlation_id env) (feed_summary name (env_payload env)) (env_payload env))"

definition feed_turn :: "ext \<Rightarrow> recv_result \<Rightarrow> (service_state, 'e, bool) io" where
  "feed_turn x got =
     (case got of
        Got env \<Rightarrow> bind_io (feed_event x env) (\<lambda>_. ret True)
      | Lagged n \<Rightarrow> ret True
      | Closed \<Rightarrow> ret False)"

definition event_feed_worker :: "ext \<Rightarrow> recv_result list \<Rightarrow> (service_state, 'e, unit) io" where
  "event_feed_worker x = recv_loop (feed_turn x)"

end
