(* ===== verification/ServerTasks.thy ===== *)
theory ServerTasks
  imports Server
begin

text \<open>
  The background tasks of \<open>services/saaios-runtime/src/main.rs\<close>, its start, and the whole service as a
  step relation: connections, the tasks at their receivers, and the ticks of the sampler, in any order. The
  requests the clients may send are restricted by a predicate, which is what the safety properties vary.
\<close>

section \<open>Diagnosis without a user\<close>

definition auto_trigger :: "envelope \<Rightarrow> bool" where
  "auto_trigger env \<longleftrightarrow>
     env_kind env = Event \<and> get_str (env_payload env) ''event'' = Some ''AutomationAutoDiagnose''"

definition auto_prompt :: "envelope \<Rightarrow> string" where
  "auto_prompt env = unwrap_or (get_str (env_payload env) ''prompt'') text_prompt_slow"

definition completed_payload :: "ext \<Rightarrow> string \<Rightarrow> handle_outcome \<Rightarrow> json" where
  "completed_payload x prompt out =
     Object [(''event'', String ''AutomationDiagnoseCompleted''), (''prompt'', String prompt),
       (''summary'', String (if dr_summary (ho_diagnose out) = [] then ''auto-diagnose completed''
                             else dr_summary (ho_diagnose out))),
       (''correlation_id'', uuid_json x (ho_correlation_id out)), (''pending'', Bool (ho_pending out \<noteq> None))]"

definition failed_payload :: "string \<Rightarrow> string \<Rightarrow> json" where
  "failed_payload prompt msg =
     Object [(''event'', String ''AutomationDiagnoseFailed''), (''prompt'', String prompt), (''error'', String msg)]"

text \<open>Unlike everywhere else the envelope is published whether or not the audit log took it.\<close>

definition announcing :: "envelope \<Rightarrow> log_action list" where
  "announcing e = [TryAppend e, Publish e]"

definition announce ::
  "ext \<Rightarrow> uuid \<Rightarrow> uuid \<Rightarrow> string \<Rightarrow> string \<Rightarrow> json \<Rightarrow> (service_state, 'e, unit) io" where
  "announce x corr cause name summary payload =
     bind_io (on_machine (envelope_new Event corr (Some cause) payload)) (\<lambda>out.
     bind_io (attempt (on_rt (run_actions x (announcing out)))) (\<lambda>_.
     push_feed x name corr summary payload))"

definition auto_diagnose_event :: "ext \<Rightarrow> ai_runtime \<Rightarrow> envelope \<Rightarrow> (service_state, 'e, unit) io" where
  "auto_diagnose_event x rt env =
     (if \<not> auto_trigger env then ret ()
      else
        (let prompt = auto_prompt env in
         bind_io (push_feed x ''AutoDiagnoseStarted'' (env_correlation_id env) prompt (env_payload env)) (\<lambda>_.
         bind_io (attempt (on_rt (handle_user_text x rt prompt))) (\<lambda>r.
         case r of
           Inr out \<Rightarrow>
             announce x (ho_correlation_id out) (env_msg_id env) ''AutomationDiagnoseCompleted''
               (dr_summary (ho_diagnose out)) (completed_payload x prompt out)
         | Inl e \<Rightarrow>
             announce x (env_correlation_id env) (env_msg_id env) ''AutomationDiagnoseFailed''
               (halt_message e) (failed_payload prompt (halt_message e))))))"

definition diagnose_turn :: "ext \<Rightarrow> ai_runtime \<Rightarrow> recv_result \<Rightarrow> (service_state, 'e, bool) io" where
  "diagnose_turn x rt got =
     (case got of
        Got env \<Rightarrow> bind_io (auto_diagnose_event x rt env) (\<lambda>_. ret True)
      | Lagged n \<Rightarrow> ret True
      | Closed \<Rightarrow> ret False)"

definition auto_diagnose_worker :: "ext \<Rightarrow> ai_runtime \<Rightarrow> recv_result list \<Rightarrow> (service_state, 'e, unit) io" where
  "auto_diagnose_worker x rt = recv_loop (diagnose_turn x rt)"

section \<open>Start\<close>

text \<open>What the machine brings: the probes of the tools, the HTTP client, the slots on disk, the monotonic
  clock, whether the socket can be bound, the orders of the hash maps, the room in progress channels and the
  points at which timeouts strike.\<close>

record machine =
  mc_os :: os_probes
  mc_http :: http_client
  mc_disk :: ab_disk
  mc_uptime :: "nat \<Rightarrow> u64"
  mc_bind :: "string option"
  mc_tool_order :: "tool_spec list \<Rightarrow> tool_spec list"
  mc_fact_order :: "memory_fact list \<Rightarrow> memory_fact list"
  mc_room :: "nat \<Rightarrow> bool"
  mc_cut :: "nat \<Rightarrow> await_outcome"

definition budgets_of :: "resolved_settings \<Rightarrow> resource_budgets" where
  "budgets_of st =
     \<lparr>rb_max_concurrent_requests = unat (st_max_concurrent st),
      rb_request_timeout = unat (st_request_timeout_secs st), rb_max_tool_iters = unat (st_max_tool_iters st)\<rparr>"

definition mode_of :: "resolved_settings \<Rightarrow> tools_mode" where
  "mode_of st = (if st_real_linux st then RealLinux else MockTools)"

fun mode_text :: "tools_mode \<Rightarrow> string" where
  "mode_text MockTools = ''mock''"
| "mode_text RealLinux = ''reallinux''"

fun kind_text :: "provider_kind \<Rightarrow> string" where
  "kind_text Mock = ''mock''"
| "kind_text Remote = ''remote''"
| "kind_text Local = ''local''"
| "kind_text Auto = ''auto''"

definition runtime_start :: "machine \<Rightarrow> resource_budgets \<Rightarrow> host \<Rightarrow> runtime_state" where
  "runtime_start mc b h =
     \<lparr>p_host = h, p_bus = [], a_policy = policy_new, a_convs = initial_convs, a_slots = initial_slots b,
      a_progress = [], a_room_src = mc_room mc, a_room_next = 0, a_cut_src = mc_cut mc, a_cut_next = 0\<rparr>"

definition service_start :: "runtime_state \<Rightarrow> service_state" where
  "service_start t =
     \<lparr>sv_rt = t, sv_feed = feed_new 64, sv_last_pending = None, sv_samples = 0, sv_last_fired = [],
      sv_poisoned = False\<rparr>"

definition open_memory :: "resolved_settings \<Rightarrow> (host, string, memory_store option) io" where
  "open_memory st =
     (if \<not> st_memory_enabled st then ret None
      else bind_io (memory_open (st_memory_path st)) (\<lambda>ms. ret (Some ms)))"

definition outcome_lines :: "ext \<Rightarrow> handle_outcome \<Rightarrow> string list" where
  "outcome_lines x out =
     [''correlation_id='' @ uuid_text x (ho_correlation_id out), dr_summary (ho_diagnose out)] @
     (case dr_proposed_action (ho_diagnose out) of
        None \<Rightarrow> []
      | Some a \<Rightarrow> [''proposed: '' @ pa_summary a @ '' ('' @ pa_tool a @ '')''])"

definition planner_demo :: "ext \<Rightarrow> resolved_settings \<Rightarrow> tool_registry \<Rightarrow> string list rt" where
  "planner_demo x st tools =
     (if st_mock_planner st
      then bind_io (diagnose_slow_with_mock_planner x tools) (\<lambda>out. ret (outcome_lines x out))
      else ret [])"

text \<open>The outermost messages of the errors; the one about the kind also quotes it.\<close>

definition settings_kind :: "ext \<Rightarrow> resolved_settings \<Rightarrow> string + provider_kind" where
  "settings_kind x st =
     (if st_mock_planner st then Inr Mock
      else case provider_kind_parse x (st_provider_kind st) of
        Some k \<Rightarrow> Inr k
      | None \<Rightarrow> Inl ''unknown provider; expected mock|remote|local|auto'')"

definition settings_provider ::
  "ext \<Rightarrow> http_client \<Rightarrow> resolved_settings \<Rightarrow> provider_kind \<Rightarrow> (host, string, model_provider) io" where
  "settings_provider x c st kind =
     map_err (\<lambda>e. ''build model provider'')
       (build_provider x (openai_provider x c) kind (st_api_base st) (st_api_key st) (st_model st)
          (st_local_base st) (st_local_model st))"

definition service_runtime ::
  "machine \<Rightarrow> resolved_settings \<Rightarrow> tool_registry \<Rightarrow> audit_log \<Rightarrow> memory_store option \<Rightarrow> model_provider \<Rightarrow> ai_runtime" where
  "service_runtime mc st tools lg mem p =
     \<lparr>ai_tools = tools, ai_audit = lg, ai_provider = p, ai_budgets = budgets_of st, ai_memory = mem,
      ai_tool_order = mc_tool_order mc, ai_fact_order = mc_fact_order mc\<rparr>"

definition service_meta ::
  "machine \<Rightarrow> resolved_settings \<Rightarrow> tool_registry \<Rightarrow> memory_store option \<Rightarrow> model_provider \<Rightarrow> provider_kind \<Rightarrow>
   runtime_meta" where
  "service_meta mc st tools mem p kind =
     \<lparr>mt_config_path = st_config_path st, mt_provider_name = mp_name p, mt_provider_kind = kind_text kind,
      mt_tools_mode = mode_text (mode_of st),
      mt_tool_names = sort (map ts_name (registry_list (mc_tool_order mc) tools)),
      mt_memory_enabled = (mem \<noteq> None),
      mt_memory_path = (if mem \<noteq> None then Some (st_memory_path st) else None),
      mt_audit_path = st_audit st, mt_sock = st_sock st, mt_automation = st_automation_enabled st,
      mt_auto_diagnose = st_auto_diagnose st,
      mt_telemetry =
        (if st_telemetry_enabled st then Some (sampler_new tools (unat (st_telemetry_interval_secs st))) else None),
      mt_max_concurrent = rb_max_concurrent_requests (budgets_of st),
      mt_request_timeout_secs = rb_request_timeout (budgets_of st)\<rparr>"

definition service_engine :: "resolved_settings \<Rightarrow> automation_engine" where
  "service_engine st = set_auto_diagnose_rule (st_auto_diagnose st) \<lparr>ae_rules = default_rules\<rparr>"

definition service_boot :: "ext \<Rightarrow> machine \<Rightarrow> resolved_settings \<Rightarrow> (service \<times> string list) rt" where
  "service_boot x mc st =
     bind_io (map_err Failed (on_plant (open_memory st))) (\<lambda>mem.
     let tools = boot_registry x (mc_os mc) (mode_of st) (mc_fact_order mc) mem
     in bind_io (map_err Failed (on_plant (audit_open (st_audit st)))) (\<lambda>lg.
        bind_io (planner_demo x st tools) (\<lambda>printed.
        bind_io (case settings_kind x st of Inl e \<Rightarrow> raise (Failed e) | Inr k \<Rightarrow> ret k) (\<lambda>kind.
        bind_io (map_err Failed (on_plant (settings_provider x (mc_http mc) st kind))) (\<lambda>p.
        case mc_bind mc of
          Some e \<Rightarrow> raise (Failed (''bind '' @ st_sock st))
        | None \<Rightarrow>
            ret (\<lparr>se_rt = service_runtime mc st tools lg mem p, se_meta = service_meta mc st tools mem p kind,
                  se_engine = service_engine st, se_disk = mc_disk mc, se_uptime = mc_uptime mc\<rparr>, printed))))))"

datatype main_result = Replayed replay_report | Listening service "string list" service_state

definition service_main ::
  "ext \<Rightarrow> machine \<Rightarrow> surroundings \<Rightarrow> cli_overrides \<Rightarrow> uuid option \<Rightarrow> (host, halt, main_result) io" where
  "service_main x mc su ov rep =
     bind_io (case resolve su ov of Inl e \<Rightarrow> raise (Failed e) | Inr st \<Rightarrow> ret st) (\<lambda>st.
     case rep of
       Some corr \<Rightarrow>
         map_err Failed (bind_io (audit_open (st_audit st)) (\<lambda>lg.
           bind_io (replay x lg corr) (\<lambda>report. ret (Replayed report))))
     | None \<Rightarrow> (\<lambda>h.
         case service_boot x mc st (runtime_start mc (budgets_of st) h) of
           (Inl e, t) \<Rightarrow> (Inl e, p_host t)
         | (Inr (sv, printed), t) \<Rightarrow> (Inr (Listening sv printed (service_start t)), p_host t)))"

section \<open>The service as a whole\<close>

text \<open>What a receiver of the bus gets is decided by tokio's broadcast channel, a parameter of the step relation:
  from what has been published and the position of the receiver, the result and the next position, or nothing
  yet. The service creates it with room for 64 envelopes. Where a property needs it, the channel is assumed to
  move on, as tokio documents: a receiver that is behind gets an envelope or the report that it lagged, and its
  position advances, to the end at most; it is closed only once every sender is gone.\<close>

type_synonym channel = "envelope list \<Rightarrow> nat \<Rightarrow> (recv_result \<times> nat) option"

definition bus_capacity :: nat where
  "bus_capacity = 64"

definition moves_on :: "channel \<Rightarrow> bool" where
  "moves_on rc \<longleftrightarrow>
     (\<forall>bus k. k < length bus \<longrightarrow> (\<exists>got k'. rc bus k = Some (got, k') \<and> got \<noteq> Closed \<and> k < k' \<and> k' \<le> length bus))"

definition on_telemetry :: "(telemetry_state, 'e, 'a) io \<Rightarrow> (service_state, 'e, 'a) io" where
  "on_telemetry m = (\<lambda>s. case m (telemetry_view s) of (r, t) \<Rightarrow>
     (r, s\<lparr>sv_rt := (sv_rt s)\<lparr>p_host := p_host t, p_bus := p_bus t\<rparr>, sv_samples := tl_samples t\<rparr>))"

definition automation_view :: "service_state \<Rightarrow> automation_state" where
  "automation_view s =
     \<lparr>p_host = p_host (sv_rt s), p_bus = p_bus (sv_rt s), au_last_fired = sv_last_fired s,
      au_poisoned = sv_poisoned s\<rparr>"

definition on_automation :: "(automation_state, 'e, 'a) io \<Rightarrow> (service_state, 'e, 'a) io" where
  "on_automation m = (\<lambda>s. case m (automation_view s) of (r, t) \<Rightarrow>
     (r, s\<lparr>sv_rt := (sv_rt s)\<lparr>p_host := p_host t, p_bus := p_bus t\<rparr>, sv_last_fired := au_last_fired t,
           sv_poisoned := au_poisoned t\<rparr>))"

text \<open>The request a connection carries, if it carries one.\<close>

definition requested :: "ext \<Rightarrow> client_state \<Rightarrow> client_request option" where
  "requested x c =
     (case co_read c of
        Inl e \<Rightarrow> None
      | Inr bytes \<Rightarrow> if bytes = [] then None else decode_request x (take buffer_size bytes))"

text \<open>The cursors of the three receivers; a task whose loop has ended, or that panicked, has none.\<close>

record service_run =
  run_state :: service_state
  run_automation :: "nat option"
  run_feed :: "nat option"
  run_diagnose :: "nat option"

definition run_start :: "service_state \<Rightarrow> service_run" where
  "run_start s = \<lparr>run_state = s, run_automation = Some 0, run_feed = Some 0, run_diagnose = Some 0\<rparr>"

definition run_bus :: "service_run \<Rightarrow> envelope list" where
  "run_bus s = p_bus (sv_rt (run_state s))"

text \<open>Where the receiver of a task stands after a turn.\<close>

definition next_cursor :: "'e + bool \<Rightarrow> nat \<Rightarrow> nat option" where
  "next_cursor r k = (case r of Inr True \<Rightarrow> Some k | _ \<Rightarrow> None)"

inductive feed_step :: "channel \<Rightarrow> ext \<Rightarrow> service_run \<Rightarrow> service_run \<Rightarrow> bool" for rc x where
  turn:
    "run_feed s = Some k \<Longrightarrow> rc (run_bus s) k = Some (got, k') \<Longrightarrow>
       feed_turn x got (run_state s) = (r :: unit + bool, t) \<Longrightarrow>
       feed_step rc x s (s\<lparr>run_state := t, run_feed := next_cursor r k'\<rparr>)"

inductive service_step ::
  "channel \<Rightarrow> ext \<Rightarrow> service \<Rightarrow> (client_request \<Rightarrow> bool) \<Rightarrow> service_run \<Rightarrow> service_run \<Rightarrow> bool" for rc x sv allowed where
  connection:
    "service_state.truncate c = run_state s \<Longrightarrow> pred_option allowed (requested x c) \<Longrightarrow>
       handle_client x sv c = (r, c') \<Longrightarrow>
       service_step rc x sv allowed s (s\<lparr>run_state := service_state.truncate c'\<rparr>)"
| sample:
    "mt_telemetry (se_meta sv) = Some ts \<Longrightarrow> on_telemetry (sample_once x ts) (run_state s) = (r, t) \<Longrightarrow>
       service_step rc x sv allowed s (s\<lparr>run_state := t\<rparr>)"
| automation:
    "mt_automation (se_meta sv) \<Longrightarrow> run_automation s = Some k \<Longrightarrow> rc (run_bus s) k = Some (got, k') \<Longrightarrow>
       on_automation (automation_turn x (se_engine sv) got) (run_state s) = (r, t) \<Longrightarrow>
       service_step rc x sv allowed s (s\<lparr>run_state := t, run_automation := next_cursor r k'\<rparr>)"
| feed:
    "feed_step rc x s t \<Longrightarrow> service_step rc x sv allowed s t"
| diagnose:
    "mt_auto_diagnose (se_meta sv) \<Longrightarrow> run_diagnose s = Some k \<Longrightarrow> rc (run_bus s) k = Some (got, k') \<Longrightarrow>
       diagnose_turn x (se_rt sv) got (run_state s) = (r :: unit + bool, t) \<Longrightarrow>
       service_step rc x sv allowed s (s\<lparr>run_state := t, run_diagnose := next_cursor r k'\<rparr>)"

end
