(* ===== verification/ServerFrame.thy ===== *)
theory ServerFrame
  imports ServerTasks
begin

text \<open>
  What the service does to the runtime state, whatever the clients send and however its tasks interleave: the
  locale \<open>service_frame\<close> collects what a preorder on runtime states must respect, and gives it for a whole
  connection and for every step of the service. Its instances: every signal ever sent is sane, none is sent
  unless a client confirms the kill tool, and the slots, the grants and the conversations stay well formed.
\<close>

section \<open>Calls that send no signals\<close>

lemma quiet_envelope [climbs_intros]: "climbs same_signals (envelope_new k c p j)"
  by (simp add: climbs_def envelope_new_run same_signals_def)

lemma quiet_append [climbs_intros]: "climbs same_signals (append_envelope x e)"
  using relation_same_signals by (simp add: host_relation_def)

lemma quiet_disk [climbs_intros]: "climbs same_signals (disk_access f)"
  by (simp add: climbs_def disk_access_def same_signals_def)

lemma quiet_ab [climbs_intros]: "climbs same_signals (read_ab_status d base)"
  unfolding read_ab_status_def read_current_slot_def read_slot_def Let_def
  by (auto split: option.split intro!: climbs_intros)

lemma quiet_tail [climbs_intros]: "climbs same_signals (audit_tail x rt n)"
  unfolding audit_tail_def audit_read_all_def by (intro climbs_intros)

lemma quiet_latest [climbs_intros]: "climbs same_signals (latest_by_key it x ms)"
  unfolding latest_by_key_def memory_read_all_def by (intro climbs_intros)

lemma quiet_memory [climbs_intros]:
  "climbs same_signals (remember x f)" "climbs same_signals (list_recent it x ms n)"
  "climbs same_signals (recall it x ms q)" "climbs same_signals (forget it x ms key)"
  "climbs same_signals (console_fact x key value tags)"
  by (auto simp: remember_def list_recent_def recall_def forget_def console_fact_def fact_new_def
      memory_append_def Let_def split: option.split intro!: climbs_intros)

text \<open>The sampler and the automation engine.\<close>

abbreviation quiet_host :: "'z plant_scheme \<Rightarrow> 'z plant_scheme \<Rightarrow> bool" where
  "quiet_host \<equiv> host_rel same_signals"

interpretation quiet_host: state_preorder quiet_host
  by (rule host_rel_preorder [OF same_signals.state_preorder_axioms])

lemma quiet_plant [climbs_intros]: "climbs same_signals m \<Longrightarrow> climbs quiet_host (on_plant m)"
  by (rule host_rel_on_plant)

lemma quiet_record [climbs_intros]: "climbs quiet_host (record_envelope x e)"
  by (rule host_rel_record [OF same_signals.state_preorder_axioms quiet_append])

lemma quiet_modified [climbs_intros]: "(\<And>s. p_host (f s) = p_host s) \<Longrightarrow> climbs quiet_host (modifies f)"
  by (simp add: climbs_def host_rel_def same_signals_def modifies_def)

lemma climbs_weaken: "climbs R m \<Longrightarrow> (\<And>s t. R s t \<Longrightarrow> P s t) \<Longrightarrow> climbs P m"
  by (simp add: climbs_def)

lemma sample_climbs:
  assumes pre: "state_preorder P" and same: "\<And>h h'. same_signals h h' \<Longrightarrow> P h h'"
    and tool: "\<And>e a ctx. registry_get (tl_tools ts) ''system.metrics'' = Some e \<Longrightarrow> climbs P (te_execute e a ctx)"
  shows "climbs (host_rel P) (sample_once x ts)"
proof -
  note weak = climbs_weaken [where R = same_signals and P = P, OF _ same]
  note rules = state_preorder.climbs_bind [OF host_rel_preorder [OF pre]]
    state_preorder.climbs_ret [OF host_rel_preorder [OF pre]] host_rel_on_plant
    host_rel_record [OF pre] state_preorder.climbs_map_err [OF pre]
  have "climbs P (registry_execute (tl_tools ts) ''system.metrics'' a ctx)" for a ctx
    using tool by (auto simp: registry_execute_def state_preorder.climbs_raise [OF pre] split: option.split)
  moreover have "climbs (host_rel P) (modifies (\<lambda>s. s\<lparr>tl_samples := tl_samples s + 1\<rparr>))"
    by (simp add: climbs_def host_rel_def modifies_def state_preorder.R_refl [OF pre])
  ultimately show ?thesis
    unfolding sample_once_def
    by (intro rules weak [OF same_signals_host(1)] weak [OF quiet_envelope] weak [OF quiet_append])
qed

lemma quiet_marked [climbs_intros]: "climbs quiet_host (mark_fired i)"
  unfolding mark_fired_def by (auto intro!: climbs_intros)

lemma quiet_cooldown [climbs_intros]: "climbs quiet_host (in_cooldown i secs)"
  unfolding in_cooldown_def by (auto split: option.split intro!: climbs_intros)

lemma quiet_evaluate [climbs_intros]: "climbs quiet_host (evaluate_rules x rs env)"
  by (induction rs) (auto split: option.split intro!: climbs_intros)

lemma quiet_fires [climbs_intros]: "climbs quiet_host (apply_all x fs)"
  by (induction fs) (auto simp: apply_fire_def intro!: climbs_intros)

lemma quiet_turn [climbs_intros]: "climbs quiet_host (automation_turn x eng got)"
  by (cases got) (auto simp: automation_turn_def evaluate_def intro!: climbs_intros)

section \<open>Lifting\<close>

definition on_service ::
  "(runtime_state \<Rightarrow> runtime_state \<Rightarrow> bool) \<Rightarrow> 'z service_state_scheme \<Rightarrow> 'z service_state_scheme \<Rightarrow> bool" where
  "on_service Q s t \<longleftrightarrow> Q (sv_rt s) (sv_rt t)"

lemma truncated: "sv_rt (service_state.truncate c) = sv_rt c"
  by (simp add: service_state.defs)

lemma on_service_preorder: "state_preorder Q \<Longrightarrow> state_preorder (on_service Q)"
  unfolding state_preorder_def on_service_def by blast

lemma on_service_rt: "climbs Q m \<Longrightarrow> climbs (on_service Q) (on_rt m)"
  by (simp add: climbs_def on_service_def on_rt_def split_beta)

lemma on_service_still:
  "state_preorder Q \<Longrightarrow> (\<And>s. sv_rt (snd (m s)) = sv_rt s) \<Longrightarrow> climbs (on_service Q) m"
  by (simp add: climbs_def on_service_def state_preorder_def)

locale service_frame = state_preorder Q
  for Q :: "runtime_state \<Rightarrow> runtime_state \<Rightarrow> bool" +
  fixes P :: "host \<Rightarrow> host \<Rightarrow> bool"
    and x :: ext
    and sv :: service
    and allowed :: "client_request \<Rightarrow> bool"
  assumes P_preorder: "state_preorder P"
    and P_same: "same_signals g h \<Longrightarrow> P g h"
    and quiet: "P (p_host s) h \<Longrightarrow> Q s (s\<lparr>p_host := h, p_bus := b\<rparr>)"
    and request: "climbs Q (handle_user_text_in_session x (se_rt sv) t sess w)"
    and confirmation: "allowed (Confirm corr cid tool args scope confirmed sess) \<Longrightarrow>
      climbs Q (confirm_in_session x (se_rt sv) corr sess cid tool args (confirm_scope_of confirmed scope))"
    and reset: "climbs Q (reset_chat_session sid)"
    and cleared: "allowed ClearSessionGrants \<Longrightarrow> Q s (s\<lparr>a_policy := clear_session_grants (a_policy s)\<rparr>)"
    and sampler: "mt_telemetry (se_meta sv) = Some ts \<Longrightarrow>
      registry_get (tl_tools ts) ''system.metrics'' = Some e \<Longrightarrow> climbs P (te_execute e a ctx)"
begin

lemma still: "P (p_host s) h \<Longrightarrow> Q s (s\<lparr>p_host := h\<rparr>)"
  using quiet [of s h "p_bus s"] by simp

lemma service: "state_preorder (on_service Q)"
  by (rule on_service_preorder [OF state_preorder_axioms])

lemmas service_rules =
  state_preorder.climbs_ret [OF service] state_preorder.climbs_raise [OF service]
  state_preorder.climbs_reads [OF service] state_preorder.climbs_bind [OF service]
  state_preorder.climbs_attempt [OF service] on_service_rt

lemma machine [climbs_intros]: "climbs same_signals m \<Longrightarrow> climbs (on_service Q) (on_machine m)"
  unfolding on_machine_def
  by (intro on_service_rt) (simp add: climbs_def on_plant_def split_beta still P_same)

lemma quiet_modifies: "(\<And>s. sv_rt (f s) = sv_rt s) \<Longrightarrow> climbs (on_service Q) (modifies f)"
  by (simp add: climbs_def on_service_def modifies_def R_refl)

lemma answered: "climbs (on_service Q) (answer_diagnose sess r)"
  unfolding answer_diagnose_def by (auto split: sum.split intro!: service_rules quiet_modifies)

lemma memory_answered:
  "(\<And>ms. climbs same_signals (call ms)) \<Longrightarrow> climbs (on_service Q) (with_memory sv call answer)"
  unfolding with_memory_def by (auto split: option.split intro!: service_rules machine)

lemma status_answered: "climbs (on_service Q) (meta_status sv)"
  unfolding meta_status_def Let_def by (intro service_rules machine quiet_disk quiet_ab)

lemma confirmed_ok:
  assumes "allowed (Confirm corr cid tool args scope confirmed sess)"
  shows "climbs (on_service Q) (respond_confirm x sv corr cid tool args scope confirmed sess)"
  unfolding respond_confirm_def Let_def
  by (intro service_rules confirmation [OF assms])

lemma cleared_ok:
  "allowed ClearSessionGrants \<Longrightarrow> climbs (on_service Q) (attempt (on_rt runtime_clear_grants))"
  by (intro service_rules) (simp add: climbs_def modifies_def runtime_clear_grants_def cleared)

lemma respond_ok: "allowed req \<Longrightarrow> climbs (on_service Q) (respond x sv req)"
  by (cases req)
    (auto simp: respond_def
      intro!: service_rules quiet_modifies answered status_answered memory_answered confirmed_ok cleared_ok
        machine request reset quiet_tail quiet_memory)

lemma sent: "climbs (on_service Q) (send_bytes bytes)"
  by (rule on_service_still [OF state_preorder_axioms])
    (simp add: send_bytes_def Let_def split: write_outcome.split)

lemma shut_ok: "climbs (on_service Q) shut"
  by (rule on_service_still [OF state_preorder_axioms]) (simp add: shut_def split: option.split)

lemma frames_sent: "climbs (on_service Q) (send_frames x evs)"
  by (induction evs) (auto intro!: service_rules sent)

lemma streamed: "climbs (on_service Q) (handle_diagnose_stream x sv t sess)"
  unfolding handle_diagnose_stream_def
  by (intro service_rules answered sent shut_ok frames_sent request)

lemma serve_ok:
  assumes "allowed req"
  shows "climbs (on_service Q) (serve x sv req)"
proof -
  have plain: "climbs (on_service Q) (bind_io (respond x sv req) (\<lambda>resp.
      bind_io (send_bytes (json_text x (response_json x resp))) (\<lambda>_. shut)))"
    by (intro service_rules respond_ok sent shut_ok assms)
  show ?thesis
  proof (cases req)
    case (Diagnose t sess stream)
    with plain streamed show ?thesis by (cases stream) (simp_all add: serve_def)
  qed (use plain in \<open>simp_all add: serve_def\<close>)
qed

lemma client_ok:
  assumes "pred_option allowed (requested x s)" and "handle_client x sv s = (r, t)"
  shows "Q (sv_rt s) (sv_rt t)"
proof (cases "co_read s")
  case (Inl e)
  with assms(2) show ?thesis by (auto simp: handle_client_def read_request_def bind_io_def R_refl)
next
  case (Inr bytes)
  let ?body = "if take buffer_size bytes = [] then ret ()
    else case decode_request x (take buffer_size bytes) of None \<Rightarrow> raise BadRequest | Some req \<Rightarrow> serve x sv req"
  have "climbs (on_service Q) ?body"
  proof (cases "decode_request x (take buffer_size bytes)")
    case None
    then show ?thesis by (simp add: service_rules)
  next
    case (Some req)
    then have "bytes = [] \<or> allowed req" using assms(1) Inr by (auto simp: requested_def split: if_splits)
    with Some show ?thesis by (auto intro: service_rules serve_ok)
  qed
  moreover have "?body s = (r, t)"
    using assms(2) Inr by (simp add: handle_client_def read_request_def bind_io_def)
  ultimately have "on_service Q s t" by (metis climbs_def snd_conv)
  then show ?thesis by (simp add: on_service_def)
qed

lemma fed: "climbs (on_service Q) (push_feed x name corr summary payload)"
  unfolding push_feed_def by (intro service_rules machine quiet_modifies climbs_intros) simp

lemma feed_event_ok: "climbs (on_service Q) (feed_event x env)"
  unfolding feed_event_def by (auto split: option.split intro!: service_rules fed)

lemma feed_turn_ok: "climbs (on_service Q) (feed_turn x got)"
  by (cases got) (auto simp: feed_turn_def intro!: service_rules feed_event_ok)

lemma published: "climbs Q (publish_envelope e)"
  using quiet [of s "p_host s" "p_bus s @ [e]" for s]
  by (simp add: climbs_def publish_envelope_def modifies_def state_preorder.R_refl [OF P_preorder])

lemma plant_quiet: "climbs same_signals m \<Longrightarrow> climbs Q (on_plant m)"
  by (simp add: climbs_def on_plant_def split_beta still P_same)

lemma announcing_ok: "climbs Q (run_actions x (announcing e))"
  unfolding announcing_def
  by (simp, intro climbs_bind climbs_attempt climbs_ret plant_quiet quiet_append published)

lemma announced: "climbs (on_service Q) (announce x corr cause name summary payload)"
  unfolding announce_def by (intro service_rules machine fed announcing_ok climbs_intros)

lemma diagnosed: "climbs (on_service Q) (auto_diagnose_event x (se_rt sv) env)"
  unfolding auto_diagnose_event_def Let_def handle_user_text_def
  by (auto split: sum.split intro!: service_rules fed announced request)

lemma diagnose_turn_ok: "climbs (on_service Q) (diagnose_turn x (se_rt sv) got)"
  by (cases got) (auto simp: diagnose_turn_def intro!: service_rules diagnosed)

lemma step_ok:
  assumes "service_step rc x sv allowed s t"
  shows "Q (sv_rt (run_state s)) (sv_rt (run_state t))"
  using assms
proof cases
  case (connection c r c')
  have "Q (sv_rt (service_state.truncate c)) (sv_rt (service_state.truncate c'))"
    unfolding truncated using client_ok connection by blast
  with connection show ?thesis by simp
next
  case (sample ts r t)
  have "climbs (host_rel P) (sample_once x ts)"
    using sampler sample by (intro sample_climbs P_preorder P_same) blast
  then show ?thesis
    using sample
    by (auto simp: on_telemetry_def climbs_def host_rel_def telemetry_view_def split: prod.splits intro!: quiet)
      (metis snd_conv telemetry_state.select_convs plant.select_convs(1))
next
  case (automation k got k' r t)
  then show ?thesis
    using quiet_turn [of x "se_engine sv" got]
    by (auto simp: on_automation_def climbs_def host_rel_def automation_view_def split: prod.splits intro!: quiet P_same)
      (metis snd_conv plant.select_convs(1))
next
  case feed
  then show ?thesis
  proof cases
    case (turn k got k' r u)
    then have "on_service Q (run_state s) u" using feed_turn_ok [of got] by (metis climbs_def snd_conv)
    with turn show ?thesis by (simp add: on_service_def)
  qed
next
  case (diagnose k got k' r t)
  then have "on_service Q (run_state s) t" using diagnose_turn_ok [of got] by (metis climbs_def snd_conv)
  with diagnose show ?thesis by (simp add: on_service_def)
qed

lemma run_ok:
  assumes "(service_step rc x sv allowed)\<^sup>*\<^sup>* s t"
  shows "Q (sv_rt (run_state s)) (sv_rt (run_state t))"
  using assms by (induction rule: rtranclp_induct) (auto intro: R_refl R_trans dest: step_ok)

end

end
