(* ===== verification/ServerSafety.thy ===== *)
theory ServerSafety
  imports ServerFrame
begin

text \<open>
  The frame of the service at work: what the start gives (the tools installed, a provider that sends no signals,
  a state without grants), the three preorders every step of the service climbs, and the trail of the start.
\<close>

section \<open>Slots, grants and conversations stay well formed\<close>

definition well_kept :: "runtime_state \<Rightarrow> runtime_state \<Rightarrow> bool" where
  "well_kept s t \<longleftrightarrow>
     a_slots t = a_slots s \<and> (conv_wf (a_convs s) \<longrightarrow> conv_wf (a_convs t))
     \<and> (policy_wf (a_policy s) \<longrightarrow> policy_wf (a_policy t))"

lemma well_kept_preorder: "state_preorder well_kept"
  by unfold_locales (auto simp: well_kept_def)

lemma outside_well_kept: "climbs outside m \<Longrightarrow> climbs well_kept m"
  by (auto simp: climbs_def outside_def well_kept_def)

lemma request_well_kept: "climbs well_kept (handle_user_text_in_session x rt t sess w)"
  unfolding climbs_def
proof
  fix s
  obtain r u where run: "handle_user_text_in_session x rt t sess w s = (r, u)" by fastforce
  then have "a_policy u = a_policy s"
    by (auto simp: session_run Let_def keeps_gate_def split: option.splits prod.splits dest!: inner_keeps_gate)
  then show "well_kept s (snd (handle_user_text_in_session x rt t sess w s))"
    using session_slots [OF run] session_result [OF run] run
    by (cases r) (auto simp: well_kept_def conv_wf_save)
qed

lemma confirm_well_kept: "climbs well_kept (confirm_in_session x rt corr sess cid tool args scope)"
proof -
  note rules = state_preorder.climbs_bind [OF well_kept_preorder] state_preorder.climbs_ret [OF well_kept_preorder]
    state_preorder.climbs_raise [OF well_kept_preorder] state_preorder.climbs_reads [OF well_kept_preorder]
    state_preorder.climbs_map_err [OF well_kept_preorder]
    outside_well_kept [OF outside_record_event] outside_well_kept [OF outside_on_plant]
  have noted: "climbs well_kept (append_note sess n)" for n
    by (auto simp: append_note_def climbs_def well_kept_def modifies_def ret_def conv_wf_append split: option.split)
  have granted: "climbs well_kept (modifies (\<lambda>s. s\<lparr>a_policy := grant_session tool (a_policy s)\<rparr>))"
    by (simp add: climbs_def well_kept_def modifies_def grant_session_def policy_wf_def)
  show ?thesis
    unfolding confirm_in_session_def confirm_execute_def record_tool_result_def Let_def
    by (auto split: option.split intro!: rules noted granted)
qed

interpretation kept: service_frame well_kept "\<lambda>_ _. True" x sv "\<lambda>_. True" for x sv
proof (intro service_frame.intro well_kept_preorder service_frame_axioms.intro, goal_cases)
  case 1
  show ?case by unfold_locales simp_all
next
  case (4 t sess w)
  show ?case by (rule request_well_kept)
next
  case (5 corr cid tool args scope confirmed sess)
  show ?case by (rule confirm_well_kept)
qed (auto simp: well_kept_def policy_wf_def clear_session_grants_def climbs_def reset_chat_session_def conv_reset_def
  intro: conv_wf_delete)

section \<open>An installed service\<close>

definition installed :: "ext \<Rightarrow> os_probes \<Rightarrow> service \<Rightarrow> bool" where
  "installed x os sv \<longleftrightarrow>
     (\<exists>mode it mem. ai_tools (se_rt sv) = boot_registry x os mode it mem)
     \<and> provider_climbs same_signals (ai_provider (se_rt sv))
     \<and> (\<forall>ts. mt_telemetry (se_meta sv) = Some ts \<longrightarrow> tl_tools ts = ai_tools (se_rt sv))"

lemma installed_metrics:
  assumes "installed x os sv" and "mt_telemetry (se_meta sv) = Some ts"
    and "registry_get (tl_tools ts) ''system.metrics'' = Some e"
  shows "climbs same_signals (te_execute e a ctx)"
proof -
  obtain mode it mem where "tl_tools ts = boot_registry x os mode it mem"
    using assms(1,2) by (auto simp: installed_def)
  moreover have "''system.metrics'' \<noteq> ''process.kill_request''" by simp
  ultimately show ?thesis using assms(3) boot_tools_unsignalled by metis
qed

text \<open>Every signal is sane.\<close>

lemma sane_frame:
  assumes "installed x os sv"
  shows "service_frame (host_rel (sane_signals os)) (sane_signals os) x sv (\<lambda>_. True)"
proof -
  obtain mode it mem where tools: "ai_tools (se_rt sv) = boot_registry x os mode it mem"
    and prov: "provider_climbs same_signals (ai_provider (se_rt sv))"
    using assms by (auto simp: installed_def)
  have all: "allowed_tools_climb (sane_signals os) x (ai_tools (se_rt sv)) pol" for pol
    using boot_tools_sane tools by (simp add: allowed_tools_climb_def)
  show ?thesis
  proof (intro service_frame.intro service_frame_axioms.intro host_rel_preorder sane_signals.state_preorder_axioms,
      goal_cases)
    case (3 t sess w)
    have "host_rel (sane_signals os) s (snd (handle_user_text_in_session x (se_rt sv) t sess w s))" for s
      unfolding host_rel_def
      by (rule session_request_host [OF contract_sane [OF prov] all prod.collapse [symmetric], THEN conjunct2])
    then show ?case by (simp add: climbs_def)
  next
    case (4 corr cid tool args scope confirmed sess)
    have "climbs (sane_signals os) (te_execute t args ctx)" if "registry_get (ai_tools (se_rt sv)) tool = Some t" for t ctx
      using boot_tools_sane that tools by simp
    then have "host_rel (sane_signals os) s
        (snd (confirm_in_session x (se_rt sv) corr sess cid tool args (confirm_scope_of confirmed scope) s))" for s
      unfolding host_rel_def by (rule confirm_host [OF relation_sane _ prod.collapse [symmetric]])
    then show ?case by (simp add: climbs_def)
  next
    case (7 ts e a ctx)
    then show ?case using installed_metrics [OF assms] climbs_sane by blast
  qed (auto simp: host_rel_def climbs_def reset_chat_session_def conv_reset_def same_sane same_signals_def)
qed

text \<open>Without a confirmation of the kill tool there is no grant for it, and no signal at all.\<close>

definition no_kill_confirmation :: "client_request \<Rightarrow> bool" where
  "no_kill_confirmation req =
     (case req of
        Confirm corr cid tool args scope confirmed sess \<Rightarrow>
          tool = ''process.kill_request'' \<longrightarrow> confirm_scope_of confirmed scope = Cancel
      | _ \<Rightarrow> True)"

definition unarmed :: "runtime_state \<Rightarrow> bool" where
  "unarmed s \<longleftrightarrow> \<not> has_session_grant (a_policy s) ''process.kill_request''"

definition harmless :: "runtime_state \<Rightarrow> runtime_state \<Rightarrow> bool" where
  "harmless s t \<longleftrightarrow> (unarmed s \<longrightarrow> unarmed t \<and> same_signals (p_host s) (p_host t))"

lemma harmless_preorder: "state_preorder harmless"
  by unfold_locales (auto simp: harmless_def same_signals_def)

lemma harmless_frame:
  assumes "installed x os sv"
  shows "service_frame harmless same_signals x sv no_kill_confirmation"
proof -
  obtain mode it mem where tools: "ai_tools (se_rt sv) = boot_registry x os mode it mem"
    and prov: "provider_climbs same_signals (ai_provider (se_rt sv))"
    using assms by (auto simp: installed_def)
  show ?thesis
  proof (intro service_frame.intro service_frame_axioms.intro harmless_preorder same_signals.state_preorder_axioms,
      goal_cases)
    case (3 t sess w)
    show ?case
      unfolding climbs_def
    proof
      fix s
      have "allowed_tools_climb same_signals x (ai_tools (se_rt sv)) (a_policy s)" if "unarmed s"
        using ungranted_tools_same_signals that tools by (simp add: unarmed_def)
      then show "harmless s (snd (handle_user_text_in_session x (se_rt sv) t sess w s))"
        using session_request_host [OF contract_same_signals [OF prov] _ prod.collapse [symmetric], of x s t sess w]
        by (auto simp: harmless_def unarmed_def)
    qed
  next
    case (4 corr cid tool args scope confirmed sess)
    show ?case
      unfolding climbs_def
    proof
      fix s
      let ?scope = "confirm_scope_of confirmed scope"
      obtain r u where run: "confirm_in_session x (se_rt sv) corr sess cid tool args ?scope s = (r, u)" by fastforce
      have "climbs same_signals (te_execute t args ctx)"
        if "?scope \<noteq> Cancel" "registry_get (ai_tools (se_rt sv)) tool = Some t" for t ctx
        using 4 that boot_tools_unsignalled [of x os mode it mem tool t args ctx] tools
        by (simp add: no_kill_confirmation_def)
      from confirm_host [OF relation_same_signals this run] have "same_signals (p_host s) (p_host u)" .
      then show "harmless s (snd (confirm_in_session x (se_rt sv) corr sess cid tool args ?scope s))"
        using 4 confirm_grants [OF run] run
        by (auto simp: harmless_def unarmed_def no_kill_confirmation_def grant_session_def has_session_grant_def)
    qed
  next
    case (7 ts e a ctx)
    then show ?case by (rule installed_metrics [OF assms])
  qed (auto simp: harmless_def unarmed_def climbs_def reset_chat_session_def conv_reset_def same_signals_def
    clear_session_grants_def has_session_grant_def)
qed

section \<open>The start\<close>

lemma outside_audit_event [climbs_intros]: "climbs outside (audit_event x k c p j)"
  unfolding audit_event_def by (intro climbs_intros)

lemma outside_require [climbs_intros]: "climbs outside (require_tool tools n)"
  unfolding require_tool_def by (auto split: option.split intro!: climbs_intros)

lemma outside_assert [climbs_intros]: "climbs outside (assert_allowed x t)"
  unfolding assert_allowed_def by (intro climbs_intros)

lemma outside_probe [climbs_intros]: "climbs outside (probe x tools corr req n)"
  unfolding probe_def by (intro climbs_intros)

lemma outside_planner [climbs_intros]: "climbs outside (diagnose_slow_with_mock_planner x tools)"
  unfolding diagnose_slow_with_mock_planner_def Let_def
  by (auto split: option.split prod.split intro!: climbs_intros)

lemma outside_boot: "climbs outside (service_boot x mc st)"
  unfolding service_boot_def planner_demo_def Let_def
  by (auto split: option.split sum.split intro!: climbs_intros)

lemma quiet_audit_event [climbs_intros]: "climbs quiet_host (audit_event x k c p j)"
  unfolding audit_event_def by (intro climbs_intros)

lemma quiet_require [climbs_intros]: "climbs quiet_host (require_tool tools n)"
  unfolding require_tool_def by (auto split: option.split intro!: climbs_intros)

lemma quiet_assert [climbs_intros]: "climbs quiet_host (assert_allowed x t)"
  unfolding assert_allowed_def by (intro climbs_intros)

lemma quiet_probe:
  assumes "n \<noteq> ''process.kill_request''"
  shows "climbs quiet_host (probe x (boot_registry x os mode it mem) corr req n)"
proof -
  have "climbs same_signals (registry_execute (boot_registry x os mode it mem) n a ctx)" for a ctx
    using boot_tools_unsignalled [OF _ assms]
    by (auto simp: registry_execute_def split: option.split intro!: climbs_intros)
  then show ?thesis unfolding probe_def by (intro climbs_intros)
qed

lemma quiet_planner: "climbs quiet_host (diagnose_slow_with_mock_planner x (boot_registry x os mode it mem))"
  unfolding diagnose_slow_with_mock_planner_def Let_def
  by (auto split: option.split prod.split intro!: climbs_intros quiet_probe)

lemma quiet_opens [climbs_intros]: "climbs same_signals (open_memory st)" "climbs same_signals (audit_open p)"
  by (auto simp: open_memory_def memory_open_def audit_open_def climbs_def same_signals_def io_defs Let_def)

lemma quiet_boot:
  assumes "client_climbs same_signals (mc_http mc)"
  shows "climbs quiet_host (service_boot x mc st)"
  unfolding service_boot_def planner_demo_def settings_provider_def Let_def
  by (auto split: option.split sum.split intro!: climbs_intros quiet_planner
      build_provider_climbs(1) [OF same_signals.state_preorder_axioms draws_same_signals assms])

text \<open>Running a sequence to its result.\<close>

lemma boot_installed:
  assumes "client_climbs same_signals (mc_http mc)" and "service_boot x mc st s = (Inr (sv, printed), t)"
  shows "installed x (mc_os mc) sv"
proof -
  obtain mem lg kind p and u u' :: runtime_state where
    p: "on_plant (settings_provider x (mc_http mc) st kind) u = (Inr p, u')" and
    sv: "se_rt sv = service_runtime mc st (boot_registry x (mc_os mc) (mode_of st) (mc_fact_order mc) mem) lg mem p"
      "se_meta sv = service_meta mc st (boot_registry x (mc_os mc) (mode_of st) (mc_fact_order mc) mem) mem p kind"
    using assms(2) unfolding service_boot_def Let_def
    by (auto simp: ret_def raise_def map_err_def split: option.splits prod.splits sum.splits dest!: bind_io_Inr)
  have "provider_climbs same_signals p"
    using p build_provider_climbs(2) [OF same_signals.state_preorder_axioms draws_same_signals assms(1)]
    by (auto simp: settings_provider_def on_plant_def map_err_def split: prod.splits sum.splits)
  with sv show ?thesis
    by (auto simp: installed_def service_runtime_def service_meta_def sampler_new_def split: if_splits)
qed

text \<open>A run of the service from its start.\<close>

lemma main_run:
  assumes "client_climbs same_signals (mc_http mc)" and "service_main x mc su ov rep h = (Inr (Listening sv printed s), h')"
  shows "installed x (mc_os mc) sv \<and> same_signals h (p_host (sv_rt s)) \<and> a_policy (sv_rt s) = policy_new
    \<and> a_convs (sv_rt s) = initial_convs \<and> a_slots (sv_rt s) = initial_slots (ai_budgets (se_rt sv))
    \<and> sv_feed s = feed_new 64"
proof -
  obtain st t where boot: "service_boot x mc st (runtime_start mc (budgets_of st) h) = (Inr (sv, printed), t)"
    and s: "s = service_start t"
    using assms(2)
    by (auto simp: service_main_def bind_io_def ret_def raise_def map_err_def
        split: sum.splits option.splits prod.splits)
  have "outside (runtime_start mc (budgets_of st) h) t" "quiet_host (runtime_start mc (budgets_of st) h) t"
    using outside.climbs_run [OF outside_boot boot] quiet_host.climbs_run [OF quiet_boot [OF assms(1)] boot] by simp_all
  moreover have "ai_budgets (se_rt sv) = budgets_of st"
    using boot unfolding service_boot_def Let_def
    by (auto simp: ret_def raise_def service_runtime_def split: option.splits dest!: bind_io_Inr)
  ultimately show ?thesis
    using boot_installed [OF assms(1) boot] s
    by (simp add: service_start_def runtime_start_def outside_def host_rel_def)
qed

section \<open>The status of a service that listens\<close>

lemma update_new: "k \<notin> fst ` set al \<Longrightarrow> AList.update k v al = al @ [(k, v)]"
  by (induction al) auto

lemma registered_in_order:
  "distinct (map (\<lambda>t. ts_name (te_spec t)) ts) \<Longrightarrow>
     tr_tools (fold register ts registry_new) = map (\<lambda>t. (ts_name (te_spec t), t)) ts"
  by (induction ts rule: rev_induct) (auto simp: registry_new_def register_def update_new image_iff)

text \<open>The names of the installed tools, sorted; the first three come with the memory store.\<close>

definition installed_names :: "bool \<Rightarrow> string list" where
  "installed_names memory =
     (if memory then [''memory.forget'', ''memory.recall'', ''memory.remember''] else []) @
     [''network.status'', ''process.kill_request'', ''process.list'', ''system.disk'', ''system.journal'',
      ''system.metrics'', ''system.temperature'']"

lemma sorted_names:
  "sort (map (\<lambda>t. ts_name (te_spec t)) (system_tools b)) = installed_names False"
  "sort (map (\<lambda>t. ts_name (te_spec t)) (system_tools b @ memory_tools it x ms)) = installed_names True"
  unfolding system_names boot_names by code_simp+

lemma boot_registry_names:
  assumes "some_order ord"
  shows "sort (map ts_name (registry_list ord (boot_registry x os mode it mem))) = installed_names (mem \<noteq> None)"
proof -
  define ts where "ts = system_tools (mode_backend x os mode) @ (case mem of None \<Rightarrow> [] | Some ms \<Rightarrow> memory_tools it x ms)"
  have tools: "boot_registry x os mode it mem = fold register ts registry_new"
    by (simp add: ts_def boot_registry_def install_system_tools_def install_memory_tools_def mode_backend_def Let_def
        split: option.split)
  have names: "sort (map (\<lambda>t. ts_name (te_spec t)) ts) = installed_names (mem \<noteq> None)"
    by (cases mem) (simp_all add: ts_def sorted_names del: map_append)
  have "distinct (installed_names m)" for m by (cases m) (simp_all add: installed_names_def)
  then have "distinct (map (\<lambda>t. ts_name (te_spec t)) ts)" by (metis names distinct_sort)
  from registered_in_order [OF this] have "mset (map ts_name (registry_list ord (fold register ts registry_new)))
      = mset (map (\<lambda>t. ts_name (te_spec t)) ts)"
    using assms by (simp add: registry_list_def some_order_def multiset.map_comp comp_def)
  then show ?thesis unfolding tools names [symmetric] by (metis properties_for_sort sorted_sort mset_sort)
qed

lemma main_meta:
  assumes "service_main x mc su ov rep h = (Inr (Listening sv printed s), h')"
  shows "\<exists>st mem p kind. resolve su ov = Inr st \<and> (mem \<noteq> None \<longleftrightarrow> st_memory_enabled st)
    \<and> ai_memory (se_rt sv) = mem \<and> ai_provider (se_rt sv) = p
    \<and> se_meta sv = service_meta mc st (boot_registry x (mc_os mc) (mode_of st) (mc_fact_order mc) mem) mem p kind"
proof -
  obtain st t where st: "resolve su ov = Inr st"
      and boot: "service_boot x mc st (runtime_start mc (budgets_of st) h) = (Inr (sv, printed), t)"
    using assms
    by (auto simp: service_main_def bind_io_def ret_def raise_def map_err_def
        split: sum.splits option.splits prod.splits)
  obtain mem lg kind p and u u' :: runtime_state where
    mem: "on_plant (open_memory st) u = (Inr mem, u')" and
    sv: "se_rt sv = service_runtime mc st (boot_registry x (mc_os mc) (mode_of st) (mc_fact_order mc) mem) lg mem p"
      "se_meta sv = service_meta mc st (boot_registry x (mc_os mc) (mode_of st) (mc_fact_order mc) mem) mem p kind"
    using boot unfolding service_boot_def Let_def
    by (auto simp: ret_def raise_def map_err_def split: option.splits prod.splits sum.splits dest!: bind_io_Inr)
  have "mem \<noteq> None \<longleftrightarrow> st_memory_enabled st"
    using mem by (auto simp: open_memory_def on_plant_def io_defs split: prod.splits sum.splits if_splits)
  with st sv show ?thesis by (auto simp: service_runtime_def)
qed

text \<open>A service that started, with no confirmation of the kill tool since: no signals.\<close>

lemma unconfirmed_run:
  assumes "client_climbs same_signals (mc_http mc)"
    and "service_main x mc su ov rep h = (Inr (Listening sv printed s), h')"
    and "(service_step rc x sv no_kill_confirmation)\<^sup>*\<^sup>* (run_start s) t"
  shows "signals (p_host (sv_rt (run_state t))) = signals h"
proof -
  from main_run [OF assms(1,2)] have "installed x (mc_os mc) sv" "same_signals h (p_host (sv_rt s))"
    "unarmed (sv_rt s)"
    by (auto simp: unarmed_def policy_new_def has_session_grant_def)
  moreover from this have "harmless (sv_rt (run_state (run_start s))) (sv_rt (run_state t))"
    by (intro service_frame.run_ok [OF harmless_frame assms(3)])
  ultimately show ?thesis by (simp add: harmless_def run_start_def same_signals_def)
qed

end
