(* ===== verification/ServerFacts.thy ===== *)
theory ServerFacts
  imports ServerSafety RuntimeResults
begin

text \<open>
  What a connection gives back, what it may change, and what the background tasks add: one answer per request,
  grants that only follow the requests for them, a feed that holds the automation events in order, and
  diagnoses without a user that do not trigger themselves.
\<close>

section \<open>One answer per request\<close>

definition response_wf :: "client_response \<Rightarrow> bool" where
  "response_wf r \<longleftrightarrow> (cl_ok r \<longleftrightarrow> cl_error r = None)"

lemma response_wf_base [simp]:
  "response_wf (response_default True)" "response_wf (error_response e)" "response_wf (facts_response fs)"
  "response_wf (outcome_response g out)"
  by (simp_all add: response_wf_def response_default_def error_response_def facts_response_def outcome_response_def)

lemma answer_diagnose_total: "\<exists>resp t. answer_diagnose sess r s = (Inr resp, t) \<and> response_wf resp"
  by (cases r)
    (auto simp: answer_diagnose_def io_defs response_wf_def response_default_def error_response_def outcome_response_def)

lemma answer_diagnose_rt: "answer_diagnose sess r s = (q, t) \<Longrightarrow> sv_rt t = sv_rt s"
  by (auto simp: answer_diagnose_def io_defs split: sum.splits)

lemma status_total: "\<exists>st t. meta_status sv s = (Inr st, t)"
  by (auto simp: meta_status_def on_machine_def on_rt_def on_plant_def disk_access_def read_ab_status_def
      read_current_slot_def read_slot_def io_defs Let_def split: option.split prod.split)

lemma with_memory_total:
  assumes "\<And>a. response_wf (answer a)"
  shows "\<exists>resp t. with_memory sv call answer s = (Inr resp, t) \<and> response_wf resp"
  using assms by (auto simp: with_memory_def io_defs split: option.split sum.split prod.split)

lemma confirm_total: "\<exists>resp t. respond_confirm x sv corr cid tool args scope confirmed sess s = (Inr resp, t) \<and> response_wf resp"
  by (auto simp: respond_confirm_def io_defs Let_def response_wf_def response_default_def
      split: sum.split prod.split)

lemma respond_total:
  "\<exists>resp t. (respond x sv req s :: ('e + client_response) \<times> 'z service_state_scheme) = (Inr resp, t) \<and> response_wf resp"
proof (cases req)
  case (Diagnose t sess stream)
  then show ?thesis using answer_diagnose_total by (auto simp: respond_def bind_io_def attempt_def split: prod.split)
next
  case (Confirm corr cid tool args scope confirmed sess)
  then show ?thesis using confirm_total by (simp add: respond_def)
next
  case Status
  obtain st t where "(meta_status sv s :: ('e + _) \<times> _) = (Inr st, t)" using status_total by blast
  with Status show ?thesis
    by (auto simp: respond_def bind_io_def ret_def response_wf_def response_default_def)
next
  case (AuditTail n)
  then show ?thesis
    by (auto simp: respond_def io_defs response_wf_def response_default_def error_response_def split: sum.split prod.split)
next
  case (MemoryForget key)
  show ?thesis
    unfolding MemoryForget respond_def client_request.case
    by (intro with_memory_total) (simp split: option.split)
next
  case (MemoryRemember key val tags)
  show ?thesis
    unfolding MemoryRemember respond_def client_request.case by (intro with_memory_total) simp
next
  case (MemoryRecall q)
  show ?thesis
    unfolding MemoryRecall respond_def client_request.case by (intro with_memory_total) simp
next
  case (MemoryTail n)
  show ?thesis
    unfolding MemoryTail respond_def client_request.case by (intro with_memory_total) simp
qed (auto simp: respond_def io_defs response_wf_def response_default_def split: prod.split)

lemma send_bytes_ok:
  assumes "co_write_src s (co_write_next s) = Written"
  shows "send_bytes b s = (Inr (), s\<lparr>co_write_next := Suc (co_write_next s), co_sent := co_sent s @ [b]\<rparr>)"
  using assms by (simp add: send_bytes_def Let_def)

lemma send_frames_ok:
  assumes "\<And>n. co_write_src s n = Written"
  shows "send_frames x evs s =
    (Inr (), s\<lparr>co_write_next := co_write_next s + length evs, co_sent := co_sent s @ map (progress_frame x) evs\<rparr>)"
  using assms
proof (induction evs arbitrary: s)
  case (Cons ev evs)
  then show ?case by (simp add: bind_io_def send_bytes_ok)
qed (simp add: ret_def)

text \<open>Nothing but the connection itself touches the socket.\<close>

definition same_socket :: "client_state \<Rightarrow> client_state \<Rightarrow> bool" where
  "same_socket s t \<longleftrightarrow>
     co_read t = co_read s \<and> co_sent t = co_sent s \<and> co_write_src t = co_write_src s
     \<and> co_write_next t = co_write_next s \<and> co_shutdown t = co_shutdown s \<and> co_closed t = co_closed s"

interpretation same_socket: state_preorder same_socket
  by unfold_locales (auto simp: same_socket_def)

lemma socket_rt [climbs_intros]: "climbs same_socket (on_rt m)" "climbs same_socket (on_machine m')"
  by (simp_all add: climbs_def same_socket_def on_machine_def on_rt_def split_beta)

lemma socket_pending [climbs_intros]: "climbs same_socket (modifies (\<lambda>s. s\<lparr>sv_last_pending := p\<rparr>))"
  by (simp add: climbs_def same_socket_def modifies_def)

lemma socket_answer [climbs_intros]: "climbs same_socket (answer_diagnose sess r)"
  unfolding answer_diagnose_def by (auto split: sum.split intro!: climbs_intros)

lemma socket_memory [climbs_intros]: "climbs same_socket (with_memory sv call answer)"
  unfolding with_memory_def by (auto split: option.split intro!: climbs_intros)

lemma socket_confirm [climbs_intros]: "climbs same_socket (respond_confirm x sv corr cid tool args scope confirmed sess)"
  unfolding respond_confirm_def Let_def by (intro climbs_intros)

lemma socket_status [climbs_intros]: "climbs same_socket (meta_status sv)"
  unfolding meta_status_def Let_def by (intro climbs_intros)

lemma socket_respond [climbs_intros]: "climbs same_socket (respond x sv req)"
  by (cases req) (auto simp: respond_def intro!: climbs_intros)

lemma socket_fields:
  assumes "same_socket s t"
  shows "co_sent t = co_sent s" "co_write_src t = co_write_src s" "co_write_next t = co_write_next s"
    "co_shutdown t = co_shutdown s"
  using assms by (simp_all add: same_socket_def)

lemma answered_plain:
  assumes "\<And>n. co_write_src c n = Written" and "co_shutdown c = None"
    and "respond x sv req c = (Inr resp :: client_error + _, u)"
  shows "bind_io (respond x sv req) (\<lambda>resp.
      bind_io (send_bytes (json_text x (response_json x resp))) (\<lambda>_. shut)) c =
    (Inr (), u\<lparr>co_write_next := Suc (co_write_next c), co_sent := co_sent c @ [json_text x (response_json x resp)],
              co_closed := True\<rparr>)"
proof -
  note f = socket_fields [OF same_socket.climbs_run [OF socket_respond assms(3)]]
  show ?thesis using assms f by (simp add: bind_io_def send_bytes_ok shut_def)
qed

definition streaming :: "client_request \<Rightarrow> bool" where
  "streaming req = (case req of Diagnose t sess stream \<Rightarrow> stream | _ \<Rightarrow> False)"

lemma serve_plain:
  "\<not> streaming req \<Longrightarrow> serve x sv req =
     bind_io (respond x sv req) (\<lambda>resp. bind_io (send_bytes (json_text x (response_json x resp))) (\<lambda>_. shut))"
  by (cases req) (auto simp: serve_def streaming_def split: bool.split)

lemma serve_streaming:
  "streaming req \<Longrightarrow> \<exists>t sess. req = Diagnose t sess True \<and> serve x sv req = handle_diagnose_stream x sv t sess"
  by (cases req) (auto simp: serve_def streaming_def)

text \<open>What entered the progress channel between two states of a connection.\<close>

definition progress_between :: "'z service_state_scheme \<Rightarrow> 'z service_state_scheme \<Rightarrow> runtime_event list" where
  "progress_between s t = drop (length (a_progress (sv_rt s))) (a_progress (sv_rt t))"

text \<open>With a socket that takes everything: progress frames only for a streamed request, then one answer, then
  the end.\<close>

lemma serve_answers:
  assumes open_socket: "\<And>n. co_write_src c n = Written" "co_shutdown c = None"
  shows "\<exists>resp c'. serve x sv req c = (Inr (), c') \<and> response_wf resp \<and> co_closed c'
    \<and> (if streaming req then co_sent c' = co_sent c @ map (progress_frame x) (progress_between c c') @ [done_frame x resp]
       else co_sent c' = co_sent c @ [json_text x (response_json x resp)])"
proof (cases "streaming req")
  case False
  obtain resp u where r: "respond x sv req c = (Inr resp :: client_error + _, u)" "response_wf resp"
    using respond_total by blast
  from answered_plain [OF open_socket r(1)] r(2) False show ?thesis by (auto simp: serve_plain)
next
  case True
  then obtain t sess where req: "serve x sv req = handle_diagnose_stream x sv t sess"
    using serve_streaming by blast
  define k where "k = length (a_progress (sv_rt c))"
  obtain r u where run: "attempt (on_rt (handle_user_text_in_session x (se_rt sv) t sess True)) c = (Inr r :: client_error + _, u)"
    by (cases "on_rt (handle_user_text_in_session x (se_rt sv) t sess True) c") (simp add: attempt_def)
  define evs where "evs = drop k (a_progress (sv_rt u))"
  have "climbs same_socket (attempt (on_rt (handle_user_text_in_session x (se_rt sv) t sess True))
      :: (client_state, client_error, _) io)"
    by (intro climbs_intros)
  from same_socket.climbs_run [OF this run] have "same_socket c u" .
  note f = socket_fields [OF this]
  define v where "v = u\<lparr>co_write_next := co_write_next u + length evs,
      co_sent := co_sent u @ map (progress_frame x) evs\<rparr>"
  have frames: "send_frames x evs u = (Inr (), v)"
    unfolding v_def by (rule send_frames_ok) (simp add: f open_socket)
  obtain resp w where a: "answer_diagnose sess r v = (Inr resp :: client_error + _, w)" "response_wf resp"
    using answer_diagnose_total by blast
  note g = socket_fields [OF same_socket.climbs_run [OF socket_answer a(1)]]
  have fin: "bind_io (send_bytes (done_frame x resp)) (\<lambda>_. shut) w =
      (Inr (), w\<lparr>co_write_next := Suc (co_write_next w), co_sent := co_sent w @ [done_frame x resp], co_closed := True\<rparr>)"
    using g f open_socket by (simp add: bind_io_def send_bytes_ok shut_def v_def)
  have "handle_diagnose_stream x sv t sess c =
      (Inr (), w\<lparr>co_write_next := Suc (co_write_next w), co_sent := co_sent w @ [done_frame x resp], co_closed := True\<rparr>)"
    using run frames a fin by (simp add: handle_diagnose_stream_def bind_io_def reads_def k_def evs_def)
  moreover have "evs = drop (length (a_progress (sv_rt c))) (a_progress (sv_rt w))"
    using answer_diagnose_rt [OF a(1)] by (simp add: evs_def k_def v_def)
  ultimately show ?thesis
    using a(2) True f g unfolding req by (intro exI [of _ resp]) (simp add: v_def progress_between_def)
qed

section \<open>Connections that carry no request\<close>

lemma handle_client_run:
  "handle_client x sv c =
     (case requested x c of
        Some req \<Rightarrow> serve x sv req c
      | None \<Rightarrow>
          (case co_read c of
             Inl e \<Rightarrow> (Inl (ReadError e), c)
           | Inr bytes \<Rightarrow> (if bytes = [] then Inr () else Inl BadRequest, c)))"
  by (auto simp: handle_client_def read_request_def requested_def buffer_size_def io_defs
      split: sum.split option.split)

section \<open>Grants follow requests\<close>

definition same_grants :: "runtime_state \<Rightarrow> runtime_state \<Rightarrow> bool" where
  "same_grants s t \<longleftrightarrow> a_policy t = a_policy s"

definition grant_neutral :: "client_request \<Rightarrow> bool" where
  "grant_neutral req =
     (case req of
        Confirm corr cid tool args scope confirmed sess \<Rightarrow> confirm_scope_of confirmed scope \<noteq> Session
      | ClearSessionGrants \<Rightarrow> False
      | _ \<Rightarrow> True)"

interpretation neutral: service_frame same_grants "\<lambda>_ _. True" x sv grant_neutral for x sv
proof (intro service_frame.intro service_frame_axioms.intro, goal_cases)
  case 1
  show ?case by unfold_locales (simp_all add: same_grants_def)
next
  case 2
  show ?case by unfold_locales simp_all
next
  case (5 t sess w)
  show ?case
    unfolding climbs_def
  proof
    fix s
    obtain r u where run: "handle_user_text_in_session x (se_rt sv) t sess w s = (r, u)" by fastforce
    then show "same_grants s (snd (handle_user_text_in_session x (se_rt sv) t sess w s))"
      by (auto simp: session_run Let_def keeps_gate_def same_grants_def split: option.splits prod.splits
          dest!: inner_keeps_gate)
  qed
next
  case (6 corr cid tool args scope confirmed sess)
  then show ?case
    using confirm_grants [OF prod.collapse [symmetric]]
    by (fastforce simp: climbs_def same_grants_def grant_neutral_def)
qed (auto simp: same_grants_def grant_neutral_def climbs_def reset_chat_session_def conv_reset_def)

lemma delivered: "sv_rt (snd (bind_io (send_bytes b) (\<lambda>_. shut) s)) = sv_rt s"
  by (simp add: bind_io_def send_bytes_def shut_def Let_def split: write_outcome.split option.split)

lemma serve_rt:
  assumes "\<not> streaming req" and "serve x sv req c = (r, c')"
  shows "\<exists>resp u. respond x sv req c = (Inr resp :: client_error + _, u) \<and> sv_rt c' = sv_rt u"
proof -
  obtain resp u where r: "respond x sv req c = (Inr resp :: client_error + _, u)" using respond_total by blast
  then have "bind_io (send_bytes (json_text x (response_json x resp))) (\<lambda>_. shut) u = (r, c')"
    using assms by (simp add: serve_plain bind_io_def)
  from arg_cong [OF this, of "\<lambda>p. sv_rt (snd p)"] r show ?thesis unfolding delivered by simp
qed

lemma serve_confirm_grants:
  assumes "serve x sv (Confirm corr cid tool args scope confirmed sess) c = (r, c')"
  shows "a_policy (sv_rt c') = a_policy (sv_rt c)
    \<or> confirm_scope_of confirmed scope = Session \<and> a_policy (sv_rt c') = grant_session tool (a_policy (sv_rt c))"
proof -
  obtain resp u where u: "respond_confirm x sv corr cid tool args scope confirmed sess c = (Inr resp :: client_error + _, u)"
      and same: "sv_rt c' = sv_rt u"
    using serve_rt [OF _ assms] by (auto simp: streaming_def respond_def)
  obtain q v where run: "confirm_in_session x (se_rt sv) corr sess cid tool args (confirm_scope_of confirmed scope) (sv_rt c) = (q, v)"
    by fastforce
  with u have "sv_rt u = v"
    by (auto simp: respond_confirm_def on_rt_def attempt_def bind_io_def reads_def ret_def Let_def)
  with same confirm_grants [OF run] show ?thesis by simp
qed

lemma serve_clear_grants:
  assumes "serve x sv ClearSessionGrants c = (r, c')"
  shows "session_allows (a_policy (sv_rt c')) = []"
proof -
  obtain resp u where "respond x sv ClearSessionGrants c = (Inr resp :: client_error + _, u)" "sv_rt c' = sv_rt u"
    using serve_rt [OF _ assms] by (auto simp: streaming_def)
  then show ?thesis
    by (auto simp: respond_def on_rt_def attempt_def runtime_clear_grants_def modifies_def bind_io_def ret_def
        clear_session_grants_def)
qed

text \<open>The specification of the grants, request by request.\<close>

fun grants_after :: "client_request option \<Rightarrow> string list \<Rightarrow> string list set" where
  "grants_after (Some (Confirm corr cid tool args scope confirmed sess)) gs =
     insert gs (if confirm_scope_of confirmed scope = Session then {List.insert tool gs} else {})"
| "grants_after (Some ClearSessionGrants) gs = {[]}"
| "grants_after req gs = {gs}"

lemma client_grants:
  assumes "handle_client x sv c = (r, c')"
  shows "session_allows (a_policy (sv_rt c')) \<in> grants_after (requested x c) (session_allows (a_policy (sv_rt c)))"
proof (cases "pred_option grant_neutral (requested x c)")
  case True
  then have "a_policy (sv_rt c') = a_policy (sv_rt c)"
    using neutral.client_ok assms by (simp add: same_grants_def)
  then show ?thesis
    using True
    by (cases "requested x c") (auto simp: grant_neutral_def split: client_request.splits)
next
  case False
  then obtain req where req: "requested x c = Some req" "\<not> grant_neutral req" by (auto simp: option.pred_set)
  then have run: "serve x sv req c = (r, c')" using assms by (simp add: handle_client_run)
  show ?thesis
  proof (cases req)
    case (Confirm corr cid tool args scope confirmed sess)
    with req have wide: "confirm_scope_of confirmed scope = Session" by (simp add: grant_neutral_def)
    from serve_confirm_grants [OF run [unfolded Confirm]] show ?thesis
    proof
      assume "a_policy (sv_rt c') = a_policy (sv_rt c)"
      with req(1) Confirm show ?thesis by simp
    next
      assume "confirm_scope_of confirmed scope = Session
        \<and> a_policy (sv_rt c') = grant_session tool (a_policy (sv_rt c))"
      with req(1) Confirm wide show ?thesis by (simp add: grant_session_def)
    qed
  next
    case ClearSessionGrants
    with serve_clear_grants [OF run [unfolded ClearSessionGrants]] req(1) show ?thesis by simp
  qed (use req in \<open>simp_all add: grant_neutral_def\<close>)
qed

section \<open>The event feed\<close>

definition feed_entry :: "feed_item \<Rightarrow> string \<times> uuid option \<times> string \<times> json" where
  "feed_entry i = (fi_event i, fi_correlation_id i, fi_summary i, fi_payload i)"

definition entry_of :: "envelope \<Rightarrow> (string \<times> uuid option \<times> string \<times> json) option" where
  "entry_of env =
     map_option (\<lambda>name. (name, Some (env_correlation_id env), feed_summary name (env_payload env), env_payload env))
       (automation_name env)"

lemma push_feed_run:
  "\<exists>i t. push_feed x name corr summary payload s = (Inr (), t) \<and> sv_feed t = feed_push i (sv_feed s)
     \<and> feed_entry i = (name, Some corr, summary, payload) \<and> p_bus (sv_rt t) = p_bus (sv_rt s)"
  by (auto simp: push_feed_def on_machine_def on_rt_def on_plant_def utc_now_def io_defs feed_entry_def)

lemma feed_event_run:
  "\<exists>items t. (feed_event x env s :: ('e + unit) \<times> _) = (Inr (), t) \<and> sv_feed t = fold feed_push items (sv_feed s)
     \<and> map feed_entry items = (case entry_of env of None \<Rightarrow> [] | Some e \<Rightarrow> [e]) \<and> p_bus (sv_rt t) = p_bus (sv_rt s)"
proof (cases "automation_name env")
  case None
  then show ?thesis by (auto simp: feed_event_def ret_def entry_of_def intro: exI [of _ "[]"])
next
  case (Some name)
  obtain i t where "(push_feed x name (env_correlation_id env) (feed_summary name (env_payload env)) (env_payload env) s
        :: ('e + unit) \<times> _) = (Inr (), t)"
      "sv_feed t = feed_push i (sv_feed s)" "p_bus (sv_rt t) = p_bus (sv_rt s)"
      "feed_entry i = (name, Some (env_correlation_id env), feed_summary name (env_payload env), env_payload env)"
    using push_feed_run by blast
  with Some show ?thesis by (intro exI [of _ "[i]"] exI [of _ t]) (simp add: feed_event_def entry_of_def)
qed

lemma feed_worker_run:
  "\<exists>items t. (event_feed_worker x (map Got es) s :: ('e + unit) \<times> _) = (Inr (), t) \<and> sv_feed t = fold feed_push items (sv_feed s)
     \<and> map feed_entry items = List.map_filter entry_of es"
proof (induction es arbitrary: s)
  case Nil
  then show ?case by (auto simp: event_feed_worker_def ret_def map_filter_simps intro: exI [of _ "[]"])
next
  case (Cons e es)
  obtain ks t where one: "(feed_event x e s :: ('e + unit) \<times> _) = (Inr (), t)" "sv_feed t = fold feed_push ks (sv_feed s)"
      "map feed_entry ks = (case entry_of e of None \<Rightarrow> [] | Some a \<Rightarrow> [a])"
    using feed_event_run by blast
  obtain js u where more: "(event_feed_worker x (map Got es) t :: ('e + unit) \<times> _) = (Inr (), u)" "sv_feed u = fold feed_push js (sv_feed t)"
      "map feed_entry js = List.map_filter entry_of es"
    using Cons.IH by blast
  have "(event_feed_worker x (map Got (e # es)) s :: ('e + unit) \<times> _) = (Inr (), u)"
    using one more by (simp add: event_feed_worker_def feed_turn_def bind_io_def ret_def)
  moreover have "sv_feed u = fold feed_push (ks @ js) (sv_feed s)" using one more by simp
  moreover have "map feed_entry (ks @ js) = List.map_filter entry_of (e # es)"
    using one more by (simp add: map_filter_simps split: option.split)
  ultimately show ?case by blast
qed

section \<open>Catching up\<close>

text \<open>What a receiver at a position of the bus will be handed until it is at the end: the specification of what the
  feed has to take in. A report that it lagged hands nothing over.\<close>

function heard :: "channel \<Rightarrow> envelope list \<Rightarrow> nat \<Rightarrow> envelope list" where
  "heard rc bus k =
     (case rc bus k of
        None \<Rightarrow> []
      | Some (got, k') \<Rightarrow>
          if k < k' \<and> k' \<le> length bus
          then (case got of Got env \<Rightarrow> [env] | _ \<Rightarrow> []) @ heard rc bus k'
          else [])"
  by pat_completeness auto

termination by (relation "measure (\<lambda>(rc, bus, k). length bus - k)") auto

declare heard.simps [simp del]

lemma heard_end: "moves_on rc \<Longrightarrow> \<not> k < length bus \<Longrightarrow> heard rc bus k = []"
  by (subst heard.simps) (auto split: option.split prod.split)

text \<open>One turn of the worker takes in what it is handed, publishes nothing, and goes on unless the channel is closed.\<close>

lemma feed_turn_run:
  assumes "got \<noteq> Closed"
  shows "\<exists>items t. (feed_turn x got s :: ('e + bool) \<times> _) = (Inr True, t) \<and> p_bus (sv_rt t) = p_bus (sv_rt s)
    \<and> sv_feed t = fold feed_push items (sv_feed s)
    \<and> map feed_entry items = List.map_filter entry_of (case got of Got env \<Rightarrow> [env] | _ \<Rightarrow> [])"
proof (cases got)
  case (Got env)
  obtain items t where "(feed_event x env s :: ('e + unit) \<times> _) = (Inr (), t)" "sv_feed t = fold feed_push items (sv_feed s)"
    "map feed_entry items = (case entry_of env of None \<Rightarrow> [] | Some e \<Rightarrow> [e])" "p_bus (sv_rt t) = p_bus (sv_rt s)"
    using feed_event_run by blast
  with Got show ?thesis
    by (intro exI [of _ items] exI [of _ t]) (simp add: feed_turn_def bind_io_def ret_def map_filter_simps split: option.split)
next
  case (Lagged n)
  then show ?thesis by (auto simp: feed_turn_def ret_def map_filter_simps intro: exI [of _ "[]"])
qed (use assms in simp)

lemma feed_catches_up:
  assumes "moves_on rc" and "run_feed s = Some k" and "k \<le> length (run_bus s)"
  shows "\<exists>t items. (feed_step rc x)\<^sup>*\<^sup>* s t \<and> run_bus t = run_bus s \<and> run_feed t = Some (length (run_bus s))
    \<and> sv_feed (run_state t) = fold feed_push items (sv_feed (run_state s))
    \<and> map feed_entry items = List.map_filter entry_of (heard rc (run_bus s) k)"
  using assms(2,3)
proof (induction "length (run_bus s) - k" arbitrary: s k rule: less_induct)
  case less
  show ?case
  proof (cases "k < length (run_bus s)")
    case False
    with less.prems heard_end [OF assms(1) False] show ?thesis
      by (intro exI [of _ s] exI [of _ "[]"]) (simp add: map_filter_simps)
  next
    case True
    then obtain got k' where got: "rc (run_bus s) k = Some (got, k')" "got \<noteq> Closed" "k < k'" "k' \<le> length (run_bus s)"
      using assms(1) unfolding moves_on_def by blast
    obtain ks u where u: "feed_turn x got (run_state s) = (Inr True :: unit + bool, u)"
        "p_bus (sv_rt u) = p_bus (sv_rt (run_state s))" "sv_feed u = fold feed_push ks (sv_feed (run_state s))"
        "map feed_entry ks = List.map_filter entry_of (case got of Got env \<Rightarrow> [env] | _ \<Rightarrow> [])"
      using feed_turn_run [OF got(2)] by blast
    define m where "m = s\<lparr>run_state := u, run_feed := Some k'\<rparr>"
    have step: "feed_step rc x s m"
      using feed_step.turn [where rc = rc, OF less.prems(1) got(1) u(1)] by (simp add: m_def next_cursor_def)
    have m: "run_bus m = run_bus s" "run_feed m = Some k'" "run_state m = u"
      using u(2) by (simp_all add: m_def run_bus_def)
    have "length (run_bus m) - k' < length (run_bus s) - k" using True got(3) m(1) by (simp add: diff_less_mono2)
    from less.hyps [OF this m(2)] got(4) m(1)
    obtain t js where t: "(feed_step rc x)\<^sup>*\<^sup>* m t" "run_bus t = run_bus s" "run_feed t = Some (length (run_bus s))"
        "sv_feed (run_state t) = fold feed_push js (sv_feed u)"
        "map feed_entry js = List.map_filter entry_of (heard rc (run_bus s) k')"
      using m(3) by auto
    have "heard rc (run_bus s) k = (case got of Got env \<Rightarrow> [env] | _ \<Rightarrow> []) @ heard rc (run_bus s) k'"
      using got by (subst heard.simps) simp
    then have "map feed_entry (ks @ js) = List.map_filter entry_of (heard rc (run_bus s) k)"
      using u(4) t(5) by (simp add: map_filter_simps split: recv_result.splits option.splits)
    with step t u(3) show ?thesis
      by (intro exI [of _ t] exI [of _ "ks @ js"]) (simp add: converse_rtranclp_into_rtranclp)
  qed
qed

section \<open>Diagnosis without a user\<close>

definition no_events :: "runtime_state \<Rightarrow> runtime_state \<Rightarrow> bool" where
  "no_events s t \<longleftrightarrow> (\<exists>es. p_bus t = p_bus s @ es \<and> (\<forall>e \<in> set es. env_kind e \<noteq> Event))"

interpretation no_events: state_preorder no_events
  by unfold_locales (auto simp: no_events_def)

lemma no_events_still: "p_bus t = p_bus s \<Longrightarrow> no_events s t"
  by (simp add: no_events_def)

lemma no_events_record: "k \<noteq> Event \<Longrightarrow> climbs no_events (record_event x k c p j)"
  by (auto simp: climbs_def no_events_def record_event_def record_envelope_run publish_envelope_def
      on_plant_def envelope_new_run io_defs split: sum.split prod.split)

lemma no_events_awaiting: "climbs no_events (awaiting m)"
  by (auto simp: climbs_def awaiting_def next_cut_def on_plant_def io_defs intro!: no_events_still
      split: await_outcome.split sum.split prod.split)

interpretation no_events_frame: runtime_frame no_events x rt corr "\<lambda>_. True" for x rt corr
proof (intro runtime_frame.intro no_events.state_preorder_axioms runtime_frame_axioms.intro, goal_cases)
  case (3 w msgs tools)
  show ?case
    by (rule model_call_climbs [OF no_events.state_preorder_axioms no_events_awaiting])
      (auto simp: climbs_def emit_progress_def modifies_def intro!: no_events_still)
qed (auto simp: memory_context_def persist_history_def emit_progress_def climbs_def modifies_def on_plant_def io_defs
  intro!: no_events_still no_events_record [unfolded climbs_def, rule_format]
    no_events_awaiting [unfolded climbs_def, rule_format]
  split: option.split sum.split prod.split)

lemma request_no_events:
  assumes "handle_user_text x rt t s = (r, u)"
  shows "no_events s u"
  using assms no_events.climbs_run [OF no_events_frame.inner_ok]
  by (auto simp: handle_user_text_def session_run no_events_def Let_def split: option.splits prod.splits)
    fastforce

lemma announcing_run:
  "\<exists>t. (attempt (on_rt (run_actions x (announcing out))) s :: ('e + (string + unit)) \<times> _) = (Inr (Inr ()), t)
     \<and> p_bus (sv_rt t) = p_bus (sv_rt s) @ [out] \<and> sv_feed t = sv_feed s"
  by (auto simp: announcing_def on_rt_def on_plant_def publish_envelope_def io_defs split: prod.split)

lemma announce_run:
  "\<exists>i out t. (announce x corr cause name summary payload s :: ('e + unit) \<times> _) = (Inr (), t)
     \<and> p_bus (sv_rt t) = p_bus (sv_rt s) @ [out]
     \<and> env_kind out = Event \<and> env_payload out = payload \<and> env_correlation_id out = corr
     \<and> env_causation_id out = Some cause
     \<and> sv_feed t = feed_push i (sv_feed s) \<and> feed_entry i = (name, Some corr, summary, payload)"
proof -
  obtain out u where u: "(on_machine (envelope_new Event corr (Some cause) payload) s :: ('e + envelope) \<times> _) = (Inr out, u)"
      "sv_feed u = sv_feed s" "p_bus (sv_rt u) = p_bus (sv_rt s)" "env_kind out = Event" "env_payload out = payload"
      "env_correlation_id out = corr" "env_causation_id out = Some cause"
    by (auto simp: on_machine_def on_rt_def on_plant_def envelope_new_run)
  obtain v where v: "(attempt (on_rt (run_actions x (announcing out))) u :: ('e + (string + unit)) \<times> _) = (Inr (Inr ()), v)"
      "p_bus (sv_rt v) = p_bus (sv_rt u) @ [out]" "sv_feed v = sv_feed u"
    using announcing_run by blast
  obtain i t where t: "(push_feed x name corr summary payload v :: ('e + unit) \<times> _) = (Inr (), t)"
      "sv_feed t = feed_push i (sv_feed v)" "feed_entry i = (name, Some corr, summary, payload)"
      "p_bus (sv_rt t) = p_bus (sv_rt v)"
    using push_feed_run by blast
  have "(announce x corr cause name summary payload s :: ('e + unit) \<times> _) = (Inr (), t)"
    using u(1) v(1) t(1) by (simp add: announce_def bind_io_def)
  with u v t show ?thesis by (intro exI [of _ i] exI [of _ out] exI [of _ t]) simp
qed

text \<open>What a diagnosis publishes: the envelopes of the request, which are no events, and one event about its
  end, whose name is not the one that triggers.\<close>

definition closes :: "envelope \<Rightarrow> envelope \<Rightarrow> bool" where
  "closes env out \<longleftrightarrow>
     env_kind out = Event \<and> own_event out \<and> \<not> auto_trigger out \<and> env_causation_id out = Some (env_msg_id env)
     \<and> automation_name out \<in> {Some ''AutomationDiagnoseCompleted'', Some ''AutomationDiagnoseFailed''}"

lemma closing_payloads:
  "get_str (completed_payload x p out) ''event'' = Some ''AutomationDiagnoseCompleted''"
  "get_str (failed_payload p m) ''event'' = Some ''AutomationDiagnoseFailed''"
  by (simp_all add: completed_payload_def failed_payload_def)

lemma closing_names: "starts_with ''AutomationDiagnoseCompleted'' ''Automation''" "starts_with ''AutomationDiagnoseFailed'' ''Automation''"
  by code_simp+

lemma closesI:
  assumes "env_kind out = Event" and "env_causation_id out = Some (env_msg_id env)"
    and "get_str (env_payload out) ''event'' = Some n" and "n = ''AutomationDiagnoseCompleted'' \<or> n = ''AutomationDiagnoseFailed''"
  shows "closes env out \<and> automation_name out = Some n"
  using assms closing_names by (auto simp: closes_def own_event_def auto_trigger_def automation_name_def)

lemma auto_diagnose_run:
  assumes "auto_trigger env"
  shows "\<exists>t es out i j. (auto_diagnose_event x rt env s :: ('e + unit) \<times> _) = (Inr (), t)
    \<and> p_bus (sv_rt t) = p_bus (sv_rt s) @ es @ [out] \<and> list_all (\<lambda>e. env_kind e \<noteq> Event) es
    \<and> closes env out \<and> sv_feed t = feed_push j (feed_push i (sv_feed s))
    \<and> fi_event i = ''AutoDiagnoseStarted'' \<and> Some (fi_event j) = automation_name out
    \<and> fi_correlation_id j = Some (env_correlation_id out) \<and> fi_payload j = env_payload out"
proof -
  let ?p = "auto_prompt env"
  obtain i u where u: "(push_feed x ''AutoDiagnoseStarted'' (env_correlation_id env) ?p (env_payload env) s :: ('e + unit) \<times> _) = (Inr (), u)"
      "sv_feed u = feed_push i (sv_feed s)" "p_bus (sv_rt u) = p_bus (sv_rt s)"
      "feed_entry i = (''AutoDiagnoseStarted'', Some (env_correlation_id env), ?p, env_payload env)"
    using push_feed_run by blast
  obtain r v where v: "handle_user_text x rt ?p (sv_rt u) = (r, v)" by fastforce
  from request_no_events [OF v] obtain es where es: "p_bus v = p_bus (sv_rt u) @ es" "list_all (\<lambda>e. env_kind e \<noteq> Event) es"
    by (auto simp: no_events_def list_all_iff)
  define corr where "corr = (case r of Inr out \<Rightarrow> ho_correlation_id out | Inl e \<Rightarrow> env_correlation_id env)"
  define name where "name = (case r of Inr out \<Rightarrow> ''AutomationDiagnoseCompleted'' | Inl e \<Rightarrow> ''AutomationDiagnoseFailed'')"
  define text' where "text' = (case r of Inr out \<Rightarrow> dr_summary (ho_diagnose out) | Inl e \<Rightarrow> halt_message e)"
  define pl where "pl = (case r of Inr out \<Rightarrow> completed_payload x ?p out | Inl e \<Rightarrow> failed_payload ?p (halt_message e))"
  have run: "(auto_diagnose_event x rt env s :: ('e + unit) \<times> _) = announce x corr (env_msg_id env) name text' pl (u\<lparr>sv_rt := v\<rparr>)"
    using assms u(1) v
    by (cases r) (simp_all add: auto_diagnose_event_def Let_def bind_io_def attempt_def on_rt_def corr_def name_def text'_def pl_def)
  obtain j out t where t: "(announce x corr (env_msg_id env) name text' pl (u\<lparr>sv_rt := v\<rparr>) :: ('e + unit) \<times> _) = (Inr (), t)"
      "p_bus (sv_rt t) = p_bus v @ [out]" "env_kind out = Event" "env_payload out = pl"
      "env_correlation_id out = corr" "env_causation_id out = Some (env_msg_id env)"
      "sv_feed t = feed_push j (sv_feed u)" "feed_entry j = (name, Some corr, text', pl)"
    using announce_run [of x corr "env_msg_id env" name text' pl "u\<lparr>sv_rt := v\<rparr>"] by (auto simp del: announce_def)
  have "get_str (env_payload out) ''event'' = Some name"
    by (cases r) (simp_all add: t(4) pl_def name_def closing_payloads)
  moreover have "name = ''AutomationDiagnoseCompleted'' \<or> name = ''AutomationDiagnoseFailed''"
    by (cases r) (simp_all add: name_def)
  ultimately have "closes env out \<and> automation_name out = Some name" using t(3,6) by (intro closesI)
  then show ?thesis
    using run t es u by (intro exI [of _ t] exI [of _ es] exI [of _ out] exI [of _ i] exI [of _ j]) (simp add: feed_entry_def)
qed

text \<open>The worker pushes the end of a diagnosis into the feed, and the feed worker pushes the same event again.\<close>

lemma feed_push_last: "ef_items (feed_push i f) = butlast (ef_items (feed_push i f)) @ [i]"
  by (simp add: feed_push_def Let_def)

lemma feed_push_two:
  assumes "2 \<le> ef_capacity f"
  shows "\<exists>older. ef_items (feed_push b (feed_push a f)) = older @ [a, b]"
proof -
  obtain pre where pre: "ef_items (feed_push a f) = pre @ [a]" using feed_push_last by blast
  have "ef_capacity (feed_push a f) = ef_capacity f" by (simp add: feed_push_def Let_def)
  with assms pre show ?thesis by (cases pre) (auto simp: feed_push_def [of b] Let_def)
qed

lemma completion_enters_feed_twice:
  assumes "auto_trigger env" and "2 \<le> ef_capacity (sv_feed s)"
    and "auto_diagnose_event x rt env s = (r :: unit + unit, t)"
    and "event_feed_worker x [Got (last (p_bus (sv_rt t)))] t = (q :: unit + unit, u)"
  shows "\<exists>older a b. ef_items (sv_feed u) = older @ [a, b]
    \<and> fi_event a = fi_event b \<and> fi_correlation_id a = fi_correlation_id b \<and> fi_payload a = fi_payload b"
proof -
  obtain t' es out i j where t': "(auto_diagnose_event x rt env s :: (unit + unit) \<times> _) = (Inr (), t')" and
    t: "p_bus (sv_rt t') = p_bus (sv_rt s) @ es @ [out]" "closes env out"
      "sv_feed t' = feed_push j (feed_push i (sv_feed s))" "Some (fi_event j) = automation_name out"
      "fi_correlation_id j = Some (env_correlation_id out)" "fi_payload j = env_payload out"
    using auto_diagnose_run [where 'e = unit, OF assms(1), of x rt s] by (elim exE conjE) (rule that)
  then have same: "t' = t" using assms(3) by simp
  obtain k u' where k: "(push_feed x (fi_event j) (env_correlation_id out) (feed_summary (fi_event j) (env_payload out))
        (env_payload out) t' :: (unit + unit) \<times> _) = (Inr (), u')"
      "sv_feed u' = feed_push k (sv_feed t')"
      "feed_entry k = (fi_event j, Some (env_correlation_id out), feed_summary (fi_event j) (env_payload out), env_payload out)"
    using push_feed_run by blast
  have "u' = u"
    using assms(4) k(1) t(1)
    by (simp add: same event_feed_worker_def feed_turn_def feed_event_def bind_io_def ret_def flip: t(4))
  have "2 \<le> ef_capacity (feed_push i (sv_feed s))" using assms(2) by (simp add: feed_push_def Let_def)
  from feed_push_two [OF this, of k j] k(2,3) t(3,5,6) \<open>u' = u\<close> show ?thesis by (auto simp: feed_entry_def)
qed

end
