(* ===== verification/LinuxFacts.thy ===== *)
theory LinuxFacts
  imports LinuxReaders
begin

text \<open>
  What the Linux readers promise: the CPU time of a process is read right whatever its name contains, the
  CPU load is a percentage, and the process list is a short list ranked by CPU.
\<close>

section \<open>Words\<close>

text \<open>A word of printable ASCII without a closing parenthesis.\<close>

definition plain_char :: "char \<Rightarrow> bool" where
  "plain_char c \<longleftrightarrow> 33 \<le> (of_char c :: nat) \<and> (of_char c :: nat) \<le> 126 \<and> c \<noteq> CHR '')''"

definition plain_word :: "string \<Rightarrow> bool" where
  "plain_word w \<longleftrightarrow> w \<noteq> [] \<and> list_all plain_char w"

lemma ws_len_plain: "plain_char c \<Longrightarrow> ws_len (c # s) = 0"
  by (cases "c # s" rule: ws_len.cases)
    (auto simp: plain_char_def ws_byte_def ws_bytes2_def ws_bytes3_def)

lemma ws_len_space: "ws_byte (of_char c) \<Longrightarrow> ws_len (c # s) = 1"
  by (cases "c # s" rule: ws_len.cases) auto

lemma trim_start_plain: "plain_char c \<Longrightarrow> trim_start (c # s) = c # s"
  by (simp add: trim_start_def strip_ws_done ws_len_plain)

lemma trim_start_space: "ws_byte (of_char c) \<Longrightarrow> trim_start (c # s) = trim_start s"
  by (simp add: trim_start_def strip_ws.simps [of ws_len "c # s"] ws_len_space)

lemma until_ws_plain: "list_all plain_char w \<Longrightarrow> until_ws w = w"
  by (induction w) (simp_all add: ws_len_plain)

lemma until_ws_word: "list_all plain_char w \<Longrightarrow> ws_byte (of_char c) \<Longrightarrow> until_ws (w @ c # s) = w"
  by (induction w) (simp_all add: ws_len_plain ws_len_space)

lemma words_step:
  assumes "plain_word w"
  shows "words w = [w]" and "ws_byte (of_char c) \<Longrightarrow> words (w @ c # s) = w # words s"
proof -
  obtain d v where w: "w = d # v" "plain_char d" "list_all plain_char w"
    using assms by (cases w) (auto simp: plain_word_def)
  have t: "trim_start (w @ u) = w @ u" for u using w by (simp add: trim_start_plain)
  have nil: "words [] = []" by (subst words.simps) (simp add: trim_start_def strip_ws.simps)
  show "words w = [w]"
    using t [of "[]"] w(1) until_ws_plain [OF w(3)] by (subst words.simps) (simp add: nil)
  assume c: "ws_byte (of_char c)"
  have "words (c # s) = words s"
    by (subst words.simps, subst (2) words.simps) (simp add: trim_start_space [OF c])
  then show "words (w @ c # s) = w # words s"
    using t [of "c # s"] w(1) until_ws_word [OF w(3) c] by (subst words.simps) simp
qed

lemma words_join:
  assumes "list_all plain_word ws" and "ws \<noteq> []"
  shows "words (join '' '' ws @ [newline]) = ws"
  using assms
proof (induction ws rule: induct_list012)
  case (2 w)
  have "words [] = []" by (subst words.simps) (simp add: trim_start_def strip_ws.simps)
  then show ?case using 2 by (simp add: words_step newline_def ws_byte_def)
next
  case (3 v w ws)
  then show ?case by (simp add: words_step ws_byte_def)
qed simp

section \<open>The CPU time of a process\<close>

lemma rfind_last: "c \<notin> set after \<Longrightarrow> rfind c (before @ c # after) = Some (length before)"
proof -
  assume a: "c \<notin> set after"
  then have "takeWhile (\<lambda>d. d \<noteq> c) (rev after @ c # rev before) = rev after"
    by (simp add: takeWhile_append)
  then show ?thesis by (simp add: rfind_def)
qed

lemma plain_not_close: "list_all plain_word ws \<Longrightarrow> CHR '')'' \<notin> set (join '' '' ws)"
  by (induction ws rule: induct_list012) (auto simp: plain_word_def list_all_iff plain_char_def)

lemma join_head:
  assumes "list_all plain_word ws" and "ws \<noteq> []"
  shows "\<exists>c s. join '' '' ws = c # s \<and> plain_char c"
proof -
  obtain w vs where ws: "ws = w # vs" using assms(2) by (cases ws) auto
  obtain c v where "w = c # v" "plain_char c" using assms(1) ws by (cases w) (auto simp: plain_word_def)
  then show ?thesis by (cases vs) (simp_all add: ws)
qed

lemma proc_stat_time:
  assumes "list_all plain_word cols" and "12 < length cols"
    and "parse_u64 (cols ! 11) = Some u" and "parse_u64 (cols ! 12) = Some v"
  shows "parse_proc_stat_jiffies (before @ '') '' @ join '' '' cols @ [newline]) = Some (saturating_add u v)"
proof -
  have ne: "cols \<noteq> []" using assms(2) by auto
  obtain c s where head: "join '' '' cols = c # s" "plain_char c" using join_head [OF assms(1) ne] by blast
  have "rfind (CHR '')'') (before @ CHR '')'' # '' '' @ join '' '' cols @ [newline]) = Some (length before)"
    using plain_not_close [OF assms(1)] by (intro rfind_last) (simp add: newline_def)
  moreover have "str_from (length before + 2) (before @ CHR '')'' # '' '' @ join '' '' cols @ [newline]) =
      Some (join '' '' cols @ [newline])"
    using head by (simp add: str_from_def nth_append continuation_def byte_in_def plain_char_def)
  ultimately show ?thesis
    using words_join [OF assms(1) ne] assms(2-4) by (simp add: parse_proc_stat_jiffies_def nth_opt_def)
qed

section \<open>The CPU load\<close>

lemma f64_of_u64_Fin: "\<exists>q. f64_of_u64 n = Fin q \<and> 0 \<le> q"
  by (simp add: f64_of_u64_def f64_of_nat_Fin)

lemma div_not_NaN: "b \<noteq> 0 \<Longrightarrow> f64_div (Fin a) (Fin b) \<noteq> NaN"
  by simp

lemma one_minus_not_NaN: "x \<noteq> NaN \<Longrightarrow> f64_sub (Fin 1) x \<noteq> NaN"
  by (cases x) (simp_all add: f64_sub_def)

lemma mul_Fin_not_NaN: "x \<noteq> NaN \<Longrightarrow> 0 < c \<Longrightarrow> f64_mul x (Fin c) \<noteq> NaN"
  by (cases x) (simp_all add: infinite_of_def)

lemma halvings_positive: "0 < n \<Longrightarrow> 0 < n div 2 ^ halvings n"
proof (induction n rule: halvings.induct)
  case (1 n)
  show ?case
  proof (cases "n < 2 ^ 53")
    case True
    then show ?thesis using 1(2) by (simp add: halvings.simps)
  next
    case False
    then have "halvings n = Suc (halvings (n div 2))" and "0 < n div 2"
      by (simp add: halvings.simps [of n]) (use False in simp)
    then show ?thesis using 1(1) [OF False] by (simp add: div_mult2_eq)
  qed
qed

lemma f64_of_u64_positive:
  assumes "n \<noteq> 0"
  shows "\<exists>q. f64_of_u64 n = Fin q \<and> 0 < q"
proof -
  have n: "0 < unat n" using assms by (simp add: unat_gt_0)
  then have "0 < round_to_even (unat n) (halvings (unat n))"
    using halvings_positive [OF n] by (simp add: round_to_even_def Let_def)
  with n show ?thesis by (simp add: f64_of_u64_def f64_of_nat_def Let_def del: of_nat_unat)
qed

lemma cpu_usage_percent: "\<exists>c. cpu_usage_between a b = Fin c \<and> 0 \<le> c \<and> c \<le> 100"
proof -
  obtain p where p: "f64_of_u64 (saturating_sub (snd b) (snd a)) = Fin p" using f64_of_u64_Fin by blast
  have "max (saturating_sub (fst b) (fst a)) 1 \<noteq> (0 :: u64)" by (metis max.cobounded2 word_le_0_iff zero_neq_one)
  then obtain q where q: "f64_of_u64 (max (saturating_sub (fst b) (fst a)) 1) = Fin q" "0 < q"
    using f64_of_u64_positive by blast
  have "f64_mul (f64_sub (Fin 1) (f64_div (Fin p) (Fin q))) (Fin 100) \<noteq> NaN"
    using q(2) by (intro mul_Fin_not_NaN one_minus_not_NaN div_not_NaN) simp_all
  from clamp_range [OF this, of 0 100] show ?thesis
    by (simp add: cpu_usage_between_def p q(1) Let_def)
qed

section \<open>The process list\<close>

lemma snapshot_entries_distinct:
  "distinct (map fst tab) \<Longrightarrow> snapshot_entries os names tab h = (Inr tab' :: tool_error + _, h') \<Longrightarrow>
     distinct (map fst tab')"
proof (induction os names tab arbitrary: h rule: snapshot_entries.induct)
  case (2 os name names tab)
  note unfold = snapshot_entries.simps(2) [of os name names tab] Let_def
  show ?case
  proof (cases "if list_all is_digit (utf8_lossy name) then parse_u32 (utf8_lossy name) else None")
    case None
    with 2 show ?thesis by (simp add: unfold)
  next
    case (Some pid)
    obtain r g where entry: "(read_proc_entry os pid h :: (tool_error + _) \<times> host) = (r, g)" by fastforce
    show ?thesis
      using 2 Some entry
      by (cases r) (auto simp: unfold bind_io_def ret_def distinct_update split: option.splits if_splits)
  qed
qed (simp add: ret_def)

lemma process_row_pid: "process_row td n t2 e = Some p \<Longrightarrow> pi_pid p = fst e"
  by (auto simp: process_row_def split: prod.splits)

lemma map_filter_distinct:
  assumes "distinct (map f xs)" and "\<And>x y. g x = Some y \<Longrightarrow> k y = f x"
  shows "distinct (map k (List.map_filter g xs))"
  using assms
  by (induction xs) (auto simp: map_filter_simps image_iff map_filter_def split: option.splits)

text \<open>The CPU share of a process is a number and not negative.\<close>

definition counts :: "f64 \<Rightarrow> bool" where
  "counts x \<longleftrightarrow> f64_le (Fin 0) x"

lemma counts_iff: "counts x \<longleftrightarrow> x = PInf \<or> (\<exists>q. x = Fin q \<and> 0 \<le> q)"
  by (cases x) (auto simp: counts_def)

lemma counts_to_f64: "0 \<le> q \<Longrightarrow> counts (to_f64 q)"
  by (simp add: counts_def to_f64_nonneg)

lemma counts_mul: "counts x \<Longrightarrow> 0 < q \<Longrightarrow> counts (f64_mul x (Fin q))"
  by (auto simp: counts_iff infinite_of_def) (metis counts_iff counts_to_f64 less_imp_le mult_nonneg_nonneg)

lemma counts_div: "counts x \<Longrightarrow> 0 < q \<Longrightarrow> counts (f64_div x (Fin q))"
  by (auto simp: counts_iff infinite_of_def) (metis counts_iff counts_to_f64 less_imp_le divide_nonneg_nonneg)

lemma counts_round: "counts x \<Longrightarrow> counts (f64_round x)"
  by (auto simp: counts_iff round_away_def)

lemma counts_one_decimal: "counts x \<Longrightarrow> counts (one_decimal x)"
  unfolding one_decimal_def by (intro counts_div counts_round counts_mul) auto

lemma counts_clamp: "counts hi \<Longrightarrow> x \<noteq> NaN \<Longrightarrow> counts (f64_clamp (Fin 0) hi x)"
  by (cases x; cases hi) (auto simp: counts_iff f64_clamp_def f64_gt_def)

lemma counts_not_NaN: "counts x \<Longrightarrow> x \<noteq> NaN"
  by (auto simp: counts_iff)

lemma share_counts:
  assumes "0 < td" and "0 < n"
  shows "counts (one_decimal (share_of (Fin td) (Fin n) j1 j2))"
proof -
  obtain d where d: "f64_of_u64 (saturating_sub j2 j1) = Fin d" "0 \<le> d" using f64_of_u64_Fin by blast
  have "counts (Fin d)" "counts (Fin 100)" using d(2) by (simp_all add: counts_iff)
  then show ?thesis
    unfolding share_of_def d(1) using assms
    by (intro counts_one_decimal counts_clamp counts_not_NaN counts_mul counts_div) auto
qed

lemma rank_sorted: "sorted (map (\<lambda>p. Reverse (pi_cpu p)) (rank_processes ps))"
  by (simp add: rank_processes_def take_map [symmetric] sorted_wrt_take)

lemma rank_set: "set (rank_processes ps) \<subseteq> set ps"
  by (metis rank_processes_def set_sort set_take_subset)

lemma rank_distinct: "distinct (map pi_pid ps) \<Longrightarrow> distinct (map pi_pid (rank_processes ps))"
  by (simp add: rank_processes_def take_map [symmetric] distinct_map)

lemma f64_of_nat_positive: "0 < n \<Longrightarrow> \<exists>q. f64_of_nat n = Fin q \<and> 0 < q"
  using halvings_positive [of n] by (auto simp: f64_of_nat_def Let_def round_to_even_def)

lemma rows_count:
  assumes "0 < td" and "0 < n" and "p \<in> set (List.map_filter (process_row (Fin td) (Fin n) t2) es)"
  shows "counts (pi_cpu p)"
  using assms(3) share_counts [OF assms(1,2)]
  by (auto simp: map_filter_def process_row_def split: prod.splits)

lemma processes_ranked:
  assumes run: "linux_processes os h = (Inr ps, h')" and order: "some_order (of_order os)" and cpus: "of_cpus os \<noteq> Some 0"
  shows "length ps \<le> 32" and "sorted_wrt (\<lambda>p q. f64_ge (pi_cpu p) (pi_cpu q)) ps"
    and "list_all (\<lambda>p. counts (pi_cpu p)) ps" and "distinct (map pi_pid ps)"
proof -
  obtain s1 s2 t1 t2 h1 h2 where snap: "snapshot_process_cpu os h1 = (Inr s1 :: tool_error + _, h2)"
    and ps: "ps = rank_processes (List.map_filter
        (process_row (f64_of_u64 (max (saturating_sub (unwrap_or t2 (unwrap_or t1 0)) (unwrap_or t1 0)) 1))
          (case of_cpus os of None \<Rightarrow> Fin 1 | Some n \<Rightarrow> f64_of_nat n) s2) (of_order os s1))"
    by (insert run, unfold linux_processes_def, (drule bind_io_Inr, elim exE conjE)+)
      (auto simp: ret_def Let_def)
  have "max (saturating_sub (unwrap_or t2 (unwrap_or t1 0)) (unwrap_or t1 0)) 1 \<noteq> (0 :: u64)"
    by (metis max.cobounded2 word_le_0_iff zero_neq_one)
  from f64_of_u64_positive [OF this] obtain td where
    td: "f64_of_u64 (max (saturating_sub (unwrap_or t2 (unwrap_or t1 0)) (unwrap_or t1 0)) 1) = Fin td" "0 < td"
    by blast
  obtain n where n: "(case of_cpus os of None \<Rightarrow> Fin 1 | Some n \<Rightarrow> f64_of_nat n) = Fin n" "0 < n"
    using cpus f64_of_nat_positive by (cases "of_cpus os") auto
  let ?rows = "List.map_filter (process_row (Fin td) (Fin n) s2) (of_order os s1)"
  have ps: "ps = rank_processes ?rows" using ps td(1) n(1) by simp
  have "distinct (map fst s1)"
    using snap snapshot_entries_distinct [of "[]"]
    by (auto simp: snapshot_process_cpu_def raise_def split: sum.splits dest!: bind_io_Inr)
  moreover have "mset (map fst (of_order os s1)) = mset (map fst s1)"
    using order unfolding some_order_def by (metis mset_map)
  ultimately have "distinct (map fst (of_order os s1))" by (metis mset_eq_imp_distinct_iff)
  then have "distinct (map pi_pid ?rows)"
    by (rule map_filter_distinct) (simp add: process_row_pid)
  then show "distinct (map pi_pid ps)" unfolding ps by (rule rank_distinct)
  have all: "list_all (\<lambda>p. counts (pi_cpu p)) ps"
    unfolding ps list_all_iff using rank_set rows_count [OF td(2) n(2)] by blast
  then show "list_all (\<lambda>p. counts (pi_cpu p)) ps" .
  show "length ps \<le> 32" unfolding ps by (simp add: rank_processes_def)
  have "sorted_wrt (\<lambda>p q. pi_cpu q \<le> pi_cpu p) ps"
    using rank_sorted [of ?rows] by (simp add: ps sorted_map)
  then show "sorted_wrt (\<lambda>p q. f64_ge (pi_cpu p) (pi_cpu q)) ps"
    using all by (induction ps) (auto simp: f64_ge_def f64_le_order counts_not_NaN list_all_iff)
qed

end
