(* ===== verification/ServiceSamples.thy ===== *)
theory ServiceSamples
  imports Samples ServerFacts LinuxFacts
begin

text \<open>A service started on concrete inputs: no configuration file, the mock provider and tools, no memory store.\<close>

definition sample_overrides :: cli_overrides where
  "sample_overrides =
     \<lparr>cli_config = None, cli_mock = True, cli_mock_planner = False, cli_provider = None, cli_sock = None,
      cli_audit = None, cli_memory = None, cli_no_memory = True, cli_real_linux = False, cli_max_concurrent = None,
      cli_request_timeout_secs = None, cli_max_tool_iters = None, cli_no_automation = False,
      cli_auto_diagnose = True, cli_no_auto_diagnose = False, cli_telemetry = False, cli_no_telemetry = False,
      cli_telemetry_interval_secs = None\<rparr>"

definition sample_surroundings :: surroundings where
  "sample_surroundings =
     \<lparr>su_env = (\<lambda>n. None), su_exists = (\<lambda>p. False), su_read = (\<lambda>p. None), su_toml = (\<lambda>t. None)\<rparr>"

definition sample_client :: http_client where
  "sample_client =
     \<lparr>http_status = (\<lambda>q. raise ''offline''), http_json = (\<lambda>q. raise ''offline''), http_chunks = (\<lambda>q. raise ''offline'')\<rparr>"

definition sample_disk :: ab_disk where
  "sample_disk =
     \<lparr>ad_env_root = None, ad_is_dir = (\<lambda>n p. False), ad_is_file = (\<lambda>n p. False), ad_text = (\<lambda>n p. None),
      ad_link = (\<lambda>n p. None), ad_utf8 = (\<lambda>s. True)\<rparr>"

definition sample_machine :: machine where
  "sample_machine =
     \<lparr>mc_os = sample_os, mc_http = sample_client, mc_disk = sample_disk, mc_uptime = (\<lambda>n. 1), mc_bind = None,
      mc_tool_order = (\<lambda>ts. ts), mc_fact_order = (\<lambda>fs. fs), mc_room = (\<lambda>n. True), mc_cut = (\<lambda>n. Ready)\<rparr>"

lemma sample_client_climbs: "state_preorder R \<Longrightarrow> client_climbs R sample_client"
  by (simp add: client_climbs_def sample_client_def state_preorder.climbs_raise)

lemma kind_mock: "provider_kind_parse x ''mock'' = Some Mock"
proof -
  have "trim ''mock'' = ''mock''" "map ascii_lower ''mock'' = ''mock''" "is_ascii ''mock''"
    by (simp_all add: trim_def trim_end_def trim_start_def strip_ws_done ws_byte_def ws_bytes2_def ws_bytes3_def
        ascii_lower_def is_ascii_def)
  then show ?thesis by (simp add: provider_kind_parse_def to_lowercase_def)
qed

definition sample_settings :: resolved_settings where
  "sample_settings =
     \<lparr>st_config_path = None, st_sock = ''/tmp/saaios.sock'', st_audit = ''saaios-audit.jsonl'', st_real_linux = False,
      st_mock_planner = False, st_provider_kind = ''mock'', st_api_base = None, st_api_key = None,
      st_model = Some ''gpt-4o-mini'', st_local_base = Some ''http://127.0.0.1:11434/v1'',
      st_local_model = Some ''llama3.2'', st_max_concurrent = 1, st_request_timeout_secs = 30, st_max_tool_iters = 6,
      st_memory_enabled = False, st_memory_path = ''saaios-memory.jsonl'', st_automation_enabled = True,
      st_auto_diagnose = True, st_telemetry_enabled = False, st_telemetry_interval_secs = 30\<rparr>"

lemma sample_resolved: "resolve sample_surroundings sample_overrides = Inr sample_settings"
  by (simp add: resolve_def sample_surroundings_def sample_overrides_def sample_settings_def discover_config_path_def
      overlay_env_def env_over_def mock_mode_def resolve_telemetry_def default_config_def default_runtime_def
      default_provider_def default_budgets_def default_memory_def default_automation_def default_telemetry_def Let_def)

lemma sample_listening:
  "\<exists>sv s h'. service_main x sample_machine sample_surroundings sample_overrides None sample_host =
     (Inr (Listening sv [] s), h') \<and> mt_auto_diagnose (se_meta sv)"
  by (simp add: service_main_def sample_resolved service_boot_def open_memory_def audit_open_def planner_demo_def
      settings_kind_def kind_mock settings_provider_def build_provider_def on_plant_def sample_settings_def
      sample_machine_def sample_host_def runtime_start_def service_meta_def io_defs Let_def)

text \<open>A connection that closes at once is a step of any service.\<close>

definition closing_connection :: "service_state \<Rightarrow> client_state" where
  "closing_connection s =
     service_state.extend s
       \<lparr>co_read = Inr [], co_sent = [], co_write_src = (\<lambda>n. Written), co_write_next = 0, co_shutdown = None,
        co_closed = False\<rparr>"

lemma closing_step: "service_step rc x sv allowed (run_start s) (run_start s)"
proof -
  let ?c = "closing_connection s"
  have "service_state.truncate ?c = s"
    by (simp add: closing_connection_def service_state.defs)
  moreover have "handle_client x sv ?c = (Inr (), ?c)" and "requested x ?c = None"
    by (simp_all add: handle_client_def read_request_def requested_def closing_connection_def service_state.defs io_defs)
  ultimately show ?thesis
    using service_step.connection [of ?c "run_start s" allowed x sv "Inr ()" ?c] by (simp add: run_start_def)
qed

lemma closing_run: "(service_step rc x sv allowed)\<^sup>*\<^sup>* (run_start s) (run_start s)"
  by (rule r_into_rtranclp) (rule closing_step)

text \<open>A channel that keeps the last 64 envelopes and tells a receiver further behind how many it has lost.\<close>

definition sample_channel :: channel where
  "sample_channel bus k =
     (if length bus \<le> k then None
      else if bus_capacity < length bus - k
      then Some (Lagged (of_nat (length bus - k - bus_capacity)), length bus - bus_capacity)
      else Some (Got (bus ! k), Suc k))"

lemma sample_channel_moves_on: "moves_on sample_channel"
  by (auto simp: moves_on_def sample_channel_def bus_capacity_def)

text \<open>A \<open>/proc\<close> with one process; the listing of processes answers whenever it can be read.\<close>

definition sample_proc :: os_files where
  "sample_proc =
     \<lparr>of_text = (\<lambda>n p. if p = ''/proc/42/stat'' then Inr (''42 (sh) S 1 1 1 0 -1 0 0 0 0 0 5 3 0'' @ [newline])
                       else if p = ''/proc/42/comm'' then Inr ''sh'' else Inl ''not found''),
      of_dir = (\<lambda>n p. Inr [''42'', ''self'']), of_exists = (\<lambda>n p. False),
      of_command = (\<lambda>n c. Inl ''not found''), of_cpus = Some 2, of_order = (\<lambda>t. t)\<rparr>"

lemma sample_proc_readable: "\<exists>names. of_dir sample_proc n ''/proc'' = Inr names"
  by (simp add: sample_proc_def)

lemma entry_total: "\<exists>r h'. (read_proc_entry os pid h :: ('e + _) \<times> _) = (Inr r, h')"
  by (auto simp: read_proc_entry_def read_vm_rss_mb_def os_text_def os_access_def io_defs Let_def split: option.split)

lemma bind_total:
  assumes "\<exists>r g. m h = (Inr r, g)" and "\<And>r g. \<exists>y t. f r g = (Inr y, t)"
  shows "\<exists>y t. bind_io m f h = (Inr y, t)"
  using assms by (auto simp: bind_io_def)

lemma snapshot_total: "\<exists>tab' h'. (snapshot_entries os names tab h :: ('e + _) \<times> _) = (Inr tab', h')"
proof (induction names arbitrary: tab h)
  case (Cons name names)
  then show ?case
    by (auto simp: Let_def ret_def split: option.split intro!: bind_total entry_total)
qed (simp add: ret_def)

lemma processes_total:
  assumes "\<And>n. \<exists>names. of_dir os n ''/proc'' = Inr names"
  shows "\<exists>ps h'. linux_processes os h = (Inr ps, h')"
proof -
  have "\<exists>tab h'. snapshot_process_cpu os g = (Inr tab :: tool_error + _, h')" for g
    using assms [of "os_next g"] snapshot_total
    by (auto simp: snapshot_process_cpu_def os_dir_def os_access_def bind_io_def)
  then obtain tab k where snap: "\<And>g. snapshot_process_cpu os g = (Inr (tab g) :: tool_error + _, k g)" by metis
  show ?thesis
    by (simp add: linux_processes_def read_total_jiffies_def os_text_def os_access_def snap io_defs Let_def)
qed

end
