(* ===== verification/Console.thy ===== *)
theory Console
  imports Wire Utf8 Lines
begin

text \<open>
  What the two consoles (\<open>crates/console-web\<close>, \<open>crates/console-tui\<close>) share: each opens the socket
  of the runtime for one request, writes it, shuts down its own side and reads until the other side closes.
  What is at the other end is a parameter, a \<open>peer\<close>: from the bytes of the request and its own state it
  decides whether the connection comes about, in which chunks the answer arrives, and whether the reading ends
  with the close or with an error. Theory \<open>ServicePeer\<close> puts the service there.

  An error of the crate anyhow is the list of its messages, the outermost context first: \<open>to_string\<close> shows
  the first, the alternate form all of them.
\<close>

type_synonym failure = "string list"

definition failure_text :: "failure \<Rightarrow> string" where
  "failure_text e = (case e of [] \<Rightarrow> [] | m # ms \<Rightarrow> m)"

definition failure_chain :: "failure \<Rightarrow> string" where
  "failure_chain e = join '': '' e"

section \<open>The socket\<close>

datatype dialed = NotConnected string | NotSent string | Answer "string list" "string option"

type_synonym 'w peer = "string \<Rightarrow> 'w \<Rightarrow> dialed \<times> 'w"

definition dial :: "string \<Rightarrow> 'w peer \<Rightarrow> string \<Rightarrow> ('w, failure, string list \<times> string option) io" where
  "dial sock peer bytes = (\<lambda>w.
     case peer bytes w of
       (NotConnected e, v) \<Rightarrow> (Inl [''connect '' @ sock, e], v)
     | (NotSent e, v) \<Rightarrow> (Inl [e], v)
     | (Answer cs end, v) \<Rightarrow> (Inr (cs, end), v))"

definition read_to_end :: "string list \<times> string option \<Rightarrow> ('w, failure, string) io" where
  "read_to_end = (\<lambda>(cs, end). case end of Some e \<Rightarrow> raise [e] | None \<Rightarrow> ret (concat cs))"

definition parse_value :: "ext \<Rightarrow> string \<Rightarrow> ('w, failure, json) io" where
  "parse_value x bytes =
     (case json_parse x bytes of None \<Rightarrow> raise [parse_error x bytes] | Some v \<Rightarrow> ret v)"

text \<open>One request, one JSON value as its answer.\<close>

definition ask :: "ext \<Rightarrow> string \<Rightarrow> 'w peer \<Rightarrow> string \<Rightarrow> ('w, failure, json) io" where
  "ask x sock peer bytes =
     bind_io (dial sock peer bytes) (\<lambda>got. bind_io (read_to_end got) (parse_value x))"

text \<open>A peer is asked once, whatever becomes of its answer.\<close>

lemma dial_state: "snd (dial sock peer bytes w) = snd (peer bytes w)"
  by (simp add: dial_def split: prod.split dialed.split)

lemma ask_state: "snd (ask x sock peer bytes w) = snd (peer bytes w)"
  by (auto simp: ask_def dial_def read_to_end_def parse_value_def io_defs split: prod.split dialed.split option.split)

text \<open>What a complete answer gives.\<close>

lemma ask_answer:
  assumes "peer bytes w = (Answer cs None, v)" and "json_parse x (concat cs) = Some j"
  shows "ask x sock peer bytes w = (Inr j, v)"
  using assms by (simp add: ask_def dial_def read_to_end_def parse_value_def io_defs)

section \<open>The codecs\<close>

text \<open>What the properties assume of the JSON text codec and of the text form of identifiers: compact JSON text
  is one line of well-formed text without blanks around it, and both read back what they wrote.\<close>

definition codecs :: "ext \<Rightarrow> bool" where
  "codecs x \<longleftrightarrow>
     text_codec_on x UNIV \<and> uuid_codec_on x UNIV
     \<and> (\<forall>v. trim (json_text x v) = json_text x v \<and> utf8_ok (json_text x v))"

lemma codecs_text:
  assumes "codecs x"
  shows "json_parse x (json_text x v) = Some v" "newline \<notin> set (json_text x v)" "json_text x v \<noteq> []"
    "trim (json_text x v) = json_text x v" "utf8_ok (json_text x v)"
proof -
  have "one_line (json_text x v)" "\<not> blank (json_text x v)" "trim (json_text x v) = json_text x v"
    "json_parse x (json_text x v) = Some v" "utf8_ok (json_text x v)"
    using assms by (simp_all add: codecs_def text_codec_on_def)
  then show "json_parse x (json_text x v) = Some v" "newline \<notin> set (json_text x v)" "json_text x v \<noteq> []"
    "trim (json_text x v) = json_text x v" "utf8_ok (json_text x v)"
    by (auto simp: one_line_def blank_def)
qed

lemma codecs_uuid: "codecs x \<Longrightarrow> uuid_parse x (uuid_text x u) = Some u" "codecs x \<Longrightarrow> uuid_codec_on x U"
  by (simp_all add: codecs_def uuid_codec_on_def)

end
