(* ===== verification/ConsoleTui.thy ===== *)
theory ConsoleTui
  imports Console Texts
begin

text \<open>
  \<open>crates/console-tui/src/main.rs\<close>: the terminal console. Its state is what it shows (the transcript, the
  status line, the input line) and what it remembers: the confirmation it is waiting for, the last correlation
  and the chat session. Every key press is one step; a step asks the runtime at most once.

  The input is the list of its characters, each as its UTF-8 bytes, so a backspace takes off one character.
  Drawing, and errors of the terminal itself, are not modelled.
\<close>

section \<open>Requests to the runtime\<close>

datatype tui_request =
    TuiDiagnose string "uuid option" bool
  | TuiConfirm uuid uuid string json confirm_scope "uuid option"
  | TuiChatReset uuid
  | TuiAuditTail nat
  | TuiMemoryRemember string string "string list"
  | TuiMemoryRecall string
  | TuiMemoryTail nat
  | TuiMemoryForget string
  | TuiStatus
  | TuiEventsTail nat
  | TuiSessionGrants
  | TuiClearSessionGrants
  | TuiPing

definition tui_request_json :: "ext \<Rightarrow> tui_request \<Rightarrow> json" where
  "tui_request_json x r = Object (case r of
       TuiDiagnose text sess stream \<Rightarrow>
         [(''op'', String ''diagnose''), (''text'', String text), (''session_id'', opt_json (uuid_json x) sess),
          (''stream'', Bool stream)]
     | TuiConfirm corr cid tool args scope sess \<Rightarrow>
         [(''op'', String ''confirm''), (''correlation_id'', uuid_json x corr), (''call_id'', uuid_json x cid),
          (''tool'', String tool), (''arguments'', args), (''scope'', String (scope_name scope)),
          (''session_id'', opt_json (uuid_json x) sess)]
     | TuiChatReset sid \<Rightarrow> [(''op'', String ''chat_reset''), (''session_id'', uuid_json x sid)]
     | TuiAuditTail n \<Rightarrow> [(''op'', String ''audit_tail''), (''limit'', nat_json n)]
     | TuiMemoryRemember k v tags \<Rightarrow>
         [(''op'', String ''memory_remember''), (''key'', String k), (''value'', String v), (''tags'', strings_json tags)]
     | TuiMemoryRecall q \<Rightarrow> [(''op'', String ''memory_recall''), (''query'', String q)]
     | TuiMemoryTail n \<Rightarrow> [(''op'', String ''memory_tail''), (''limit'', nat_json n)]
     | TuiMemoryForget k \<Rightarrow> [(''op'', String ''memory_forget''), (''key'', String k)]
     | TuiStatus \<Rightarrow> [(''op'', String ''status'')]
     | TuiEventsTail n \<Rightarrow> [(''op'', String ''events_tail''), (''limit'', nat_json n)]
     | TuiSessionGrants \<Rightarrow> [(''op'', String ''session_grants'')]
     | TuiClearSessionGrants \<Rightarrow> [(''op'', String ''clear_session_grants'')]
     | TuiPing \<Rightarrow> [(''op'', String ''ping'')])"

section \<open>Responses\<close>

record tui_response =
  tr_ok :: bool
  tr_correlation_id :: "uuid option"
  tr_session_id :: "uuid option"
  tr_diagnose :: "diagnose_result option"
  tr_pending :: "pending_dto option"
  tr_error :: "string option"
  tr_tool_result :: "tool_call_result option"
  tr_audit_tail :: "json list option"
  tr_session_grants :: "string list option"
  tr_memory_facts :: "json list option"
  tr_status :: "json option"
  tr_events :: "json list option"
  tr_progress :: "json list option"

definition as_u32 :: "json \<Rightarrow> u32 option" where
  "as_u32 v = Option.bind (as_u64 v) (\<lambda>n. if unat n < 2 ^ 32 then Some (ucast n) else None)"

definition as_uuid :: "ext \<Rightarrow> json \<Rightarrow> uuid option" where
  "as_uuid x v = Option.bind (as_str v) (uuid_parse x)"

definition proposed_action_of_json :: "json \<Rightarrow> proposed_action option" where
  "proposed_action_of_json v =
     Option.bind (get_str v ''tool'') (\<lambda>tool.
     Option.bind (get v ''arguments'') (\<lambda>args.
     Option.bind (get_str v ''summary'') (\<lambda>sum.
       Some \<lparr>pa_tool = tool, pa_arguments = args, pa_summary = sum\<rparr>)))"

definition diagnose_result_of_json :: "json \<Rightarrow> diagnose_result option" where
  "diagnose_result_of_json v =
     Option.bind (get_str v ''summary'') (\<lambda>sum.
     Option.bind (get_opt as_u32 v ''culprit_pid'') (\<lambda>pid.
     Option.bind (get_opt as_str v ''culprit_name'') (\<lambda>name.
     Option.bind (get_opt proposed_action_of_json v ''proposed_action'') (\<lambda>act.
       Some \<lparr>dr_summary = sum, dr_culprit_pid = pid, dr_culprit_name = name, dr_proposed_action = act\<rparr>))))"

definition pending_dto_of_json :: "ext \<Rightarrow> json \<Rightarrow> pending_dto option" where
  "pending_dto_of_json x v =
     Option.bind (get_uuid x v ''call_id'') (\<lambda>cid.
     Option.bind (get_str v ''tool'') (\<lambda>tool.
     Option.bind (get v ''arguments'') (\<lambda>args.
     Option.bind (get_str v ''summary'') (\<lambda>sum.
       Some \<lparr>pt_call_id = cid, pt_tool = tool, pt_arguments = args, pt_summary = sum\<rparr>))))"

definition tool_call_result_of_json :: "ext \<Rightarrow> json \<Rightarrow> tool_call_result option" where
  "tool_call_result_of_json x v =
     Option.bind (get_uuid x v ''call_id'') (\<lambda>cid.
     Option.bind (get_str v ''tool'') (\<lambda>tool.
     Option.bind (get_bool v ''ok'') (\<lambda>ok.
     Option.bind (get v ''output'') (\<lambda>out.
     Option.bind (get_opt as_str v ''error'') (\<lambda>err.
       Some \<lparr>res_call_id = cid, res_tool = tool, res_ok = ok, res_output = out, res_error = err\<rparr>)))))"

definition tui_response_of_json :: "ext \<Rightarrow> json \<Rightarrow> tui_response option" where
  "tui_response_of_json x v =
     Option.bind (get_bool v ''ok'') (\<lambda>ok.
     Option.bind (get_opt (as_uuid x) v ''correlation_id'') (\<lambda>corr.
     Option.bind (get_opt (as_uuid x) v ''session_id'') (\<lambda>sess.
     Option.bind (get_opt diagnose_result_of_json v ''diagnose'') (\<lambda>diag.
     Option.bind (get_opt (pending_dto_of_json x) v ''pending'') (\<lambda>pend.
     Option.bind (get_opt as_str v ''error'') (\<lambda>err.
     Option.bind (get_opt (tool_call_result_of_json x) v ''tool_result'') (\<lambda>res.
     Option.bind (get_opt as_array v ''audit_tail'') (\<lambda>tail.
     Option.bind (get_opt as_strings v ''session_grants'') (\<lambda>grants.
     Option.bind (get_opt as_array v ''memory_facts'') (\<lambda>facts.
     Option.bind (get_opt Some v ''status'') (\<lambda>st.
     Option.bind (get_opt as_array v ''events'') (\<lambda>evs.
     Option.bind (get_opt as_array v ''progress'') (\<lambda>prog.
       Some \<lparr>tr_ok = ok, tr_correlation_id = corr, tr_session_id = sess, tr_diagnose = diag, tr_pending = pend,
             tr_error = err, tr_tool_result = res, tr_audit_tail = tail, tr_session_grants = grants,
             tr_memory_facts = facts, tr_status = st, tr_events = evs, tr_progress = prog\<rparr>)))))))))))))"

section \<open>The state\<close>

record 'w app =
  tp_sock :: string
  tp_input :: "string list"
  tp_lines :: "string list"
  tp_pending :: "(uuid \<times> pending_dto) option"
  tp_status :: string
  tp_last_correlation :: "uuid option"
  tp_chat_session :: "uuid option"
  tp_peer :: 'w

definition app_new :: "string \<Rightarrow> 'w \<Rightarrow> 'w app" where
  "app_new sock w =
     \<lparr>tp_sock = sock, tp_input = [],
      tp_lines =
        [''SaaiOS Console 0.5'', text_tui_example,
         ''Confirm: y=once, s=session, n=cancel | h=status | e=events | a=audit | m=memory | g=grants | c=clear | q=quit'',
         ''Chat: multi-turn session kept across prompts | /new resets | /remember key=value''],
      tp_pending = None, tp_status = ''disconnected'', tp_last_correlation = None, tp_chat_session = None,
      tp_peer = w\<rparr>"

definition push :: "string \<Rightarrow> 'w app \<Rightarrow> 'w app" where
  "push l a = a\<lparr>tp_lines := tp_lines a @ [l]\<rparr>"

text \<open>What is not code of the console: the text of the error for an answer that is no response.\<close>

type_synonym no_response = "json \<Rightarrow> string"

definition read_response :: "no_response \<Rightarrow> ext \<Rightarrow> json \<Rightarrow> failure + tui_response" where
  "read_response bad x v = (case tui_response_of_json x v of None \<Rightarrow> Inl [bad v] | Some r \<Rightarrow> Inr r)"

definition request ::
  "no_response \<Rightarrow> ext \<Rightarrow> 'w peer \<Rightarrow> tui_request \<Rightarrow> 'w app \<Rightarrow> (failure + tui_response) \<times> 'w app" where
  "request bad x peer req a =
     (case ask x (tp_sock a) peer (json_text x (tui_request_json x req)) (tp_peer a) of
        (r, w) \<Rightarrow> ((case r of Inl e \<Rightarrow> Inl e | Inr v \<Rightarrow> read_response bad x v), a\<lparr>tp_peer := w\<rparr>))"

section \<open>A streamed diagnosis\<close>

definition str_or :: "json \<Rightarrow> string \<Rightarrow> string \<Rightarrow> string" where
  "str_or v k d = unwrap_or (get_str v k) d"

definition bool_or :: "json \<Rightarrow> string \<Rightarrow> bool \<Rightarrow> bool" where
  "bool_or v k d = unwrap_or (get_bool v k) d"

definition u64_or_0 :: "json \<Rightarrow> string \<Rightarrow> string" where
  "u64_or_0 v k = dec (unat (unwrap_or (get_u64 v k) 0))"

definition unknown :: string where
  "unknown = ''?''"

definition format_progress :: "json \<Rightarrow> string" where
  "format_progress ev =
     (let kind = str_or ev ''type'' unknown; tool = str_or ev ''tool'' unknown
      in if kind = ''tool_call'' then text_dots_tool @ tool
         else if kind = ''tool_result'' then
           text_dots @ tool @ text_arrow @ (if bool_or ev ''ok'' False then ''ok'' else ''fail'')
         else if kind = ''policy'' then text_dots_policy @ tool @ ''='' @ str_or ev ''verdict'' unknown
         else if kind = ''assistant_delta'' then []
         else if kind = ''assistant'' then str_or ev ''text'' []
         else if kind = ''confirmation'' then []
         else if kind = ''completed'' then []
         else if kind = ''error'' then ''error: '' @ str_or ev ''message'' unknown
         else text_dots @ kind)"

text \<open>One line of the stream: a progress frame adds its text, the last frame is the response, other frames and
  blank lines are passed over, and a line that is no JSON ends everything.\<close>

definition stream_line ::
  "no_response \<Rightarrow> ext \<Rightarrow> string \<Rightarrow> tui_response option \<times> string list \<Rightarrow> failure + tui_response option \<times> string list" where
  "stream_line bad x raw = (\<lambda>(fin, shown).
     let line = trim raw
     in if line = [] then Inr (fin, shown)
        else case json_parse x line of
          None \<Rightarrow> Inl [''parse stream line: '' @ line, parse_error x line]
        | Some v \<Rightarrow>
            (case get_str v ''type'' of
               None \<Rightarrow> map_sum id (\<lambda>r. (Some r, shown)) (read_response bad x v)
             | Some t \<Rightarrow>
                 if t = ''progress'' then
                   Inr (fin, shown @ (case get v ''event'' of None \<Rightarrow> [] | Some ev \<Rightarrow> [format_progress ev]))
                 else if t = ''done'' then map_sum id (\<lambda>r. (Some r, shown)) (read_response bad x v)
                 else Inr (fin, shown)))"

fun stream_lines ::
  "no_response \<Rightarrow> ext \<Rightarrow> string list \<Rightarrow> tui_response option \<times> string list \<Rightarrow> failure + tui_response option \<times> string list" where
  "stream_lines bad x [] acc = Inr acc"
| "stream_lines bad x (l # ls) acc =
     (case stream_line bad x l acc of Inl e \<Rightarrow> Inl e | Inr acc' \<Rightarrow> stream_lines bad x ls acc')"

definition stream_result :: "no_response \<Rightarrow> ext \<Rightarrow> string \<Rightarrow> failure + tui_response \<times> string list" where
  "stream_result bad x bytes =
     (case stream_lines bad x (text_lines (utf8_lossy bytes)) (None, []) of
        Inl e \<Rightarrow> Inl e
      | Inr (None, shown) \<Rightarrow> Inl [''stream ended without done frame'']
      | Inr (Some r, shown) \<Rightarrow> Inr (r, shown))"

definition request_stream ::
  "no_response \<Rightarrow> ext \<Rightarrow> 'w peer \<Rightarrow> tui_request \<Rightarrow> 'w app \<Rightarrow> (failure + tui_response \<times> string list) \<times> 'w app" where
  "request_stream bad x peer req a =
     (case bind_io (dial (tp_sock a) peer (json_text x (tui_request_json x req))) read_to_end (tp_peer a) of
        (r, w) \<Rightarrow> ((case r of Inl e \<Rightarrow> Inl e | Inr bytes \<Rightarrow> stream_result bad x bytes), a\<lparr>tp_peer := w\<rparr>))"

definition session_label :: "ext \<Rightarrow> uuid option \<Rightarrow> string" where
  "session_label x sess = take 8 (case sess of None \<Rightarrow> ''-'' | Some u \<Rightarrow> uuid_text x u)"

definition show_summary :: "diagnose_result \<Rightarrow> 'w app \<Rightarrow> 'w app" where
  "show_summary d a =
     (let b = (if tp_lines a \<noteq> [] \<and> last (tp_lines a) = dr_summary d then a else push (dr_summary d) a)
      in case dr_proposed_action d of None \<Rightarrow> b | Some act \<Rightarrow> push (text_proposed @ pa_summary act) b)"

definition show_pending :: "uuid \<Rightarrow> pending_dto \<Rightarrow> 'w app \<Rightarrow> 'w app" where
  "show_pending corr p a =
     (push (''[Confirm] '' @ pt_summary p @ ''  y=once / s=session / n=cancel'') a)\<lparr>tp_pending := Some (corr, p)\<rparr>"

definition take_response :: "ext \<Rightarrow> tui_response \<Rightarrow> 'w app \<Rightarrow> 'w app" where
  "take_response x r a =
     (let b = (case tr_session_id r of None \<Rightarrow> a | Some sid \<Rightarrow> a\<lparr>tp_chat_session := Some sid\<rparr>);
          c = (case tr_correlation_id r of None \<Rightarrow> b | Some corr \<Rightarrow> b\<lparr>tp_last_correlation := Some corr\<rparr>);
          d = (case tr_diagnose r of None \<Rightarrow> c | Some diag \<Rightarrow> show_summary diag c);
          e = (case (tr_correlation_id r, tr_pending r) of (Some corr, Some p) \<Rightarrow> show_pending corr p d | _ \<Rightarrow> d)
      in e\<lparr>tp_status := ''ok | session='' @ session_label x (tp_chat_session e)
              @ (case tr_session_grants r of None \<Rightarrow> [] | Some gs \<Rightarrow> '' | grants='' @ join '','' gs)\<rparr>)"

definition diagnose :: "no_response \<Rightarrow> ext \<Rightarrow> 'w peer \<Rightarrow> string \<Rightarrow> 'w app \<Rightarrow> 'w app" where
  "diagnose bad x peer text a =
     (case request_stream bad x peer (TuiDiagnose text (tp_chat_session a) True) a of
        (Inl e, b) \<Rightarrow> push (''request failed: '' @ failure_chain e) b
      | (Inr (r, shown), b) \<Rightarrow>
          (let c = fold push (filter (\<lambda>l. l \<noteq> []) shown) b
           in case tr_error r of Some err \<Rightarrow> push (''error: '' @ err) c | None \<Rightarrow> take_response x r c))"

section \<open>Confirming\<close>

fun scope_debug :: "confirm_scope \<Rightarrow> string" where
  "scope_debug Once = ''Once''"
| "scope_debug Session = ''Session''"
| "scope_debug Cancel = ''Cancel''"

text \<open>What is pending is taken before the request goes out, so it is answered at most once.\<close>

definition tui_confirm :: "no_response \<Rightarrow> ext \<Rightarrow> 'w peer \<Rightarrow> confirm_scope \<Rightarrow> 'w app \<Rightarrow> 'w app" where
  "tui_confirm bad x peer scope a =
     (case tp_pending a of
        None \<Rightarrow> a
      | Some (corr, p) \<Rightarrow>
          (case request bad x peer
             (TuiConfirm corr (pt_call_id p) (pt_tool p) (pt_arguments p) scope (tp_chat_session a)) (a\<lparr>tp_pending := None\<rparr>) of
             (Inl e, b) \<Rightarrow> push (''confirm failed: '' @ failure_chain e) b
           | (Inr r, b) \<Rightarrow>
               (let c = (case tr_error r of
                           Some err \<Rightarrow> push (''confirm error: '' @ err) b
                         | None \<Rightarrow>
                             (case tr_tool_result r of
                                Some res \<Rightarrow>
                                  push (''tool '' @ res_tool res @ '' scope='' @ scope_debug scope @ '' ok=''
                                    @ bool_text (res_ok res) @ '' output='' @ json_text x (res_output res)) b
                              | None \<Rightarrow> push (''confirm scope='' @ scope_debug scope) b))
                in case tr_session_grants r of
                     None \<Rightarrow> c
                   | Some gs \<Rightarrow> c\<lparr>tp_status := ''ok | grants='' @ join '','' gs\<rparr>)))"

section \<open>Lists to look at\<close>

text \<open>Ask, and show the answer, the error in it, or the failure to get one.\<close>

definition asking ::
  "no_response \<Rightarrow> ext \<Rightarrow> 'w peer \<Rightarrow> string \<Rightarrow> tui_request \<Rightarrow> (tui_response \<Rightarrow> 'w app \<Rightarrow> 'w app) \<Rightarrow> 'w app \<Rightarrow> 'w app" where
  "asking bad x peer what req show_it a =
     (case request bad x peer req a of
        (Inl e, b) \<Rightarrow> push (what @ '' failed: '' @ failure_chain e) b
      | (Inr r, b) \<Rightarrow> (case tr_error r of Some err \<Rightarrow> push (what @ '' error: '' @ err) b | None \<Rightarrow> show_it r b))"

definition audit_line_of :: "ext \<Rightarrow> json \<Rightarrow> string" where
  "audit_line_of x item =
     json_text x (unwrap_or (get item ''kind'') Null) @ '' corr=''
     @ json_text x (unwrap_or (get item ''correlation_id'') Null)"

definition show_audit :: "no_response \<Rightarrow> ext \<Rightarrow> 'w peer \<Rightarrow> 'w app \<Rightarrow> 'w app" where
  "show_audit bad x peer =
     asking bad x peer ''audit'' (TuiAuditTail 12) (\<lambda>r.
       case tr_audit_tail r of
         None \<Rightarrow> id
       | Some tail \<Rightarrow> fold push (map (audit_line_of x) tail) \<circ> push ''--- audit tail ---'')"

definition slot_label :: "json \<Rightarrow> string" where
  "slot_label s =
     str_or s ''name'' unknown @ ''[bin='' @ (if bool_or s ''binary_present'' False then ''y'' else ''n'')
     @ '',ok='' @ (if bool_or s ''boot_ok'' False then ''y'' else ''n'') @ '']''"

definition show_ab :: "json \<Rightarrow> 'w app \<Rightarrow> 'w app" where
  "show_ab ab =
     (if bool_or ab ''enabled'' False
      then push (''ab current='' @ str_or ab ''current'' unknown @ '' ''
             @ join '' '' (map slot_label (unwrap_or (get_array ab ''slots'') [])))
      else push ''ab=disabled (no layout)'')"

definition show_status_value :: "json \<Rightarrow> 'w app \<Rightarrow> 'w app" where
  "show_status_value st a =
     (let provider = str_or st ''provider'' unknown;
          uptime = u64_or_0 st ''uptime_secs'';
          flag = (\<lambda>k. bool_text (bool_or st k False));
          b = push ''--- runtime status ---'' a;
          c = push (''provider='' @ provider @ '' ('' @ str_or st ''provider_kind'' unknown @ '') uptime='' @ uptime
                @ ''s tools='' @ u64_or_0 st ''tool_count'') b;
          d = push (''memory='' @ flag ''memory_enabled'' @ '' automation='' @ flag ''automation''
                @ '' auto_diagnose='' @ flag ''auto_diagnose'' @ '' telemetry='' @ flag ''telemetry''
                @ '' samples='' @ u64_or_0 st ''telemetry_samples'' @ '' chat_sessions='' @ u64_or_0 st ''chat_sessions'') c;
          e = (case get st ''ab'' of None \<Rightarrow> d | Some ab \<Rightarrow> show_ab ab d)
      in e\<lparr>tp_status := ''provider='' @ provider @ '' up='' @ uptime @ ''s''\<rparr>)"

definition show_status :: "no_response \<Rightarrow> ext \<Rightarrow> 'w peer \<Rightarrow> 'w app \<Rightarrow> 'w app" where
  "show_status bad x peer =
     asking bad x peer ''status'' TuiStatus (\<lambda>r. case tr_status r of None \<Rightarrow> id | Some st \<Rightarrow> show_status_value st)"

definition or_empty :: "'b list \<Rightarrow> 'w app \<Rightarrow> 'w app" where
  "or_empty xs = (if xs = [] then push ''(empty)'' else id)"

definition event_line :: "json \<Rightarrow> string" where
  "event_line item = str_or item ''event'' unknown @ '': '' @ str_or item ''summary'' []"

definition show_events :: "no_response \<Rightarrow> ext \<Rightarrow> 'w peer \<Rightarrow> 'w app \<Rightarrow> 'w app" where
  "show_events bad x peer =
     asking bad x peer ''events'' (TuiEventsTail 16) (\<lambda>r.
       case tr_events r of
         None \<Rightarrow> id
       | Some evs \<Rightarrow> fold push (map event_line evs) \<circ> or_empty evs \<circ> push ''--- events ---'')"

definition fact_line_of :: "json \<Rightarrow> string" where
  "fact_line_of item = str_or item ''key'' unknown @ '' = '' @ str_or item ''value'' unknown"

definition show_memory :: "no_response \<Rightarrow> ext \<Rightarrow> 'w peer \<Rightarrow> 'w app \<Rightarrow> 'w app" where
  "show_memory bad x peer =
     asking bad x peer ''memory'' (TuiMemoryTail 20) (\<lambda>r.
       case tr_memory_facts r of
         None \<Rightarrow> id
       | Some facts \<Rightarrow> fold push (map fact_line_of facts) \<circ> or_empty facts \<circ> push ''--- memory ---'')"

text \<open>The two requests about grants do not look at an error in the answer.\<close>

definition show_grants :: "no_response \<Rightarrow> ext \<Rightarrow> 'w peer \<Rightarrow> 'w app \<Rightarrow> 'w app" where
  "show_grants bad x peer a =
     (case request bad x peer TuiSessionGrants a of
        (Inl e, b) \<Rightarrow> push (''grants failed: '' @ failure_chain e) b
      | (Inr r, b) \<Rightarrow>
          (let gs = unwrap_or (tr_session_grants r) []
           in (push (''session grants: '' @ (if gs = [] then ''(none)'' else join '', '' gs)) b)
                \<lparr>tp_status := ''grants='' @ join '','' gs\<rparr>))"

definition clear_grants :: "no_response \<Rightarrow> ext \<Rightarrow> 'w peer \<Rightarrow> 'w app \<Rightarrow> 'w app" where
  "clear_grants bad x peer a =
     (case request bad x peer TuiClearSessionGrants a of
        (Inl e, b) \<Rightarrow> push (''clear grants failed: '' @ failure_chain e) b
      | (Inr r, b) \<Rightarrow> (push ''session grants cleared'' b)\<lparr>tp_status := ''grants=''\<rparr>)"

section \<open>Commands\<close>

text \<open>\<open>splitn(2, char::is_whitespace)\<close>, and \<open>split_once\<close> on one byte.\<close>

fun split_space :: "string \<Rightarrow> string \<times> string option" where
  "split_space [] = ([], None)"
| "split_space (c # s) =
     (if 0 < ws_len (c # s) then ([], Some (drop (ws_len (c # s)) (c # s)))
      else case split_space s of (h, t) \<Rightarrow> (c # h, t))"

definition split_once :: "char \<Rightarrow> string \<Rightarrow> (string \<times> string) option" where
  "split_once c s =
     (if c \<in> set s then Some (takeWhile (\<lambda>d. d \<noteq> c) s, tl (dropWhile (\<lambda>d. d \<noteq> c) s)) else None)"

definition slash_new :: "no_response \<Rightarrow> ext \<Rightarrow> 'w peer \<Rightarrow> 'w app \<Rightarrow> 'w app" where
  "slash_new bad x peer a =
     (let b = (case tp_chat_session a of None \<Rightarrow> a | Some sid \<Rightarrow> snd (request bad x peer (TuiChatReset sid) a))
      in (push ''chat session reset'' (b\<lparr>tp_chat_session := None, tp_pending := None\<rparr>))\<lparr>tp_status := ''session=new''\<rparr>)"

definition slash_remember :: "no_response \<Rightarrow> ext \<Rightarrow> 'w peer \<Rightarrow> string \<Rightarrow> 'w app \<Rightarrow> 'w app" where
  "slash_remember bad x peer args =
     (case split_once (CHR ''='') args of
        None \<Rightarrow> push ''usage: /remember key=value''
      | Some (key, val) \<Rightarrow>
          asking bad x peer ''remember'' (TuiMemoryRemember (trim key) (trim val) [])
            (\<lambda>r. push (''remembered '' @ trim key @ ''='' @ trim val)))"

definition slash_recall :: "no_response \<Rightarrow> ext \<Rightarrow> 'w peer \<Rightarrow> string \<Rightarrow> 'w app \<Rightarrow> 'w app" where
  "slash_recall bad x peer args =
     asking bad x peer ''recall'' (TuiMemoryRecall args) (\<lambda>r.
       case tr_memory_facts r of
         None \<Rightarrow> id
       | Some facts \<Rightarrow> fold push (map fact_line_of facts) \<circ> (if facts = [] then push ''no matches'' else id))"

definition slash_forget :: "no_response \<Rightarrow> ext \<Rightarrow> 'w peer \<Rightarrow> string \<Rightarrow> 'w app \<Rightarrow> 'w app" where
  "slash_forget bad x peer args =
     (if args = [] then push ''usage: /forget key''
      else asking bad x peer ''forget'' (TuiMemoryForget args) (\<lambda>r. push (''forgot '' @ args)))"

definition handle_slash :: "no_response \<Rightarrow> ext \<Rightarrow> 'w peer \<Rightarrow> string \<Rightarrow> 'w app \<Rightarrow> 'w app" where
  "handle_slash bad x peer text =
     (case split_space text of (cmd, after) \<Rightarrow>
       (let args = trim (unwrap_or after [])
        in if cmd = ''/new'' \<or> cmd = ''/reset'' then slash_new bad x peer
           else if cmd = ''/remember'' then slash_remember bad x peer args
           else if cmd = ''/recall'' then slash_recall bad x peer args
           else if cmd = ''/forget'' then slash_forget bad x peer args
           else push (''unknown command: '' @ cmd)))"

section \<open>Keys\<close>

datatype key = KeyChar string | Enter | Backspace | OtherKey

definition confirm_key :: "key \<Rightarrow> confirm_scope option" where
  "confirm_key k =
     (if k = KeyChar ''y'' \<or> k = KeyChar ''Y'' then Some Once
      else if k = KeyChar ''s'' \<or> k = KeyChar ''S'' then Some Session
      else if k = KeyChar ''n'' \<or> k = KeyChar ''N'' then Some Cancel
      else None)"

text \<open>On an empty line, and with nothing pending, six letters are commands.\<close>

definition shortcut :: "no_response \<Rightarrow> ext \<Rightarrow> 'w peer \<Rightarrow> key \<Rightarrow> ('w app \<Rightarrow> 'w app) option" where
  "shortcut bad x peer k =
     (if k = KeyChar ''a'' then Some (show_audit bad x peer)
      else if k = KeyChar ''h'' then Some (show_status bad x peer)
      else if k = KeyChar ''e'' then Some (show_events bad x peer)
      else if k = KeyChar ''m'' then Some (show_memory bad x peer)
      else if k = KeyChar ''g'' then Some (show_grants bad x peer)
      else if k = KeyChar ''c'' then Some (clear_grants bad x peer)
      else None)"

definition idle :: "'w app \<Rightarrow> bool" where
  "idle a \<longleftrightarrow> tp_pending a = None \<and> tp_input a = []"

definition submit :: "no_response \<Rightarrow> ext \<Rightarrow> 'w peer \<Rightarrow> 'w app \<Rightarrow> 'w app" where
  "submit bad x peer a =
     (let text = trim (concat (tp_input a))
      in if tp_pending a \<noteq> None \<or> text = [] then a
         else let b = push (''> '' @ text) (a\<lparr>tp_input := []\<rparr>)
              in if starts_with text ''/'' then handle_slash bad x peer text b else diagnose bad x peer text b)"

definition plain_key :: "no_response \<Rightarrow> ext \<Rightarrow> 'w peer \<Rightarrow> key \<Rightarrow> 'w app \<Rightarrow> 'w app" where
  "plain_key bad x peer k a =
     (case k of
        Enter \<Rightarrow> submit bad x peer a
      | Backspace \<Rightarrow> a\<lparr>tp_input := butlast (tp_input a)\<rparr>
      | KeyChar c \<Rightarrow> if tp_pending a = None then a\<lparr>tp_input := tp_input a @ [c]\<rparr> else a
      | OtherKey \<Rightarrow> a)"

text \<open>One key press; \<open>None\<close> leaves the loop.\<close>

definition key_step :: "no_response \<Rightarrow> ext \<Rightarrow> 'w peer \<Rightarrow> key \<Rightarrow> 'w app \<Rightarrow> 'w app option" where
  "key_step bad x peer k a =
     (if k = KeyChar ''q'' \<and> idle a then None
      else Some (case (tp_pending a, confirm_key k) of
          (Some p, Some scope) \<Rightarrow> tui_confirm bad x peer scope a
        | _ \<Rightarrow>
            (case shortcut bad x peer k of
               Some f \<Rightarrow> if idle a then f a else plain_key bad x peer k a
             | None \<Rightarrow> plain_key bad x peer k a)))"

text \<open>The loop, on the keys pressed until the end; whether it was left by the key for it.\<close>

fun run_keys :: "no_response \<Rightarrow> ext \<Rightarrow> 'w peer \<Rightarrow> key list \<Rightarrow> 'w app \<Rightarrow> bool \<times> 'w app" where
  "run_keys bad x peer [] a = (False, a)"
| "run_keys bad x peer (k # ks) a =
     (case key_step bad x peer k a of None \<Rightarrow> (True, a) | Some b \<Rightarrow> run_keys bad x peer ks b)"

text \<open>The start: a ping, and what to do if nobody answers it.\<close>

definition tui_start :: "no_response \<Rightarrow> ext \<Rightarrow> 'w peer \<Rightarrow> string \<Rightarrow> 'w \<Rightarrow> 'w app" where
  "tui_start bad x peer sock w =
     (case request bad x peer TuiPing (app_new sock w) of
        (Inr r, a) \<Rightarrow> a\<lparr>tp_status := ''connected '' @ sock\<rparr>
      | (Inl e, a) \<Rightarrow>
          (push ''Start runtime first: `just run-mock` (keeps server listening).'' a)
            \<lparr>tp_status := ''runtime unavailable at '' @ sock @ '': '' @ failure_text e\<rparr>)"

definition tui_main :: "no_response \<Rightarrow> ext \<Rightarrow> 'w peer \<Rightarrow> string \<Rightarrow> 'w \<Rightarrow> key list \<Rightarrow> bool \<times> 'w app" where
  "tui_main bad x peer sock w keys = run_keys bad x peer keys (tui_start bad x peer sock w)"

end
