(* ===== verification/TuiFacts.thy ===== *)
theory TuiFacts
  imports ConsoleTui Server
begin

text \<open>
  What the terminal console asks the runtime for, key by key, for any peer: the table \<open>key_request\<close> says which
  request a key press sends, and \<open>key_step_peer\<close> that the code sends exactly this. From it follows the promise
  the console makes its user: it confirms nothing that was not offered to it, as it was offered, and no offer
  more than once.
\<close>

section \<open>What a step leaves alone\<close>

named_theorems app_simps \<open>fields of the console's state that its operations leave alone\<close>

lemma push_fields [simp, app_simps]:
  "tp_peer (push l a) = tp_peer a" "tp_pending (push l a) = tp_pending a" "tp_input (push l a) = tp_input a"
  "tp_chat_session (push l a) = tp_chat_session a" "tp_sock (push l a) = tp_sock a"
  by (simp_all add: push_def)

lemma fold_push_fields [simp, app_simps]:
  "tp_peer (fold push ls a) = tp_peer a" "tp_pending (fold push ls a) = tp_pending a"
  "tp_input (fold push ls a) = tp_input a" "tp_chat_session (fold push ls a) = tp_chat_session a"
  by (induction ls arbitrary: a) simp_all

definition sent_bytes :: "ext \<Rightarrow> tui_request \<Rightarrow> string" where
  "sent_bytes x req = json_text x (tui_request_json x req)"

lemma request_state:
  "snd (request bad x peer req a) = a\<lparr>tp_peer := snd (peer (sent_bytes x req) (tp_peer a))\<rparr>"
  using ask_state [of x "tp_sock a" peer "sent_bytes x req" "tp_peer a"]
  by (simp add: request_def sent_bytes_def split_beta)

lemma request_run:
  "request bad x peer req a = (r, b) \<Longrightarrow> b = a\<lparr>tp_peer := snd (peer (sent_bytes x req) (tp_peer a))\<rparr>"
  using request_state [of bad x peer req a] by simp

lemma request_stream_state:
  "snd (request_stream bad x peer req a) = a\<lparr>tp_peer := snd (peer (sent_bytes x req) (tp_peer a))\<rparr>"
proof -
  have "snd (bind_io (dial (tp_sock a) peer (sent_bytes x req)) read_to_end (tp_peer a)) =
      snd (peer (sent_bytes x req) (tp_peer a))"
    by (auto simp: dial_def read_to_end_def io_defs split: prod.split dialed.split option.split)
  then show ?thesis by (simp add: request_stream_def sent_bytes_def split_beta)
qed

lemma request_stream_run:
  "request_stream bad x peer req a = (r, b) \<Longrightarrow> b = a\<lparr>tp_peer := snd (peer (sent_bytes x req) (tp_peer a))\<rparr>"
  using request_stream_state [of bad x peer req a] by simp

text \<open>An operation that only shows something: it asks nothing, and leaves the confirmation, the input and the
  chat session alone.\<close>

definition only_shows :: "('w app \<Rightarrow> 'w app) \<Rightarrow> bool" where
  "only_shows f \<longleftrightarrow> (\<forall>a. tp_peer (f a) = tp_peer a \<and> tp_pending (f a) = tp_pending a)"

lemma only_shows_intros [intro]:
  "only_shows id" "only_shows (push l)" "only_shows (fold push ls)" "only_shows (or_empty xs)"
  "only_shows (show_status_value st)"
  "only_shows f \<Longrightarrow> only_shows g \<Longrightarrow> only_shows (f \<circ> g)"
  by (simp_all add: only_shows_def or_empty_def show_status_value_def show_ab_def Let_def split: option.split)

lemma asking_fields:
  assumes "\<And>r. only_shows (show_it r)"
  shows "tp_peer (asking bad x peer what req show_it a) = snd (peer (sent_bytes x req) (tp_peer a))
    \<and> tp_pending (asking bad x peer what req show_it a) = tp_pending a"
proof (cases "request bad x peer req a")
  case (Pair r b)
  from request_run [OF this] assms Pair show ?thesis
    by (simp add: asking_def only_shows_def split: sum.split option.split)
qed

text \<open>What an operation asks, and what it does to the confirmation that is pending.\<close>

definition asks :: "ext \<Rightarrow> 'w peer \<Rightarrow> tui_request option \<Rightarrow> 'w app \<Rightarrow> 'w app \<Rightarrow> bool" where
  "asks x peer req a b \<longleftrightarrow>
     tp_peer b = (case req of None \<Rightarrow> tp_peer a | Some q \<Rightarrow> snd (peer (sent_bytes x q) (tp_peer a)))"

lemma asking_asks:
  "(\<And>r. only_shows (show_it r)) \<Longrightarrow> asks x peer (Some req) a (asking bad x peer what req show_it a)"
  by (simp add: asks_def asking_fields)

lemma shows_asks:
  "asks x peer (Some (TuiAuditTail 12)) a (show_audit bad x peer a)"
  "asks x peer (Some TuiStatus) a (show_status bad x peer a)"
  "asks x peer (Some (TuiEventsTail 16)) a (show_events bad x peer a)"
  "asks x peer (Some (TuiMemoryTail 20)) a (show_memory bad x peer a)"
  unfolding show_audit_def show_status_def show_events_def show_memory_def
  by (rule asking_asks; auto split: option.split)+

lemma grants_asks:
  "asks x peer (Some TuiSessionGrants) a (show_grants bad x peer a)"
  "asks x peer (Some TuiClearSessionGrants) a (clear_grants bad x peer a)"
  by (auto simp: asks_def show_grants_def clear_grants_def Let_def dest!: request_run split: prod.split sum.split)

lemma take_response_peer [simp]: "tp_peer (take_response x r a) = tp_peer a"
  by (simp add: take_response_def show_summary_def show_pending_def Let_def split: option.split)

lemma diagnose_asks:
  "asks x peer (Some (TuiDiagnose text (tp_chat_session a) True)) a (diagnose bad x peer text a)"
  by (auto simp: asks_def diagnose_def Let_def dest!: request_stream_run split: prod.split sum.split option.split)

lemma confirm_asks:
  assumes "tp_pending a = Some (corr, p)"
  shows "asks x peer (Some (TuiConfirm corr (pt_call_id p) (pt_tool p) (pt_arguments p) scope (tp_chat_session a))) a
           (tui_confirm bad x peer scope a)"
    and "tp_pending (tui_confirm bad x peer scope a) = None"
  using assms
  by (auto simp: asks_def tui_confirm_def Let_def dest!: request_run split: prod.split sum.split option.split)

section \<open>The table of keys\<close>

definition shortcut_request :: "key \<Rightarrow> tui_request option" where
  "shortcut_request k =
     (if k = KeyChar ''a'' then Some (TuiAuditTail 12)
      else if k = KeyChar ''h'' then Some TuiStatus
      else if k = KeyChar ''e'' then Some (TuiEventsTail 16)
      else if k = KeyChar ''m'' then Some (TuiMemoryTail 20)
      else if k = KeyChar ''g'' then Some TuiSessionGrants
      else if k = KeyChar ''c'' then Some TuiClearSessionGrants
      else None)"

definition command_request :: "uuid option \<Rightarrow> string \<Rightarrow> string \<Rightarrow> tui_request option" where
  "command_request sess cmd args =
     (if cmd = ''/new'' \<or> cmd = ''/reset'' then map_option TuiChatReset sess
      else if cmd = ''/remember'' then
        map_option (\<lambda>(k, v). TuiMemoryRemember (trim k) (trim v) []) (split_once (CHR ''='') args)
      else if cmd = ''/recall'' then Some (TuiMemoryRecall args)
      else if cmd = ''/forget'' \<and> args \<noteq> [] then Some (TuiMemoryForget args)
      else None)"

definition line_request :: "uuid option \<Rightarrow> string \<Rightarrow> tui_request option" where
  "line_request sess text =
     (if text = [] then None
      else if starts_with text ''/'' then
        command_request sess (fst (split_space text)) (trim (unwrap_or (snd (split_space text)) []))
      else Some (TuiDiagnose text sess True))"

definition key_request :: "key \<Rightarrow> 'w app \<Rightarrow> tui_request option" where
  "key_request k a =
     (case tp_pending a of
        Some (corr, p) \<Rightarrow>
          map_option (\<lambda>scope. TuiConfirm corr (pt_call_id p) (pt_tool p) (pt_arguments p) scope (tp_chat_session a))
            (confirm_key k)
      | None \<Rightarrow>
          if tp_input a = [] \<and> shortcut_request k \<noteq> None then shortcut_request k
          else if k = Enter then line_request (tp_chat_session a) (trim (concat (tp_input a)))
          else None)"

lemma slash_asks:
  "asks x peer (command_request (tp_chat_session a) (fst (split_space text)) (trim (unwrap_or (snd (split_space text)) [])))
     a (handle_slash bad x peer text a)"
proof (cases "split_space text")
  case (Pair cmd after)
  define args where "args = trim (unwrap_or after [])"
  have fields: "tp_peer (slash_new bad x peer a) =
      (case tp_chat_session a of None \<Rightarrow> tp_peer a | Some sid \<Rightarrow> snd (peer (sent_bytes x (TuiChatReset sid)) (tp_peer a)))"
    by (simp add: slash_new_def Let_def request_state split: option.split)
  have rest: "asks x peer (map_option (\<lambda>(k, v). TuiMemoryRemember (trim k) (trim v) []) (split_once (CHR ''='') args))
      a (slash_remember bad x peer args a)"
    "asks x peer (Some (TuiMemoryRecall args)) a (slash_recall bad x peer args a)"
    "args \<noteq> [] \<Longrightarrow> asks x peer (Some (TuiMemoryForget args)) a (slash_forget bad x peer args a)"
    unfolding slash_remember_def slash_recall_def slash_forget_def
    by (auto split: option.split intro!: asking_asks) (simp add: asks_def)
  show ?thesis
    using Pair fields rest
    by (auto simp: handle_slash_def command_request_def args_def asks_def slash_forget_def split: option.split)
qed

lemma submit_asks:
  assumes "tp_pending a = None"
  shows "asks x peer (line_request (tp_chat_session a) (trim (concat (tp_input a)))) a (submit bad x peer a)"
proof -
  define ln where "ln = trim (concat (tp_input a))"
  define b where "b = push (''> '' @ ln) (a\<lparr>tp_input := []\<rparr>)"
  have b: "tp_chat_session b = tp_chat_session a" "tp_peer b = tp_peer a" by (simp_all add: b_def)
  have run: "submit bad x peer a =
      (if ln = [] then a else if starts_with ln ''/'' then handle_slash bad x peer ln b else diagnose bad x peer ln b)"
    using assms by (simp add: submit_def Let_def ln_def b_def)
  from slash_asks [of x peer b ln bad] diagnose_asks [of x peer ln b bad] show ?thesis
    unfolding run asks_def b ln_def [symmetric] by (simp add: line_request_def)
qed

lemma shortcut_asks:
  assumes "shortcut bad x peer k = Some f"
  shows "asks x peer (shortcut_request k) a (f a)" and "confirm_key k = None" and "shortcut_request k \<noteq> None"
  using assms shows_asks grants_asks
  by (auto simp: shortcut_def shortcut_request_def confirm_key_def split: if_splits)

lemma shortcut_none: "shortcut bad x peer k = None \<longleftrightarrow> shortcut_request k = None"
  by (simp add: shortcut_def shortcut_request_def)

lemma plain_asks:
  assumes "tp_pending a = None \<or> confirm_key k = None" and "tp_input a \<noteq> [] \<or> shortcut_request k = None"
  shows "asks x peer (key_request k a) a (plain_key bad x peer k a)"
proof (cases k)
  case Enter
  show ?thesis
  proof (cases "tp_pending a")
    case None
    with Enter assms submit_asks [OF None, of x peer bad] show ?thesis
      by (simp add: plain_key_def key_request_def shortcut_request_def)
  next
    case (Some p)
    with Enter show ?thesis
      by (cases p) (simp add: plain_key_def key_request_def submit_def asks_def confirm_key_def Let_def)
  qed
qed (use assms in \<open>auto simp: plain_key_def key_request_def asks_def split: option.split\<close>)

lemma key_step_peer:
  assumes "key_step bad x peer k a = Some b"
  shows "asks x peer (key_request k a) a b"
proof (cases "tp_pending a")
  case (Some q)
  obtain corr p where q: "tp_pending a = Some (corr, p)" using Some by (cases q) auto
  show ?thesis
  proof (cases "confirm_key k")
    case None
    with assms q have b: "b = plain_key bad x peer k a"
      by (auto simp: key_step_def idle_def split: option.splits if_splits)
    from None q have "key_request k a = None" by (simp add: key_request_def)
    with q show ?thesis
      by (cases k) (simp_all add: b plain_key_def asks_def submit_def Let_def)
  next
    case (Some scope)
    with assms q have "b = tui_confirm bad x peer scope a" by (auto simp: key_step_def split: if_splits)
    with confirm_asks(1) [OF q, of x peer scope bad] q Some show ?thesis by (simp add: key_request_def)
  qed
next
  case None
  show ?thesis
  proof (cases "shortcut bad x peer k")
    case None
    with assms \<open>tp_pending a = None\<close> have "b = plain_key bad x peer k a"
      by (auto simp: key_step_def split: if_splits)
    with plain_asks [of a k x peer bad] None \<open>tp_pending a = None\<close> show ?thesis by (simp add: shortcut_none)
  next
    case (Some f)
    with assms None have "b = (if idle a then f a else plain_key bad x peer k a)"
      by (auto simp: key_step_def split: if_splits)
    with shortcut_asks [OF Some] plain_asks [of a k x peer bad] None show ?thesis
      by (auto simp: key_request_def idle_def)
  qed
qed

section \<open>Offers\<close>

text \<open>An exchange offers a confirmation if it is a whole stream whose response names one and its correlation.\<close>

definition offers :: "no_response \<Rightarrow> ext \<Rightarrow> dialed \<Rightarrow> uuid \<Rightarrow> pending_dto \<Rightarrow> bool" where
  "offers bad x d corr p \<longleftrightarrow>
     (\<exists>cs r shown. d = Answer cs None \<and> stream_result bad x (concat cs) = Inr (r, shown)
        \<and> tr_correlation_id r = Some corr \<and> tr_pending r = Some p)"

lemma take_response_pending:
  "tp_pending (take_response x r a) =
     (case (tr_correlation_id r, tr_pending r) of (Some corr, Some p) \<Rightarrow> Some (corr, p) | _ \<Rightarrow> tp_pending a)"
  by (simp add: take_response_def show_summary_def show_pending_def Let_def split: option.split)

lemma request_stream_answer:
  assumes "request_stream bad x peer req a = (Inr (r, shown), b)"
  shows "\<exists>cs. fst (peer (sent_bytes x req) (tp_peer a)) = Answer cs None
    \<and> stream_result bad x (concat cs) = Inr (r, shown)"
proof (cases "peer (sent_bytes x req) (tp_peer a)")
  case (Pair d w)
  with assms show ?thesis
    by (cases d)
      (auto simp: request_stream_def sent_bytes_def dial_def read_to_end_def io_defs split: option.splits)
qed

lemma diagnose_pending:
  assumes "tp_pending (diagnose bad x peer text a) = Some (corr, p)"
  shows "tp_pending a = Some (corr, p)
    \<or> offers bad x (fst (peer (sent_bytes x (TuiDiagnose text (tp_chat_session a) True)) (tp_peer a))) corr p"
proof (cases "request_stream bad x peer (TuiDiagnose text (tp_chat_session a) True) a")
  case (Pair res b)
  note state = request_stream_run [OF this]
  show ?thesis
  proof (cases res)
    case (Inl e)
    with Pair assms state show ?thesis by (simp add: diagnose_def)
  next
    case (Inr q)
    obtain r shown where q: "q = (r, shown)" by fastforce
    with Pair Inr have run: "request_stream bad x peer (TuiDiagnose text (tp_chat_session a) True) a = (Inr (r, shown), b)"
      by simp
    from request_stream_answer [OF this] assms run state show ?thesis
      by (auto simp: diagnose_def offers_def take_response_pending Let_def split: option.splits)
  qed
qed

lemma asking_pending:
  "(\<And>r. only_shows (show_it r)) \<Longrightarrow> tp_pending (asking bad x peer what req show_it a) = tp_pending a"
  by (simp add: asking_fields)

lemma shortcut_pending:
  assumes "shortcut bad x peer k = Some f"
  shows "tp_pending (f a) = tp_pending a"
proof -
  have "tp_pending (show_audit bad x peer a) = tp_pending a" "tp_pending (show_status bad x peer a) = tp_pending a"
    "tp_pending (show_events bad x peer a) = tp_pending a" "tp_pending (show_memory bad x peer a) = tp_pending a"
    unfolding show_audit_def show_status_def show_events_def show_memory_def
    by (rule asking_pending; auto split: option.split)+
  moreover have "tp_pending (show_grants bad x peer a) = tp_pending a"
    "tp_pending (clear_grants bad x peer a) = tp_pending a"
    by (auto simp: show_grants_def clear_grants_def Let_def dest!: request_run split: prod.split sum.split)
  ultimately show ?thesis using assms by (auto simp: shortcut_def split: if_splits)
qed

lemma slash_pending: "tp_pending a = None \<Longrightarrow> tp_pending (handle_slash bad x peer text a) = None"
proof -
  assume none: "tp_pending a = None"
  have "tp_pending (slash_remember bad x peer args a) = None" "tp_pending (slash_recall bad x peer args a) = None"
    "tp_pending (slash_forget bad x peer args a) = None" for args
    unfolding slash_remember_def slash_recall_def slash_forget_def
    by (auto simp: none split: option.split intro!: asking_pending [THEN trans])
  then show ?thesis
    by (simp add: handle_slash_def slash_new_def none Let_def split: prod.split option.split)
qed

text \<open>A key press that leaves a confirmation pending left the one that was, or has just been offered it.\<close>

lemma key_step_pending:
  assumes "key_step bad x peer k a = Some b" and "tp_pending b = Some (corr, p)"
  shows "tp_pending a = Some (corr, p) \<and> key_request k a = None
    \<or> tp_pending a = None \<and>
      (\<exists>req. key_request k a = Some req \<and> offers bad x (fst (peer (sent_bytes x req) (tp_peer a))) corr p)"
proof (cases "tp_pending a")
  case (Some q)
  show ?thesis
  proof (cases "confirm_key k")
    case None
    with assms(1) Some have b: "b = plain_key bad x peer k a"
      by (auto simp: key_step_def idle_def split: option.splits if_splits)
    then have "tp_pending b = tp_pending a"
      using Some by (cases k) (simp_all add: plain_key_def submit_def Let_def)
    with None assms(2) show ?thesis by (simp add: key_request_def)
  next
    fix scope
    assume "confirm_key k = Some scope"
    with assms(1) Some have "b = tui_confirm bad x peer scope a" by (auto simp: key_step_def split: if_splits)
    with confirm_asks(2) [of a _ _ bad x peer scope] Some assms(2) show ?thesis by (cases q) simp
  qed
next
  case None
  show ?thesis
  proof (cases "idle a \<and> shortcut bad x peer k \<noteq> None")
    case True
    with assms(1) None obtain f where "shortcut bad x peer k = Some f" "b = f a"
      by (auto simp: key_step_def split: if_splits)
    with shortcut_pending [of bad x peer k f a] None assms(2) show ?thesis by simp
  next
    case False
    with assms(1) None have b: "b = plain_key bad x peer k a"
      by (auto simp: key_step_def split: option.splits if_splits)
    with None assms(2) have k: "k = Enter" by (cases k) (auto simp: plain_key_def split: if_splits)
    define ln where "ln = trim (concat (tp_input a))"
    define a' where "a' = push (''> '' @ ln) (a\<lparr>tp_input := []\<rparr>)"
    have a': "tp_pending a' = None" "tp_peer a' = tp_peer a" "tp_chat_session a' = tp_chat_session a"
      using None by (simp_all add: a'_def)
    have "ln \<noteq> []" "\<not> starts_with ln ''/''" "b = diagnose bad x peer ln a'"
      using b k assms(2) None a'(1) slash_pending [of a' bad x peer ln]
      by (auto simp: plain_key_def submit_def Let_def ln_def a'_def split: if_splits)
    with diagnose_pending [of bad x peer ln a' corr p] assms(2) a' k None show ?thesis
      by (simp add: key_request_def line_request_def ln_def shortcut_request_def)
  qed
qed

section \<open>The service understands what the console writes\<close>

fun tui_meaning :: "tui_request \<Rightarrow> client_request" where
  "tui_meaning (TuiDiagnose t sess stream) = Diagnose t sess stream"
| "tui_meaning (TuiConfirm corr cid tool args scope sess) = Confirm corr cid tool args scope None sess"
| "tui_meaning (TuiChatReset sid) = ChatReset sid"
| "tui_meaning (TuiAuditTail n) = AuditTail n"
| "tui_meaning (TuiMemoryRemember k v tags) = MemoryRemember k v tags"
| "tui_meaning (TuiMemoryRecall q) = MemoryRecall q"
| "tui_meaning (TuiMemoryTail n) = MemoryTail n"
| "tui_meaning (TuiMemoryForget k) = MemoryForget k"
| "tui_meaning TuiStatus = Status"
| "tui_meaning (TuiEventsTail n) = EventsTail n"
| "tui_meaning TuiSessionGrants = SessionGrants"
| "tui_meaning TuiClearSessionGrants = ClearSessionGrants"
| "tui_meaning TuiPing = Ping"

text \<open>Except for a confirmation, which has no boolean, the text is the one the service's own type would write.\<close>

lemma tui_json_same:
  "\<not> (\<exists>corr cid tool args scope sess. r = TuiConfirm corr cid tool args scope sess) \<Longrightarrow>
     tui_request_json x r = request_json x (tui_meaning r)"
  by (cases r) (simp_all add: tui_request_json_def request_json_def)

lemma confirm_json_understood:
  assumes "codecs x"
  shows "request_of_json x (tui_request_json x (TuiConfirm corr cid tool args scope sess)) =
    Some (Confirm corr cid tool args scope None sess)"
proof -
  let ?v = "tui_request_json x (TuiConfirm corr cid tool args scope sess)"
  have "get_session x ?v = Some sess"
    using codecs_uuid(2) [OF assms] by (intro get_session_back) (simp_all add: tui_request_json_def)
  with assms show ?thesis
    by (simp add: request_of_json_def confirm_of_json_def tui_request_json_def get_str_def get_default_def
        get_uuid_def get_opt_def uuid_json_def codecs_uuid)
qed

lemma tui_understood:
  assumes "codecs x" and "request_limit (tui_meaning r) < 2 ^ 64"
  shows "decode_request x (sent_bytes x r) = Some (tui_meaning r)"
proof -
  have "request_of_json x (tui_request_json x r) = Some (tui_meaning r)"
  proof (cases "\<exists>corr cid tool args scope sess. r = TuiConfirm corr cid tool args scope sess")
    case True
    then show ?thesis using confirm_json_understood [OF assms(1)] by auto
  next
    case False
    then show ?thesis
      using request_roundtrip [OF codecs_uuid(2) [OF assms(1)] assms(2)] by (simp add: tui_json_same)
  qed
  then show ?thesis using codecs_text(1) [OF assms(1)] by (simp add: decode_request_def sent_bytes_def)
qed

lemma key_request_limit: "key_request k a = Some r \<Longrightarrow> request_limit (tui_meaning r) < 2 ^ 64"
  by (auto simp: key_request_def shortcut_request_def line_request_def command_request_def split: option.splits if_splits)

lemma key_request_confirm:
  "key_request k a = Some (TuiConfirm corr cid tool args scope sess) \<longleftrightarrow>
     (\<exists>p. tp_pending a = Some (corr, p) \<and> cid = pt_call_id p \<and> tool = pt_tool p \<and> args = pt_arguments p
        \<and> confirm_key k = Some scope \<and> sess = tp_chat_session a)"
  by (auto simp: key_request_def shortcut_request_def line_request_def command_request_def split: option.splits if_splits)

section \<open>The promise to the user\<close>

text \<open>A peer that keeps a record of what it was asked and what it said.\<close>

type_synonym exchange = "string \<times> dialed"

definition recorded :: "'w peer \<Rightarrow> (exchange list \<times> 'w) peer" where
  "recorded peer bytes = (\<lambda>(hist, w). case peer bytes w of (d, v) \<Rightarrow> (d, hist @ [(bytes, d)], v))"

text \<open>What the service would read as a confirmation.\<close>

definition confirmation_in :: "ext \<Rightarrow> string \<Rightarrow> (uuid \<times> uuid \<times> string \<times> json) option" where
  "confirmation_in x bytes =
     (case decode_request x bytes of
        Some (Confirm corr cid tool args scope confirmed sess) \<Rightarrow> Some (corr, cid, tool, args)
      | _ \<Rightarrow> None)"

definition offered_as :: "no_response \<Rightarrow> ext \<Rightarrow> exchange \<Rightarrow> uuid \<times> uuid \<times> string \<times> json \<Rightarrow> bool" where
  "offered_as bad x e c \<longleftrightarrow>
     (\<exists>p. offers bad x (snd e) (fst c) p \<and> snd c = (pt_call_id p, pt_tool p, pt_arguments p))"

definition only_offered :: "no_response \<Rightarrow> ext \<Rightarrow> exchange list \<Rightarrow> bool" where
  "only_offered bad x hist \<longleftrightarrow>
     (\<forall>i < length hist. \<forall>c. confirmation_in x (fst (hist ! i)) = Some c \<longrightarrow> (\<exists>j < i. offered_as bad x (hist ! j) c))"

definition confirmations :: "ext \<Rightarrow> exchange list \<Rightarrow> nat" where
  "confirmations x hist = length (filter (\<lambda>e. confirmation_in x (fst e) \<noteq> None) hist)"

definition offerings :: "no_response \<Rightarrow> ext \<Rightarrow> exchange list \<Rightarrow> nat" where
  "offerings bad x hist = length (filter (\<lambda>e. \<exists>corr p. offers bad x (snd e) corr p) hist)"

definition honest :: "no_response \<Rightarrow> ext \<Rightarrow> (exchange list \<times> 'w) app \<Rightarrow> bool" where
  "honest bad x a \<longleftrightarrow>
     (let hist = fst (tp_peer a)
      in only_offered bad x hist
         \<and> (case tp_pending a of
              None \<Rightarrow> confirmations x hist \<le> offerings bad x hist
            | Some (corr, p) \<Rightarrow>
                (\<exists>e \<in> set hist. offers bad x (snd e) corr p) \<and> confirmations x hist < offerings bad x hist))"

lemma only_offered_snoc:
  "only_offered bad x (hist @ [e]) \<longleftrightarrow>
     only_offered bad x hist
     \<and> (\<forall>c. confirmation_in x (fst e) = Some c \<longrightarrow> (\<exists>f \<in> set hist. offered_as bad x f c))"
proof -
  have old: "(\<exists>j < i. offered_as bad x ((hist @ [e]) ! j) c) \<longleftrightarrow> (\<exists>j < i. offered_as bad x (hist ! j) c)"
    if "i \<le> length hist" for i c
    using that by (intro ex_cong1 conj_cong refl) (simp add: nth_append)
  have ends: "(\<exists>j < length hist. offered_as bad x (hist ! j) c) \<longleftrightarrow> (\<exists>f \<in> set hist. offered_as bad x f c)" for c
    by (metis in_set_conv_nth)
  have first: "i < length hist \<Longrightarrow> (hist @ [e]) ! i = hist ! i" for i by (simp add: nth_append)
  have this_one: "(hist @ [e]) ! length hist = e" by simp
  show ?thesis
    unfolding only_offered_def length_append_singleton All_less_Suc this_one old [OF order.refl] ends
    by (auto simp: first old [OF less_imp_le])
qed

lemma not_confirm:
  assumes "codecs x" and "request_limit (tui_meaning r) < 2 ^ 64"
    and "\<not> (\<exists>corr cid tool args scope sess. r = TuiConfirm corr cid tool args scope sess)"
  shows "confirmation_in x (sent_bytes x r) = None"
  using assms(3) tui_understood [OF assms(1,2)] by (cases r) (simp_all add: confirmation_in_def)

lemma honest_step:
  assumes cod: "codecs x" and inv: "honest bad x a" and step: "key_step bad x (recorded peer) k a = Some b"
  shows "honest bad x b"
proof -
  obtain hist w where a: "tp_peer a = (hist, w)" by fastforce
  note pend = key_step_pending [OF step]
  note next_peer = key_step_peer [OF step, unfolded asks_def a]
  show ?thesis
  proof (cases "key_request k a")
    case None
    then show ?thesis
      using next_peer inv pend a by (auto simp: honest_def Let_def split: option.splits)
  next
    case (Some r)
    define d where "d = fst (peer (sent_bytes x r) w)"
    let ?e = "(sent_bytes x r, d)"
    have b: "fst (tp_peer b) = hist @ [?e]"
      using next_peer Some by (simp add: recorded_def d_def split_beta)
    have said: "fst (recorded peer (sent_bytes x r) (hist, w)) = d"
      by (simp add: recorded_def d_def split_beta)
    show ?thesis
    proof (cases "tp_pending a")
      case None
      with Some have other: "\<not> (\<exists>corr cid tool args scope sess. r = TuiConfirm corr cid tool args scope sess)"
        using key_request_confirm [of k a] by auto
      note quiet = not_confirm [OF cod key_request_limit [OF Some] other]
      from inv None a pend quiet b said Some show ?thesis
        by (auto simp: honest_def Let_def only_offered_snoc confirmations_def offerings_def split: option.splits)
    next
      fix q
      assume q: "tp_pending a = Some q"
      obtain corr p where cp: "q = (corr, p)" by fastforce
      with q Some obtain scope where r: "r = TuiConfirm corr (pt_call_id p) (pt_tool p) (pt_arguments p) scope (tp_chat_session a)"
        by (auto simp: key_request_def)
      have conf: "confirmation_in x (sent_bytes x r) = Some (corr, pt_call_id p, pt_tool p, pt_arguments p)"
        using tui_understood [OF cod key_request_limit [OF Some]] by (simp add: r confirmation_in_def)
      have gone: "tp_pending b = None" using pend q Some by (cases "tp_pending b") auto
      from inv q cp a conf b gone show ?thesis
        by (auto simp: honest_def Let_def only_offered_snoc confirmations_def offerings_def offered_as_def)
    qed
  qed
qed

lemma honest_run:
  "codecs x \<Longrightarrow> honest bad x a \<Longrightarrow> honest bad x (snd (run_keys bad x (recorded peer) ks a))"
proof (induction ks arbitrary: a)
  case (Cons k ks)
  then show ?case using honest_step [OF Cons.prems] by (cases "key_step bad x (recorded peer) k a") simp_all
qed simp

lemma honest_start:
  assumes "codecs x"
  shows "honest bad x (tui_start bad x (recorded peer) sock ([], w))"
proof -
  have quiet: "confirmation_in x (sent_bytes x TuiPing) = None" by (rule not_confirm [OF assms]) simp_all
  obtain r a where run: "request bad x (recorded peer) TuiPing (app_new sock ([], w)) = (r, a)" by fastforce
  from request_run [OF this] have "fst (tp_peer a) = [(sent_bytes x TuiPing, fst (peer (sent_bytes x TuiPing) w))]"
    and "tp_pending a = None"
    by (simp_all add: app_new_def recorded_def split_beta)
  with run quiet show ?thesis
    by (simp add: tui_start_def honest_def Let_def only_offered_def confirmations_def split: sum.split)
qed

section \<open>Leaving\<close>

text \<open>Refuse what is pending, wipe the line, and press the key to leave.\<close>

definition way_out :: "'w app \<Rightarrow> key list" where
  "way_out a = KeyChar ''n'' # replicate (Suc (length (tp_input a))) Backspace @ [KeyChar ''q'']"

lemma backspace_step: "key_step bad x peer Backspace a = Some (a\<lparr>tp_input := butlast (tp_input a)\<rparr>)"
  by (cases "tp_pending a") (simp_all add: key_step_def confirm_key_def shortcut_def plain_key_def)

lemma backspaces_out:
  "length (tp_input a) \<le> n \<Longrightarrow> tp_pending a = None \<Longrightarrow>
     fst (run_keys bad x peer (replicate n Backspace @ [KeyChar ''q'']) a)"
proof (induction n arbitrary: a)
  case 0
  then show ?case by (simp add: key_step_def idle_def)
next
  case (Suc n)
  then show ?case by (simp add: backspace_step)
qed

lemma confirm_input [simp]: "tp_input (tui_confirm bad x peer scope a) = tp_input a"
  by (auto simp: tui_confirm_def Let_def dest!: request_run split: prod.split sum.split option.split)

lemma way_out_leaves: "fst (run_keys bad x peer (way_out a) a)"
proof (cases "tp_pending a")
  case None
  then have "key_step bad x peer (KeyChar ''n'') a = Some (a\<lparr>tp_input := tp_input a @ [''n'']\<rparr>)"
    by (simp add: key_step_def confirm_key_def shortcut_def plain_key_def)
  with None backspaces_out [of "a\<lparr>tp_input := tp_input a @ [''n'']\<rparr>" "Suc (length (tp_input a))"] show ?thesis
    by (simp add: way_out_def del: replicate_Suc)
next
  case (Some q)
  then have "key_step bad x peer (KeyChar ''n'') a = Some (tui_confirm bad x peer Cancel a)"
    by (simp add: key_step_def confirm_key_def)
  moreover have "tp_pending (tui_confirm bad x peer Cancel a) = None"
    using confirm_asks(2) [of a _ _ bad x peer Cancel] Some by (cases q) simp
  ultimately show ?thesis
    using backspaces_out [of "tui_confirm bad x peer Cancel a" "Suc (length (tp_input a))"]
    by (simp add: way_out_def del: replicate_Suc)
qed

section \<open>Observations\<close>

text \<open>A line cannot begin with one of the six letters: the first key press of a question that starts with c, for
  instance, clears the grants of the session.\<close>

lemma first_letter_is_command:
  assumes "idle a" and "shortcut bad x peer (KeyChar c) = Some f"
  shows "key_step bad x peer (KeyChar c) a = Some (f a)"
  using assms shortcut_asks(2) [OF assms(2)]
  by (auto simp: key_step_def idle_def shortcut_def split: if_splits)

lemma first_c_clears_grants: "idle a \<Longrightarrow> key_step bad x peer (KeyChar ''c'') a = Some (clear_grants bad x peer a)"
  by (rule first_letter_is_command) (simp_all add: shortcut_def)

end
