(* ===== verification/TuiAnswers.thy ===== *)
theory TuiAnswers
  imports TuiFacts
begin

text \<open>
  The terminal console's own types for responses, against the service's: whatever the service writes, as a
  plain answer or as the last frame of a stream, the console reads, and gets what was meant.
\<close>

section \<open>Values\<close>

lemma get_opt_back:
  assumes "get v k = Some (opt_json g y)" and "\<And>z. y = Some z \<Longrightarrow> f (g z) = Some (h z) \<and> g z \<noteq> Null"
  shows "get_opt f v k = Some (map_option h y)"
proof (cases y)
  case None
  with assms show ?thesis by (simp add: get_opt_def opt_json_def)
next
  case (Some z)
  with assms(2) [of z] assms(1) show ?thesis by (cases "g z") (simp_all add: get_opt_def opt_json_def)
qed

lemma as_u32_back: "as_u32 (u32_json n) = Some n"
proof -
  have small: "unat n < 2 ^ 32" using unsigned_less [of n, where ?'a = nat] by simp
  then have "unat (ucast n :: u64) = unat n" by (simp add: unsigned_ucast_eq take_bit_nat_eq_self)
  moreover note small
  moreover have "ucast (ucast n :: u64) = n" by transfer (simp add: take_bit_take_bit)
  ultimately show ?thesis by (simp add: as_u32_def u32_json_def)
qed

lemma proposed_back: "proposed_action_of_json (proposed_action_json p) = Some p"
  by (simp add: proposed_action_of_json_def proposed_action_json_def get_str_def)

lemma diagnose_back: "diagnose_result_of_json (diagnose_result_json d) = Some d"
proof -
  let ?v = "diagnose_result_json d"
  have "get_opt as_u32 ?v ''culprit_pid'' = Some (map_option id (dr_culprit_pid d))"
    by (rule get_opt_back [where g = u32_json]) (simp_all add: diagnose_result_json_def as_u32_back, simp add: u32_json_def)
  moreover have "get_opt as_str ?v ''culprit_name'' = Some (map_option id (dr_culprit_name d))"
    by (rule get_opt_back [where g = String]) (simp_all add: diagnose_result_json_def)
  moreover have "get_opt proposed_action_of_json ?v ''proposed_action'' = Some (map_option id (dr_proposed_action d))"
    by (rule get_opt_back [where g = proposed_action_json])
      (simp_all add: diagnose_result_json_def proposed_back, simp add: proposed_action_json_def)
  moreover have "get_str ?v ''summary'' = Some (dr_summary d)" by (simp add: diagnose_result_json_def get_str_def)
  ultimately show ?thesis by (simp add: diagnose_result_of_json_def option.map_id)
qed

lemma pending_back: "codecs x \<Longrightarrow> pending_dto_of_json x (pending_dto_json x p) = Some p"
  by (simp add: pending_dto_of_json_def pending_dto_json_def get_uuid_def get_str_def uuid_json_def codecs_uuid)

lemma tool_result_back:
  assumes "codecs x"
  shows "tool_call_result_of_json x (tool_call_result_json x r) = Some r"
proof -
  have "get_opt as_str (tool_call_result_json x r) ''error'' = Some (map_option id (res_error r))"
    by (rule get_opt_back [where g = String]) (simp_all add: tool_call_result_json_def)
  with assms show ?thesis
    by (simp add: tool_call_result_of_json_def tool_call_result_json_def get_uuid_def get_str_def get_bool_def
        uuid_json_def codecs_uuid option.map_id)
qed

lemma as_uuid_back: "codecs x \<Longrightarrow> as_uuid x (uuid_json x u) = Some u"
  by (simp add: as_uuid_def uuid_json_def codecs_uuid)

section \<open>Responses\<close>

definition tui_view :: "ext \<Rightarrow> client_response \<Rightarrow> tui_response" where
  "tui_view x r =
     \<lparr>tr_ok = cl_ok r, tr_correlation_id = cl_correlation_id r, tr_session_id = cl_session_id r,
      tr_diagnose = cl_diagnose r, tr_pending = cl_pending r, tr_error = cl_error r,
      tr_tool_result = cl_tool_result r, tr_audit_tail = map_option (map (audit_json x)) (cl_audit_tail r),
      tr_session_grants = cl_session_grants r, tr_memory_facts = map_option (map (fact_json x)) (cl_memory_facts r),
      tr_status = map_option status_json (cl_status r),
      tr_events = map_option (map (feed_item_json x)) (cl_events r),
      tr_progress = map_option (map (runtime_event_json x)) (cl_progress r)\<rparr>"

text \<open>A value that holds the fields of a response, whatever else it holds.\<close>

definition holds_response :: "ext \<Rightarrow> json \<Rightarrow> client_response \<Rightarrow> bool" where
  "holds_response x v r \<longleftrightarrow> (\<forall>(k, w) \<in> set (response_fields x r). get v k = Some w)"

lemma holds_plain: "holds_response x (response_json x r) r"
  by (simp add: holds_response_def response_json_def response_fields_def)

lemma holds_done: "holds_response x (Object (response_fields x r @ [(''type'', String ''done'')])) r"
  by (simp add: holds_response_def response_fields_def)

lemma response_fields_read:
  assumes "codecs x" and "holds_response x v r"
  shows "get_bool v ''ok'' = Some (cl_ok r)"
    "get_opt (as_uuid x) v ''correlation_id'' = Some (map_option id (cl_correlation_id r))"
    "get_opt (as_uuid x) v ''session_id'' = Some (map_option id (cl_session_id r))"
    "get_opt diagnose_result_of_json v ''diagnose'' = Some (map_option id (cl_diagnose r))"
    "get_opt (pending_dto_of_json x) v ''pending'' = Some (map_option id (cl_pending r))"
    "get_opt as_str v ''error'' = Some (map_option id (cl_error r))"
    "get_opt (tool_call_result_of_json x) v ''tool_result'' = Some (map_option id (cl_tool_result r))"
    "get_opt as_array v ''audit_tail'' = Some (map_option (map (audit_json x)) (cl_audit_tail r))"
    "get_opt as_strings v ''session_grants'' = Some (map_option id (cl_session_grants r))"
    "get_opt as_array v ''memory_facts'' = Some (map_option (map (fact_json x)) (cl_memory_facts r))"
    "get_opt Some v ''status'' = Some (map_option status_json (cl_status r))"
    "get_opt as_array v ''events'' = Some (map_option (map (feed_item_json x)) (cl_events r))"
    "get_opt as_array v ''progress'' = Some (map_option (map (runtime_event_json x)) (cl_progress r))"
proof -
  note f = assms(2) [unfolded holds_response_def response_fields_def, simplified]
  show "get_bool v ''ok'' = Some (cl_ok r)" using f by (simp add: get_bool_def)
  show "get_opt (as_uuid x) v ''correlation_id'' = Some (map_option id (cl_correlation_id r))"
    by (rule get_opt_back [where g = "uuid_json x"]) (simp_all add: f as_uuid_back assms(1), simp add: uuid_json_def)
  show "get_opt (as_uuid x) v ''session_id'' = Some (map_option id (cl_session_id r))"
    by (rule get_opt_back [where g = "uuid_json x"]) (simp_all add: f as_uuid_back assms(1), simp add: uuid_json_def)
  show "get_opt diagnose_result_of_json v ''diagnose'' = Some (map_option id (cl_diagnose r))"
    by (rule get_opt_back [where g = diagnose_result_json])
      (simp_all add: f diagnose_back, simp add: diagnose_result_json_def)
  show "get_opt (pending_dto_of_json x) v ''pending'' = Some (map_option id (cl_pending r))"
    by (rule get_opt_back [where g = "pending_dto_json x"])
      (simp_all add: f pending_back assms(1), simp add: pending_dto_json_def)
  show "get_opt as_str v ''error'' = Some (map_option id (cl_error r))"
    by (rule get_opt_back [where g = String]) (simp_all add: f)
  show "get_opt (tool_call_result_of_json x) v ''tool_result'' = Some (map_option id (cl_tool_result r))"
    by (rule get_opt_back [where g = "tool_call_result_json x"])
      (simp_all add: f tool_result_back assms(1), simp add: tool_call_result_json_def)
  show "get_opt as_array v ''audit_tail'' = Some (map_option (map (audit_json x)) (cl_audit_tail r))"
    by (rule get_opt_back [where g = "\<lambda>rs. Array (map (audit_json x) rs)"]) (simp_all add: f)
  show "get_opt as_strings v ''session_grants'' = Some (map_option id (cl_session_grants r))"
    by (rule get_opt_back [where g = strings_json]) (simp_all add: f, simp add: strings_json_def)
  show "get_opt as_array v ''memory_facts'' = Some (map_option (map (fact_json x)) (cl_memory_facts r))"
    by (rule get_opt_back [where g = "\<lambda>fs. Array (map (fact_json x) fs)"]) (simp_all add: f)
  show "get_opt Some v ''status'' = Some (map_option status_json (cl_status r))"
    by (rule get_opt_back [where g = status_json]) (simp_all add: f, simp add: status_json_def)
  show "get_opt as_array v ''events'' = Some (map_option (map (feed_item_json x)) (cl_events r))"
    by (rule get_opt_back [where g = "\<lambda>is. Array (map (feed_item_json x) is)"]) (simp_all add: f)
  show "get_opt as_array v ''progress'' = Some (map_option (map (runtime_event_json x)) (cl_progress r))"
    by (rule get_opt_back [where g = "\<lambda>es. Array (map (runtime_event_json x) es)"]) (simp_all add: f)
qed

lemma tui_reads_response:
  assumes "codecs x" and "holds_response x v r"
  shows "tui_response_of_json x v = Some (tui_view x r)"
  using response_fields_read [OF assms] by (simp add: tui_response_of_json_def tui_view_def option.map_id)

end
