(* ===== verification/ConsoleWeb.thy ===== *)
theory ConsoleWeb
  imports Console
begin

text \<open>
  \<open>crates/console-web/src/main.rs\<close>: the web console. A browser talks HTTP to it, it talks to the runtime
  over the socket. Every route stands behind the check of the access token, if one is set. The console keeps
  one chat session for all browsers.

  The web framework (axum) and the standard library's address parser are the parameter \<open>web_lib\<close>: which
  header values are text, how a query string and a JSON body are taken apart, and what binding a socket gives.
  A request is one step; the task that relays a diagnosis runs to its end in it.
\<close>

section \<open>Requests to the runtime\<close>

datatype web_request =
    WebDiagnose string "uuid option" bool
  | WebConfirm uuid uuid string json confirm_scope "uuid option"
  | WebChatReset uuid
  | WebStatus
  | WebEventsTail nat
  | WebSessionGrants
  | WebClearSessionGrants
  | WebPing

text \<open>A session that is absent is not written at all.\<close>

definition session_field :: "ext \<Rightarrow> uuid option \<Rightarrow> (string \<times> json) list" where
  "session_field x sess = (case sess of None \<Rightarrow> [] | Some u \<Rightarrow> [(''session_id'', uuid_json x u)])"

definition web_request_json :: "ext \<Rightarrow> web_request \<Rightarrow> json" where
  "web_request_json x r = Object (case r of
       WebDiagnose text sess stream \<Rightarrow>
         [(''op'', String ''diagnose''), (''text'', String text)] @ session_field x sess @ [(''stream'', Bool stream)]
     | WebConfirm corr cid tool args scope sess \<Rightarrow>
         [(''op'', String ''confirm''), (''correlation_id'', uuid_json x corr), (''call_id'', uuid_json x cid),
          (''tool'', String tool), (''arguments'', args), (''scope'', String (scope_name scope))]
         @ session_field x sess
     | WebChatReset sid \<Rightarrow> [(''op'', String ''chat_reset''), (''session_id'', uuid_json x sid)]
     | WebStatus \<Rightarrow> [(''op'', String ''status'')]
     | WebEventsTail n \<Rightarrow> [(''op'', String ''events_tail''), (''limit'', nat_json n)]
     | WebSessionGrants \<Rightarrow> [(''op'', String ''session_grants'')]
     | WebClearSessionGrants \<Rightarrow> [(''op'', String ''clear_session_grants'')]
     | WebPing \<Rightarrow> [(''op'', String ''ping'')])"

section \<open>Configuration\<close>

record stage_args =
  ar_sock :: string
  ar_bind :: string
  ar_lan :: bool
  ar_port :: u16
  ar_token :: "string option"
  ar_allow_open :: bool
  ar_tls_cert :: "string option"
  ar_tls_key :: "string option"
  ar_kiosk :: bool

record app_state =
  ap_sock :: string
  ap_token :: "string option"
  ap_kiosk_default :: bool

text \<open>An IP address as its bytes, and a port.\<close>

record sock_addr =
  sk_ip :: "nat list"
  sk_port :: u16

record web_call =
  wc_method :: string
  wc_path :: string
  wc_query :: "string option"
  wc_headers :: "(string \<times> string) list" \<comment> \<open>names in lower case, in the order received\<close>
  wc_body :: string

record page_query =
  pq_kiosk :: "string option"
  pq_token :: "string option"

record web_lib =
  wl_visible :: "string \<Rightarrow> bool" \<comment> \<open>whether a header value is visible text (\<open>HeaderValue::to_str\<close>)\<close>
  wl_sendable :: "string \<Rightarrow> bool" \<comment> \<open>whether a text can be a header value (\<open>HeaderValue::from_str\<close>)\<close>
  wl_page_query :: "string option \<Rightarrow> page_query option"
  wl_json_body :: "web_call \<Rightarrow> nat + json" \<comment> \<open>the JSON body, or the status of the rejection\<close>
  wl_parse_addr :: "string \<Rightarrow> sock_addr option"
  wl_tls_error :: "string \<Rightarrow> string \<Rightarrow> string option" \<comment> \<open>why a certificate and key do not load\<close>
  wl_bind_error :: "sock_addr \<Rightarrow> string option"
  wl_index_html :: string \<comment> \<open>the files under \<open>static\<close>\<close>
  wl_app_css :: string
  wl_app_js :: string

definition resolve_bind :: "web_lib \<Rightarrow> stage_args \<Rightarrow> failure + sock_addr" where
  "resolve_bind lib a =
     (if ar_lan a then Inr \<lparr>sk_ip = [0, 0, 0, 0], sk_port = ar_port a\<rparr>
      else case wl_parse_addr lib (ar_bind a) of
             None \<Rightarrow> Inl [''parse --bind address'', ''invalid socket address syntax'']
           | Some addr \<Rightarrow> Inr addr)"

definition tls_pair :: "stage_args \<Rightarrow> failure + (string \<times> string) option" where
  "tls_pair a =
     (case (ar_tls_cert a, ar_tls_key a) of
        (Some cert, Some key) \<Rightarrow> Inr (Some (cert, key))
      | (None, None) \<Rightarrow> Inr None
      | _ \<Rightarrow> Inl [''both --tls-cert and --tls-key are required for HTTPS''])"

definition lan_guard :: "stage_args \<Rightarrow> failure + unit" where
  "lan_guard a =
     (if ar_lan a \<and> ar_token a = None \<and> \<not> ar_allow_open a
      then Inl [''--lan requires --token (or SAAIOS_STAGE_TOKEN), or pass --allow-open for lab use'']
      else Inr ())"

definition app_state_of :: "stage_args \<Rightarrow> app_state" where
  "app_state_of a = \<lparr>ap_sock = ar_sock a, ap_token = ar_token a, ap_kiosk_default = ar_kiosk a\<rparr>"

section \<open>The state, and asking the runtime\<close>

record 'w stage =
  sg_session :: "uuid option"
  sg_peer :: 'w

definition on_peer :: "('w, 'e, 'a) io \<Rightarrow> (('w, 'z) stage_scheme, 'e, 'a) io" where
  "on_peer m = (\<lambda>s. case m (sg_peer s) of (r, w) \<Rightarrow> (r, s\<lparr>sg_peer := w\<rparr>))"

definition uds_request ::
  "ext \<Rightarrow> 'w peer \<Rightarrow> app_state \<Rightarrow> web_request \<Rightarrow> (('w, 'z) stage_scheme, failure, json) io" where
  "uds_request x peer ap req = on_peer (ask x (ap_sock ap) peer (json_text x (web_request_json x req)))"

section \<open>Replies\<close>

datatype web_body = JsonBody json | TextBody string | LinesBody "string list" | NoBody

record web_reply =
  wr_status :: nat
  wr_headers :: "(string \<times> string) list"
  wr_body :: web_body

definition json_reply :: "nat \<Rightarrow> json \<Rightarrow> web_reply" where
  "json_reply st v = \<lparr>wr_status = st, wr_headers = [(''content-type'', ''application/json'')], wr_body = JsonBody v\<rparr>"

definition error_json :: "nat \<Rightarrow> failure \<Rightarrow> web_reply" where
  "error_json st e = json_reply st (Object [(''ok'', Bool False), (''error'', String (failure_text e))])"

definition status_reply :: "nat \<Rightarrow> web_reply" where
  "status_reply st = \<lparr>wr_status = st, wr_headers = [], wr_body = NoBody\<rparr>"

text \<open>A value of the runtime is passed on; a failure to get one is the gateway's.\<close>

definition gateway ::
  "(('w, 'z) stage_scheme, failure, json) io \<Rightarrow> (('w, 'z) stage_scheme, 'e, web_reply) io" where
  "gateway m = bind_io (attempt m) (\<lambda>r. ret (case r of Inr v \<Rightarrow> json_reply 200 v | Inl e \<Rightarrow> error_json 502 e))"

section \<open>The access token\<close>

text \<open>The first value of a header, if it is visible text.\<close>

definition header_text :: "web_lib \<Rightarrow> (string \<times> string) list \<Rightarrow> string \<Rightarrow> string option" where
  "header_text lib hs name =
     Option.bind (map_of hs name) (\<lambda>v. if wl_visible lib v then Some v else None)"

definition token_matches :: "web_lib \<Rightarrow> string \<Rightarrow> (string \<times> string) list \<Rightarrow> string option \<Rightarrow> bool" where
  "token_matches lib expected hs query \<longleftrightarrow>
     (case header_text lib hs ''authorization'' of
        None \<Rightarrow> False | Some auth \<Rightarrow> strip_prefix auth ''Bearer '' = Some expected)
   \<or> header_text lib hs ''x-saaios-token'' = Some expected
   \<or> (case query of
        None \<Rightarrow> False
      | Some q \<Rightarrow> list_ex (\<lambda>pair. strip_prefix pair ''token='' = Some expected) (split_on (CHR ''&'') q))
   \<or> (case header_text lib hs ''cookie'' of
        None \<Rightarrow> False
      | Some c \<Rightarrow> list_ex (\<lambda>part. strip_prefix (trim part) ''saaios_token='' = Some expected) (split_on (CHR '';'') c))"

definition require_token ::
  "web_lib \<Rightarrow> app_state \<Rightarrow> web_call \<Rightarrow> (('w, 'z) stage_scheme, 'e, web_reply) io \<Rightarrow>
   (('w, 'z) stage_scheme, 'e, web_reply) io" where
  "require_token lib ap call next_step =
     (case ap_token ap of
        None \<Rightarrow> next_step
      | Some expected \<Rightarrow>
          if token_matches lib expected (wc_headers call) (wc_query call) then next_step
          else ret (status_reply 401))"

section \<open>Pages\<close>

text \<open>\<open>str::replace\<close>, for a pattern that is not empty.\<close>

fun replace_all :: "string \<Rightarrow> string \<Rightarrow> string \<Rightarrow> string" where
  "replace_all p r [] = []"
| "replace_all p r (c # s) =
     (if starts_with (c # s) p then r @ replace_all p r (drop (length p - 1) s) else c # replace_all p r s)"

definition quote_char :: char where
  "quote_char = CHR 0x22"

definition kiosk_body :: string where
  "kiosk_body = ''<body class='' @ [quote_char] @ ''kiosk'' @ [quote_char] @ ''>''"

definition render_index :: "web_lib \<Rightarrow> bool \<Rightarrow> web_reply" where
  "render_index lib kiosk =
     \<lparr>wr_status = 200,
      wr_headers = [(''content-type'', ''text/html; charset=utf-8''), (''cache-control'', ''no-store'')],
      wr_body = TextBody (if kiosk then replace_all ''<body>'' kiosk_body (wl_index_html lib) else wl_index_html lib)\<rparr>"

text \<open>A page asked for with the right token in its query sets the cookie.\<close>

definition token_cookie :: "string \<Rightarrow> string" where
  "token_cookie expected = ''saaios_token='' @ expected @ ''; Path=/; SameSite=Strict; HttpOnly''"

definition with_cookie :: "web_lib \<Rightarrow> app_state \<Rightarrow> page_query \<Rightarrow> web_reply \<Rightarrow> web_reply" where
  "with_cookie lib ap q res =
     (case (ap_token ap, pq_token q) of
        (Some expected, Some provided) \<Rightarrow>
          if provided = expected \<and> wl_sendable lib (token_cookie expected)
          then res\<lparr>wr_headers := wr_headers res @ [(''set-cookie'', token_cookie expected)]\<rparr> else res
      | _ \<Rightarrow> res)"

definition index_page :: "web_lib \<Rightarrow> app_state \<Rightarrow> page_query \<Rightarrow> web_reply" where
  "index_page lib ap q =
     (let kiosk = (ap_kiosk_default ap \<or>
                   (case pq_kiosk q of None \<Rightarrow> False | Some v \<Rightarrow> v \<noteq> ''0'' \<and> v \<noteq> ''false''))
      in with_cookie lib ap q (render_index lib kiosk))"

definition index_kiosk :: "web_lib \<Rightarrow> app_state \<Rightarrow> page_query \<Rightarrow> web_reply" where
  "index_kiosk lib ap q = with_cookie lib ap q (render_index lib True)"

definition app_css :: "web_lib \<Rightarrow> web_reply" where
  "app_css lib =
     \<lparr>wr_status = 200, wr_headers = [(''content-type'', ''text/css; charset=utf-8'')], wr_body = TextBody (wl_app_css lib)\<rparr>"

definition app_js :: "web_lib \<Rightarrow> web_reply" where
  "app_js lib =
     \<lparr>wr_status = 200, wr_headers = [(''content-type'', ''application/javascript; charset=utf-8'')],
      wr_body = TextBody (wl_app_js lib)\<rparr>"

section \<open>The API\<close>

definition api_status :: "ext \<Rightarrow> 'w peer \<Rightarrow> app_state \<Rightarrow> (('w, 'z) stage_scheme, 'e, web_reply) io" where
  "api_status x peer ap = gateway (uds_request x peer ap WebStatus)"

definition api_events :: "ext \<Rightarrow> 'w peer \<Rightarrow> app_state \<Rightarrow> (('w, 'z) stage_scheme, 'e, web_reply) io" where
  "api_events x peer ap = gateway (uds_request x peer ap (WebEventsTail 24))"

definition api_grants :: "ext \<Rightarrow> 'w peer \<Rightarrow> app_state \<Rightarrow> (('w, 'z) stage_scheme, 'e, web_reply) io" where
  "api_grants x peer ap = gateway (uds_request x peer ap WebSessionGrants)"

definition api_clear_grants :: "ext \<Rightarrow> 'w peer \<Rightarrow> app_state \<Rightarrow> (('w, 'z) stage_scheme, 'e, web_reply) io" where
  "api_clear_grants x peer ap = gateway (uds_request x peer ap WebClearSessionGrants)"

definition api_chat_reset :: "ext \<Rightarrow> 'w peer \<Rightarrow> app_state \<Rightarrow> (('w, 'z) stage_scheme, 'e, web_reply) io" where
  "api_chat_reset x peer ap =
     bind_io (reads sg_session) (\<lambda>sess.
     bind_io (case sess of
                None \<Rightarrow> ret ()
              | Some sid \<Rightarrow> bind_io (attempt (uds_request x peer ap (WebChatReset sid))) (\<lambda>_. ret ())) (\<lambda>_.
     bind_io (modifies (\<lambda>s. s\<lparr>sg_session := None\<rparr>)) (\<lambda>_.
     ret (json_reply 200 (Object [(''ok'', Bool True)])))))"

text \<open>Only the two words for a refusal refuse; any other word confirms once.\<close>

definition scope_of_word :: "string \<Rightarrow> confirm_scope" where
  "scope_of_word w =
     (if w = ''session'' \<or> w = ''s'' then Session else if w = ''cancel'' \<or> w = ''n'' then Cancel else Once)"

record confirm_body =
  cb_correlation_id :: uuid
  cb_call_id :: uuid
  cb_tool :: string
  cb_arguments :: json
  cb_scope :: string

definition confirm_body_of_json :: "ext \<Rightarrow> json \<Rightarrow> confirm_body option" where
  "confirm_body_of_json x v =
     Option.bind (get_uuid x v ''correlation_id'') (\<lambda>corr.
     Option.bind (get_uuid x v ''call_id'') (\<lambda>cid.
     Option.bind (get_str v ''tool'') (\<lambda>tool.
     Option.bind (get v ''arguments'') (\<lambda>args.
     Option.bind (get_str v ''scope'') (\<lambda>scope.
       Some \<lparr>cb_correlation_id = corr, cb_call_id = cid, cb_tool = tool, cb_arguments = args, cb_scope = scope\<rparr>)))))"

definition api_confirm ::
  "ext \<Rightarrow> 'w peer \<Rightarrow> app_state \<Rightarrow> confirm_body \<Rightarrow> (('w, 'z) stage_scheme, 'e, web_reply) io" where
  "api_confirm x peer ap b =
     bind_io (reads sg_session) (\<lambda>sess.
       gateway (uds_request x peer ap
         (WebConfirm (cb_correlation_id b) (cb_call_id b) (cb_tool b) (cb_arguments b) (scope_of_word (cb_scope b)) sess)))"

section \<open>Relaying a diagnosis\<close>

text \<open>The channel to the browser: the lines it took so far, and how many more it takes before it goes away.\<close>

record 'w relay = "'w stage" +
  rl_lines :: "string list"
  rl_room :: "nat option"

definition send_line :: "string \<Rightarrow> 'w relay \<Rightarrow> bool \<times> 'w relay" where
  "send_line l s =
     (case rl_room s of
        Some 0 \<Rightarrow> (False, s)
      | Some (Suc n) \<Rightarrow> (True, s\<lparr>rl_lines := rl_lines s @ [l], rl_room := Some n\<rparr>)
      | None \<Rightarrow> (True, s\<lparr>rl_lines := rl_lines s @ [l]\<rparr>))"

text \<open>The last frame of a diagnosis names the chat session; the console keeps it for the next one.\<close>

definition frame_session :: "ext \<Rightarrow> string \<Rightarrow> uuid option" where
  "frame_session x l =
     Option.bind (json_parse x l) (\<lambda>frame.
       if get_str frame ''type'' = Some ''done'' then Option.bind (get_str frame ''session_id'') (uuid_parse x)
       else None)"

definition note_session :: "ext \<Rightarrow> string \<Rightarrow> 'w relay \<Rightarrow> 'w relay" where
  "note_session x l s = (case frame_session x l of None \<Rightarrow> s | Some sid \<Rightarrow> s\<lparr>sg_session := Some sid\<rparr>)"

text \<open>What the loop carries: whether a frame was seen, whether the browser is gone, and the state.\<close>

record 'w forwarding =
  fw_saw :: bool
  fw_gone :: bool
  fw_state :: "'w relay"

definition forward_text :: "string \<Rightarrow> 'w forwarding \<Rightarrow> 'w forwarding" where
  "forward_text l a =
     (case send_line (l @ [newline]) (fw_state a) of (ok, s) \<Rightarrow> \<lparr>fw_saw = True, fw_gone = \<not> ok, fw_state = s\<rparr>)"

definition forward_line :: "ext \<Rightarrow> string \<Rightarrow> 'w forwarding \<Rightarrow> 'w forwarding" where
  "forward_line x bytes a =
     (if fw_gone a then a
      else let l = trim (utf8_lossy (bytes @ [newline]))
           in if l = [] then a else forward_text l (a\<lparr>fw_state := note_session x l (fw_state a)\<rparr>))"

text \<open>What is left when the stream ends is sent on too, but not searched for a session.\<close>

definition forward_rest :: "string \<Rightarrow> 'w forwarding \<Rightarrow> 'w forwarding" where
  "forward_rest buf a =
     (let l = trim (utf8_lossy buf) in if buf = [] \<or> l = [] then a else forward_text l a)"

definition forward_stream :: "ext \<Rightarrow> string list \<times> string option \<Rightarrow> ('w relay, failure, unit) io" where
  "forward_stream x = (\<lambda>(cs, end) s.
     case feed_chunks (forward_line x) cs [] \<lparr>fw_saw = False, fw_gone = False, fw_state = s\<rparr> of (buf, a) \<Rightarrow>
       if fw_gone a then (Inr (), fw_state a)
       else case end of
              Some e \<Rightarrow> (Inl [e], fw_state a)
            | None \<Rightarrow>
                (let b = forward_rest buf a
                 in (if fw_saw b then Inr () else Inl [''empty stream from runtime''], fw_state b)))"

definition forward_diagnose_stream ::
  "ext \<Rightarrow> 'w peer \<Rightarrow> app_state \<Rightarrow> string \<Rightarrow> uuid option \<Rightarrow> ('w relay, failure, unit) io" where
  "forward_diagnose_stream x peer ap text sess =
     bind_io (on_peer (dial (ap_sock ap) peer (json_text x (web_request_json x (WebDiagnose text sess True)))))
       (forward_stream x)"

definition failure_frame :: "ext \<Rightarrow> failure \<Rightarrow> string" where
  "failure_frame x e =
     json_text x (Object [(''type'', String ''done''), (''ok'', Bool False), (''error'', String (failure_text e))])
     @ [newline]"

definition relay_diagnosis ::
  "ext \<Rightarrow> 'w peer \<Rightarrow> app_state \<Rightarrow> string \<Rightarrow> uuid option \<Rightarrow> 'w relay \<Rightarrow> 'w relay" where
  "relay_diagnosis x peer ap text sess s =
     (case forward_diagnose_stream x peer ap text sess s of
        (Inr _, t) \<Rightarrow> t
      | (Inl e, t) \<Rightarrow> snd (send_line (failure_frame x e) t))"

definition api_diagnose_stream ::
  "ext \<Rightarrow> 'w peer \<Rightarrow> app_state \<Rightarrow> nat option \<Rightarrow> string \<Rightarrow> ('w stage, 'e, web_reply) io" where
  "api_diagnose_stream x peer ap room body_text = (\<lambda>s.
     let text = trim body_text
     in if text = [] then (Inr (error_json 400 [''empty text'']), s)
        else let t = relay_diagnosis x peer ap text (sg_session s) (stage.extend s \<lparr>rl_lines = [], rl_room = room\<rparr>)
             in (Inr \<lparr>wr_status = 200,
                      wr_headers = [(''content-type'', ''application/x-ndjson; charset=utf-8''),
                                    (''cache-control'', ''no-cache'')],
                      wr_body = LinesBody (rl_lines t)\<rparr>,
                 stage.truncate t))"

section \<open>The router\<close>

definition with_page_query :: "web_lib \<Rightarrow> web_call \<Rightarrow> (page_query \<Rightarrow> web_reply) \<Rightarrow> web_reply" where
  "with_page_query lib call f =
     (case wl_page_query lib (wc_query call) of None \<Rightarrow> status_reply 400 | Some q \<Rightarrow> f q)"

definition with_json_body ::
  "web_lib \<Rightarrow> web_call \<Rightarrow> (json \<Rightarrow> 'b option) \<Rightarrow> ('b \<Rightarrow> (('w, 'z) stage_scheme, 'e, web_reply) io) \<Rightarrow>
   (('w, 'z) stage_scheme, 'e, web_reply) io" where
  "with_json_body lib call decode f =
     (case wl_json_body lib call of
        Inl st \<Rightarrow> ret (status_reply st)
      | Inr v \<Rightarrow> (case decode v of None \<Rightarrow> ret (status_reply 422) | Some b \<Rightarrow> f b))"

text \<open>\<open>get\<close> also answers HEAD, without the body; another method is not allowed.\<close>

definition on_get ::
  "web_call \<Rightarrow> (('w, 'z) stage_scheme, 'e, web_reply) io \<Rightarrow> (('w, 'z) stage_scheme, 'e, web_reply) io" where
  "on_get call m =
     (if wc_method call = ''GET'' then m
      else if wc_method call = ''HEAD'' then bind_io m (\<lambda>r. ret (r\<lparr>wr_body := NoBody\<rparr>))
      else ret (status_reply 405))"

definition on_post ::
  "web_call \<Rightarrow> (('w, 'z) stage_scheme, 'e, web_reply) io \<Rightarrow> (('w, 'z) stage_scheme, 'e, web_reply) io" where
  "on_post call m = (if wc_method call = ''POST'' then m else ret (status_reply 405))"

definition route ::
  "web_lib \<Rightarrow> ext \<Rightarrow> 'w peer \<Rightarrow> app_state \<Rightarrow> nat option \<Rightarrow> web_call \<Rightarrow> ('w stage, 'e, web_reply) io" where
  "route lib x peer ap room call =
     (let p = wc_path call
      in if p = ''/'' then on_get call (ret (with_page_query lib call (index_page lib ap)))
         else if p = ''/kiosk'' then on_get call (ret (with_page_query lib call (index_kiosk lib ap)))
         else if p = ''/app.css'' then on_get call (ret (app_css lib))
         else if p = ''/app.js'' then on_get call (ret (app_js lib))
         else if p = ''/api/status'' then on_get call (api_status x peer ap)
         else if p = ''/api/events'' then on_get call (api_events x peer ap)
         else if p = ''/api/grants'' then on_get call (api_grants x peer ap)
         else if p = ''/api/grants/clear'' then on_post call (api_clear_grants x peer ap)
         else if p = ''/api/chat/reset'' then on_post call (api_chat_reset x peer ap)
         else if p = ''/api/diagnose'' then
           on_post call (with_json_body lib call (\<lambda>v. get_str v ''text'') (api_diagnose_stream x peer ap room))
         else if p = ''/api/confirm'' then
           on_post call (with_json_body lib call (confirm_body_of_json x) (api_confirm x peer ap))
         else ret (status_reply 404))"

definition stage_app ::
  "web_lib \<Rightarrow> ext \<Rightarrow> 'w peer \<Rightarrow> app_state \<Rightarrow> nat option \<Rightarrow> web_call \<Rightarrow> ('w stage, 'e, web_reply) io" where
  "stage_app lib x peer ap room call = require_token lib ap call (route lib x peer ap room call)"

section \<open>Start\<close>

text \<open>What \<open>main\<close> has before it serves: the state of the application, the address, and the TLS files. A
  runtime that does not answer the ping is only warned about.\<close>

definition stage_main ::
  "web_lib \<Rightarrow> ext \<Rightarrow> 'w peer \<Rightarrow> stage_args \<Rightarrow> ('w, failure, app_state \<times> sock_addr \<times> (string \<times> string) option) io" where
  "stage_main lib x peer a =
     (case resolve_bind lib a of
        Inl e \<Rightarrow> raise e
      | Inr addr \<Rightarrow>
     (case tls_pair a of
        Inl e \<Rightarrow> raise e
      | Inr tls \<Rightarrow>
     (case lan_guard a of
        Inl e \<Rightarrow> raise e
      | Inr _ \<Rightarrow>
          bind_io (attempt (ask x (ar_sock a) peer (json_text x (web_request_json x WebPing)))) (\<lambda>_.
            case Option.bind tls (\<lambda>(cert, key). wl_tls_error lib cert key) of
              Some e \<Rightarrow> raise [''load TLS cert/key'', e]
            | None \<Rightarrow>
                (case wl_bind_error lib addr of
                   Some e \<Rightarrow> raise [e]
                 | None \<Rightarrow> ret (app_state_of a, addr, tls))))))"

definition stage_start :: "'w \<Rightarrow> 'w stage" where
  "stage_start w = \<lparr>sg_session = None, sg_peer = w\<rparr>"

end
