(* ===== verification/StageFacts.thy ===== *)
theory StageFacts
  imports ConsoleWeb Server
begin

text \<open>
  The web console: what its token guards, how its requests are read by the service, and that relaying a
  diagnosis neither depends on how the network cuts the stream nor changes what is in it.
\<close>

section \<open>The token\<close>

text \<open>The four places a caller can put the token in.\<close>

definition carries_token :: "web_lib \<Rightarrow> string \<Rightarrow> web_call \<Rightarrow> bool" where
  "carries_token lib tok call \<longleftrightarrow>
     (let header = (\<lambda>name v. map_of (wc_headers call) name = Some v \<and> wl_visible lib v)
      in header ''authorization'' (''Bearer '' @ tok)
         \<or> header ''x-saaios-token'' tok
         \<or> (\<exists>q. wc_query call = Some q \<and> ''token='' @ tok \<in> set (split_on (CHR ''&'') q))
         \<or> (\<exists>v. header ''cookie'' v \<and> (\<exists>part \<in> set (split_on (CHR '';'') v). trim part = ''saaios_token='' @ tok)))"

lemma strip_prefix_iff: "strip_prefix s p = Some r \<longleftrightarrow> s = p @ r"
  by (auto simp: strip_prefix_def starts_with_prefix prefix_def)

lemma token_matches_iff: "token_matches lib tok (wc_headers call) (wc_query call) \<longleftrightarrow> carries_token lib tok call"
proof -
  have query: "(case wc_query call of None \<Rightarrow> False
      | Some q \<Rightarrow> list_ex (\<lambda>pair. strip_prefix pair ''token='' = Some tok) (split_on (CHR ''&'') q)) \<longleftrightarrow>
    (\<exists>q. wc_query call = Some q \<and> ''token='' @ tok \<in> set (split_on (CHR ''&'') q))"
    by (cases "wc_query call") (auto simp: list_ex_iff strip_prefix_iff)
  have header: "header_text lib (wc_headers call) name = Some v \<longleftrightarrow>
      map_of (wc_headers call) name = Some v \<and> wl_visible lib v" for name v
    by (cases "map_of (wc_headers call) name") (auto simp: header_text_def)
  have case_iff: "(case o' of None \<Rightarrow> False | Some v \<Rightarrow> P v) \<longleftrightarrow> (\<exists>v. o' = Some v \<and> P v)" for o' :: "string option" and P
    by (cases o') simp_all
  show ?thesis
    unfolding token_matches_def query carries_token_def Let_def case_iff header strip_prefix_iff list_ex_iff
    by blast
qed

lemma stage_refuses:
  assumes "ap_token ap = Some tok" and "\<not> carries_token lib tok call"
  shows "stage_app lib x peer ap room call s = (Inr (status_reply 401), s)"
  using assms by (simp add: stage_app_def require_token_def token_matches_iff ret_def)

lemma stage_main_state:
  assumes "stage_main lib x peer a w = (Inr (ap, addr, tls), w')"
  shows "ap = app_state_of a" and "lan_guard a = Inr ()"
  using assms
  by (auto simp: stage_main_def io_defs split: sum.splits prod.splits option.splits)

section \<open>The service understands the requests\<close>

fun web_meaning :: "web_request \<Rightarrow> client_request" where
  "web_meaning (WebDiagnose t sess stream) = Diagnose t sess stream"
| "web_meaning (WebConfirm corr cid tool args scope sess) = Confirm corr cid tool args scope None sess"
| "web_meaning (WebChatReset sid) = ChatReset sid"
| "web_meaning WebStatus = Status"
| "web_meaning (WebEventsTail n) = EventsTail n"
| "web_meaning WebSessionGrants = SessionGrants"
| "web_meaning WebClearSessionGrants = ClearSessionGrants"
| "web_meaning WebPing = Ping"

lemma web_session:
  assumes "codecs x" and "get v ''session_id'' = map_option (uuid_json x) sess"
  shows "get_session x v = Some sess"
  using assms by (cases sess) (simp_all add: get_session_def get_opt_def uuid_json_def codecs_uuid)

lemma web_understood:
  assumes "codecs x" and "request_limit (web_meaning r) < 2 ^ 64"
  shows "request_of_json x (web_request_json x r) = Some (web_meaning r)"
proof (cases r)
  case (WebDiagnose t sess stream)
  have "get_session x (web_request_json x r) = Some sess"
    by (rule web_session [OF assms(1)])
      (simp add: web_request_json_def WebDiagnose session_field_def split: option.split)
  moreover have "get_str (web_request_json x r) ''op'' = Some ''diagnose''" "get_str (web_request_json x r) ''text'' = Some t"
    "get_default as_bool False (web_request_json x r) ''stream'' = Some stream"
    by (simp_all add: web_request_json_def WebDiagnose session_field_def get_str_def get_default_def split: option.split)
  ultimately show ?thesis by (simp add: request_of_json_def WebDiagnose)
next
  case (WebConfirm corr cid tool args scope sess)
  let ?v = "web_request_json x r"
  have "get_session x ?v = Some sess"
    by (rule web_session [OF assms(1)])
      (simp add: web_request_json_def WebConfirm session_field_def split: option.split)
  moreover have "get ?v ''op'' = Some (String ''confirm'')" "get ?v ''correlation_id'' = Some (uuid_json x corr)"
    "get ?v ''call_id'' = Some (uuid_json x cid)" "get ?v ''tool'' = Some (String tool)" "get ?v ''arguments'' = Some args"
    "get ?v ''scope'' = Some (String (scope_name scope))" "get ?v ''confirmed'' = None"
    by (simp_all add: web_request_json_def WebConfirm session_field_def split: option.split)
  ultimately show ?thesis
    using assms(1)
    by (simp add: request_of_json_def confirm_of_json_def get_str_def get_uuid_def get_default_def get_opt_def
        uuid_json_def codecs_uuid WebConfirm)
qed (use assms codecs_uuid [OF assms(1)] in \<open>simp_all add: request_of_json_def web_request_json_def get_str_def
      get_default_def get_uuid_def uuid_json_def get_limit_back\<close>)

lemma web_decoded:
  assumes "codecs x" and "request_limit (web_meaning r) < 2 ^ 64"
  shows "decode_request x (json_text x (web_request_json x r)) = Some (web_meaning r)"
  using web_understood [OF assms] codecs_text(1) [OF assms(1)] by (simp add: decode_request_def)

section \<open>Relaying\<close>

text \<open>How the network cuts the stream does not matter.\<close>

lemma forward_stream_concat: "forward_stream x (cs, fin) = forward_stream x ([concat cs], fin)"
proof
  fix s :: "'w relay"
  have "feed_chunks f cs [] a = feed_chunks f [concat cs] [] a" for f :: "string \<Rightarrow> 'w forwarding \<Rightarrow> 'w forwarding" and a
    using feed_chunks_concat [of "[]" f cs a] feed_chunks_concat [of "[]" f "[concat cs]" a] by simp
  then show "forward_stream x (cs, fin) s = forward_stream x ([concat cs], fin) s"
    by (simp add: forward_stream_def)
qed

text \<open>Two peers that answer alike, except for the cuts.\<close>

definition same_bytes :: "dialed \<Rightarrow> dialed \<Rightarrow> bool" where
  "same_bytes d d' \<longleftrightarrow>
     (case (d, d') of
        (Answer cs fin, Answer cs' fin') \<Rightarrow> concat cs = concat cs' \<and> fin = fin'
      | _ \<Rightarrow> d = d')"

definition same_but_cuts :: "'w peer \<Rightarrow> 'w peer \<Rightarrow> bool" where
  "same_but_cuts p q \<longleftrightarrow> (\<forall>bytes w. same_bytes (fst (p bytes w)) (fst (q bytes w)) \<and> snd (p bytes w) = snd (q bytes w))"

lemma forward_diagnose_same:
  assumes "same_but_cuts p q"
  shows "forward_diagnose_stream x p ap t sess s = forward_diagnose_stream x q ap t sess s"
proof -
  let ?b = "json_text x (web_request_json x (WebDiagnose t sess True))"
  obtain d w where p: "p ?b (sg_peer s) = (d, w)" by fastforce
  obtain d' w' where q: "q ?b (sg_peer s) = (d', w')" by fastforce
  from assms have "same_bytes (fst (p ?b (sg_peer s))) (fst (q ?b (sg_peer s)))"
    "snd (p ?b (sg_peer s)) = snd (q ?b (sg_peer s))"
    unfolding same_but_cuts_def by blast+
  then have "w' = w" and "same_bytes d d'" using p q by simp_all
  show ?thesis
  proof (cases d)
    case (Answer cs fin)
    with \<open>same_bytes d d'\<close> obtain cs' where d': "d' = Answer cs' fin" "concat cs = concat cs'"
      by (cases d') (auto simp: same_bytes_def)
    then have "forward_stream x (cs, fin) (s\<lparr>sg_peer := w\<rparr>) = forward_stream x (cs', fin) (s\<lparr>sg_peer := w\<rparr>)"
      using fun_cong [OF forward_stream_concat [of x cs fin], of "s\<lparr>sg_peer := w\<rparr>"]
        fun_cong [OF forward_stream_concat [of x cs' fin], of "s\<lparr>sg_peer := w\<rparr>"] by simp
    then show ?thesis
      using p q Answer d' \<open>w' = w\<close> by (simp add: forward_diagnose_stream_def on_peer_def dial_def bind_io_def)
  qed (use p q \<open>w' = w\<close> \<open>same_bytes d d'\<close> in \<open>cases d';
      simp add: forward_diagnose_stream_def on_peer_def dial_def bind_io_def same_bytes_def\<close>)+
qed

lemma api_diagnose_same:
  "same_but_cuts p q \<Longrightarrow> api_diagnose_stream x p ap room t s = api_diagnose_stream x q ap room t s"
  by (simp add: api_diagnose_stream_def relay_diagnosis_def forward_diagnose_same [of p q] Let_def)

text \<open>A line that is well formed and without blanks around it comes through as it is.\<close>

lemma ws_len_newline: "l \<noteq> [] \<Longrightarrow> ws_len l = 0 \<Longrightarrow> ws_len (l @ [newline]) = 0"
  by (cases l rule: ws_len.cases) (auto simp: newline_def ws_bytes2_def ws_bytes3_def ws_byte_def split: if_splits)

lemma strip_ws_fixed: "strip_ws f s = s \<Longrightarrow> f s = 0 \<or> s = []"
proof (rule ccontr)
  assume same: "strip_ws f s = s" and "\<not> (f s = 0 \<or> s = [])"
  with same have "suffix s (drop (f s) s)" and "length (drop (f s) s) < length s"
    using strip_ws_suffix [of f "drop (f s) s"] by (simp_all add: strip_ws.simps [of f s])
  then show False using suffix_length_le by fastforce
qed

lemma trim_fixed:
  assumes "trim l = l"
  shows "trim_start l = l" and "trim_end l = l"
proof -
  have "length (trim_end t) \<le> length t" for t
    using suffix_length_le [OF strip_ws_suffix [of ws_len_end "rev t"]] by (simp add: trim_end_def)
  then have "length l \<le> length (trim_start l)" using assms by (metis trim_def)
  moreover obtain zs where zs: "l = zs @ trim_start l" using trim_start_suffix [of l] by (auto simp: suffix_def)
  ultimately have "zs = []" by (metis add_le_same_cancel2 length_append length_greater_0_conv not_le)
  with zs show start: "trim_start l = l" by simp
  with assms show "trim_end l = l" by (simp add: trim_def)
qed

lemma trim_newline:
  assumes "trim l = l" and "l \<noteq> []"
  shows "trim (l @ [newline]) = l"
proof -
  from trim_fixed [OF assms(1)] have start: "strip_ws ws_len l = l" and last: "strip_ws ws_len_end (rev l) = rev l"
    by (simp_all add: trim_start_def trim_end_def) (metis rev_rev_ident)
  from strip_ws_fixed [OF start] assms(2) have "ws_len (l @ [newline]) = 0" by (simp add: ws_len_newline)
  then have "trim_start (l @ [newline]) = l @ [newline]" by (simp add: trim_start_def strip_ws_done)
  moreover have "ws_len_end (newline # rev l) = 1"
    by (cases "rev l" rule: ws_len_end.cases) (simp_all add: newline_def ws_byte_def)
  ultimately show ?thesis
    using last by (simp add: trim_def trim_end_def strip_ws.simps [of ws_len_end "newline # rev l"])
qed

lemma utf8_line: "utf8_ok l \<Longrightarrow> utf8_lossy (l @ [newline]) = l @ [newline]"
  by (simp add: utf8_lossy_append utf8_lossy.simps(2) utf8_head_def followers_def newline_def)

section \<open>Observations\<close>

text \<open>Every word that is not one of the four known ones confirms, a refusal in other letters too.\<close>

lemma other_words_confirm:
  "w \<notin> {''session'', ''s'', ''cancel'', ''n''} \<Longrightarrow> scope_of_word w = Once" "scope_of_word ''Cancel'' = Once"
  by (auto simp: scope_of_word_def)

text \<open>The empty token satisfies the guard of the local network, and an empty query value carries it.\<close>

lemma empty_token_opens:
  "ar_token a = Some [] \<Longrightarrow> lan_guard a = Inr ()"
  "wc_query call = Some ''token='' \<Longrightarrow> carries_token lib [] call"
  by (simp_all add: lan_guard_def carries_token_def)

text \<open>The query is compared as it was sent: a token whose characters have to be escaped is not found in it.\<close>

lemma escaped_token_refused:
  "\<not> carries_token lib ''a b'' \<lparr>wc_method = ''GET'', wc_path = ''/'', wc_query = Some ''token=a%20b'', wc_headers = [], wc_body = []\<rparr>"
  by (simp add: carries_token_def)

end
