(* ===== verification/ServicePeer.thy ===== *)
theory ServicePeer
  imports ServerFacts TuiAnswers StageFacts
begin

text \<open>
  The consoles and the service put together: the service as the peer at the other end of the socket. The socket
  delivers the request at once and takes everything that is written; in which chunks the answer arrives is up
  to the network (\<open>nw\<close>). Every request of a console is then a connection step of the service.
\<close>

section \<open>The service at the other end\<close>

definition socket_of :: "string \<Rightarrow> service_state \<Rightarrow> client_state" where
  "socket_of bytes s =
     service_state.extend s
       \<lparr>co_read = Inr bytes, co_sent = [], co_write_src = (\<lambda>n. Written), co_write_next = 0, co_shutdown = None,
        co_closed = False\<rparr>"

definition service_peer :: "(string list \<Rightarrow> string list) \<Rightarrow> ext \<Rightarrow> service \<Rightarrow> service_state peer" where
  "service_peer nw x sv bytes = (\<lambda>s.
     case handle_client x sv (socket_of bytes s) of
       (r, c) \<Rightarrow> (Answer (nw (co_sent c)) None, service_state.truncate c))"

definition keeps_bytes :: "(string list \<Rightarrow> string list) \<Rightarrow> bool" where
  "keeps_bytes nw \<longleftrightarrow> (\<forall>cs. concat (nw cs) = concat cs)"

lemma socket_fields_of [simp]:
  "co_sent (socket_of bytes s) = []" "co_write_src (socket_of bytes s) = (\<lambda>n. Written)"
  "co_shutdown (socket_of bytes s) = None" "service_state.truncate (socket_of bytes s) = s"
  by (simp_all add: socket_of_def service_state.defs)

lemma requested_of:
  assumes "decode_request x bytes = Some req" and "bytes \<noteq> []" and "length bytes \<le> buffer_size"
  shows "requested x (socket_of bytes s) = Some req"
  using assms by (simp add: requested_def socket_of_def service_state.defs)

text \<open>Asking the service is a step of it.\<close>

lemma service_peer_step:
  assumes "pred_option allowed (requested x (socket_of bytes (run_state s)))"
  shows "service_step rc x sv allowed s (s\<lparr>run_state := snd (service_peer nw x sv bytes (run_state s))\<rparr>)"
proof -
  obtain r c where run: "handle_client x sv (socket_of bytes (run_state s)) = (r, c)" by fastforce
  from service_step.connection [where rc = rc and s = s, OF _ assms run] show ?thesis
    by (simp add: service_peer_def run)
qed

text \<open>What the service answers to a request that is not a streamed diagnosis, and to one that is.\<close>

lemma service_answers:
  assumes "requested x (socket_of bytes s) = Some req"
  shows "\<exists>evs resp. response_wf resp \<and> fst (service_peer nw x sv bytes s) =
    Answer (nw (if streaming req then map (progress_frame x) evs @ [done_frame x resp]
                 else [json_text x (response_json x resp)])) None"
proof -
  obtain evs resp c where run: "serve x sv req (socket_of bytes s) = (Inr (), c)" "response_wf resp"
      "if streaming req then co_sent c = co_sent (socket_of bytes s) @ map (progress_frame x) evs @ [done_frame x resp]
       else co_sent c = co_sent (socket_of bytes s) @ [json_text x (response_json x resp)]"
    using serve_answers [of "socket_of bytes s" x sv req] by (cases "streaming req") (simp, blast, auto)
  with assms show ?thesis
    by (intro exI [of _ evs] exI [of _ resp]) (auto simp: service_peer_def handle_client_run split: if_splits)
qed

section \<open>The web console relays what the service sends\<close>

text \<open>The frames of a stream without their line feeds.\<close>

definition progress_text :: "ext \<Rightarrow> runtime_event \<Rightarrow> string" where
  "progress_text x ev = json_text x (Object [(''type'', String ''progress''), (''event'', runtime_event_json x ev)])"

definition done_text :: "ext \<Rightarrow> client_response \<Rightarrow> string" where
  "done_text x r = json_text x (Object (response_fields x r @ [(''type'', String ''done'')]))"

lemma frame_texts: "progress_frame x ev = progress_text x ev @ [newline]" "done_frame x r = done_text x r @ [newline]"
  by (simp_all add: progress_frame_def progress_text_def done_frame_def done_text_def)

lemma progress_session: "codecs x \<Longrightarrow> frame_session x (progress_text x ev) = None"
  by (simp add: frame_session_def progress_text_def codecs_text get_str_def)

lemma done_session: "codecs x \<Longrightarrow> frame_session x (done_text x r) = cl_session_id r"
  by (cases "cl_session_id r")
    (simp_all add: frame_session_def done_text_def codecs_text get_str_def response_fields_def opt_json_def
      uuid_json_def codecs_uuid)

lemma forward_whole_line:
  assumes "codecs x" and "\<not> fw_gone a" and "rl_room (fw_state a) = None" and "l = json_text x v"
  shows "forward_line x l a =
    \<lparr>fw_saw = True, fw_gone = False,
     fw_state = (note_session x l (fw_state a))\<lparr>rl_lines := rl_lines (fw_state a) @ [l @ [newline]]\<rparr>\<rparr>"
proof -
  note t = codecs_text [OF assms(1), of v, folded assms(4)]
  have "trim (utf8_lossy (l @ [newline])) = l" using t by (simp add: utf8_line trim_newline)
  moreover have "rl_room (note_session x l (fw_state a)) = None" "rl_lines (note_session x l (fw_state a)) = rl_lines (fw_state a)"
    using assms(3) by (simp_all add: note_session_def split: option.split)
  ultimately show ?thesis
    using t assms(2) by (simp add: forward_line_def forward_text_def send_line_def)
qed

lemma forward_progress:
  assumes "codecs x" and "\<not> fw_gone a" and "rl_room (fw_state a) = None"
  shows "\<exists>b. fold (forward_line x) (map (progress_text x) evs) a = b \<and> \<not> fw_gone b \<and> rl_room (fw_state b) = None
    \<and> fw_state b = (fw_state a)\<lparr>rl_lines := rl_lines (fw_state a) @ map (progress_frame x) evs\<rparr>"
  using assms(2,3)
proof (induction evs arbitrary: a)
  case (Cons ev evs)
  let ?a = "forward_line x (progress_text x ev) a"
  have "?a = \<lparr>fw_saw = True, fw_gone = False,
      fw_state = (fw_state a)\<lparr>rl_lines := rl_lines (fw_state a) @ [progress_frame x ev]\<rparr>\<rparr>"
    using forward_whole_line [OF assms(1) Cons.prems progress_text_def]
    by (simp add: note_session_def progress_session [OF assms(1)] frame_texts)
  with Cons.IH [of ?a] Cons.prems show ?case by simp
qed simp

lemma relay_frames:
  assumes "codecs x" and "keeps_bytes nw" and "rl_room s = None"
  shows "forward_stream x (nw (map (progress_frame x) evs @ [done_frame x r]), None) s =
    (Inr (), s\<lparr>sg_session := (case cl_session_id r of None \<Rightarrow> sg_session s | Some sid \<Rightarrow> Some sid),
               rl_lines := rl_lines s @ map (progress_frame x) evs @ [done_frame x r]\<rparr>)"
proof -
  let ?ls = "map (progress_text x) evs @ [done_text x r]"
  let ?a = "\<lparr>fw_saw = False, fw_gone = False, fw_state = s\<rparr>"
  have "progress_frame x = (\<lambda>ev. progress_text x ev @ [newline])" by (simp add: fun_eq_iff frame_texts)
  then have "concat (nw (map (progress_frame x) evs @ [done_frame x r])) = concat (map (\<lambda>l. l @ [newline]) ?ls)"
    using assms(2) by (simp add: keeps_bytes_def frame_texts(2) comp_def)
  moreover have "newline \<notin> set l" if "l \<in> set ?ls" for l
    using that codecs_text(2) [OF assms(1)] by (auto simp: progress_text_def done_text_def)
  ultimately have fed: "feed_chunks (forward_line x) (nw (map (progress_frame x) evs @ [done_frame x r])) [] ?a =
      ([], fold (forward_line x) ?ls ?a)"
    using drain_with_lines [of ?ls "forward_line x" ?a] by (simp add: feed_chunks_concat)
  obtain b where b: "fold (forward_line x) (map (progress_text x) evs) ?a = b" "\<not> fw_gone b" "rl_room (fw_state b) = None"
      "fw_state b = s\<lparr>rl_lines := rl_lines s @ map (progress_frame x) evs\<rparr>"
    using forward_progress [OF assms(1), of ?a evs] assms(3) by auto
  show ?thesis
    using forward_whole_line [OF assms(1) b(2,3) done_text_def] b(1,4)
    by (simp add: forward_stream_def fed forward_rest_def Let_def note_session_def done_session [OF assms(1)]
        frame_texts(2) [symmetric] split: option.split)
qed

definition diagnose_bytes :: "ext \<Rightarrow> string \<Rightarrow> uuid option \<Rightarrow> string" where
  "diagnose_bytes x t sess = json_text x (web_request_json x (WebDiagnose t sess True))"

lemma stage_relays:
  assumes cod: "codecs x" and nw: "keeps_bytes nw" and t: "trim t \<noteq> []"
    and fits: "length (diagnose_bytes x (trim t) (sg_session s)) \<le> buffer_size"
  shows "\<exists>evs resp s'. response_wf resp
    \<and> service_peer nw x sv (diagnose_bytes x (trim t) (sg_session s)) (sg_peer s) =
        (Answer (nw (map (progress_frame x) evs @ [done_frame x resp])) None, sg_peer s')
    \<and> sg_session s' = (case cl_session_id resp of None \<Rightarrow> sg_session s | Some sid \<Rightarrow> Some sid)
    \<and> api_diagnose_stream x (service_peer nw x sv) ap None t s =
        (Inr \<lparr>wr_status = 200,
              wr_headers = [(''content-type'', ''application/x-ndjson; charset=utf-8''), (''cache-control'', ''no-cache'')],
              wr_body = LinesBody (map (progress_frame x) evs @ [done_frame x resp])\<rparr>, s')"
proof -
  let ?b = "diagnose_bytes x (trim t) (sg_session s)"
  have "decode_request x ?b = Some (Diagnose (trim t) (sg_session s) True)"
    using web_decoded [OF cod, of "WebDiagnose (trim t) (sg_session s) True"] by (simp add: diagnose_bytes_def)
  then have req: "requested x (socket_of ?b (sg_peer s)) = Some (Diagnose (trim t) (sg_session s) True)"
    using codecs_text(3) [OF cod] fits by (intro requested_of) (simp_all add: diagnose_bytes_def)
  obtain evs resp w where a: "response_wf resp"
      "service_peer nw x sv ?b (sg_peer s) = (Answer (nw (map (progress_frame x) evs @ [done_frame x resp])) None, w)"
    using service_answers [OF req, of nw sv] by (auto simp: streaming_def) (metis prod.collapse)
  let ?r = "(stage.extend s \<lparr>rl_lines = [], rl_room = None\<rparr>)\<lparr>sg_peer := w\<rparr>"
  have "relay_diagnosis x (service_peer nw x sv) ap (trim t) (sg_session s)
      (stage.extend s \<lparr>rl_lines = [], rl_room = None\<rparr>) =
      ?r\<lparr>sg_session := (case cl_session_id resp of None \<Rightarrow> sg_session s | Some sid \<Rightarrow> Some sid),
        rl_lines := map (progress_frame x) evs @ [done_frame x resp]\<rparr>"
    using a(2) relay_frames [OF cod nw, of ?r evs resp]
    by (simp add: relay_diagnosis_def forward_diagnose_stream_def on_peer_def dial_def bind_io_def stage.defs
        diagnose_bytes_def split: option.split)
  with t a show ?thesis
    by (intro exI [of _ evs] exI [of _ resp]
        exI [of _ "s\<lparr>sg_peer := w, sg_session := (case cl_session_id resp of None \<Rightarrow> sg_session s | Some sid \<Rightarrow> Some sid)\<rparr>"])
      (simp add: api_diagnose_stream_def Let_def stage.defs)
qed

section \<open>The terminal console reads what the service sends\<close>

lemma stream_line_progress:
  "codecs x \<Longrightarrow> stream_line bad x (progress_text x ev) (fin, shown) =
     Inr (fin, shown @ [format_progress (runtime_event_json x ev)])"
  by (simp add: stream_line_def progress_text_def codecs_text Let_def get_str_def)

lemma stream_line_done:
  assumes "codecs x"
  shows "stream_line bad x (done_text x r) (fin, shown) = Inr (Some (tui_view x r), shown)"
proof -
  have "get_str (Object (response_fields x r @ [(''type'', String ''done'')])) ''type'' = Some ''done''"
    by (simp add: get_str_def response_fields_def)
  with assms tui_reads_response [OF assms holds_done] show ?thesis
    by (simp add: stream_line_def done_text_def codecs_text Let_def read_response_def)
qed

lemma stream_progress:
  "codecs x \<Longrightarrow> stream_lines bad x (map (progress_text x) evs @ ls) (fin, shown) =
     stream_lines bad x ls (fin, shown @ map (\<lambda>ev. format_progress (runtime_event_json x ev)) evs)"
  by (induction evs arbitrary: shown) (simp_all add: stream_line_progress)

lemma lines_of_frames:
  assumes "codecs x" and "\<And>l. l \<in> set ls \<Longrightarrow> \<exists>v. l = json_text x v"
  shows "text_lines (utf8_lossy (concat (map (\<lambda>l. l @ [newline]) ls))) = ls"
proof -
  have "utf8_ok [newline]" using utf8_line [of "[]"] by (simp add: utf8_ok_def)
  then have "utf8_ok (l @ [newline])" if "l \<in> set ls" for l
    using that assms codecs_text(5) [OF assms(1)] utf8_ok_append by fastforce
  then have "utf8_ok (concat (map (\<lambda>l. l @ [newline]) ls))"
    by (intro utf8_ok_concat) (simp add: list_all_iff)
  moreover have "text_lines (concat (map (\<lambda>l. l @ [newline]) ls)) = ls"
    using assms(2)
  proof (induction ls)
    case (Cons l ls)
    then obtain v where "l = json_text x v" by auto
    with assms(1) have "newline \<notin> set l" "carriage \<notin> set l"
      by (simp_all add: codecs_def text_codec_on_def one_line_def)
    with Cons show ?case by (simp add: text_lines_append_line)
  qed simp
  ultimately show ?thesis by (simp add: utf8_ok_def)
qed

lemma tui_reads_stream:
  assumes "codecs x" and "keeps_bytes nw"
  shows "stream_result bad x (concat (nw (map (progress_frame x) evs @ [done_frame x r]))) =
    Inr (tui_view x r, map (\<lambda>ev. format_progress (runtime_event_json x ev)) evs)"
proof -
  let ?ls = "map (progress_text x) evs @ [done_text x r]"
  have "progress_frame x = (\<lambda>ev. progress_text x ev @ [newline])" by (simp add: fun_eq_iff frame_texts)
  then have "concat (nw (map (progress_frame x) evs @ [done_frame x r])) = concat (map (\<lambda>l. l @ [newline]) ?ls)"
    using assms(2) by (simp add: keeps_bytes_def frame_texts(2) comp_def)
  moreover have "text_lines (utf8_lossy (concat (map (\<lambda>l. l @ [newline]) ?ls))) = ?ls"
    by (rule lines_of_frames [OF assms(1)]) (auto simp: progress_text_def done_text_def)
  ultimately show ?thesis
    using stream_progress [OF assms(1), of bad evs "[done_text x r]" None "[]"]
    by (simp add: stream_result_def stream_line_done [OF assms(1)])
qed

lemma tui_diagnosis_read:
  assumes cod: "codecs x" and nw: "keeps_bytes nw" and fits: "length (sent_bytes x (TuiDiagnose t sess True)) \<le> buffer_size"
  shows "\<exists>evs resp b. response_wf resp
    \<and> fst (service_peer nw x sv (sent_bytes x (TuiDiagnose t sess True)) (tp_peer a)) =
        Answer (nw (map (progress_frame x) evs @ [done_frame x resp])) None
    \<and> request_stream bad x (service_peer nw x sv) (TuiDiagnose t sess True) a =
        (Inr (tui_view x resp, map (\<lambda>ev. format_progress (runtime_event_json x ev)) evs), b)"
proof -
  let ?b = "sent_bytes x (TuiDiagnose t sess True)"
  have "decode_request x ?b = Some (Diagnose t sess True)" using tui_understood [OF cod, of "TuiDiagnose t sess True"] by simp
  then have req: "requested x (socket_of ?b (tp_peer a)) = Some (Diagnose t sess True)"
    using codecs_text(3) [OF cod] fits by (intro requested_of) (simp_all add: sent_bytes_def)
  obtain evs resp w where r: "response_wf resp"
      "service_peer nw x sv ?b (tp_peer a) = (Answer (nw (map (progress_frame x) evs @ [done_frame x resp])) None, w)"
    using service_answers [OF req, of nw sv] by (auto simp: streaming_def) (metis prod.collapse)
  then have "request_stream bad x (service_peer nw x sv) (TuiDiagnose t sess True) a =
      (Inr (tui_view x resp, map (\<lambda>ev. format_progress (runtime_event_json x ev)) evs), a\<lparr>tp_peer := w\<rparr>)"
    using tui_reads_stream [OF cod nw, of bad evs resp]
    by (simp add: request_stream_def sent_bytes_def bind_io_def dial_def read_to_end_def ret_def)
  with r show ?thesis by (intro exI [of _ evs] exI [of _ resp]) simp
qed

end
