(* ===== verification/Desk.thy ===== *)
theory Desk
  imports ServicePeer
begin

text \<open>
  A user at the terminal console of a running service, from the keyboard to the kernel: key presses interleave
  with everything else the service does (its background tasks, other clients). A key press is as many steps of
  the service as it sends requests, so what is proved of the service holds with the console in front of it.
\<close>

text \<open>A key that agrees to a pending call of the kill tool.\<close>

definition agrees_to_kill :: "key \<Rightarrow> 'w app \<Rightarrow> bool" where
  "agrees_to_kill k a \<longleftrightarrow>
     (\<exists>corr p scope. tp_pending a = Some (corr, p) \<and> pt_tool p = ''process.kill_request''
        \<and> confirm_key k = Some scope \<and> scope \<noteq> Cancel)"

inductive desk_step ::
  "channel \<Rightarrow> no_response \<Rightarrow> ext \<Rightarrow> (string list \<Rightarrow> string list) \<Rightarrow> service \<Rightarrow> (client_request \<Rightarrow> bool) \<Rightarrow>
   (key \<Rightarrow> service_state app \<Rightarrow> bool) \<Rightarrow> service_run \<times> service_state app \<Rightarrow> service_run \<times> service_state app \<Rightarrow> bool"
  for rc bad x nw sv allowed user where
  pressed:
    "user k a \<Longrightarrow> key_step bad x (service_peer nw x sv) k (a\<lparr>tp_peer := run_state s\<rparr>) = Some b \<Longrightarrow>
       desk_step rc bad x nw sv allowed user (s, a) (s\<lparr>run_state := tp_peer b\<rparr>, b)"
| elsewhere:
    "service_step rc x sv allowed s t \<Longrightarrow> desk_step rc bad x nw sv allowed user (s, a) (t, a)"

inductive_cases desk_stepE: "desk_step rc bad x nw sv allowed user (s, a) (t, b)"

text \<open>A documented property of compact JSON: the text of an object cut short is not JSON.\<close>

definition objects_end :: "ext \<Rightarrow> bool" where
  "objects_end x \<longleftrightarrow>
     (\<forall>v n. is_object v \<longrightarrow> n < length (json_text x v) \<longrightarrow> json_parse x (take n (json_text x v)) = None)"

lemma tui_object: "is_object (tui_request_json x r)"
  by (simp add: tui_request_json_def)

lemma requested_sent:
  assumes "codecs x" and "objects_end x" and "request_limit (tui_meaning r) < 2 ^ 64"
  shows "requested x (socket_of (sent_bytes x r) s) \<in> {None, Some (tui_meaning r)}"
proof (cases "length (sent_bytes x r) \<le> buffer_size")
  case True
  have "sent_bytes x r \<noteq> []" using codecs_text(3) [OF assms(1)] by (simp add: sent_bytes_def)
  from requested_of [OF tui_understood [OF assms(1,3)] this True] show ?thesis by simp
next
  case False
  then have "decode_request x (take buffer_size (sent_bytes x r)) = None"
    using assms(2) tui_object by (auto simp: decode_request_def objects_end_def sent_bytes_def)
  then show ?thesis by (simp add: requested_def socket_of_def service_state.defs)
qed

lemma key_is_steps:
  assumes cod: "codecs x" and ends: "objects_end x"
    and ok: "\<And>r. key_request k a = Some r \<Longrightarrow> allowed (tui_meaning r)"
    and step: "key_step bad x (service_peer nw x sv) k a = Some b" and state: "tp_peer a = run_state s"
  shows "(service_step rc x sv allowed)\<^sup>*\<^sup>* s (s\<lparr>run_state := tp_peer b\<rparr>)"
proof (cases "key_request k a")
  case None
  with key_step_peer [OF step] state have "s\<lparr>run_state := tp_peer b\<rparr> = s" by (simp add: asks_def)
  then show ?thesis by simp
next
  case (Some r)
  with key_step_peer [OF step] state
  have peer: "tp_peer b = snd (service_peer nw x sv (sent_bytes x r) (run_state s))" by (simp add: asks_def)
  have "pred_option allowed (requested x (socket_of (sent_bytes x r) (run_state s)))"
    using requested_sent [OF cod ends key_request_limit [OF Some], of "run_state s"] ok [OF Some] by auto
  from service_peer_step [OF this] show ?thesis unfolding peer by (rule r_into_rtranclp)
qed

lemma desk_is_steps:
  assumes "codecs x" and "objects_end x"
    and ok: "\<And>k a r. user k a \<Longrightarrow> key_request k a = Some r \<Longrightarrow> allowed (tui_meaning r)"
    and "(desk_step rc bad x nw sv allowed user)\<^sup>*\<^sup>* (s, a) (t, b)"
  shows "(service_step rc x sv allowed)\<^sup>*\<^sup>* s t"
  using assms(4)
proof (induction rule: rtranclp_induct2)
  case refl
  then show ?case by simp
next
  case (step u c t b)
  from step.hyps(2) have "(service_step rc x sv allowed)\<^sup>*\<^sup>* u t"
  proof (rule desk_stepE, goal_cases)
    case (1 k)
    have "key_request k (c\<lparr>tp_peer := run_state u\<rparr>) = key_request k c"
      by (cases "tp_pending c") (auto simp: key_request_def)
    with ok [OF 1(2)] key_is_steps [OF assms(1,2) _ 1(3), of allowed u] 1(1) show ?case by simp
  next
    case 2
    then show ?case by blast
  qed
  with step.IH show ?case by (rule rtranclp_trans)
qed

lemma refusing_user:
  assumes "\<not> agrees_to_kill k a" and "key_request k a = Some r"
  shows "no_kill_confirmation (tui_meaning r)"
proof (cases "\<exists>corr cid tool args scope sess. r = TuiConfirm corr cid tool args scope sess")
  case True
  then obtain corr cid tool args scope sess where r: "r = TuiConfirm corr cid tool args scope sess" by blast
  with assms show ?thesis
    by (auto simp: key_request_confirm agrees_to_kill_def no_kill_confirmation_def confirm_scope_of_def)
next
  case False
  then show ?thesis by (cases r) (auto simp: no_kill_confirmation_def)
qed

end
