(* ===== verification/ConsoleSamples.thy ===== *)
theory ConsoleSamples
  imports ServiceSamples Desk "HOL-Library.Countable"
begin

text \<open>
  Concrete inputs for the consoles. A text codec for all JSON values at once: values are countable, so a value
  is written as its number in ones, with a full stop at the end. One chosen value gets the number 0 and with
  it the shortest text. It satisfies everything the properties assume of a codec.
\<close>

instance uuid :: countable
  by countable_datatype

instance number :: countable
  by countable_datatype

instance json :: countable
  by countable_datatype

definition stroke :: char where
  "stroke = CHR ''1''"

definition full_stop :: char where
  "full_stop = CHR ''.''"

definition strokes :: "nat \<Rightarrow> string" where
  "strokes n = replicate n stroke @ [full_stop]"

definition number_of :: "json \<Rightarrow> json \<Rightarrow> nat" where
  "number_of j v = (if v = j then 0 else Suc (to_nat v))"

definition value_of :: "json \<Rightarrow> nat \<Rightarrow> json" where
  "value_of j n = (case n of 0 \<Rightarrow> j | Suc m \<Rightarrow> from_nat m)"

definition counting_ext :: "json \<Rightarrow> ext" where
  "counting_ext j =
     audit_ext\<lparr>json_text := (\<lambda>v. strokes (number_of j v)),
       json_parse := (\<lambda>s. if s \<noteq> [] \<and> last s = full_stop then Some (value_of j (length s - 1)) else None),
       uuid_text := (\<lambda>u. strokes (to_nat u)), uuid_parse := (\<lambda>s. Some (from_nat (length s - 1)))\<rparr>"

lemma value_of_number [simp]: "value_of j (number_of j v) = v"
  by (simp add: value_of_def number_of_def)

lemma strokes_last [simp]: "strokes n \<noteq> []" "last (strokes n) = full_stop" "length (strokes n) = Suc n"
  by (simp_all add: strokes_def)

text \<open>Printable ASCII is well-formed text, and is not trimmed.\<close>

lemma utf8_ascii: "list_all (\<lambda>c. of_char c < (128 :: nat)) s \<Longrightarrow> utf8_ok s"
proof (induction s)
  case (Cons c s)
  then have "utf8_ok [c]" by (simp add: utf8_ok_def utf8_lossy.simps(2) utf8_head_def followers_def)
  with Cons utf8_ok_append [of "[c]" s] show ?case by simp
qed (simp add: utf8_ok_def)

lemma strokes_utf8: "utf8_ok (strokes n)"
  by (rule utf8_ascii) (simp add: strokes_def stroke_def full_stop_def list_all_iff)

lemma strokes_trim: "trim (strokes n) = strokes n"
proof -
  have "ws_len (strokes n) = 0"
    by (cases n; cases "n - 1"; cases "n - 2")
      (simp_all add: strokes_def stroke_def full_stop_def ws_byte_def ws_bytes2_def ws_bytes3_def)
  moreover have "ws_len_end (full_stop # s) = 0" for s
    by (cases "full_stop # s" rule: ws_len_end.cases)
      (auto simp: full_stop_def ws_byte_def ws_bytes2_def ws_bytes3_def)
  then have "ws_len_end (rev (strokes n)) = 0" by (simp add: strokes_def)
  ultimately show ?thesis by (simp add: trim_def trim_start_def trim_end_def strip_ws_done)
qed

lemma strokes_one_line: "one_line (strokes n)"
  by (auto simp: one_line_def strokes_def stroke_def full_stop_def newline_def carriage_def)

lemma counting_codecs: "codecs (counting_ext j)"
  by (auto simp: codecs_def text_codec_on_def uuid_codec_on_def counting_ext_def strokes_one_line strokes_utf8
      strokes_trim blank_def)

lemma counting_ends: "objects_end (counting_ext j)"
proof -
  have "take k (strokes n) = replicate (min k n) stroke" if "k < Suc n" for k n
    using that by (simp add: strokes_def)
  then show ?thesis
    by (auto simp: objects_end_def counting_ext_def stroke_def full_stop_def)
qed

lemma counting_text [simp]: "json_text (counting_ext j) j = [full_stop]"
  by (simp add: counting_ext_def strokes_def number_of_def)

section \<open>A service, a page library\<close>

definition sample_service :: service where
  "sample_service =
     \<lparr>se_rt = sample_runtime audit_ext MockTools,
      se_meta = \<lparr>mt_config_path = None, mt_provider_name = ''mock'', mt_provider_kind = ''mock'', mt_tools_mode = ''mock'',
        mt_tool_names = [], mt_memory_enabled = False, mt_memory_path = None, mt_audit_path = ''audit.jsonl'',
        mt_sock = ''/tmp/saaios.sock'', mt_automation = True, mt_auto_diagnose = True, mt_telemetry = None,
        mt_max_concurrent = 1, mt_request_timeout_secs = 30\<rparr>,
      se_engine = \<lparr>ae_rules = []\<rparr>, se_disk = sample_disk, se_uptime = (\<lambda>n. 1)\<rparr>"

definition sample_web :: web_lib where
  "sample_web =
     \<lparr>wl_visible = (\<lambda>v. True), wl_sendable = (\<lambda>v. True), wl_page_query = (\<lambda>q. Some \<lparr>pq_kiosk = None, pq_token = None\<rparr>),
      wl_json_body = (\<lambda>c. Inl 415), wl_parse_addr = (\<lambda>s. None), wl_tls_error = (\<lambda>c k. None),
      wl_bind_error = (\<lambda>a. None), wl_index_html = ''<body>'', wl_app_css = [], wl_app_js = []\<rparr>"

definition sample_lan :: stage_args where
  "sample_lan =
     \<lparr>ar_sock = ''/tmp/saaios.sock'', ar_bind = ''127.0.0.1:7420'', ar_lan = True, ar_port = 7420,
      ar_token = Some ''secret'', ar_allow_open = False, ar_tls_cert = None, ar_tls_key = None, ar_kiosk = False\<rparr>"

definition silent_peer :: "unit peer" where
  "silent_peer = (\<lambda>bytes w. (NotConnected ''No such file or directory'', w))"

lemma sample_stage:
  "stage_main sample_web audit_ext silent_peer sample_lan () =
     (Inr (app_state_of sample_lan, \<lparr>sk_ip = [0, 0, 0, 0], sk_port = 7420\<rparr>, None), ())"
  by (simp add: stage_main_def resolve_bind_def tls_pair_def lan_guard_def sample_lan_def sample_web_def
      silent_peer_def ask_def dial_def io_defs)

lemma sample_requested: "requested (counting_ext j) (socket_of [full_stop] s) = request_of_json (counting_ext j) j"
  by (simp add: requested_def socket_of_def service_state.defs decode_request_def counting_ext_def value_of_def buffer_size_def)

text \<open>Typing a letter that is no command is a step at the desk.\<close>

lemma typing_step:
  "desk_step rc bad x nw sv allowed (\<lambda>k a. \<not> agrees_to_kill k a)
     (s, app_new sock (run_state s)) (s, (app_new sock (run_state s))\<lparr>tp_input := [''w'']\<rparr>)"
proof -
  let ?a = "app_new sock (run_state s)"
  have key: "key_step bad x (service_peer nw x sv) (KeyChar ''w'') (?a\<lparr>tp_peer := run_state s\<rparr>) = Some (?a\<lparr>tp_input := [''w'']\<rparr>)"
    by (simp add: key_step_def confirm_key_def shortcut_def plain_key_def app_new_def)
  have user: "\<not> agrees_to_kill (KeyChar ''w'') ?a" by (simp add: agrees_to_kill_def app_new_def)
  have "s\<lparr>run_state := tp_peer (?a\<lparr>tp_input := [''w'']\<rparr>)\<rparr> = s" by (simp add: app_new_def)
  with desk_step.pressed [where user = "\<lambda>k a. \<not> agrees_to_kill k a" and rc = rc and allowed = allowed, OF user key]
  show ?thesis by simp
qed

lemma typing_run:
  "(desk_step rc bad x nw sv allowed (\<lambda>k a. \<not> agrees_to_kill k a))\<^sup>*\<^sup>*
     (s, app_new sock (run_state s)) (s, (app_new sock (run_state s))\<lparr>tp_input := [''w'']\<rparr>)"
  by (rule r_into_rtranclp) (rule typing_step)

end
