(* ===== verification/ComponentFacts.thy ===== *)
theory ComponentFacts
  imports Observations ConsoleSamples
begin

text \<open>
  Further facts of single components, with the instances that show their hypotheses can hold: single requests
  and confirmations, the registry, the conversation and the feed, the mock provider, the automation rules,
  the boot slots, the status, the relay of the web console.
\<close>

text \<open>Even with every grant, a request only signals processes with an identifier above 1 that are not
  the runtime itself, and only with the seven allowed signals.\<close>

theorem request_signals_are_sane:
  assumes "ai_tools rt = boot_registry x os mode it mem"
    and "provider_climbs same_signals (ai_provider rt)"
  shows "\<exists>new. signals (p_host (snd (handle_user_text_in_session x rt req sess w s))) = signals (p_host s) @ new
    \<and> (\<forall>(pid, sig) \<in> set new. 1 < pid \<and> pid \<noteq> os_self os \<and> sig \<in> set allowed_signals)"
proof -
  have "allowed_tools_climb (sane_signals os) x (ai_tools rt) (a_policy s)"
    using boot_tools_sane assms(1) by (simp add: allowed_tools_climb_def)
  from session_request_host [OF contract_sane [OF assms(2)] this prod.collapse [symmetric]]
  show ?thesis by (simp add: sane_signals_def)
qed

theorem request_signals_are_sane_witness:
  "\<exists>new. signals (p_host (snd (handle_user_text_in_session audit_ext (sample_runtime audit_ext RealLinux) ''stop it''
      None False (sample_state\<lparr>a_policy := grant_session ''process.kill_request'' policy_new\<rparr>)))) = signals sample_host @ new
    \<and> (\<forall>(pid, sig) \<in> set new. 1 < pid \<and> pid \<noteq> 77 \<and> sig \<in> set allowed_signals)"
  using request_signals_are_sane
    [OF sample_runtime_tools
      sample_provider [OF same_signals.state_preorder_axioms draws_same_signals],
      where req = "''stop it''" and sess = None and w = False and x = audit_ext and mode = RealLinux
        and s = "sample_state\<lparr>a_policy := grant_session ''process.kill_request'' policy_new\<rparr>"]
  by (simp add: sample_state_def sample_os_def)

text \<open>A confirmation of any tool with any arguments in any scope keeps to the same processes and
  signals.\<close>

theorem confirm_signals_are_sane:
  assumes "ai_tools rt = boot_registry x os mode it mem"
  shows "\<exists>new. signals (p_host (snd (confirm_in_session x rt corr sess cid tool args scope s))) = signals (p_host s) @ new
    \<and> (\<forall>(pid, sig) \<in> set new. 1 < pid \<and> pid \<noteq> os_self os \<and> sig \<in> set allowed_signals)"
proof -
  have "climbs (sane_signals os) (te_execute t args ctx)" if "registry_get (ai_tools rt) tool = Some t" for t ctx
    using boot_tools_sane that assms(1) by simp
  from confirm_host [OF relation_sane this prod.collapse [symmetric]]
  show ?thesis by (simp add: sane_signals_def)
qed

theorem confirm_signals_are_sane_witness:
  "\<exists>new. signals (p_host (snd (confirm_in_session audit_ext (sample_runtime audit_ext RealLinux) nil_uuid None nil_uuid
      ''process.kill_request'' (Object [(''pid'', nat_json 4312)]) Once sample_state))) = signals sample_host @ new
    \<and> (\<forall>(pid, sig) \<in> set new. 1 < pid \<and> pid \<noteq> 77 \<and> sig \<in> set allowed_signals)"
  using confirm_signals_are_sane
    [OF sample_runtime_tools,
      where corr = nil_uuid and sess = None and cid = nil_uuid and tool = "''process.kill_request''"
        and args = "Object [(''pid'', nat_json 4312)]" and scope = Once and s = sample_state and x = audit_ext
        and mode = RealLinux]
  by (simp add: sample_state_def sample_os_def)

text \<open>A user request never changes the session grants or the number of free slots: what the model says
  cannot open the gate, and the slot is given back on success, failure and timeout.\<close>

theorem request_keeps_grants_and_slots:
  "a_policy (snd (handle_user_text_in_session x rt req sess w s)) = a_policy s
   \<and> a_slots (snd (handle_user_text_in_session x rt req sess w s)) = a_slots s"
proof -
  obtain r t where rt: "handle_user_text_in_session x rt req sess w s = (r, t)" by fastforce
  have "a_policy t = a_policy s"
    using rt by (auto simp: session_run Let_def try_acquire_def release_def keeps_gate_def
        split: nat.splits prod.splits dest!: inner_keeps_gate)
  with rt session_slots [OF rt] show ?thesis by simp
qed

text \<open>The only call that adds a grant is a confirmation with session scope, and it adds the tool it
  names and nothing else.\<close>

theorem confirmation_grants_at_most_its_tool:
  "session_allows (a_policy (snd (confirm_in_session x rt corr sess cid tool args scope s)))
     \<in> {session_allows (a_policy s)}
       \<union> (if scope = Session then {List.insert tool (session_allows (a_policy s))} else {})"
proof -
  obtain r t where rt: "confirm_in_session x rt corr sess cid tool args scope s = (r, t)" by fastforce
  from confirm_grants [OF this] rt show ?thesis by (auto simp: grant_session_def)
qed

text \<open>All envelopes a request publishes carry its correlation id, so the audit query by that id gives
  its whole history.\<close>

theorem request_has_one_correlation_id:
  "\<exists>es. p_bus (snd (handle_user_text_inner x rt req corr sid w s)) = p_bus s @ es
     \<and> list_all (\<lambda>e. env_correlation_id e = corr) es"
proof -
  have "climbs (same_correlation corr) (handle_user_text_inner x rt req corr sid w)"
    by (rule correlation_frame.inner_ok)
  then show ?thesis by (auto simp: climbs_def same_correlation_def list_all_iff)
qed

text \<open>When no slot is free the request is refused before anything is recorded: only identifiers are
  drawn.\<close>

theorem busy_runtime_refuses:
  assumes "a_slots s = 0"
  shows "\<exists>msg. handle_user_text_in_session x rt req sess w s =
    (Inl (Failed msg), s\<lparr>p_host := (p_host s)\<lparr>uuid_next := uuid_next (p_host s) + (if sess = None then 2 else 1)\<rparr>\<rparr>)"
  using session_busy [OF assms, of x rt req sess w] by (simp add: drawn_def)

theorem busy_runtime_refuses_witness:
  "\<exists>msg. handle_user_text_in_session audit_ext (sample_runtime audit_ext MockTools) ''hi'' None False
      (sample_state\<lparr>a_slots := 0\<rparr>) =
    (Inl (Failed msg), sample_state\<lparr>a_slots := 0, p_host := sample_host\<lparr>uuid_next := 2\<rparr>\<rparr>)"
  using busy_runtime_refuses [of "sample_state\<lparr>a_slots := 0\<rparr>" audit_ext "sample_runtime audit_ext MockTools" "''hi''" None False]
  by (simp add: sample_state_def sample_host_def numeral_2_eq_2)

text \<open>The grant set refines its specification: after any sequence of grants and clearings from a fresh
  engine, \<open>session_grants\<close> is the sorted list, without repetition, of the tools granted since the last
  clearing.\<close>

theorem session_grants_refine:
  "session_grants (fold policy_step ops policy_new) = sorted_list_of_set (granted_since_clear ops {})"
proof -
  let ?l = "session_allows (fold policy_step ops policy_new)"
  have "set ?l = granted_since_clear ops {}"
    using policy_run_set [of ops policy_new] by (simp add: policy_new_def)
  moreover have "distinct ?l"
    using policy_run_wf [of policy_new ops] by (simp add: policy_wf_def policy_new_def)
  ultimately show ?thesis
    by (simp add: session_grants_def sorted_list_of_set_sort_remdups distinct_remdups_id flip: \<open>set ?l = _\<close>)
qed

text \<open>\<open>decide_named\<close> gives the verdict of a fresh engine on the specification when it is known under
  the name asked about, and denies an unknown name.\<close>

theorem decide_named_is_fresh_decision:
  "decide_named x (ts_name sp) (Some sp) args = decide x policy_new sp args
   \<and> pd_verdict (decide_named x tool None args) = Deny"
  unfolding decide_named_def decide_def by (simp split: if_split)

text \<open>The registry of the service finds each of its tools under its own name.\<close>

theorem boot_registry_finds_every_tool:
  "map (\<lambda>t. registry_get (boot_registry x os mode it (Some ms)) (ts_name (te_spec t)))
       (system_tools (mode_backend x os mode) @ memory_tools it x ms)
     = map Some (system_tools (mode_backend x os mode) @ memory_tools it x ms)"
proof -
  let ?ts = "system_tools (mode_backend x os mode) @ memory_tools it x ms"
  have "boot_registry x os mode it (Some ms) = fold register ?ts registry_new"
    by (simp add: boot_registry_def install_system_tools_def install_memory_tools_def mode_backend_def Let_def)
  moreover have "distinct (map (\<lambda>t. ts_name (te_spec t)) ?ts)"
    unfolding boot_names by simp
  ultimately have "registry_get (boot_registry x os mode it (Some ms)) (ts_name (te_spec t)) = Some t" if "t \<in> set ?ts" for t
    using that registry.lookup_fold by metis
  then show ?thesis by (intro map_cong refl)
qed

text \<open>A call of a tool that is not registered, or with arguments that are neither an object nor null,
  fails with the matching error and touches nothing.\<close>

theorem refused_tool_calls_touch_nothing:
  assumes "registry_get r n = None \<or> \<not> is_object args \<and> args \<noteq> Null"
  shows "\<exists>e. registry_execute r n args ctx h = (Inl e, h)
    \<and> (e = UnknownTool n \<longleftrightarrow> registry_get r n = None)
    \<and> (\<not> is_object args \<and> args \<noteq> Null \<and> registry_get r n \<noteq> None \<longrightarrow>
         e = InvalidArgs ''arguments must be object or null'')"
  using assms registry_execute_unknown [of r n args ctx h] registry_execute_bad_args [of r n _ args ctx h]
  by (cases "registry_get r n") auto

theorem refused_tool_calls_touch_nothing_witness:
  "\<exists>e. registry_execute (boot_registry audit_ext sample_os MockTools (\<lambda>fs. fs) None) ''system.poweroff'' Null
      \<lparr>tc_correlation_id = nil_uuid, tc_call_id = nil_uuid\<rparr> sample_host = (Inl e, sample_host)
    \<and> e = UnknownTool ''system.poweroff''"
proof -
  have none: "registry_get (boot_registry audit_ext sample_os MockTools (\<lambda>fs. fs) None) ''system.poweroff'' = None"
    using system_poweroff_absent by (simp add: boot_registry_def install_system_tools_def registry.lookup_fold_None)
  from refused_tool_calls_touch_nothing [OF disjI1 [OF this], of Null
      "\<lparr>tc_correlation_id = nil_uuid, tc_call_id = nil_uuid\<rparr>" sample_host] none
  show ?thesis by auto
qed

text \<open>The query by correlation id returns exactly the records of that id, in the order of the file.\<close>

theorem correlation_query_is_filter:
  assumes "open_src h (open_next h)" and "holds (audit_parse x) (files h AuditFile) rs"
  shows "list_by_correlation x lg corr h =
    (Inr [r \<leftarrow> rs. ar_correlation_id r = corr], h\<lparr>open_next := Suc (open_next h)\<rparr>)"
  using read_records_run [OF assms] by (simp add: list_by_correlation_def audit_read_all_def io_defs)

theorem correlation_query_is_filter_witness:
  "list_by_correlation audit_ext \<lparr>al_path = ''audit.jsonl''\<rparr> nil_uuid sample_host = (Inr [], sample_host\<lparr>open_next := 1\<rparr>)"
  using correlation_query_is_filter [OF _ sample_holds, of audit_ext "\<lparr>al_path = ''audit.jsonl''\<rparr>" nil_uuid]
  by (simp add: sample_host_def)

text \<open>Replay is a dry run over the records: one step per record in order, a step is marked as a side
  effect if and only if it is a call of one of the three dangerous tools, each such call and each question
  put to the user is listed once as avoided, and the summary is the last diagnose result or else the first
  assistant message.\<close>

theorem replay_report_shape:
  "let rep = replay_report_of x corr rs in
     rr_dry_run rep
     \<and> map rs_kind (rr_steps rep) = map ar_kind rs
     \<and> map rs_side_effect (rr_steps rep) = map (\<lambda>r. ar_kind r = ToolCall \<and> dangerous_tool (payload_tool r)) rs
     \<and> length (rr_side_effects_avoided rep) = length (filter avoids rs)
     \<and> rr_summary rep =
         (if diagnose_summaries rs \<noteq> [] then Some (last (diagnose_summaries rs))
          else case assistant_texts rs of [] \<Rightarrow> None | t # _ \<Rightarrow> Some t)"
  using replay_loop_steps [of x rs replay_start] replay_loop_flags [of x rs replay_start]
    replay_loop_effects [of x rs replay_start] replay_loop_summary [of x rs replay_start]
  by (simp add: replay_report_of_def replay_start_def split_beta Let_def summary_spec_closed)

text \<open>Forgetting a key that is live appends one tombstone; afterwards the key has no fact and every
  other key keeps its own. Forgetting a key that is not live writes nothing.\<close>

theorem forget_removes_exactly_its_key:
  assumes "open_src h (open_next h)" and "holds (fact_parse x) (files h MemoryFile) fs" and "some_order it"
    and "forget it x ms key h = (Inr res, h')"
  shows "case res of
      None \<Rightarrow> live_fact fs key = None \<and> files h' MemoryFile = files h MemoryFile
    | Some tomb \<Rightarrow>
        files h' MemoryFile = files h MemoryFile @ fact_line x tomb @ [newline]
        \<and> (\<lambda>k. live_fact (fs @ [tomb]) k) = (live_fact fs)(key := None)
        \<and> (fact_codec x tomb \<longrightarrow> holds (fact_parse x) (files h' MemoryFile) (fs @ [tomb]))"
proof (cases res)
  case None
  then have "live_fact fs key = None"
    using assms(4) latest_run [OF assms(1,2)] view_find [OF assms(3)]
    by (auto simp: forget_def io_defs Let_def split: option.splits prod.splits sum.splits)
  then have "h' = h\<lparr>open_next := Suc (open_next h)\<rparr>"
    using assms(4) forget_absent [OF assms(1-3)] by simp
  with None \<open>live_fact fs key = None\<close> show ?thesis by simp
next
  case (Some tomb)
  with forget_appends [OF _ assms(3,2,1), where ms = ms and key = key and tomb = tomb and h' = h'] assms(4)
  have t: "mf_key tomb = key" "mf_deleted tomb"
      "files h' MemoryFile = files h MemoryFile @ fact_line x tomb @ [newline]"
    by auto
  then have "(\<lambda>k. live_fact (fs @ [tomb]) k) = (live_fact fs)(key := None)"
    by (auto simp: live_fact_snoc)
  moreover have "fact_codec x tomb \<longrightarrow> holds (fact_parse x) (files h' MemoryFile) (fs @ [tomb])"
    using fact_lines.holds_snoc [OF assms(2)] t(3) by simp
  ultimately show ?thesis using Some t by simp
qed

theorem forget_removes_exactly_its_key_witness:
  "live_fact [] ''host'' = None \<and> files (snd (forget rev audit_ext \<lparr>ms_path = ''m''\<rparr> ''host'' sample_host)) MemoryFile = []"
proof -
  have run: "forget rev audit_ext \<lparr>ms_path = ''m''\<rparr> ''host'' sample_host = (Inr None, sample_host\<lparr>open_next := 1\<rparr>)"
    using forget_absent [OF _ sample_holds, of rev "''host''" audit_ext "\<lparr>ms_path = ''m''\<rparr>"]
    by (simp add: sample_host_def some_order_def live_fact_def last_fact_def)
  from forget_removes_exactly_its_key [OF _ sample_holds _ this] show ?thesis
    by (simp add: run) (simp add: sample_host_def some_order_def)
qed

text \<open>Trimming never leaves a tool result without its context at the head of a cut history, loses
  beyond the oldest messages only such orphans, and changes nothing when applied again.\<close>

theorem trimming_drops_only_orphans:
  "trim_messages (trim_messages ms n) n = trim_messages ms n
   \<and> (if length ms \<le> n then trim_messages ms n = ms
      else (\<exists>orphans. drop (length ms - n) ms = orphans @ trim_messages ms n \<and> list_all orphan_result orphans)
        \<and> (case trim_messages ms n of [] \<Rightarrow> True | m # _ \<Rightarrow> \<not> orphan_result m))"
proof (cases "length ms \<le> n")
  case True
  then show ?thesis by (simp add: trim_messages_def)
next
  case False
  then show ?thesis
    using trim_keeps [of n ms] trim_no_orphan [of n ms]
    by (auto simp: trim_idem list_all_iff split: list.split)
qed

text \<open>The event feed holds exactly the most recent items, as many as its capacity (at least one), and
  \<open>tail\<close> gives the last of them in order.\<close>

theorem feed_holds_most_recent:
  "ef_items (fold feed_push items (feed_new c)) = last_n (max c 1) items
   \<and> feed_tail limit (fold feed_push items (feed_new c)) = last_n limit (last_n (max c 1) items)"
  using feed.run_exact [OF feed_wf_new, of items c] by (simp add: feed_tail_last_n) (simp add: feed_new_def)

text \<open>The pieces the mock provider streams are non-empty and make up exactly the text it returns, and
  what it streams is what it would answer without streaming.\<close>

theorem mock_stream_is_answer:
  "case (mock_stream x msgs tools (h, []), mock_complete x msgs tools h) of
     ((Inr r, (h1, pieces)), (Inr r', h2)) \<Rightarrow>
       r = r' \<and> h1 = h2 \<and> concat pieces = unwrap_or (mr_assistant_text r) [] \<and> [] \<notin> set pieces
   | _ \<Rightarrow> False"
proof -
  obtain r h' where c: "mock_complete x msgs tools h = (Inr r, h')"
    using mock_complete_total [of x msgs tools h] by blast
  show ?thesis
  proof (cases "mr_assistant_text r")
    case None
    then show ?thesis using c by (simp add: mock_stream_def on_host_def io_defs)
  next
    case (Some t)
    then have "mock_stream x msgs tools (h, []) = (Inr r, (h', split_inclusive (CHR '' '') t))"
      using c by (simp add: mock_stream_def on_host_def send_pieces_def io_defs)
    with c Some split_inclusive_nonempty [of "[]" "CHR '' ''" t] show ?thesis by auto
  qed
qed

text \<open>A chain of providers streams cleanly when its members do: the pieces make up the answer, and a
  chain that fails has sent nothing.\<close>

theorem fallback_of_clean_is_clean:
  assumes "\<forall>p \<in> set ps. clean_stream (mp_stream p)"
  shows "case fallback_stream ps None msgs tools (h, []) of
      (Inr r, (h', pieces)) \<Rightarrow> concat pieces = unwrap_or (mr_assistant_text r) []
    | (Inl e, (h', pieces)) \<Rightarrow> pieces = []"
  using honest_stream.sent_text [OF clean_stream.axioms(1) [OF fallback_stream_clean [OF assms]], of None msgs tools h]
    clean_stream.quiet [OF fallback_stream_clean [OF assms], of None msgs tools h "[]"]
  by (auto split: prod.split sum.split)

theorem fallback_of_clean_is_clean_witness:
  "case fallback_stream [mock_provider audit_ext] None [] [] (sample_host, []) of
      (Inr r, (h', pieces)) \<Rightarrow> concat pieces = unwrap_or (mr_assistant_text r) []
    | (Inl e, (h', pieces)) \<Rightarrow> pieces = []"
  using fallback_of_clean_is_clean [of "[mock_provider audit_ext]" "[]" "[]" sample_host]
  by (simp add: mock_provider_def mock_clean.clean_stream_axioms)

text \<open>Before any rule has fired the engine computes what the offline matcher computes, and touches
  nothing.\<close>

theorem fresh_engine_is_matcher:
  assumes "au_last_fired s = []" and "\<not> au_poisoned s"
  shows "evaluate x eng env s = (Inr (evaluate_once x (ae_rules eng) env), s)"
  using evaluate_rules_fresh [of s "ae_rules eng" x env] assms by (simp add: evaluate_def)

theorem fresh_engine_is_matcher_witness:
  "evaluate audit_ext \<lparr>ae_rules = default_rules\<rparr> sample_envelope
      \<lparr>p_host = sample_host, p_bus = [], au_last_fired = [], au_poisoned = False\<rparr>
    = (Inr [], \<lparr>p_host = sample_host, p_bus = [], au_last_fired = [], au_poisoned = False\<rparr>)"
proof -
  have "evaluate_once audit_ext default_rules sample_envelope = []"
    by (simp add: default_rules_def matcher_matches_def sample_envelope_def)
  with fresh_engine_is_matcher [of "\<lparr>p_host = sample_host, p_bus = [], au_last_fired = [], au_poisoned = False\<rparr>"
      audit_ext "\<lparr>ae_rules = default_rules\<rparr>" sample_envelope]
  show ?thesis by simp
qed

text \<open>The cooldown only ever holds firings back: what the engine returns is a subsequence of what the
  matcher returns, a rule that has not fired before is not left out, and evaluation changes neither the
  firing table nor the bus nor any file.\<close>

theorem cooldown_only_holds_back:
  "case evaluate x eng env s of
     (Inl p, t) \<Rightarrow> au_last_fired t = au_last_fired s \<and> p_bus t = p_bus s
   | (Inr fs, t) \<Rightarrow>
       subseq fs (evaluate_once x (ae_rules eng) env)
       \<and> {f \<in> set (evaluate_once x (ae_rules eng) env). map_of (au_last_fired s) (af_rule_id f) = None} \<subseteq> set fs
       \<and> au_last_fired t = au_last_fired s \<and> p_bus t = p_bus s \<and> files (p_host t) = files (p_host s)"
proof -
  obtain r t where e: "evaluate_rules x (ae_rules eng) env s = (r, t)" by fastforce
  have "only_clock s t" by (rule only_clock.climbs_run [OF only_clock_evaluate e])
  then show ?thesis
    using evaluate_rules_sound [of x "ae_rules eng" env s _ t] e
    by (cases r) (auto simp: evaluate_def only_clock_def)
qed

text \<open>A firing that succeeds is the last envelope published and the last line of the audit file; it is an
  event of the correlation id of its trigger and names the trigger as its cause.\<close>

theorem applied_firing_is_audited:
  assumes "apply_fire x f s = (Inr out, t)"
  shows "p_bus t = p_bus s @ [out]
    \<and> files (p_host t) AuditFile = files (p_host s) AuditFile @ envelope_line x out
    \<and> env_kind out = Event \<and> env_payload out = fire_payload f
    \<and> env_correlation_id out = af_correlation_id f \<and> env_causation_id out = Some (af_causation_id f)"
  using apply_fire_Inr [OF assms] by blast

theorem applied_firing_is_audited_witness:
  "\<exists>out t. apply_fire audit_ext (fire_of (hd default_rules) sample_envelope ''d'')
        \<lparr>p_host = sample_host, p_bus = [], au_last_fired = [], au_poisoned = False\<rparr> = (Inr out, t)
      \<and> p_bus t = [out] \<and> env_causation_id out = Some nil_uuid"
proof -
  let ?s = "\<lparr>p_host = sample_host, p_bus = [], au_last_fired = [], au_poisoned = False\<rparr>"
  have "\<exists>out t. apply_fire audit_ext (fire_of (hd default_rules) sample_envelope ''d'') ?s = (Inr out, t)"
    by (simp add: apply_fire_def mark_fired_def record_envelope_run append_envelope_def audit_append_def
        append_record_def write_all_def publish_envelope_def envelope_new_def on_plant_def io_simps Let_def
        sample_host_def)
  then obtain out t where "apply_fire audit_ext (fire_of (hd default_rules) sample_envelope ''d'') ?s = (Inr out, t)"
    by blast
  from this applied_firing_is_audited [OF this] show ?thesis
    by (auto simp: fire_of_def sample_envelope_def)
qed

text \<open>The engine does not feed on itself: receiving any number of events that firings of notify, suggest
  or diagnose rules produced, the loop does nothing.\<close>

theorem own_events_are_ignored:
  assumes "list_all (\<lambda>(f, e). (case af_action f of EmitEvent n p \<Rightarrow> False | _ \<Rightarrow> True)
      \<and> env_kind e = Event \<and> env_payload e = fire_payload f) fes"
  shows "run_loop x eng (map (\<lambda>(f, e). Got e) fes) s = (Inr (), s)"
proof -
  have "own_event e" if "(f, e) \<in> set fes" for f e
    using that assms fire_payload_own [of f e] by (cases "af_action f") (auto simp: list_all_iff)
  then have "\<forall>e \<in> set (map snd fes). own_event e" by auto
  moreover have "map (\<lambda>(f, e). Got e) fes = map Got (map snd fes)" by auto
  ultimately show ?thesis by (simp only: run_loop_own)
qed

theorem own_events_are_ignored_witness:
  "run_loop audit_ext \<lparr>ae_rules = default_rules\<rparr>
      [Got (sample_envelope\<lparr>env_kind := Event, env_payload := fire_payload (fire_of (hd default_rules) sample_envelope ''d'')\<rparr>)]
      \<lparr>p_host = sample_host, p_bus = [], au_last_fired = [], au_poisoned = False\<rparr>
    = (Inr (), \<lparr>p_host = sample_host, p_bus = [], au_last_fired = [], au_poisoned = False\<rparr>)"
  using own_events_are_ignored [of "[(fire_of (hd default_rules) sample_envelope ''d'',
      sample_envelope\<lparr>env_kind := Event, env_payload := fire_payload (fire_of (hd default_rules) sample_envelope ''d'')\<rparr>)]"
      audit_ext "\<lparr>ae_rules = default_rules\<rparr>"]
  by (simp add: default_rules_def fire_of_def)

text \<open>The default rules: a successful metrics result makes the CPU rules fire exactly from 85 percent and
  the memory rule exactly from 90 percent of use, in the order of the rules; the automatic diagnosis joins
  them only once it is enabled.\<close>

theorem default_rules_thresholds:
  assumes "env_kind env = ToolResult" and "get_str (env_payload env) ''tool'' = Some ''system.metrics''"
    and "get_bool (env_payload env) ''ok'' = Some True"
    and "Option.bind (pointer ''/output/cpu_usage'' (env_payload env)) as_f64 = Some (Fin cpu)"
    and "Option.bind (pointer ''/output/mem_used_pct'' (env_payload env)) as_f64 = Some (Fin mem)"
  shows "map af_rule_id (evaluate_once x (ae_rules (set_auto_diagnose_rule auto \<lparr>ae_rules = default_rules\<rparr>)) env) =
    (if 85 \<le> cpu then [''high-cpu-suggest''] @ (if auto then [''high-cpu-auto-diagnose''] else []) @ [''high-cpu-notify'']
     else [])
    @ (if 90 \<le> mem then [''high-mem-notify''] else [])"
  by (simp add: set_auto_diagnose_rule_def default_rules_def matcher_threshold [OF assms(1-4)]
      matcher_threshold [OF assms(1-3,5)] matcher_other_tool [OF assms(1,2)] matcher_no_event assms(1) fire_of_def)

theorem default_rules_thresholds_witness:
  "map af_rule_id (evaluate_once audit_ext
      (ae_rules (set_auto_diagnose_rule False \<lparr>ae_rules = default_rules\<rparr>))
      (sample_envelope\<lparr>env_kind := ToolResult,
         env_payload := Object [(''tool'', String ''system.metrics''), (''ok'', Bool True),
           (''output'', system_metrics_json mock_metrics)]\<rparr>))
    = [''high-cpu-suggest'', ''high-cpu-notify'']"
proof -
  let ?e = "sample_envelope\<lparr>env_kind := ToolResult,
         env_payload := Object [(''tool'', String ''system.metrics''), (''ok'', Bool True),
           (''output'', system_metrics_json mock_metrics)]\<rparr>"
  have "Option.bind (pointer ''/output/cpu_usage'' (env_payload ?e)) as_f64 = Some (Fin 97)"
    "Option.bind (pointer ''/output/mem_used_pct'' (env_payload ?e)) as_f64 = Some (Fin (127 / 2))"
    by (simp_all add: pointer_def step_into_def system_metrics_json_def mock_metrics_def double_json_def)
  from default_rules_thresholds [OF _ _ _ this] show ?thesis by simp
qed

text \<open>Whatever the file, the environment and the command line say, the resolved budgets and the
  telemetry interval are at least 1; telemetry follows the command line, then the environment, then the
  file, where off beats on among the flags; and memory, automation and automatic diagnosis are never on
  when their flag forbids it.\<close>

theorem settings_bounds_and_switches:
  "case resolve su ov of
     Inl e \<Rightarrow> True
   | Inr st \<Rightarrow> \<exists>cfg. base_config su ov = Inr cfg
       \<and> 1 \<le> st_max_concurrent st \<and> 1 \<le> st_request_timeout_secs st \<and> 1 \<le> st_max_tool_iters st
       \<and> 1 \<le> st_telemetry_interval_secs st
       \<and> st_telemetry_enabled st =
           (if cli_no_telemetry ov then False else if cli_telemetry ov then True
            else (let flag = unwrap_or (su_env su ''SAAIOS_TELEMETRY'') []
                  in if telemetry_on flag then True else if telemetry_off flag then False
                     else (case tm_mode (cf_telemetry cfg) of TelemetryOn \<Rightarrow> True | TelemetryOff \<Rightarrow> False
                           | TelemetryAuto \<Rightarrow> st_real_linux st)))
       \<and> \<not> (cli_no_memory ov \<and> st_memory_enabled st) \<and> \<not> (cli_no_automation ov \<and> st_automation_enabled st)
       \<and> \<not> (cli_no_auto_diagnose ov \<and> st_auto_diagnose st)"
proof (cases "base_config su ov")
  case (Inl e)
  then show ?thesis by (simp add: resolve_base)
next
  case (Inr cfg)
  from resolve_bounds [OF this] obtain st where st: "resolve su ov = Inr st"
    "1 \<le> st_max_concurrent st" "1 \<le> st_request_timeout_secs st" "1 \<le> st_max_tool_iters st"
    "1 \<le> st_telemetry_interval_secs st"
    "st_telemetry_enabled st = resolve_telemetry su ov (tm_mode (cf_telemetry cfg)) (st_real_linux st)"
    "cli_no_memory ov \<longrightarrow> \<not> st_memory_enabled st" "cli_no_automation ov \<longrightarrow> \<not> st_automation_enabled st"
    "cli_no_auto_diagnose ov \<longrightarrow> \<not> st_auto_diagnose st"
    by blast
  from st(2-) Inr show ?thesis
    unfolding st(1) sum.case resolve_telemetry_layers by blast
qed

text \<open>What a client serializes is what the service reads: the text of a request, as long as the JSON codec
  reads back that one value and the identifiers in it, decodes to the request.\<close>

theorem request_text_roundtrip:
  assumes "json_parse x (json_text x (request_json x r)) = Some (request_json x r)"
    and "uuid_codec_on x (request_uuids r)" and "request_limit r < 2 ^ 64"
  shows "decode_request x (json_text x (request_json x r)) = Some r"
  using assms request_roundtrip by (simp add: decode_request_def)

theorem request_text_roundtrip_witness:
  "decode_request (sample_ext (request_json audit_ext (Diagnose ''hi'' (Some nil_uuid) True)))
     (json_text (sample_ext (request_json audit_ext (Diagnose ''hi'' (Some nil_uuid) True)))
       (request_json (sample_ext (request_json audit_ext (Diagnose ''hi'' (Some nil_uuid) True)))
         (Diagnose ''hi'' (Some nil_uuid) True)))
   = Some (Diagnose ''hi'' (Some nil_uuid) True)"
proof -
  let ?r = "Diagnose ''hi'' (Some nil_uuid) True"
  let ?x = "sample_ext (request_json audit_ext ?r)"
  have "request_json ?x ?r = request_json audit_ext ?r"
    by (simp add: request_json_def uuid_json_def opt_json_def audit_ext_def)
  then show ?thesis
    by (intro request_text_roundtrip) (simp_all add: uuid_codec_on_def)
qed

text \<open>The status of a service that listens names exactly its tools, in alphabetical order: the seven system
  tools, and the three memory tools if the settings enable the store.\<close>

theorem status_names_the_tools:
  assumes "service_main x mc su ov rep h = (Inr (Listening sv printed s), h')" and "some_order (mc_tool_order mc)"
  shows "\<exists>st t. meta_status sv s = (Inr st :: panic + runtime_status_dto, t)
    \<and> rs_tools st = installed_names (rs_memory_enabled st) \<and> rs_tool_count st = length (rs_tools st)
    \<and> sorted (rs_session_grants st)"
proof -
  obtain st mem p kind where
    meta: "se_meta sv = service_meta mc st (boot_registry x (mc_os mc) (mode_of st) (mc_fact_order mc) mem) mem p kind"
    using main_meta [OF assms(1)] by blast
  obtain dto t where run: "meta_status sv s = (Inr dto :: panic + runtime_status_dto, t)" using status_total by blast
  then have "rs_tools dto = mt_tool_names (se_meta sv)" "rs_tool_count dto = length (mt_tool_names (se_meta sv))"
    "rs_memory_enabled dto = mt_memory_enabled (se_meta sv)" "sorted (rs_session_grants dto)"
    by (auto simp: meta_status_def runtime_session_grants_def session_grants_def ret_def reads_def Let_def
        dest!: bind_io_Inr)
  with run show ?thesis by (auto simp: meta service_meta_def boot_registry_names [OF assms(2)])
qed

theorem status_names_the_tools_witness:
  "\<exists>sv s h' st t. service_main audit_ext sample_machine sample_surroundings sample_overrides None sample_host =
     (Inr (Listening sv [] s), h') \<and> meta_status sv s = (Inr st :: panic + runtime_status_dto, t)
     \<and> rs_tools st = installed_names (rs_memory_enabled st)"
proof -
  obtain sv s h' where run: "service_main audit_ext sample_machine sample_surroundings sample_overrides None sample_host =
     (Inr (Listening sv [] s), h')" using sample_listening by blast
  have "some_order (mc_tool_order sample_machine)" by (simp add: sample_machine_def some_order_def)
  from status_names_the_tools [OF run this] run show ?thesis by blast
qed

text \<open>However the fragments of several tool calls arrive interleaved, the call at an index ends up with the
  last name given for it and all fragments of its arguments in order.\<close>

theorem streamed_fragments_are_assembled:
  "slot i (fold merge_call items []) =
     (last ([] # filter (\<lambda>n. n \<noteq> []) (map name_fragment (items_of i items))),
      concat (map args_fragment (items_of i items)))"
  using slot_fold_merge [of i items "[]"] by (simp add: slot_def)

text \<open>The status of the boot slots is consistent: without a slot directory there is no current slot and no
  slot; with one there are the slots A and B in this order, a slot is active exactly when it is the current one,
  and only a slot with its marker has a time for it.\<close>

theorem boot_slot_status_is_consistent:
  assumes "read_ab_status d base h = (Inr st, h')"
  shows "ab_root st = base
    \<and> (if ab_enabled st then map as_name (ab_slots st) = [''A'', ''B'']
         \<and> list_all (\<lambda>s. as_active s \<longleftrightarrow> ab_current st = Some (as_name s)) (ab_slots st)
       else ab_current st = None \<and> ab_slots st = [])
    \<and> list_all (\<lambda>s. as_boot_ok_at s = None \<or> as_boot_ok s) (ab_slots st)"
  by (rule read_ab_status_run [OF assms])

theorem boot_slot_status_is_consistent_witness:
  "\<exists>st h'. read_ab_status (sample_disk\<lparr>ad_is_dir := (\<lambda>n p. True), ad_text := (\<lambda>n p. Some ''B'')\<rparr>) ''/ab'' sample_host =
      (Inr st :: unit + ab_status, h')
     \<and> ab_current st = Some ''B'' \<and> list_all (\<lambda>s. as_active s \<longleftrightarrow> as_name s = ''B'') (ab_slots st)"
proof -
  let ?d = "sample_disk\<lparr>ad_is_dir := (\<lambda>n p. True), ad_text := (\<lambda>n p. Some ''B'')\<rparr>"
  have t: "trim ''B'' = ''B''"
    by (simp add: trim_def trim_end_def trim_start_def strip_ws_done ws_byte_def)
  obtain st h' where run: "read_ab_status ?d ''/ab'' sample_host = (Inr st :: unit + ab_status, h')"
      "ab_current st = Some ''B''" "ab_enabled st"
    by (simp add: read_ab_status_def read_current_slot_def read_slot_def disk_access_def sample_disk_def
        slot_of_text_def t io_simps Let_def)
  from boot_slot_status_is_consistent [OF run(1)] run show ?thesis
    by (intro exI [of _ st] exI [of _ h']) auto
qed

text \<open>Between any two readings of the counters, also when they wrap or stand still, the CPU usage is a number
  between 0 and 100.\<close>

theorem cpu_usage_is_a_percentage:
  "\<exists>c. cpu_usage_between a b = Fin c \<and> 0 \<le> c \<and> c \<le> 100"
  by (rule cpu_usage_percent)

text \<open>What a browser gets from a streamed diagnosis does not depend on how the network cuts the answer of the
  runtime, even inside a character, whoever the runtime is and whenever the browser goes away.\<close>

theorem relay_ignores_chunking:
  assumes "same_but_cuts p q"
  shows "api_diagnose_stream x p ap room t s = api_diagnose_stream x q ap room t s"
  using assms by (rule api_diagnose_same)

theorem relay_ignores_chunking_witness:
  "api_diagnose_stream audit_ext (\<lambda>b w. (Answer [''{}'', [newline]] None, w)) (app_state_of sample_lan) None ''hi'' (stage_start ()) =
   api_diagnose_stream audit_ext (\<lambda>b w. (Answer [''{}'' @ [newline]] None, w)) (app_state_of sample_lan) None ''hi'' (stage_start ())"
  by (rule relay_ignores_chunking) (simp add: same_but_cuts_def same_bytes_def)

end
