(* ===== verification/Outcomes.thy ===== *)
theory Outcomes
  imports ServerFacts
begin

text \<open>
  What the program does when everything it needs is there, and what it does not do when the audit log cannot be
  written: a confirmed kill reaches its process and is on record; without a record nothing happens.
\<close>

section \<open>One envelope\<close>

text \<open>Nothing that matters has happened: no grant, permit or conversation changed, nothing was published and no
  signal was sent.\<close>

definition inert :: "runtime_state \<Rightarrow> runtime_state \<Rightarrow> bool" where
  "inert s t \<longleftrightarrow>
     outside s t \<and> p_bus t = p_bus s \<and> signals (p_host t) = signals (p_host s) \<and> a_progress t = a_progress s"

definition next_write :: "host \<Rightarrow> write_outcome" where
  "next_write h = write_src h (write_next h)"

text \<open>Recording an event takes one write. If it succeeds the envelope is in the file and on the bus; otherwise
  neither the bus nor anything else of the runtime has moved.\<close>

lemma record_event_written:
  assumes "next_write (p_host s) = Written"
  shows "\<exists>e t. record_event x k c p j s = (Inr (env_msg_id e), t) \<and> env_kind e = k \<and> env_correlation_id e = c
    \<and> env_causation_id e = p \<and> env_payload e = j \<and> p_bus t = p_bus s @ [e]
    \<and> files (p_host t) AuditFile = files (p_host s) AuditFile @ envelope_line x e
    \<and> signals (p_host t) = signals (p_host s) \<and> write_src (p_host t) = write_src (p_host s)
    \<and> write_next (p_host t) = Suc (write_next (p_host s)) \<and> outside s t"
  using assms
  by (simp add: next_write_def record_event_def record_envelope_run append_envelope_def audit_append_def append_record_def
      write_all_def publish_envelope_def envelope_new_run on_plant_def envelope_line_def outside_def io_defs Let_def)

lemma record_event_failed:
  assumes "next_write (p_host s) = WriteFailed n msg"
  shows "\<exists>t. record_event x k c p j s = (Inl (Failed msg), t) \<and> inert s t"
  using assms
  by (simp add: next_write_def record_event_def record_envelope_run append_envelope_def audit_append_def append_record_def
      write_all_def publish_envelope_def envelope_new_run on_plant_def envelope_line_def outside_def inert_def io_defs Let_def)

section \<open>Without a record nothing happens\<close>

lemma inner_unaudited:
  assumes "next_write (p_host s) = WriteFailed n msg"
  shows "\<exists>t. handle_user_text_inner x rt req corr sid w s = (Inl (Failed msg), t) \<and> inert s t"
  using record_event_failed [OF assms, of x UserRequest corr None "user_request_json req"]
  by (auto simp: handle_user_text_inner_def bind_io_def)

lemma session_unaudited:
  assumes "next_write (p_host s) = WriteFailed n msg"
  shows "\<exists>e t. handle_user_text_in_session x rt req sess w s = (Inl (Failed e), t) \<and> inert s t"
proof (cases "try_acquire (a_slots s)")
  case None
  then show ?thesis by (simp add: session_run Let_def inert_def outside_def drawn_def)
next
  case (Some m)
  let ?s = "(drawn sess s)\<lparr>a_slots := m\<rparr>"
  have "next_write (p_host ?s) = WriteFailed n msg" using assms by (simp add: next_write_def drawn_def)
  from inner_unaudited [OF this] obtain t where
    "handle_user_text_inner x rt req (uuid_src (p_host s) (uuid_next (p_host s))) (session_of sess s) w ?s = (Inl (Failed msg), t)"
    "inert ?s t" by blast
  with Some show ?thesis
    by (auto simp: session_run Let_def inert_def outside_def drawn_def try_acquire_def release_def split: nat.splits)
qed

lemma confirm_unaudited:
  assumes "next_write (p_host s) = WriteFailed n msg"
  shows "\<exists>t. confirm_in_session x rt corr sess cid tool args scope s = (Inl (Failed msg), t) \<and> inert s t"
  using record_event_failed [OF assms, of x ConfirmationResponse corr None "confirm_payload x cid scope"]
  by (auto simp: confirm_in_session_def bind_io_def)

lemma sent_once:
  assumes "co_write_src s (co_write_next s) = Written"
  shows "co_sent (snd (bind_io (send_bytes b) (\<lambda>_. shut) s)) = co_sent s @ [b]"
  using assms by (simp add: bind_io_def send_bytes_ok shut_def split: option.split)

text \<open>The two requests that can act, and what a client gets when the log cannot be written: one answer that says
  so.\<close>

definition acting :: "client_request \<Rightarrow> bool" where
  "acting req =
     (case req of Diagnose t sess stream \<Rightarrow> True | Confirm corr cid tool args scope confirmed sess \<Rightarrow> True | _ \<Rightarrow> False)"

definition answer_bytes :: "ext \<Rightarrow> client_request \<Rightarrow> client_response \<Rightarrow> string" where
  "answer_bytes x req resp = (if streaming req then done_frame x resp else json_text x (response_json x resp))"

lemma serve_unaudited:
  assumes "acting req" and "next_write (p_host (sv_rt c)) = WriteFailed n msg"
  shows "\<exists>resp u. response_wf resp \<and> \<not> cl_ok resp \<and> inert (sv_rt c) (sv_rt u) \<and> same_socket c u
    \<and> serve x sv req c = bind_io (send_bytes (answer_bytes x req resp)) (\<lambda>_. shut) u"
proof (cases req)
  case (Diagnose t sess stream)
  obtain e v where run: "handle_user_text_in_session x (se_rt sv) t sess stream (sv_rt c) = (Inl (Failed e), v)"
      and inert: "inert (sv_rt c) v"
    using session_unaudited [OF assms(2)] by blast
  have "response_wf ((error_response e)\<lparr>cl_session_id := sess\<rparr>)" "\<not> cl_ok (error_response e)"
    by (simp_all add: response_wf_def error_response_def response_default_def)
  moreover have "serve x sv req c =
      bind_io (send_bytes (answer_bytes x req ((error_response e)\<lparr>cl_session_id := sess\<rparr>))) (\<lambda>_. shut) (c\<lparr>sv_rt := v\<rparr>)"
    using Diagnose run inert
    by (cases stream)
      (simp_all add: serve_def respond_def handle_diagnose_stream_def answer_diagnose_def answer_bytes_def streaming_def
        on_rt_def inert_def io_defs)
  ultimately show ?thesis using inert
    by (intro exI [of _ "(error_response e)\<lparr>cl_session_id := sess\<rparr>"] exI [of _ "c\<lparr>sv_rt := v\<rparr>"])
      (simp add: same_socket_def)
next
  case (Confirm corr cid tool args scope confirmed sess)
  obtain v where run: "confirm_in_session x (se_rt sv) corr sess cid tool args (confirm_scope_of confirmed scope) (sv_rt c) =
      (Inl (Failed msg), v)" and inert: "inert (sv_rt c) v"
    using confirm_unaudited [OF assms(2)] by blast
  obtain resp where resp: "(respond_confirm x sv corr cid tool args scope confirmed sess c ::
      (client_error + _) \<times> _) = (Inr resp, c\<lparr>sv_rt := v\<rparr>)" "\<not> cl_ok resp" "response_wf resp"
    using run by (simp add: respond_confirm_def on_rt_def response_wf_def response_default_def io_defs Let_def)
  with Confirm have "serve x sv req c = bind_io (send_bytes (answer_bytes x req resp)) (\<lambda>_. shut) (c\<lparr>sv_rt := v\<rparr>)"
    by (simp add: serve_def respond_def answer_bytes_def streaming_def bind_io_def)
  with resp inert show ?thesis
    by (intro exI [of _ resp] exI [of _ "c\<lparr>sv_rt := v\<rparr>"]) (simp add: same_socket_def)
qed (use assms(1) in \<open>simp_all add: acting_def\<close>)

section \<open>A confirmed kill\<close>

text \<open>The registry finds every system tool, with or without the memory tools behind them.\<close>

lemma boot_finds:
  assumes "t \<in> set (system_tools (mode_backend x os mode))"
  shows "registry_get (boot_registry x os mode it mem) (ts_name (te_spec t)) = Some t"
proof (cases mem)
  case None
  then have "boot_registry x os mode it mem = fold register (system_tools (mode_backend x os mode)) registry_new"
    by (simp add: boot_registry_def install_system_tools_def mode_backend_def Let_def)
  moreover have "distinct (map (\<lambda>t. ts_name (te_spec t)) (system_tools (mode_backend x os mode)))"
    unfolding system_names by simp
  ultimately show ?thesis using registry.lookup_fold assms by simp
next
  case (Some ms)
  let ?ts = "system_tools (mode_backend x os mode) @ memory_tools it x ms"
  have r: "boot_registry x os mode it mem = fold register ?ts registry_new"
    by (simp add: Some boot_registry_def install_system_tools_def install_memory_tools_def mode_backend_def Let_def)
  have d: "distinct (map (\<lambda>t. ts_name (te_spec t)) ?ts)" unfolding boot_names by simp
  have i: "t \<in> set ?ts" using assms by simp
  show ?thesis unfolding r by (rule registry.lookup_fold [OF d i])
qed

lemma boot_kill:
  "registry_get (boot_registry x os mode it mem) ''process.kill_request'' = Some (kill_tool (mode_backend x os mode))"
  using boot_finds [of "kill_tool (mode_backend x os mode)" x os mode it mem]
  by (simp add: system_tools_def kill_tool_def kill_spec_def)

text \<open>The call can be carried out: the arguments name a process that is alive and may be signalled, and a signal
  there is.\<close>

definition killable :: "ext \<Rightarrow> os_probes \<Rightarrow> json \<Rightarrow> u32 \<Rightarrow> string \<Rightarrow> bool" where
  "killable x os args pid sig \<longleftrightarrow>
     is_object args \<and> \<not> looks_like_injection x args \<and> map_option ucast (get_u64 args ''pid'') = Some pid
     \<and> 1 < pid \<and> pid \<noteq> os_self os \<and> normalize_signal x (unwrap_or (get_str args ''signal'') ''TERM'') = Inr sig
     \<and> (\<forall>h. os_proc_exists os h pid \<and> os_kill_status os h pid sig = Inr (True, ''exit status: 0''))"

definition killed_output :: "u32 \<Rightarrow> string \<Rightarrow> json" where
  "killed_output pid sig =
     Object [(''killed'', Bool True), (''dry_run'', Bool False), (''pid'', u32_json pid), (''signal'', String sig),
       (''mode'', String ''linux'')]"

lemma killable_above_one:
  assumes "killable x os args pid sig"
  shows "1 < unwrap_or (get_u64 args ''pid'') 0"
proof -
  obtain n where n: "get_u64 args ''pid'' = Some n" "pid = ucast n" "1 < pid"
    using assms by (auto simp: killable_def)
  have "1 < n"
  proof (rule ccontr)
    assume "\<not> 1 < n"
    then have "n = 0 \<or> n = 1" by (auto simp: not_less le_less)
    with n show False by auto
  qed
  with n show ?thesis by simp
qed

lemma killable_executes:
  assumes "killable x os args pid sig"
  shows "kill_execute (linux_backend x os) args ctx h =
    (Inr (ok_output (killed_output pid sig)), h\<lparr>signals := signals h @ [(pid, sig)]\<rparr>)"
  using assms
  by (auto simp: killable_def kill_execute_def linux_backend_def real_kill_def killed_output_def io_defs)

text \<open>The confirmation goes on record, the signal is sent, the result goes on record behind it.\<close>

lemma confirmed_kill_run:
  assumes "ai_tools rt = boot_registry x os RealLinux it mem" and "scope \<noteq> Cancel" and "killable x os args pid sig"
    and "next_write (p_host s) = Written" and "write_src (p_host s) (Suc (write_next (p_host s))) = Written"
  shows "\<exists>e1 e2 t. confirm_in_session x rt corr sess cid ''process.kill_request'' args scope s =
      (Inr \<lparr>res_call_id = cid, res_tool = ''process.kill_request'', res_ok = True,
            res_output = killed_output pid sig, res_error = None\<rparr>, t)
    \<and> signals (p_host t) = signals (p_host s) @ [(pid, sig)] \<and> p_bus t = p_bus s @ [e1, e2]
    \<and> files (p_host t) AuditFile = files (p_host s) AuditFile @ envelope_line x e1 @ envelope_line x e2
    \<and> env_kind e1 = ConfirmationResponse \<and> env_kind e2 = ToolResult \<and> env_causation_id e2 = Some (env_msg_id e1)
    \<and> env_correlation_id e1 = corr \<and> env_correlation_id e2 = corr"
proof -
  let ?res = "\<lparr>res_call_id = cid, res_tool = ''process.kill_request'', res_ok = True,
    res_output = killed_output pid sig, res_error = None\<rparr>"
  obtain e1 t1 where r1: "record_event x ConfirmationResponse corr None (confirm_payload x cid scope) s = (Inr (env_msg_id e1), t1)"
      "env_kind e1 = ConfirmationResponse" "env_correlation_id e1 = corr" "p_bus t1 = p_bus s @ [e1]"
      "files (p_host t1) AuditFile = files (p_host s) AuditFile @ envelope_line x e1"
      "signals (p_host t1) = signals (p_host s)" "write_src (p_host t1) = write_src (p_host s)"
      "write_next (p_host t1) = Suc (write_next (p_host s))"
    using record_event_written [OF assms(4)] by metis
  define t2 where "t2 = (if scope = Session then t1\<lparr>a_policy := grant_session ''process.kill_request'' (a_policy t1)\<rparr> else t1)"
  define t3 where "t3 = t2\<lparr>p_host := (p_host t2)\<lparr>signals := signals (p_host t2) @ [(pid, sig)]\<rparr>\<rparr>"
  have same: "p_host t2 = p_host t1" "p_bus t2 = p_bus t1" by (simp_all add: t2_def)
  have w: "next_write (p_host t3) = Written"
    using assms(5) r1 by (simp add: next_write_def t3_def same)
  obtain e2 t4 where r2: "record_event x ToolResult corr (Some (env_msg_id e1)) (tool_call_result_json x ?res) t3 = (Inr (env_msg_id e2), t4)"
      "env_kind e2 = ToolResult" "env_correlation_id e2 = corr" "env_causation_id e2 = Some (env_msg_id e1)"
      "p_bus t4 = p_bus t3 @ [e2]" "files (p_host t4) AuditFile = files (p_host t3) AuditFile @ envelope_line x e2"
      "signals (p_host t4) = signals (p_host t3)"
    using record_event_written [OF w] by metis
  obtain t where noted: "append_note sess (''tool_result:process.kill_request '' @ json_text x (killed_output pid sig)) t4 = (Inr (), t)"
      and kept: "p_host t = p_host t4" "p_bus t = p_bus t4"
    by (cases sess) (simp_all add: append_note_def io_defs)
  have object: "is_object args" using assms(3) by (simp add: killable_def)
  have found: "registry_get (ai_tools rt) ''process.kill_request'' = Some (kill_tool (linux_backend x os))"
    by (simp add: assms(1) boot_kill mode_backend_def)
  have ex: "registry_execute (ai_tools rt) ''process.kill_request'' args ctx h =
      (Inr (ok_output (killed_output pid sig)), h\<lparr>signals := signals h @ [(pid, sig)]\<rparr>)" for ctx h
    using registry_execute_found [OF found object] killable_executes [OF assms(3)] by (simp add: kill_tool_def)
  have "ts_name kill_spec = ''process.kill_request''" by (simp add: kill_spec_def)
  then have "\<not> blocked_call x kill_spec args"
    using killable_above_one [OF assms(3)] assms(3)
    by (simp add: blocked_call_def killable_def hard_deny_def not_le)
  then have ok: "pd_verdict (decide x p kill_spec args) \<noteq> Deny" for p by (simp add: decide_verdict)
  have "confirm_execute x rt corr sess (env_msg_id e1) cid ''process.kill_request'' args t2 = (Inr ?res, t)"
    using r2(1) noted
    by (simp add: confirm_execute_def on_plant_def ex ok_output_def record_tool_result_def t3_def io_defs Let_def)
  then have "confirm_in_session x rt corr sess cid ''process.kill_request'' args scope s = (Inr ?res, t)"
    using r1(1) assms(2) ok [of "a_policy t2"]
    by (simp add: confirm_in_session_def found bind_io_def reads_def modifies_def ret_def kill_tool_def t2_def split: if_splits)
  then show ?thesis
    using r1 r2 kept same by (intro exI [of _ e1] exI [of _ e2] exI [of _ t]) (simp add: t3_def)
qed

text \<open>The same for a connection to the service: what is recorded, what is sent, and what the client is told.\<close>

definition kill_response :: "uuid \<Rightarrow> uuid \<Rightarrow> uuid option \<Rightarrow> string list \<Rightarrow> u32 \<Rightarrow> string \<Rightarrow> client_response" where
  "kill_response corr cid sess grants pid sig =
     (response_default True)\<lparr>cl_correlation_id := Some corr, cl_session_id := sess, cl_session_grants := Some grants,
       cl_tool_result := Some \<lparr>res_call_id = cid, res_tool = ''process.kill_request'', res_ok = True,
         res_output = killed_output pid sig, res_error = None\<rparr>\<rparr>"

lemma client_kill:
  assumes "requested x c = Some (Confirm corr cid ''process.kill_request'' args scope confirmed sess)"
    and "confirm_scope_of confirmed scope \<noteq> Cancel"
    and "ai_tools (se_rt sv) = boot_registry x os RealLinux it mem" and "killable x os args pid sig"
    and "next_write (p_host (sv_rt c)) = Written"
    and "write_src (p_host (sv_rt c)) (Suc (write_next (p_host (sv_rt c)))) = Written"
  shows "\<exists>e1 e2 t. handle_client x sv c =
      bind_io (send_bytes (json_text x (response_json x
        (kill_response corr cid sess (session_grants (a_policy t)) pid sig)))) (\<lambda>_. shut) (c\<lparr>sv_rt := t\<rparr>)
    \<and> signals (p_host t) = signals (p_host (sv_rt c)) @ [(pid, sig)] \<and> p_bus t = p_bus (sv_rt c) @ [e1, e2]
    \<and> files (p_host t) AuditFile = files (p_host (sv_rt c)) AuditFile @ envelope_line x e1 @ envelope_line x e2
    \<and> env_kind e1 = ConfirmationResponse \<and> env_kind e2 = ToolResult \<and> env_causation_id e2 = Some (env_msg_id e1)
    \<and> env_correlation_id e1 = corr \<and> env_correlation_id e2 = corr"
proof -
  obtain e1 e2 t where run: "confirm_in_session x (se_rt sv) corr sess cid ''process.kill_request'' args
      (confirm_scope_of confirmed scope) (sv_rt c) =
      (Inr \<lparr>res_call_id = cid, res_tool = ''process.kill_request'', res_ok = True,
            res_output = killed_output pid sig, res_error = None\<rparr>, t)"
    and rest: "signals (p_host t) = signals (p_host (sv_rt c)) @ [(pid, sig)]" "p_bus t = p_bus (sv_rt c) @ [e1, e2]"
      "files (p_host t) AuditFile = files (p_host (sv_rt c)) AuditFile @ envelope_line x e1 @ envelope_line x e2"
      "env_kind e1 = ConfirmationResponse" "env_kind e2 = ToolResult" "env_causation_id e2 = Some (env_msg_id e1)"
      "env_correlation_id e1 = corr" "env_correlation_id e2 = corr"
    using confirmed_kill_run [OF assms(3,2,4,5,6)] by metis
  have "(respond_confirm x sv corr cid ''process.kill_request'' args scope confirmed sess c :: (client_error + _) \<times> _) =
      (Inr (kill_response corr cid sess (session_grants (a_policy t)) pid sig), c\<lparr>sv_rt := t\<rparr>)"
    by (simp add: respond_confirm_def on_rt_def run kill_response_def runtime_session_grants_def io_defs Let_def)
  then have "handle_client x sv c =
      bind_io (send_bytes (json_text x (response_json x
        (kill_response corr cid sess (session_grants (a_policy t)) pid sig)))) (\<lambda>_. shut) (c\<lparr>sv_rt := t\<rparr>)"
    using assms(1) by (simp add: handle_client_run serve_plain streaming_def respond_def bind_io_def)
  with rest show ?thesis by blast
qed

end
