(* ===== verification/PlannerFacts.thy ===== *)
theory PlannerFacts
  imports Outcomes
begin

text \<open>
  The planner that needs no model (\<open>diagnose_slow_with_mock_planner\<close>): what it finds on the fixed backend, what
  it leaves in the audit log, and that it only asks.
\<close>

section \<open>Nothing but lines in the log\<close>

text \<open>The log has grown by one line per envelope, of these kinds and of one correlation; nothing was published,
  granted or signalled.\<close>

definition logged :: "ext \<Rightarrow> uuid \<Rightarrow> message_kind list \<Rightarrow> runtime_state \<Rightarrow> runtime_state \<Rightarrow> bool" where
  "logged x corr ks s t \<longleftrightarrow>
     (\<exists>es. map env_kind es = ks \<and> (\<forall>e \<in> set es. env_correlation_id e = corr)
        \<and> files (p_host t) AuditFile = files (p_host s) AuditFile @ concat (map (envelope_line x) es))
     \<and> signals (p_host t) = signals (p_host s) \<and> write_src (p_host t) = write_src (p_host s)
     \<and> p_bus t = p_bus s \<and> a_policy t = a_policy s"

lemma logged_trans [trans]:
  assumes "logged x corr ks s t" and "logged x corr ls t u"
  shows "logged x corr (ks @ ls) s u"
proof -
  obtain es where "map env_kind es = ks" "\<forall>e \<in> set es. env_correlation_id e = corr"
      "files (p_host t) AuditFile = files (p_host s) AuditFile @ concat (map (envelope_line x) es)"
    using assms(1) by (auto simp: logged_def)
  moreover obtain fs where "map env_kind fs = ls" "\<forall>e \<in> set fs. env_correlation_id e = corr"
      "files (p_host u) AuditFile = files (p_host t) AuditFile @ concat (map (envelope_line x) fs)"
    using assms(2) by (auto simp: logged_def)
  ultimately show ?thesis
    using assms by (auto simp: logged_def intro!: exI [of _ "es @ fs"])
qed

lemma logged_id:
  assumes "on_plant new_v4 s = (r, t)"
  shows "logged x corr [] s t"
  using assms by (auto simp: logged_def on_plant_def new_v4_def)

definition sound_log :: "runtime_state \<Rightarrow> bool" where
  "sound_log s \<longleftrightarrow> (\<forall>n. write_src (p_host s) n = Written)"

lemma logged_sound: "logged x corr ks s t \<Longrightarrow> sound_log s \<Longrightarrow> sound_log t"
  by (simp add: logged_def sound_log_def)

text \<open>With a log that takes every line: the computation succeeds, with such a result, and logs exactly these kinds.\<close>

definition logs :: "ext \<Rightarrow> uuid \<Rightarrow> 'a rt \<Rightarrow> message_kind list \<Rightarrow> ('a \<Rightarrow> bool) \<Rightarrow> bool" where
  "logs x corr m ks P \<longleftrightarrow>
     (\<forall>s. sound_log s \<longrightarrow> (\<exists>r t. m s = (Inr r, t) \<and> P r \<and> logged x corr ks s t))"

lemma logs_bind:
  assumes "logs x corr m ks P" and "\<And>r. P r \<Longrightarrow> logs x corr (f r) ls Q" and "ks @ ls = ms"
  shows "logs x corr (bind_io m f) ms Q"
  unfolding logs_def
proof (intro allI impI)
  fix s assume "sound_log s"
  then obtain r t where r: "m s = (Inr r, t)" "P r" "logged x corr ks s t"
    using assms(1) by (auto simp: logs_def)
  then obtain q u where "f r t = (Inr q, u)" "Q q" "logged x corr ls t u"
    using assms(2) [OF r(2)] logged_sound [OF r(3) \<open>sound_log s\<close>] unfolding logs_def by blast
  with r logged_trans [OF r(3)] assms(3) show "\<exists>r t. bind_io m f s = (Inr r, t) \<and> Q r \<and> logged x corr ms s t"
    by (auto simp: bind_io_def)
qed

lemma logged_refl: "logged x corr [] s s"
  by (simp add: logged_def)

lemma logs_ret: "P r \<Longrightarrow> logs x corr (ret r) [] P"
  by (simp add: logs_def ret_def logged_refl)

lemma logs_reads: "logs x corr (reads f) [] (\<lambda>_. True)"
  by (simp add: logs_def reads_def logged_refl)

lemma logs_id: "logs x corr (on_plant new_v4) [] (\<lambda>_. True)"
  using logged_id by (auto simp: logs_def on_plant_def new_v4_def)

lemma logs_require: "registry_get tools n = Some t \<Longrightarrow> logs x corr (require_tool tools n) [] (\<lambda>r. r = t)"
  by (simp add: logs_def require_tool_def ret_def logged_refl)

lemma logs_event: "logs x corr (audit_event x k corr p j) [k] (\<lambda>_. True)"
  unfolding logs_def
proof (intro allI impI)
  fix s assume "sound_log s"
  let ?h = "p_host s"
  let ?e = "\<lparr>env_v = protocol_version, env_msg_id = uuid_src ?h (uuid_next ?h), env_correlation_id = corr,
    env_causation_id = p, env_kind = k, env_ts = clock_src ?h (clock_next ?h), env_payload = j\<rparr>"
  obtain t where "audit_event x k corr p j s = (Inr (env_msg_id ?e), t)"
      "files (p_host t) AuditFile = files ?h AuditFile @ envelope_line x ?e" "signals (p_host t) = signals ?h"
      "write_src (p_host t) = write_src ?h" "p_bus t = p_bus s" "a_policy t = a_policy s"
    using \<open>sound_log s\<close>
    by (simp add: sound_log_def audit_event_def append_envelope_def audit_append_def append_record_def write_all_def
        envelope_new_run on_plant_def envelope_line_def io_defs Let_def)
  then show "\<exists>r t. audit_event x k corr p j s = (Inr r, t) \<and> True \<and> logged x corr [k] s t"
    by (intro exI [of _ "env_msg_id ?e"] exI [of _ t]) (simp add: logged_def exI [of _ "[?e]"])
qed

text \<open>The first thing the planner draws is the correlation of all the rest.\<close>

lemma logs_correlation:
  assumes "\<And>corr. logs x corr (f corr) ks (P corr)" and "sound_log s"
  shows "\<exists>corr r t. bind_io (on_plant new_v4) f s = (Inr r, t) \<and> P corr r \<and> logged x corr ks s t"
proof -
  obtain corr s1 where id: "(on_plant new_v4 s :: (halt + _) \<times> _) = (Inr corr, s1)"
    by (simp add: on_plant_def new_v4_def)
  note l = logged_id [OF id]
  from assms(1) [of corr] logged_sound [OF l assms(2)] obtain r t where
    "f corr s1 = (Inr r, t)" "P corr r" "logged x corr ks s1 t" unfolding logs_def by blast
  with id logged_trans [OF l this(3)] show ?thesis by (auto simp: bind_io_def)
qed

section \<open>The two probes\<close>

lemma low_risk_allowed:
  assumes "te_spec t = read_tool n d ms sch" and "\<not> hard_deny n" and "\<not> signalling_tool n"
  shows "logs x corr (assert_allowed x t) [] (\<lambda>_. True)"
proof -
  have "n \<noteq> ''process.kill_request''" using assms(3) by (auto simp: signalling_tool_def)
  then have "\<not> blocked_call x (te_spec t) args" for args
    using assms by (simp add: blocked_call_def read_tool_def)
  then show ?thesis
    by (simp add: assert_allowed_def decide_verdict assms(1) low_risk_def read_tool_def io_defs logs_def logged_refl)
qed

lemma logs_execute:
  assumes "registry_get tools n = Some t" and "\<And>ctx h. te_execute t (Object []) ctx h = (Inr out, h)"
  shows "logs x corr (map_err Failed (on_plant (map_err tool_error_text (registry_execute tools n (Object []) ctx))))
    [] (\<lambda>r. r = out)"
  using assms by (simp add: logs_def registry_execute_found on_plant_def io_defs logged_refl)

lemma logs_probe:
  assumes "registry_get tools n = Some t" and "te_spec t = read_tool n d ms sch"
    and "\<not> hard_deny n" and "\<not> signalling_tool n" and "\<And>ctx h. te_execute t (Object []) ctx h = (Inr out, h)"
  shows "logs x corr (probe x tools corr req n) [ToolCall] (\<lambda>r. snd r = out)"
  unfolding probe_def
  by (rule logs_bind [OF logs_id logs_bind [OF logs_require [OF assms(1)] logs_bind [OF _
        logs_bind [OF logs_event logs_bind [OF logs_execute [OF assms(1,5)] logs_ret]]]]])
    (auto intro: low_risk_allowed [OF assms(2-4)])

section \<open>The whole planner on the fixed backend\<close>

lemma mock_tools_found:
  "registry_get (boot_registry x os MockTools it mem) ''system.metrics'' = Some (metrics_tool mock_backend)"
  "registry_get (boot_registry x os MockTools it mem) ''process.list'' = Some (process_list_tool mock_backend)"
  "registry_get (boot_registry x os MockTools it mem) ''process.kill_request'' = Some (kill_tool mock_backend)"
  using boot_finds [of "metrics_tool mock_backend" x os MockTools it mem]
    boot_finds [of "process_list_tool mock_backend" x os MockTools it mem] boot_kill [of x os MockTools it mem]
  by (simp_all add: mode_backend_def system_tools_def metrics_tool_def process_list_tool_def read_tool_def)

lemma plain_tools:
  "\<not> hard_deny ''system.metrics''" "\<not> signalling_tool ''system.metrics''"
  "\<not> hard_deny ''process.list''" "\<not> signalling_tool ''process.list''"
  by (simp_all add: hard_deny_def signalling_tool_def)

lemma mock_metrics_execute:
  "te_execute (metrics_tool mock_backend) (Object []) ctx h = (Inr (ok_output (system_metrics_json mock_metrics)), h)"
  by (simp add: metrics_tool_def mock_backend_def io_defs)

definition mock_listing :: json where
  "mock_listing = Object [(''processes'', Array (map process_info_json mock_processes))]"

lemma mock_listing_execute:
  "te_execute (process_list_tool mock_backend) (Object []) ctx h = (Inr (ok_output mock_listing), h)"
  by (simp add: process_list_tool_def mock_backend_def mock_listing_def io_defs)

definition busiest_pid :: u32 where
  "busiest_pid = 4312"

lemma mock_culprit: "top_process mock_listing = Some (busiest_pid, ''runaway-worker'')"
  unfolding busiest_pid_def mock_listing_def by code_simp

definition kill_ask :: "uuid \<Rightarrow> pending_confirmation" where
  "kill_ask cid =
     \<lparr>pc_call_id = cid, pc_tool = ''process.kill_request'', pc_arguments = Object [(''pid'', u32_json busiest_pid)],
      pc_summary = text_stop_process @ ''runaway-worker'' @ ''?''\<rparr>"

definition found_culprit :: "uuid \<Rightarrow> handle_outcome \<Rightarrow> bool" where
  "found_culprit corr out \<longleftrightarrow>
     ho_correlation_id out = corr \<and> dr_culprit_pid (ho_diagnose out) = Some busiest_pid
     \<and> dr_culprit_name (ho_diagnose out) = Some ''runaway-worker'' \<and> (\<exists>cid. ho_pending out = Some (kill_ask cid))"

lemmas logs_metrics = logs_probe [OF mock_tools_found(1) _ plain_tools(1,2) mock_metrics_execute]
lemmas logs_listing = logs_probe [OF mock_tools_found(2) _ plain_tools(3,4) mock_listing_execute]

lemma planner_run:
  assumes "sound_log s"
  shows "\<exists>corr out t. diagnose_slow_with_mock_planner x (boot_registry x os MockTools it mem) s = (Inr out, t)
    \<and> found_culprit corr out
    \<and> logged x corr [UserRequest, ToolCall, ToolCall, ToolResult, PolicyDecision, DiagnoseResult] s t"
  unfolding diagnose_slow_with_mock_planner_def
  apply (rule logs_correlation [OF _ assms])
  apply (rule logs_bind [OF logs_event])
  apply (rule logs_bind [OF logs_metrics])
  apply (simp add: metrics_tool_def)
  apply (clarsimp split: prod.split)
  apply (rule logs_bind [OF logs_listing])
  apply (simp add: process_list_tool_def)
  apply (clarsimp split: prod.split)
  apply (rule logs_bind [OF logs_event])
  apply (simp add: ok_output_def mock_culprit Let_def)
  apply (rule logs_bind [OF logs_require [OF mock_tools_found(3)]])
  apply (rule logs_bind [OF logs_reads])
  apply (rule logs_bind [OF logs_id])
  apply (rule logs_bind [OF logs_event])
  apply (rule logs_bind [OF logs_event])
  apply (rule logs_bind [OF logs_id])
  apply (rule logs_ret)
  apply (auto simp: found_culprit_def kill_ask_def)
  done

end
