(* ===== verification/Interleaving.thy ===== *)
theory Interleaving
  imports Outcomes
begin

text \<open>
  Parallel tasks. Requests, background tasks and the sampler share the audit log (a mutex around one write) and
  the bus (one atomic send); between the two another task may run. Here a task is a number, and what it still has to do
  with one envelope is the rest of the sequence of calls that the code makes for it: \<open>recording\<close> for every component,
  \<open>announcing\<close> for the end of a diagnosis without a user. Each step of the relation runs the next call of one task, by
  the same \<open>run_action\<close> that \<open>record_envelope\<close> and \<open>announce\<close> are composed of. Everything else a task does to the shared
  state, without touching the log or the bus, is a step too.
\<close>

section \<open>Tasks that append and publish\<close>

record shared_run =
  sh_state :: runtime_state
  sh_todo :: "nat \<Rightarrow> log_action list" \<comment> \<open>what each task still has to do with its envelope\<close>

definition shared_start :: "runtime_state \<Rightarrow> shared_run" where
  "shared_start s = \<lparr>sh_state = s, sh_todo = (\<lambda>i. [])\<rparr>"

definition set_todo :: "nat \<Rightarrow> log_action list \<Rightarrow> runtime_state \<Rightarrow> shared_run \<Rightarrow> shared_run" where
  "set_todo i as t s = \<lparr>sh_state = t, sh_todo = (sh_todo s)(i := as)\<rparr>"

lemma set_todo_simps [simp]:
  "sh_state (set_todo i as t s) = t" "sh_todo (set_todo i as t s) = (sh_todo s)(i := as)"
  by (simp_all add: set_todo_def)

definition off_record :: "runtime_state \<Rightarrow> runtime_state \<Rightarrow> bool" where
  "off_record s t \<longleftrightarrow> p_bus t = p_bus s \<and> files (p_host t) AuditFile = files (p_host s) AuditFile"

text \<open>The worker that diagnoses without a user is the task \<open>d\<close>; what it announces are events of its own
  (\<open>auto_diagnose_run\<close>). An error of a call ends the sequence, as \<open>?\<close> does.\<close>

inductive shared_step :: "ext \<Rightarrow> nat \<Rightarrow> shared_run \<Rightarrow> shared_run \<Rightarrow> bool" for x d where
  records:
    "sh_todo s i = [] \<Longrightarrow> shared_step x d s (set_todo i (recording e) (sh_state s) s)"
| announces:
    "sh_todo s d = [] \<Longrightarrow> own_event e \<Longrightarrow> shared_step x d s (set_todo d (announcing e) (sh_state s) s)"
| goes_on:
    "sh_todo s i = a # as \<Longrightarrow> run_action x a (sh_state s) = (Inr (), t) \<Longrightarrow>
       shared_step x d s (set_todo i as t s)"
| gives_up:
    "sh_todo s i = a # as \<Longrightarrow> run_action x a (sh_state s) = (Inl msg, t) \<Longrightarrow>
       shared_step x d s (set_todo i [] t s)"
| works:
    "off_record (sh_state s) t \<Longrightarrow> shared_step x d s (s\<lparr>sh_state := t\<rparr>)"

text \<open>What a task does on its own is a run of the relation.\<close>

lemma actions_are_steps:
  assumes "run_actions x as s = (Inr (), t)" and "sh_todo c i = as" and "sh_state c = s"
  shows "(shared_step x d)\<^sup>*\<^sup>* c (set_todo i [] t c)"
  using assms
proof (induction as arbitrary: s c)
  case Nil
  then have "set_todo i [] t c = c" by (auto simp: ret_def set_todo_def fun_upd_idem)
  then show ?case by simp
next
  case (Cons a as)
  obtain u where u: "run_action x a s = (Inr (), u)" "run_actions x as u = (Inr (), t)"
    using Cons.prems(1) by (auto dest!: bind_io_Inr)
  have "shared_step x d c (set_todo i as u c)"
    using shared_step.goes_on [of c i a as x u d] Cons.prems u(1) by simp
  moreover have "(shared_step x d)\<^sup>*\<^sup>* (set_todo i as u c) (set_todo i [] t (set_todo i as u c))"
    using u(2) by (intro Cons.IH) simp_all
  moreover have "set_todo i [] t (set_todo i as u c) = set_todo i [] t c" by (simp add: set_todo_def)
  ultimately show ?case by (simp add: converse_rtranclp_into_rtranclp)
qed

lemma recording_is_a_run:
  assumes "record_envelope x e s = (Inr (), t)"
  shows "(shared_step x d)\<^sup>*\<^sup>* (shared_start s) (shared_start t)"
proof -
  let ?c = "set_todo i (recording e) s (shared_start s)"
  have "shared_step x d (shared_start s) ?c"
    using shared_step.records [of "shared_start s" i x d e] by (simp add: shared_start_def)
  moreover have "(shared_step x d)\<^sup>*\<^sup>* ?c (set_todo i [] t ?c)"
    using assms unfolding record_envelope_def by (rule actions_are_steps) simp_all
  moreover have "set_todo i [] t ?c = shared_start t" by (simp add: set_todo_def shared_start_def fun_upd_idem)
  ultimately show ?thesis by (simp add: converse_rtranclp_into_rtranclp)
qed

section \<open>The log covers the bus, task by task\<close>

definition of_task :: "nat \<Rightarrow> (nat \<times> envelope) list \<Rightarrow> envelope list" where
  "of_task i es = map snd (filter (\<lambda>p. fst p = i) es)"

lemma of_task_simps [simp]:
  "of_task i [] = []" "of_task i (es @ fs) = of_task i es @ of_task i fs"
  "of_task i [(j, e)] = (if j = i then [e] else [])"
  by (simp_all add: of_task_def)

text \<open>The envelope a task has dealt with in the log and not yet published.\<close>

definition unpublished :: "log_action list \<Rightarrow> envelope list" where
  "unpublished as = (case as of [Publish e] \<Rightarrow> [e] | _ \<Rightarrow> [])"

lemma unpublished_simps [simp]:
  "unpublished [] = []" "unpublished (recording e) = []" "unpublished (announcing e) = []" "unpublished [Publish e] = [e]"
  by (simp_all add: unpublished_def recording_def announcing_def)

text \<open>The envelopes with a line, and those published or about to be: the same for every task but \<open>d\<close>, whose own events
  may lack the line.\<close>

definition agrees :: "bool \<Rightarrow> envelope list \<Rightarrow> envelope list \<Rightarrow> bool" where
  "agrees strict ls ps \<longleftrightarrow>
     subseq ls ps \<and> filter (\<lambda>e. \<not> own_event e) ls = filter (\<lambda>e. \<not> own_event e) ps \<and> (strict \<longrightarrow> ls = ps)"

lemma agrees_both: "agrees b ls ps \<Longrightarrow> agrees b (ls @ es) (ps @ es)"
  by (auto simp: agrees_def intro: list_emb_append_mono)

lemma agrees_missing: "agrees False ls ps \<Longrightarrow> own_event e \<Longrightarrow> agrees False ls (ps @ [e])"
  by (auto simp: agrees_def)

definition covered :: "ext \<Rightarrow> nat \<Rightarrow> runtime_state \<Rightarrow> shared_run \<Rightarrow> (string \<times> nat \<times> envelope) list \<Rightarrow> string \<Rightarrow>
    (nat \<times> envelope) list \<Rightarrow> bool" where
  "covered x d s0 s lines junk sent \<longleftrightarrow>
     files (p_host (sh_state s)) AuditFile =
       files (p_host s0) AuditFile @ concat (map (\<lambda>(j, i, e). j @ envelope_line x e) lines) @ junk
     \<and> p_bus (sh_state s) = p_bus s0 @ map snd sent
     \<and> (\<forall>i. agrees (i \<noteq> d) (of_task i (map snd lines)) (of_task i sent @ unpublished (sh_todo s i)))"

text \<open>What a task has to do is always the rest of one of the two sequences.\<close>

definition in_order :: "nat \<Rightarrow> shared_run \<Rightarrow> bool" where
  "in_order d s \<longleftrightarrow>
     (\<forall>i. sh_todo s i = [] \<or> (\<exists>e. sh_todo s i = recording e \<or> sh_todo s i = [Publish e]
        \<or> i = d \<and> own_event e \<and> sh_todo s i = announcing e))"

lemma in_orderE:
  assumes "in_order d s" and "sh_todo s i = a # as"
  obtains e where "a = Append e" "as = [Publish e]" | e where "a = Publish e" "as = []"
    | e where "i = d" "own_event e" "a = TryAppend e" "as = [Publish e]"
  using spec [OF assms(1) [unfolded in_order_def], of i] assms(2) that by (auto simp: recording_def announcing_def)

lemma append_run:
  assumes "on_plant (append_envelope x e) s = (r :: string + unit, t)"
  shows "p_bus t = p_bus s \<and> (\<exists>torn. files (p_host t) AuditFile = files (p_host s) AuditFile @
      (case r of Inr _ \<Rightarrow> envelope_line x e | Inl _ \<Rightarrow> torn))"
  using assms
  by (auto simp: on_plant_def append_envelope_def audit_append_def append_record_def write_all_def envelope_line_def
      Let_def split: write_outcome.splits)

lemma action_run:
  assumes "run_action x a s = (r, t)"
  shows "case a of
      Append e \<Rightarrow> p_bus t = p_bus s \<and> (\<exists>torn. files (p_host t) AuditFile = files (p_host s) AuditFile @
        (case r of Inr _ \<Rightarrow> envelope_line x e | Inl _ \<Rightarrow> torn))
    | TryAppend e \<Rightarrow> r = Inr () \<and> p_bus t = p_bus s \<and> (\<exists>torn. files (p_host t) AuditFile =
        files (p_host s) AuditFile @ torn \<or> files (p_host t) AuditFile = files (p_host s) AuditFile @ envelope_line x e)
    | Publish e \<Rightarrow> r = Inr () \<and> p_bus t = p_bus s @ [e] \<and> files (p_host t) AuditFile = files (p_host s) AuditFile"
proof (cases a)
  case (Append e)
  with assms append_run show ?thesis by simp
next
  case (TryAppend e)
  obtain q u where q: "on_plant (append_envelope x e) s = (q :: string + unit, u)" by fastforce
  with TryAppend assms have "r = Inr ()" "t = u" by (auto simp: bind_io_def attempt_def ret_def)
  with append_run [OF q] TryAppend show ?thesis by (cases q) auto
qed (use assms in \<open>auto simp: publish_envelope_def modifies_def\<close>)

lemma agrees_upd:
  assumes "\<forall>i. agrees (i \<noteq> d) (of_task i ls) (of_task i ps @ unpublished (todo i))"
    and "agrees (j \<noteq> d) (of_task j ls') (of_task j ps' @ unpublished as)"
    and "\<forall>i. i \<noteq> j \<longrightarrow> of_task i ls' = of_task i ls \<and> of_task i ps' = of_task i ps"
  shows "\<forall>i. agrees (i \<noteq> d) (of_task i ls') (of_task i ps' @ unpublished ((todo(j := as)) i))"
  using assms by simp

text \<open>One call of one task.\<close>

lemma covered_call:
  assumes c: "covered x d s0 s ls junk sent" and "in_order d s" and todo: "sh_todo s i = a # as"
    and run: "run_action x a (sh_state s) = (r, t)"
  shows "\<exists>ls junk sent. covered x d s0 (set_todo i (case r of Inr _ \<Rightarrow> as | Inl _ \<Rightarrow> []) t s) ls junk sent"
proof -
  note eq = c [unfolded covered_def]
  have agr: "agrees (i \<noteq> d) (of_task i (map snd ls)) (of_task i sent @ unpublished (a # as))"
    using eq todo by metis
  note upd = agrees_upd [of d "map snd ls" sent "sh_todo s" i]
  consider (rec) e where "a = Append e" "as = [Publish e]" | (pub) e where "a = Publish e" "as = []"
    | (ann) e where "i = d" "own_event e" "a = TryAppend e" "as = [Publish e]"
    using in_orderE [OF assms(2) todo] by blast
  then show ?thesis
  proof cases
    case rec
    obtain torn where t: "p_bus t = p_bus (sh_state s)"
        "files (p_host t) AuditFile = files (p_host (sh_state s)) AuditFile @ (case r of Inr _ \<Rightarrow> envelope_line x e | Inl _ \<Rightarrow> torn)"
      using action_run [OF run] rec by auto
    have agr': "agrees (i \<noteq> d) (of_task i (map snd ls)) (of_task i sent)"
      using agr rec by (simp add: unpublished_def)
    show ?thesis
    proof (cases r)
      case (Inl msg)
      then have "covered x d s0 (set_todo i [] t s) ls (junk @ torn) sent"
        using eq t agr' upd [of "map snd ls" sent "[]"] by (simp add: covered_def)
      with Inl show ?thesis by auto
    next
      case (Inr u)
      then have "covered x d s0 (set_todo i as t s) (ls @ [(junk, i, e)]) [] sent"
        using eq t rec agrees_both [OF agr', of "[e]"] upd [of "map snd ls @ [(i, e)]" sent as] by (simp add: covered_def)
      with Inr show ?thesis by auto
    qed
  next
    case pub
    then have t: "r = Inr ()" "p_bus t = p_bus (sh_state s) @ [e]"
        "files (p_host t) AuditFile = files (p_host (sh_state s)) AuditFile"
      using action_run [OF run] by auto
    then have "covered x d s0 (set_todo i as t s) ls junk (sent @ [(i, e)])"
      using eq pub agr upd [of "map snd ls" "sent @ [(i, e)]" as] by (simp add: covered_def)
    with t(1) show ?thesis by auto
  next
    case ann
    then obtain torn where t: "r = Inr ()" "p_bus t = p_bus (sh_state s)"
        "files (p_host t) AuditFile = files (p_host (sh_state s)) AuditFile @ torn
         \<or> files (p_host t) AuditFile = files (p_host (sh_state s)) AuditFile @ envelope_line x e"
      using action_run [OF run] by auto
    have agr': "agrees (i \<noteq> d) (of_task i (map snd ls)) (of_task i sent)"
      using agr ann by (simp add: unpublished_def)
    from t(3) have "\<exists>ls junk. covered x d s0 (set_todo i as t s) ls junk sent"
    proof
      assume f: "files (p_host t) AuditFile = files (p_host (sh_state s)) AuditFile @ torn"
      have "agrees (i \<noteq> d) (of_task i (map snd ls)) (of_task i sent @ [e])"
        using agr' ann agrees_missing by simp
      then have "covered x d s0 (set_todo i as t s) ls (junk @ torn) sent"
        using eq t(2) f ann upd [of "map snd ls" sent as] by (simp add: covered_def)
      then show ?thesis by blast
    next
      assume f: "files (p_host t) AuditFile = files (p_host (sh_state s)) AuditFile @ envelope_line x e"
      have "covered x d s0 (set_todo i as t s) (ls @ [(junk, i, e)]) [] sent"
        using eq t(2) f ann agrees_both [OF agr', of "[e]"] upd [of "map snd ls @ [(i, e)]" sent as]
        by (simp add: covered_def)
      then show ?thesis by blast
    qed
    with t(1) show ?thesis by auto
  qed
qed

lemma covered_step:
  assumes "shared_step x d s t" and "in_order d s" and c: "covered x d s0 s ls junk sent"
  shows "\<exists>ls junk sent. covered x d s0 t ls junk sent"
  using assms(1)
proof cases
  case (records i e)
  then have "covered x d s0 t ls junk sent"
    using c spec [OF c [unfolded covered_def, THEN conjunct2, THEN conjunct2], of i]
      agrees_upd [of d "map snd ls" sent "sh_todo s" i "map snd ls" sent "recording e"]
    by (simp add: covered_def)
  then show ?thesis by blast
next
  case (announces e)
  then have "covered x d s0 t ls junk sent"
    using c spec [OF c [unfolded covered_def, THEN conjunct2, THEN conjunct2], of d]
      agrees_upd [of d "map snd ls" sent "sh_todo s" d "map snd ls" sent "announcing e"]
    by (simp add: covered_def)
  then show ?thesis by blast
next
  case (goes_on i a as u)
  with covered_call [OF c assms(2) goes_on(2,3)] show ?thesis by simp
next
  case (gives_up i a as msg u)
  with covered_call [OF c assms(2) gives_up(2,3)] show ?thesis by simp
next
  case (works u)
  then have "covered x d s0 t ls junk sent" using c by (simp add: covered_def off_record_def)
  then show ?thesis by blast
qed

lemma in_order_step: "shared_step x d s t \<Longrightarrow> in_order d s \<Longrightarrow> in_order d t"
proof (induction rule: shared_step.induct)
  case (goes_on s i a as t)
  have "as = [] \<or> (\<exists>e. as = [Publish e])"
    by (rule in_orderE [OF goes_on(3,1)]) simp_all
  with goes_on show ?case by (auto simp: in_order_def)
qed (auto simp: in_order_def)

lemma covered_run:
  assumes "(shared_step x d)\<^sup>*\<^sup>* (shared_start s0) s"
  shows "in_order d s \<and> (\<exists>ls junk sent. covered x d s0 s ls junk sent)"
  using assms
proof (induction rule: rtranclp_induct)
  case base
  have "covered x d s0 (shared_start s0) [] [] []" by (simp add: covered_def shared_start_def agrees_def)
  then show ?case by (auto simp: in_order_def shared_start_def)
next
  case (step t u)
  then show ?case using covered_step in_order_step by blast
qed

section \<open>Two tasks\<close>

text \<open>The order of the log and the order of the bus may differ between tasks: the second task appends and publishes
  while the first is between its two calls.\<close>

lemma append_written:
  assumes "next_write (p_host s) = Written"
  shows "run_action x (Append e) s = (Inr (),
    s\<lparr>p_host := (p_host s)\<lparr>write_next := Suc (write_next (p_host s)),
      files := (files (p_host s))(AuditFile := files (p_host s) AuditFile @ envelope_line x e)\<rparr>\<rparr>)"
  using assms
  by (simp add: next_write_def on_plant_def append_envelope_def audit_append_def append_record_def write_all_def
      envelope_line_def Let_def)

lemma orders_may_differ:
  assumes "\<forall>n. write_src (p_host s) n = Written"
  shows "\<exists>t. (shared_step x d)\<^sup>*\<^sup>* (shared_start s) (shared_start t)
    \<and> files (p_host t) AuditFile = files (p_host s) AuditFile @ envelope_line x a @ envelope_line x b
    \<and> p_bus t = p_bus s @ [b, a]"
proof -
  obtain u where u: "run_action x (Append a) s = (Inr (), u)" "write_src (p_host u) = write_src (p_host s)"
      "files (p_host u) AuditFile = files (p_host s) AuditFile @ envelope_line x a" "p_bus u = p_bus s"
    using append_written [of s x a] assms by (auto simp: next_write_def)
  obtain v where v: "run_action x (Append b) u = (Inr (), v)" "p_bus v = p_bus s"
      "files (p_host v) AuditFile = files (p_host s) AuditFile @ envelope_line x a @ envelope_line x b"
    using append_written [of u x b] assms u by (auto simp: next_write_def)
  let ?w = "v\<lparr>p_bus := p_bus v @ [b]\<rparr>"
  let ?t = "?w\<lparr>p_bus := p_bus ?w @ [a]\<rparr>"
  let ?c1 = "set_todo 0 (recording a) s (shared_start s)"
  let ?c2 = "set_todo 1 (recording b) s ?c1"
  let ?c3 = "set_todo 0 [Publish a] u ?c2"
  let ?c4 = "set_todo 1 [Publish b] v ?c3"
  let ?c5 = "set_todo 1 [] ?w ?c4"
  let ?c6 = "set_todo 0 [] ?t ?c5"
  have p: "run_action x (Publish b) v = (Inr (), ?w)" "run_action x (Publish a) ?w = (Inr (), ?t)"
    by (simp_all add: publish_envelope_def modifies_def)
  note r = converse_rtranclp_into_rtranclp [where r = "shared_step x d"]
  have "(shared_step x d)\<^sup>*\<^sup>* (shared_start s) ?c6"
    using shared_step.records [of "shared_start s" 0 x d a] shared_step.records [of ?c1 1 x d b]
      shared_step.goes_on [of ?c2 0 "Append a" "[Publish a]" x u d]
      shared_step.goes_on [of ?c3 1 "Append b" "[Publish b]" x v d]
      shared_step.goes_on [of ?c4 1 "Publish b" "[]" x ?w d]
      shared_step.goes_on [of ?c5 0 "Publish a" "[]" x ?t d] u(1) v(1) p
    by (intro r [of "shared_start s" ?c1] r [of ?c1 ?c2] r [of ?c2 ?c3] r [of ?c3 ?c4] r [of ?c4 ?c5] r [of ?c5 ?c6])
      (simp_all add: shared_start_def recording_def)
  moreover have "?c6 = shared_start ?t" by (auto simp: set_todo_def shared_start_def)
  ultimately show ?thesis using v by (intro exI [of _ ?t]) simp
qed

section \<open>What a request overwrites\<close>

text \<open>A request reads the history of its session when it starts and saves the whole when it ends. What a
  confirmation noted in between is lost, and a session that was reset in between is back.\<close>

lemma note_between_is_lost:
  "conv_get (conv_save sid ms (conv_append sid note c)) sid = conv_get (conv_save sid ms c) sid"
  by (simp add: conv_get_save conv_append_def)

lemma reset_between_is_undone:
  "conv_get (conv_save sid ms (snd (conv_reset sid c))) sid = conv_get (conv_save sid ms c) sid"
  by (simp add: conv_get_save conv_reset_def)

end
