(* ===== verification/RunSamples.thy ===== *)
theory RunSamples
  imports ConsoleSamples PlannerFacts Interleaving
begin

text \<open>
  Runs of the service on concrete requests: a client that asks, and a client that confirms a kill on a real
  system. The witnesses of the properties of whole runs end in these states.
\<close>

section \<open>One connection is a run\<close>

lemma socket_runtime [simp]: "sv_rt (socket_of bytes s) = sv_rt s"
  by (simp add: socket_of_def service_state.defs)

definition after_request :: "ext \<Rightarrow> service \<Rightarrow> string \<Rightarrow> service_state \<Rightarrow> service_run" where
  "after_request x sv bytes s =
     (run_start s)\<lparr>run_state := service_state.truncate (snd (handle_client x sv (socket_of bytes s)))\<rparr>"

lemma connection_run:
  assumes "pred_option allowed (requested x (socket_of bytes s))"
  shows "(service_step rc x sv allowed)\<^sup>*\<^sup>* (run_start s) (after_request x sv bytes s)"
proof (rule r_into_rtranclp)
  obtain r c where "handle_client x sv (socket_of bytes s) = (r, c)" by fastforce
  with service_step.connection [of "socket_of bytes s" "run_start s" allowed x sv r c rc] assms
  show "service_step rc x sv allowed (run_start s) (after_request x sv bytes s)"
    by (simp add: after_request_def run_start_def)
qed

section \<open>A question, and a confirmed kill\<close>

text \<open>The request is the value with the shortest text.\<close>

definition asking_ext :: "client_request \<Rightarrow> ext" where
  "asking_ext req = counting_ext (request_json audit_ext req)"

definition question :: client_request where
  "question = Diagnose ''why slow?'' None True"

definition kill_args :: json where
  "kill_args = Object [(''pid'', nat_json 4312)]"

definition agreed :: client_request where
  "agreed = Confirm nil_uuid nil_uuid ''process.kill_request'' kill_args Once None None"

lemmas read_defs = sample_requested request_json_def request_of_json_def opt_json_def get_str_def get_session_def
  get_default_def get_opt_def

lemma question_read:
  "requested (asking_ext question) (socket_of [full_stop] s) = Some question"
  by (simp add: asking_ext_def question_def read_defs)

lemma counting_uuid [simp]: "uuid_parse (counting_ext j) s = Some (from_nat (length s - 1))"
  by (simp add: counting_ext_def)

lemma agreed_read:
  "requested (asking_ext agreed) (socket_of [full_stop] s) =
     Some (Confirm (from_nat 0) (from_nat 0) ''process.kill_request'' kill_args Once None None)"
  by (simp add: asking_ext_def agreed_def read_defs confirm_of_json_def kill_args_def uuid_json_def audit_ext_def get_uuid_def
      scope_of_json_def)

section \<open>A service on a real system\<close>

definition real_overrides :: cli_overrides where
  "real_overrides = sample_overrides\<lparr>cli_real_linux := True, cli_no_telemetry := True\<rparr>"

lemma real_resolved: "resolve sample_surroundings real_overrides = Inr (sample_settings\<lparr>st_real_linux := True\<rparr>)"
  by (simp add: resolve_def sample_surroundings_def real_overrides_def sample_overrides_def sample_settings_def
      discover_config_path_def overlay_env_def env_over_def mock_mode_def resolve_telemetry_def default_config_def
      default_runtime_def default_provider_def default_budgets_def default_memory_def default_automation_def
      default_telemetry_def Let_def)

lemma real_listening:
  "\<exists>sv s h'. service_main x sample_machine sample_surroundings real_overrides None sample_host =
     (Inr (Listening sv [] s), h') \<and> ai_tools (se_rt sv) = boot_registry x sample_os RealLinux (\<lambda>fs. fs) None
     \<and> (\<forall>n. write_src (p_host (sv_rt s)) n = Written) \<and> signals (p_host (sv_rt s)) = []"
  by (simp add: service_main_def real_resolved service_boot_def open_memory_def audit_open_def planner_demo_def
      settings_kind_def kind_mock settings_provider_def build_provider_def on_plant_def sample_settings_def
      sample_machine_def sample_host_def runtime_start_def service_meta_def service_runtime_def service_start_def
      mode_of_def io_defs Let_def)

text \<open>The codec writes numbers in ones, so no text looks like an injection.\<close>

lemma strokes_contain:
  assumes "c \<in> set pat" and "c \<noteq> stroke" and "c \<noteq> full_stop"
  shows "\<not> contains (strokes n) pat"
proof
  assume "contains (strokes n) pat"
  then have "set pat \<subseteq> set (strokes n)" by (simp add: contains_sublist set_mono_sublist)
  with assms show False by (auto simp: strokes_def)
qed

lemma stroke_texts: "to_lowercase t (strokes n) = strokes n"
  by (simp add: to_lowercase_def strokes_def is_ascii_def ascii_lower_def stroke_def full_stop_def list_all_iff)

lemma counting_injection: "\<not> looks_like_injection (counting_ext j) args"
proof -
  have "json_text (counting_ext j) args = strokes (number_of j args)" by (simp add: counting_ext_def)
  then have t: "to_lowercase (lower_tables (counting_ext j)) (json_text (counting_ext j) args) = strokes (number_of j args)"
    by (simp add: stroke_texts)
  note foreign = strokes_contain [of "CHR ''i''" "''ignore policies''"] strokes_contain [of "CHR ''k''" "''kill -9 1''"]
    strokes_contain [of "CHR ''r''" "''rm -rf''"] strokes_contain [of "CHR ''d''" "''drop privileges''"]
  then show ?thesis
    by (simp add: looks_like_injection_def t stroke_def full_stop_def Let_def)
qed

lemma term_signal: "normalize_signal x ''TERM'' = Inr ''TERM''"
proof -
  have "trim ''TERM'' = ''TERM''"
    by (simp add: trim_def trim_end_def trim_start_def strip_ws_done ws_byte_def ws_bytes2_def ws_bytes3_def)
  moreover have "strip_all ''TERM'' ''SIG'' = ''TERM''" by code_simp
  moreover have "to_uppercase t ''TERM'' = ''TERM''" for t
    by (simp add: to_uppercase_def is_ascii_def ascii_upper_def)
  ultimately show ?thesis by (simp add: normalize_signal_def allowed_signals_def)
qed

lemma sample_killable: "killable (counting_ext j) sample_os kill_args 4312 ''TERM''"
  by (simp add: killable_def counting_injection kill_args_def nat_json_def get_u64_def get_str_def term_signal sample_os_def)

lemma agreed_kills:
  assumes "ai_tools (se_rt sv) = boot_registry (asking_ext agreed) sample_os RealLinux it mem"
    and "\<forall>n. write_src (p_host (sv_rt s)) n = Written"
  shows "signals (p_host (sv_rt (run_state (after_request (asking_ext agreed) sv [full_stop] s)))) =
    signals (p_host (sv_rt s)) @ [(4312, ''TERM'')]"
proof -
  let ?x = "asking_ext agreed" and ?c = "socket_of [full_stop] s"
  have kill: "killable ?x sample_os kill_args 4312 ''TERM''" unfolding asking_ext_def by (rule sample_killable)
  have w: "next_write (p_host (sv_rt ?c)) = Written"
      "write_src (p_host (sv_rt ?c)) (Suc (write_next (p_host (sv_rt ?c)))) = Written"
    using assms(2) by (simp_all add: next_write_def)
  obtain resp t where "handle_client ?x sv ?c = bind_io (send_bytes resp) (\<lambda>_. shut) (?c\<lparr>sv_rt := t\<rparr>)"
      "signals (p_host t) = signals (p_host (sv_rt s)) @ [(4312, ''TERM'')]"
    using client_kill [OF agreed_read _ assms(1) kill w] by (auto simp: confirm_scope_of_def)
  then show ?thesis
    using delivered [of resp "?c\<lparr>sv_rt := t\<rparr>"] by (simp add: after_request_def service_state.defs)
qed

lemma killing_run:
  "\<exists>sv s h' t. service_main (asking_ext agreed) sample_machine sample_surroundings real_overrides None sample_host =
     (Inr (Listening sv [] s), h') \<and> (service_step rc (asking_ext agreed) sv (\<lambda>_. True))\<^sup>*\<^sup>* (run_start s) t
     \<and> signals (p_host (sv_rt (run_state t))) = [(4312, ''TERM'')]"
proof -
  obtain sv s h' where run: "service_main (asking_ext agreed) sample_machine sample_surroundings real_overrides None sample_host =
     (Inr (Listening sv [] s), h')" and tools: "ai_tools (se_rt sv) = boot_registry (asking_ext agreed) sample_os RealLinux (\<lambda>fs. fs) None"
     and w: "\<forall>n. write_src (p_host (sv_rt s)) n = Written" and none: "signals (p_host (sv_rt s)) = []"
    using real_listening by blast
  have "pred_option (\<lambda>_. True) (requested (asking_ext agreed) (socket_of [full_stop] s))" by (simp add: option.pred_True)
  from connection_run [OF this] run agreed_kills [OF tools w] none show ?thesis by fastforce
qed

text \<open>The service of the consoles on a real system, and a disk that is full.\<close>

definition real_service :: service where
  "real_service = sample_service\<lparr>se_rt := sample_runtime (asking_ext agreed) RealLinux\<rparr>"

lemma real_service_tools:
  "ai_tools (se_rt real_service) = boot_registry (asking_ext agreed) sample_os RealLinux (\<lambda>fs. fs) (Some \<lparr>ms_path = ''memory.jsonl''\<rparr>)"
  by (simp add: real_service_def sample_runtime_def)

lemma sample_written:
  "write_src (p_host (sv_rt (service_start sample_state))) n = Written"
  "signals (p_host (sv_rt (service_start sample_state))) = []"
  by (simp_all add: service_start_def sample_state_def sample_host_def)

definition full_disk :: runtime_state where
  "full_disk = sample_state\<lparr>p_host := sample_host\<lparr>write_src := (\<lambda>n. WriteFailed 0 ''no space'')\<rparr>\<rparr>"

lemma sample_machine_climbs: "client_climbs same_signals (mc_http sample_machine)"
  by (simp add: sample_machine_def sample_client_climbs same_signals.state_preorder_axioms)

section \<open>Envelopes, a torn log, a rule that cools down\<close>

text \<open>An automation event between the envelopes of a bus.\<close>

definition sample_notice :: envelope where
  "sample_notice = sample_envelope\<lparr>env_kind := Event,
     env_payload := Object [(''event'', String ''AutomationNotify''), (''message'', String ''hot'')]\<rparr>"

lemma sample_notice_entry:
  "entry_of sample_notice = Some (''AutomationNotify'', Some nil_uuid, ''hot'', env_payload sample_notice)"
  by code_simp

lemma sample_notices:
  "List.map_filter entry_of (heard sample_channel [sample_envelope, sample_notice] 0) =
     [(''AutomationNotify'', Some nil_uuid, ''hot'', env_payload sample_notice)]"
proof -
  have "heard sample_channel [sample_envelope, sample_notice] 0 = [sample_envelope, sample_notice]"
    by (simp add: heard.simps sample_channel_def bus_capacity_def)
  moreover have "entry_of sample_envelope = None" by (simp add: entry_of_def automation_name_def sample_envelope_def)
  ultimately show ?thesis by (simp add: map_filter_simps sample_notice_entry)
qed

text \<open>A codec whose only text is \<open>AB\<close>, of which the disk takes one byte at first.\<close>

definition torn_ext :: ext where
  "torn_ext = audit_ext\<lparr>json_text := (\<lambda>v. ''AB'')\<rparr>"

definition torn_host :: host where
  "torn_host = sample_host\<lparr>write_src := (\<lambda>n. if n = 0 then WriteFailed 1 ''disk full'' else Written)\<rparr>"

lemma torn_line: "audit_line torn_ext r = ''AB''"
  by (simp add: audit_line_def torn_ext_def)

lemma plain_bytes: "c \<in> {CHR ''A'', CHR ''B''} \<Longrightarrow> of_char c = (65 :: nat) \<or> of_char c = (66 :: nat)"
  by auto

lemma plain_not_ws:
  assumes "c \<in> {CHR ''A'', CHR ''B''}"
  shows "\<not> ws_byte (of_char c)" "\<not> ws_bytes2 (of_char c) n" "\<not> ws_bytes3 (of_char c) n m"
  using plain_bytes [OF assms] by (auto simp: ws_byte_def ws_bytes2_def ws_bytes3_def)

lemma plain_trim:
  assumes "\<forall>c \<in> set s. c \<in> {CHR ''A'', CHR ''B''}"
  shows "trim s = s"
proof -
  have "ws_len t = 0" if "\<forall>c \<in> set t. c \<in> {CHR ''A'', CHR ''B''}" for t
    using that by (cases t rule: ws_len.cases) (simp_all add: plain_not_ws del: insert_iff)
  moreover have "ws_len_end t = 0" if "\<forall>c \<in> set t. c \<in> {CHR ''A'', CHR ''B''}" for t
    using that by (cases t rule: ws_len_end.cases) (simp_all add: plain_not_ws del: insert_iff)
  ultimately show ?thesis using assms by (simp add: trim_def trim_start_def trim_end_def strip_ws_done del: insert_iff)
qed

lemma torn_stays_broken: "stays_broken torn_ext ''A''"
  unfolding stays_broken_def
proof (intro allI impI)
  fix u
  assume "scraps torn_ext u"
  then obtain ws where ws: "u = concat ws" "\<forall>w \<in> set ws. prefix w ''AB''"
    unfolding scraps_def torn_line by auto
  have "set w \<subseteq> {CHR ''A'', CHR ''B''}" if "w \<in> set ws" for w
    using set_mono_prefix [OF bspec [OF ws(2) that]] by simp
  then have s: "\<forall>c \<in> set (''A'' @ u). c \<in> {CHR ''A'', CHR ''B''}" using ws(1) by auto
  have "newline \<notin> {CHR ''A'', CHR ''B''}" "carriage \<notin> {CHR ''A'', CHR ''B''}" by (simp_all add: newline_def carriage_def)
  with s have "one_line (''A'' @ u)" unfolding one_line_def by metis
  moreover have "json_parse torn_ext (''A'' @ u) = None" by (simp add: torn_ext_def audit_ext_def sample_ext_def)
  ultimately show "one_line (''A'' @ u) \<and> \<not> blank (''A'' @ u) \<and> (\<exists>e. audit_parse torn_ext (''A'' @ u) = Inl e)"
    using plain_trim [OF s] by (simp add: blank_def audit_parse_def)
qed

text \<open>An engine of one rule, and what triggers it.\<close>

definition cooling_engine :: automation_engine where
  "cooling_engine = \<lparr>ae_rules = [\<lparr>ru_id = ''r'', ru_name = ''r'', ru_enabled = True, ru_trigger = NamedEvent ''E'',
     ru_action = Notify ''m'', ru_cooldown_secs = 60\<rparr>]\<rparr>"

definition cooling_trigger :: envelope where
  "cooling_trigger = sample_envelope\<lparr>env_kind := Event, env_payload := Object [(''event'', String ''E'')]\<rparr>"

lemma cooling_idle: "automation_turn audit_ext cooling_engine (Got sample_envelope) t = (Inr True, t)"
  by (simp add: automation_turn_def own_event_def sample_envelope_def evaluate_def cooling_engine_def engine_matches_def
      io_defs)

lemma cooling_evaluates:
  assumes "\<not> au_poisoned t" and "map_of (au_last_fired t) ''r'' = Some t0"
  shows "\<exists>fs w. evaluate audit_ext cooling_engine cooling_trigger t = (Inr fs, w) \<and> af_rule_id ` set fs \<subseteq> {''r''}"
  using assms
  by (auto simp: evaluate_def cooling_engine_def cooling_trigger_def engine_matches_def in_cooldown_def on_plant_def
      io_simps get_str_def fire_of_def chrono_seconds_def)

end
