(* ===== verification/Spec2Isabelle.thy ===== *)
theory Spec2Isabelle
  imports ComponentFacts RunSamples
begin

text \<open>
  A verification library for SaaiOS (\<open>crates/\<close> and \<open>services/saaios-runtime\<close>): an assistant that answers
  questions about a machine by letting a language model propose tool calls, and that runs such a call only
  when its policy engine, or the user, allows it.

  \<^bold>\<open>The program.\<close> A client sends a line of text to the service. The orchestrator (\<open>ai-runtime\<close>) takes one
  of a bounded number of request slots, and alternates between the model provider (\<open>model-provider\<close>) and the
  tools (\<open>tool-registry\<close>, \<open>system-tools\<close>, \<open>memory-store\<close>) until the model has no more calls, the budget of
  iterations is used up, or the timeout drops the request. Every proposed call goes to the policy engine
  (\<open>policy-engine\<close>): low risk runs, a refused call is reported to the model, anything else ends the request
  with a question to the user, whose answer arrives later as a confirmation. Each step is an envelope
  (\<open>protocol\<close>) that is appended to the audit log (\<open>audit-log\<close>) and then published on the bus (\<open>event-bus\<close>).
  The automation engine (\<open>automation-engine\<close>) listens on the bus and fires its rules, the telemetry sampler
  (\<open>telemetry\<close>) feeds the bus with metrics, the event feed keeps the latest automation events for clients, and
  the settings of all of them come from \<open>config\<close>. The service (\<open>services/saaios-runtime\<close>) puts them together, answers one
  request per connection of its socket, and runs the background tasks. Two consoles speak to that socket: a web server that
  relays requests of a browser (\<open>console-web\<close>) and a terminal program (\<open>console-tui\<close>); both show the user what a call
  would do and send the answer back.

  \<^bold>\<open>The theories\<close>, in the order they build on each other.
  \<^item> Prelude: the collections of simplification and introduction rules, strings as UTF-8 bytes with the operations of the Rust library the source uses, the
    state-and-error monad \<open>io\<close>, and the locale \<open>state_preorder\<close> with its relation \<open>climbs\<close>: what a
    computation may do to its state, closed under every combinator.
  \<^item> Utf8: \<open>String::from_utf8_lossy\<close>, and the texts it leaves alone. Doubles: the arithmetic of binary64 with correct rounding,
    the number parsers, the order of the type. Both model the standard library.
  \<^item> Json: \<open>serde_json\<close> values, their accessors and JSON pointers, binary64 as exact
    rationals with the special values, \<open>Uuid\<close>, timestamps with their order, and the record \<open>ext\<close> of what is not under
    the repository: the JSON text codec, the text forms of identifiers and times, the Unicode case tables.
  \<^item> Ambient, Host: the clock and the identifier source, the two JSONL files with their write, open and read outcomes, and the
    signals sent; reading and appending records of any codec, with the durability lemmas both stores share.
  \<^item> Protocol (\<open>protocol\<close>): envelopes, message kinds, payloads, validation, the CBOR gate.
  \<^item> ToolRegistry (\<open>tool-registry\<close>), PolicyEngine (\<open>policy-engine\<close>): tools as records of a specification
    and an execution; registration and dispatch; the decision, the grants, the refused calls.
  \<^item> Texts: the non-ASCII literals of the source as byte strings.
  \<^item> ModelProvider (\<open>model-provider\<close>): the provider interface with its streaming contract, the mock
    provider in full, the fallback chain, the choice of providers. OpenAi: the provider that speaks HTTP, its requests, the
    event stream read chunk by chunk, the assembly of streamed tool calls; the transport under it is a parameter.
  \<^item> Window: the locale of bounded windows (a push keeps a suffix within a limit); Conversation
    (\<open>ai-runtime/src/conversation.rs\<close>) and EventFeed (\<open>saaios-runtime/src/event_feed.rs\<close>) interpret it.
  \<^item> AuditLog (\<open>audit-log\<close>), MemoryStore (\<open>memory-store\<close>): the append-only logs, the query by
    correlation, the replay; the view by key, recall, forget, the memory tools.
  \<^item> EventBus (\<open>event-bus\<close>): the host together with the bus, recording an envelope as append-then-publish, and the relation
    \<open>trail\<close> between what is published and what is in the file.
  \<^item> Automation (\<open>automation-engine\<close>): rules, matchers, cooldowns, the loop over bus events, with the
    panics of the source as values.
  \<^item> Config (\<open>config\<close>), Telemetry (\<open>telemetry\<close>): the file, environment and command-line layers; the sampler and its statistics.
  \<^item> AiRuntime (\<open>ai-runtime/src/lib.rs\<close>): requests, tool calls, confirmations, slots, the planner without a
    model.
  \<^item> SystemBackend, LinuxReaders, SystemTools (\<open>system-tools\<close>): the records and the mock backend, signal names; the readers of
    \<open>/proc\<close>, \<open>/sys\<close>, \<open>df\<close>, \<open>ip\<close> and \<open>journalctl\<close>; the seven tools and the kill path. LinuxFacts: what the readers compute.
  \<^item> RuntimeSafety, RuntimeResults, RuntimeBoot: lemmas on the whole request: what it may do to the host, the
    bus and the grants (the locale \<open>runtime_frame\<close>, whose interpretations carry each such frame through the loop of
    model calls), what it returns, and which contracts the tools and providers the service installs meet.
  \<^item> AbStatus (\<open>saaios-runtime/src/ab_status.rs\<close>): the boot slots on disk. Wire, Server, ServerTasks (\<open>saaios-runtime/src/main.rs\<close>):
    requests and responses with their JSON form; the answers and the connection; the tasks, the start from the settings, and
    the service as a step relation \<open>service_step\<close> over connections, tasks and ticks. The broadcast channel of the bus (a
    library) is the parameter \<open>rc\<close>: what a receiver at a position gets next, and where it stands then.
  \<^item> ServerFrame: the locale \<open>service_frame\<close>, which lifts a preorder on runtime states to every step of the service;
    ServerSafety: its interpretations and what the start establishes; ServerFacts: answers, grants, feed, diagnoses
    without a user. Outcomes: what a confirmed kill does when all it needs is there, and that nothing happens when the audit
    log cannot be written. PlannerFacts: the planner without a model, with a small calculus (\<open>logs\<close>) of what a computation adds to the log.
    Interleaving: tasks in parallel, with appending to the log and publishing on the bus as steps of their own, and what a request overwrites.
  \<^item> Lines: the loop that takes complete lines off a buffer which grows by chunks, used by the provider's event stream and by
    the relay of the web console, and why it does not depend on the chunks. Console: failures with their context, the
    socket seen from a client (a \<open>peer\<close> answers the bytes of one connection with chunks, and may fail), and the laws of the JSON codec.
  \<^item> ConsoleWeb (\<open>console-web/src/main.rs\<close>): arguments, the bind address, the token, the routes with every handler, the
    relayed stream, the page. ConsoleTui (\<open>console-tui/src/main.rs\<close>): requests, the responses read back, every key and command, the
    loop \<open>run_keys\<close> over key presses.
  \<^item> TuiFacts: which request a key sends (\<open>key_request\<close>), the record of everything asked and answered, the
    invariant that confirmations follow offers, the way out. TuiAnswers: reading what the service writes. StageFacts: the token
    guard, requests that are understood, the relay.
  \<^item> ServicePeer: the service of Server behind the socket of a console, with the bytes of its answers cut in any way. Desk:
    a terminal console and the running service as one step relation \<open>desk_step\<close>.
  \<^item> Observations, ComponentFacts: what the findings rest on, and further facts of single components. Samples,
    ServiceSamples, ConsoleSamples, RunSamples: concrete instances at which the witnesses evaluate the properties.

  \<^bold>\<open>How state and operations correspond.\<close> A function of the source that may fail or touch shared state is a
  value of type \<open>io\<close>: it takes the state and returns an error or a result with the new state, also on the
  error path, since a Rust function that returns early keeps what it already wrote. Structs behind \<open>Arc\<close> and
  \<open>Mutex\<close> are fields of one state record (\<open>host\<close>, \<open>plant\<close>, \<open>runtime_state\<close>, \<open>automation_state\<close>). Trait objects
  (\<open>ToolExecutor\<close>, \<open>ModelProvider\<close>, \<open>SystemBackend\<close>) are records of functions, so a theorem about the runtime holds for
  every provider and backend under the stated contract. What the environment decides is read from oracles in the
  state (fresh identifiers, the clock, whether a write fails and after how many bytes, whether a file opens, whether the
  progress channel has room, and where the timeout drops the request), and the theorems quantify over them. The
  iteration order of hash maps is a parameter known only to permute its argument (\<open>some_order\<close>). Identifiers of processes are 32-bit words,
  JSON integers 64-bit words, sizes and counters naturals.

  \<^bold>\<open>What the properties show.\<close> The service as a whole: no signal without a confirmation of the kill tool, and never
  one to a protected process; a confirmed kill that is delivered and on record; nothing done off the record; grants that
  follow the requests; slots, grants and conversations that stay well formed; one answer per request; a feed that is
  complete and catches up; diagnoses that do not trigger themselves. The consoles: a user who refuses lets no signal
  through, from the keyboard to the kernel; a console confirms only what it was offered and asks only what its keys say; it
  can always be left; each side reads what the other writes; a streamed diagnosis arrives unchanged however the network cuts
  it; a console on the local network needs its token. A single request: audit before publication, also for tasks in parallel, its outcomes, slots, the
  process blamed, the planner that only asks. The policy engine and its agreement with the runtime's gate. Envelopes, the two
  logs, the memory view as a refinement of an abstract map. Bounded windows, providers and the event stream. Cooldowns,
  settings, the process list of the Linux readers.

  \<^bold>\<open>Termination and bounds.\<close> Every definition is total. The loop of model calls recurs on the budget
  \<open>max_tool_iters\<close> itself, the code's own bound, so no fuel is added; the bus loops recur on the list of what the receiver
  gets, the sampler on its number of ticks; the others are structural or have a measure. The console's loop recurs on the key presses, and a sequence of them that ends it is
  given for every state.

  \<^bold>\<open>Not modelled.\<close> The transport of the HTTP client, the TOML and JSON parsers, and what the operating system answers to
  file, command and socket calls are parameters. The parsing of the command line into \<open>cli_overrides\<close> and into the
  arguments of the consoles, the tracing output, the drawing of the terminal (\<open>fn ui\<close>) and its raw mode, the web framework below the handlers
  (HTTP, TLS), and the boot images, kernel patches and deployment scripts are outside the model. The sizes of the two hash-map
  backed stores are not bounded here, as they are not in the source.
  Tasks that run concurrently interleave between their calls of the shared components; in \<open>service_step\<close> a
  connection, a received envelope or a tick is one step. What matters most under finer interleavings is modelled beside it: slots as a
  relation over requests in progress (\<open>slot_step\<close>), recording by parallel tasks (\<open>shared_step\<close>), and a request that its timeout
  cuts at any await. Panics are modelled where the source can reach them (a cooldown
  beyond the range of the clock, a poisoned lock, a failed assertion).
\<close>

section \<open>The service: what its clients and tasks can do together\<close>

text \<open>C1: However the service was started, however many clients connect and whatever they send, whatever the
  model proposes and however the background tasks interleave: as long as no client confirms the kill tool, no
  signal is sent to any process. The HTTP client under the provider sends none itself.\<close>

theorem service_without_kill_confirmation_sends_no_signal:
  assumes "client_climbs same_signals (mc_http mc)"
    and "service_main x mc su ov rep h = (Inr (Listening sv printed s), h')"
    and "(service_step rc x sv no_kill_confirmation)\<^sup>*\<^sup>* (run_start s) t"
  shows "signals (p_host (sv_rt (run_state t))) = signals h"
  using assms by (rule unconfirmed_run)

theorem service_without_kill_confirmation_sends_no_signal_witness:
  "\<exists>sv s h'. service_main (asking_ext question) sample_machine sample_surroundings real_overrides None sample_host =
     (Inr (Listening sv [] s), h')
     \<and> requested (asking_ext question) (socket_of [full_stop] s) = Some question
     \<and> signals (p_host (sv_rt (run_state (after_request (asking_ext question) sv [full_stop] s)))) = []"
proof -
  obtain sv s h' where run: "service_main (asking_ext question) sample_machine sample_surroundings real_overrides None sample_host =
     (Inr (Listening sv [] s), h')" using real_listening by blast
  have "pred_option no_kill_confirmation (requested (asking_ext question) (socket_of [full_stop] s))"
    unfolding question_read by (simp add: question_def no_kill_confirmation_def)
  from service_without_kill_confirmation_sends_no_signal [OF sample_machine_climbs run connection_run [OF this]] run question_read
  show ?thesis by (auto simp: sample_host_def)
qed

text \<open>C2: Whatever the clients confirm, every signal the service ever sends goes to a process with an
  identifier above 1 that is not the service itself, and is one of the seven allowed signals.\<close>

theorem service_signals_are_sane:
  assumes "client_climbs same_signals (mc_http mc)"
    and "service_main x mc su ov rep h = (Inr (Listening sv printed s), h')"
    and "(service_step rc x sv (\<lambda>_. True))\<^sup>*\<^sup>* (run_start s) t"
  shows "\<exists>new. signals (p_host (sv_rt (run_state t))) = signals h @ new
    \<and> (\<forall>(pid, sig) \<in> set new. 1 < pid \<and> pid \<noteq> os_self (mc_os mc) \<and> sig \<in> set allowed_signals)"
proof -
  from main_run [OF assms(1,2)] have "installed x (mc_os mc) sv" "same_signals h (p_host (sv_rt s))" by simp_all
  moreover from this have "host_rel (sane_signals (mc_os mc)) (sv_rt (run_state (run_start s))) (sv_rt (run_state t))"
    by (intro service_frame.run_ok [OF sane_frame assms(3)])
  ultimately show ?thesis by (simp add: host_rel_def run_start_def same_signals_def sane_signals_def)
qed

theorem service_signals_are_sane_witness:
  "\<exists>sv s h' t. service_main (asking_ext agreed) sample_machine sample_surroundings real_overrides None sample_host =
     (Inr (Listening sv [] s), h')
     \<and> (service_step sample_channel (asking_ext agreed) sv (\<lambda>_. True))\<^sup>*\<^sup>* (run_start s) t
     \<and> signals (p_host (sv_rt (run_state t))) = [(4312, ''TERM'')] \<and> (4312 :: u32) \<noteq> os_self sample_os"
proof -
  obtain sv s h' t where run: "service_main (asking_ext agreed) sample_machine sample_surroundings real_overrides None sample_host =
     (Inr (Listening sv [] s), h')" and steps: "(service_step sample_channel (asking_ext agreed) sv (\<lambda>_. True))\<^sup>*\<^sup>* (run_start s) t"
     and sent: "signals (p_host (sv_rt (run_state t))) = [(4312, ''TERM'')]"
    using killing_run by blast
  from service_signals_are_sane [OF sample_machine_climbs run steps] sent
  have "(4312 :: u32) \<noteq> os_self (mc_os sample_machine)" by (auto simp: sample_host_def)
  then have "(4312 :: u32) \<noteq> os_self sample_os" by (simp add: sample_machine_def)
  with run steps sent show ?thesis by blast
qed

text \<open>C3: A confirmed kill is delivered. If a client confirms a call of the kill tool on a real system, the call
  names a process that lives and may be signalled, and the log takes the two lines, then exactly that signal is
  sent; the confirmation and, caused by it, the result are in the audit log and on the bus; and the client is
  told of the success.\<close>

theorem confirmed_kill_is_delivered:
  assumes "requested x c = Some (Confirm corr cid ''process.kill_request'' args scope confirmed sess)"
    and "confirm_scope_of confirmed scope \<noteq> Cancel"
    and "ai_tools (se_rt sv) = boot_registry x os RealLinux it mem" and "killable x os args pid sig"
    and "next_write (p_host (sv_rt c)) = Written"
    and "write_src (p_host (sv_rt c)) (Suc (write_next (p_host (sv_rt c)))) = Written"
    and "co_write_src c (co_write_next c) = Written"
  shows "\<exists>e1 e2 grants. signals (p_host (sv_rt (snd (handle_client x sv c)))) = signals (p_host (sv_rt c)) @ [(pid, sig)]
    \<and> p_bus (sv_rt (snd (handle_client x sv c))) = p_bus (sv_rt c) @ [e1, e2]
    \<and> files (p_host (sv_rt (snd (handle_client x sv c)))) AuditFile =
        files (p_host (sv_rt c)) AuditFile @ envelope_line x e1 @ envelope_line x e2
    \<and> env_kind e1 = ConfirmationResponse \<and> env_kind e2 = ToolResult \<and> env_causation_id e2 = Some (env_msg_id e1)
    \<and> env_correlation_id e1 = corr \<and> env_correlation_id e2 = corr
    \<and> co_sent (snd (handle_client x sv c)) =
        co_sent c @ [json_text x (response_json x (kill_response corr cid sess grants pid sig))]"
proof -
  obtain e1 e2 t where run: "handle_client x sv c =
      bind_io (send_bytes (json_text x (response_json x (kill_response corr cid sess (session_grants (a_policy t)) pid sig))))
        (\<lambda>_. shut) (c\<lparr>sv_rt := t\<rparr>)" (is "_ = bind_io (send_bytes ?b) _ _")
    and rest: "signals (p_host t) = signals (p_host (sv_rt c)) @ [(pid, sig)]" "p_bus t = p_bus (sv_rt c) @ [e1, e2]"
      "files (p_host t) AuditFile = files (p_host (sv_rt c)) AuditFile @ envelope_line x e1 @ envelope_line x e2"
      "env_kind e1 = ConfirmationResponse" "env_kind e2 = ToolResult" "env_causation_id e2 = Some (env_msg_id e1)"
      "env_correlation_id e1 = corr" "env_correlation_id e2 = corr"
    using client_kill [OF assms(1-6)] by metis
  have "co_sent (snd (handle_client x sv c)) = co_sent c @ [?b]"
    using assms(7) by (simp add: run sent_once)
  moreover have "sv_rt (snd (handle_client x sv c)) = t" by (simp add: run delivered)
  ultimately show ?thesis using rest by (intro exI [of _ e1] exI [of _ e2] exI [of _ "session_grants (a_policy t)"]) simp
qed

theorem confirmed_kill_is_delivered_witness:
  "signals (p_host (sv_rt (snd (handle_client (asking_ext agreed) real_service (socket_of [full_stop] (service_start sample_state)))))) =
     [(4312, ''TERM'')]"
proof -
  let ?c = "socket_of [full_stop] (service_start sample_state)"
  have kill: "killable (asking_ext agreed) sample_os kill_args 4312 ''TERM''" unfolding asking_ext_def by (rule sample_killable)
  from confirmed_kill_is_delivered [OF agreed_read _ real_service_tools this, of "service_start sample_state"]
  show ?thesis by (auto simp: confirm_scope_of_def next_write_def sample_written)
qed

text \<open>C4: Nothing happens off the record. If the audit log cannot be written when a question or a confirmation
  arrives, no tool runs and no signal is sent, nothing is published, and no grant, slot or conversation changes;
  and the client gets one answer, which says that the request failed.\<close>

theorem unaudited_requests_do_nothing:
  assumes "requested x c = Some req" and "acting req" and "next_write (p_host (sv_rt c)) = WriteFailed n msg"
  shows "inert (sv_rt c) (sv_rt (snd (handle_client x sv c)))
    \<and> (co_write_src c (co_write_next c) = Written \<longrightarrow>
        (\<exists>resp. \<not> cl_ok resp \<and> cl_error resp \<noteq> None
          \<and> co_sent (snd (handle_client x sv c)) = co_sent c @ [answer_bytes x req resp]))"
proof -
  obtain resp u where resp: "response_wf resp" "\<not> cl_ok resp" "inert (sv_rt c) (sv_rt u)" "same_socket c u"
      and run: "handle_client x sv c = bind_io (send_bytes (answer_bytes x req resp)) (\<lambda>_. shut) u"
    using serve_unaudited [OF assms(2,3), where x = x and sv = sv] assms(1) by (auto simp: handle_client_run)
  then show ?thesis
    using delivered [of "answer_bytes x req resp" u] socket_fields [OF resp(4)]
    by (auto simp: sent_once response_wf_def)
qed

theorem unaudited_requests_do_nothing_witness:
  "inert full_disk (sv_rt (snd (handle_client (asking_ext agreed) real_service (socket_of [full_stop] (service_start full_disk)))))"
  using unaudited_requests_do_nothing [OF agreed_read, of "service_start full_disk" 0 "''no space''" real_service]
  by (simp add: acting_def full_disk_def next_write_def service_start_def)

text \<open>C5: The grants change only as requests say. However clients and background tasks interleave, as long as no
  request asks for a session grant or clears the grants they stay as they are: no background task and no other request
  touches them. From any such state the next connection changes them only as its request says: a confirmation that ends
  up with session scope may add the tool it names, the request to clear leaves none, and every other request, and a
  connection without one, leaves them alone.\<close>

theorem grants_follow_requests:
  assumes "(service_step rc x sv grant_neutral)\<^sup>*\<^sup>* s t" and "service_state.truncate c = run_state t"
  shows "session_allows (a_policy (sv_rt (run_state t))) = session_allows (a_policy (sv_rt (run_state s)))
    \<and> session_allows (a_policy (sv_rt (snd (handle_client x sv c)))) \<in>
        grants_after (requested x c) (session_allows (a_policy (sv_rt (run_state s))))"
proof -
  have "a_policy (sv_rt (run_state t)) = a_policy (sv_rt (run_state s))"
    using neutral.run_ok [OF assms(1)] by (simp add: same_grants_def)
  moreover have "sv_rt c = sv_rt (run_state t)" by (simp add: truncated flip: assms(2))
  ultimately show ?thesis using client_grants [OF prod.collapse [symmetric], of x sv c] by simp
qed

theorem grants_follow_requests_witness:
  "session_allows (a_policy (sv_rt (run_state (after_request (asking_ext question) sample_service [full_stop] (service_start sample_state))))) = []"
proof -
  let ?s = "service_start sample_state"
  let ?t = "after_request (asking_ext question) sample_service [full_stop] ?s"
  have "pred_option grant_neutral (requested (asking_ext question) (socket_of [full_stop] ?s))"
    unfolding question_read by (simp add: question_def grant_neutral_def)
  from grants_follow_requests [OF connection_run [OF this], of "snd (handle_client (asking_ext question) sample_service (socket_of [full_stop] ?s))"]
  show ?thesis by (simp add: run_start_def after_request_def service_start_def sample_state_def policy_new_def)
qed

text \<open>C6: In every state the service can reach, all request slots are free between requests, the grants are
  without repetition, and every conversation is within its limit.\<close>

theorem service_keeps_its_invariants:
  assumes "client_climbs same_signals (mc_http mc)"
    and "service_main x mc su ov rep h = (Inr (Listening sv printed s), h')"
    and "(service_step rc x sv (\<lambda>_. True))\<^sup>*\<^sup>* (run_start s) t"
  shows "a_slots (sv_rt (run_state t)) = max (rb_max_concurrent_requests (ai_budgets (se_rt sv))) 1
    \<and> policy_wf (a_policy (sv_rt (run_state t))) \<and> conv_wf (a_convs (sv_rt (run_state t)))"
proof -
  have "conv_wf initial_convs" "policy_wf policy_new"
    by (simp_all add: initial_convs_def conv_wf_new policy_wf_def policy_new_def)
  moreover have "well_kept (sv_rt s) (sv_rt (run_state t))"
    using kept.run_ok [OF assms(3)] by (simp add: run_start_def)
  ultimately show ?thesis
    using main_run [OF assms(1,2)] by (simp add: well_kept_def initial_slots_def)
qed

theorem service_keeps_its_invariants_witness:
  "\<exists>sv s h'. service_main (asking_ext question) sample_machine sample_surroundings real_overrides None sample_host =
     (Inr (Listening sv [] s), h')
     \<and> conv_wf (a_convs (sv_rt (run_state (after_request (asking_ext question) sv [full_stop] s))))"
proof -
  obtain sv s h' where run: "service_main (asking_ext question) sample_machine sample_surroundings real_overrides None sample_host =
     (Inr (Listening sv [] s), h')" using real_listening by blast
  have "pred_option (\<lambda>_. True) (requested (asking_ext question) (socket_of [full_stop] s))" by (simp add: option.pred_True)
  from service_keeps_its_invariants [OF sample_machine_climbs run connection_run [OF this]] run show ?thesis by blast
qed

text \<open>C7: A connection that carries no request (a read error, an early close, bytes that are no request) changes
  nothing and gets no answer. Any other connection, on a socket that takes what is written, gets exactly one
  answer, which says that it failed if and only if it names an error, and is then shut down. A streamed diagnosis gets
  before that, in order, one frame for every event that the request has put into its progress channel, and no other.\<close>

theorem every_connection_is_answered:
  assumes "\<And>n. co_write_src c n = Written" and "co_shutdown c = None"
  shows "case requested x c of
      None \<Rightarrow> snd (handle_client x sv c) = c
    | Some req \<Rightarrow> \<exists>resp c'. handle_client x sv c = (Inr (), c') \<and> response_wf resp \<and> co_closed c'
        \<and> co_sent c' = co_sent c @
            (if streaming req
             then map (progress_frame x) (drop (length (a_progress (sv_rt c))) (a_progress (sv_rt c'))) @ [done_frame x resp]
             else [json_text x (response_json x resp)])"
proof (cases "requested x c")
  case None
  then show ?thesis by (simp add: handle_client_run split: sum.split)
next
  case (Some req)
  from serve_answers [OF assms, of x sv req] obtain resp c' where
    "serve x sv req c = (Inr (), c')" "response_wf resp" "co_closed c'"
    "if streaming req then co_sent c' = co_sent c @ map (progress_frame x) (progress_between c c') @ [done_frame x resp]
       else co_sent c' = co_sent c @ [json_text x (response_json x resp)]"
    by blast
  with Some show ?thesis
    by (auto simp: handle_client_run progress_between_def intro!: exI [of _ resp] split: if_splits)
qed

theorem every_connection_is_answered_witness:
  "\<exists>resp c'. handle_client (asking_ext question) sample_service (socket_of [full_stop] (service_start sample_state)) = (Inr (), c')
     \<and> response_wf resp \<and> co_closed c'
     \<and> co_sent c' = map (progress_frame (asking_ext question)) (a_progress (sv_rt c')) @ [done_frame (asking_ext question) resp]"
proof -
  let ?c = "socket_of [full_stop] (service_start sample_state)"
  have "\<And>n. co_write_src ?c n = Written" "co_shutdown ?c = None" "a_progress (sv_rt ?c) = []" "co_sent ?c = []"
    by (simp_all add: socket_of_def service_start_def sample_state_def service_state.defs client_state.defs)
  moreover have "requested (asking_ext question) ?c = Some question" by (rule question_read)
  moreover have "streaming question" by (simp add: question_def streaming_def)
  ultimately show ?thesis using every_connection_is_answered [of ?c "asking_ext question" sample_service] by simp
qed

text \<open>C8: The feed worker keeps exactly the automation events it receives, in order, each with its name,
  correlation id, summary and payload, and of all of them the most recent ones within the capacity.\<close>

theorem feed_worker_records_automation_events:
  assumes "feed_wf (sv_feed s)"
  shows "\<exists>items t. event_feed_worker x (map Got es) s = (Inr () :: panic + unit, t)
    \<and> ef_items (sv_feed t) = last_n (ef_capacity (sv_feed s)) (ef_items (sv_feed s) @ items)
    \<and> map feed_entry items = List.map_filter entry_of es"
proof -
  obtain items t where "event_feed_worker x (map Got es) s = (Inr () :: panic + unit, t)"
    "sv_feed t = fold feed_push items (sv_feed s)" "map feed_entry items = List.map_filter entry_of es"
    using feed_worker_run by blast
  then show ?thesis using feed.run_exact [OF assms, of items] by auto
qed

theorem feed_worker_records_automation_events_witness:
  "\<exists>items t. event_feed_worker audit_ext (map Got [sample_envelope]) (service_start sample_state) = (Inr () :: panic + unit, t)
    \<and> map feed_entry items = List.map_filter entry_of [sample_envelope]"
  using feed_worker_records_automation_events [of "service_start sample_state" audit_ext "[sample_envelope]"]
  by (auto simp: service_start_def feed_wf_new)

text \<open>C9: The feed worker can always catch up, on a channel that moves on: from any state in which its loop still runs,
  turns of that worker alone bring its receiver to the end of what is published, past whatever the channel has dropped;
  they publish nothing, the loop still runs, and the feed has taken in, in order, exactly the automation events among
  the envelopes that the channel handed over on the way, of which it keeps the most recent within its capacity.\<close>

theorem feed_worker_catches_up:
  assumes "moves_on rc" and "run_feed s = Some k" and "k \<le> length (run_bus s)" and "feed_wf (sv_feed (run_state s))"
  shows "\<exists>t items. (feed_step rc x)\<^sup>*\<^sup>* s t \<and> run_bus t = run_bus s \<and> run_feed t = Some (length (run_bus s))
    \<and> ef_items (sv_feed (run_state t)) =
        last_n (ef_capacity (sv_feed (run_state s))) (ef_items (sv_feed (run_state s)) @ items)
    \<and> map feed_entry items = List.map_filter entry_of (heard rc (run_bus s) k)"
proof -
  obtain t items where "(feed_step rc x)\<^sup>*\<^sup>* s t" "run_bus t = run_bus s" "run_feed t = Some (length (run_bus s))"
      "sv_feed (run_state t) = fold feed_push items (sv_feed (run_state s))"
      "map feed_entry items = List.map_filter entry_of (heard rc (run_bus s) k)"
    using feed_catches_up [OF assms(1-3)] by blast
  then show ?thesis using feed.run_exact [OF assms(4), of items] by (intro exI [of _ t] exI [of _ items]) simp
qed

theorem feed_worker_catches_up_witness:
  "\<exists>t. (feed_step sample_channel audit_ext)\<^sup>*\<^sup>* (run_start (service_start (sample_state\<lparr>p_bus := [sample_envelope, sample_notice]\<rparr>))) t
     \<and> run_feed t = Some 2
     \<and> map feed_entry (ef_items (sv_feed (run_state t))) = [(''AutomationNotify'', Some nil_uuid, ''hot'', env_payload sample_notice)]"
proof -
  let ?s = "run_start (service_start (sample_state\<lparr>p_bus := [sample_envelope, sample_notice]\<rparr>))"
  have s: "run_feed ?s = Some 0" "run_bus ?s = [sample_envelope, sample_notice]" "sv_feed (run_state ?s) = feed_new 64"
    by (simp_all add: run_start_def run_bus_def service_start_def)
  obtain t items where t: "(feed_step sample_channel audit_ext)\<^sup>*\<^sup>* ?s t" "run_feed t = Some 2"
      "ef_items (sv_feed (run_state t)) = last_n 64 items"
      "map feed_entry items = List.map_filter entry_of (heard sample_channel [sample_envelope, sample_notice] 0)"
    using feed_worker_catches_up [OF sample_channel_moves_on s(1), of audit_ext] s(2,3) feed_wf_new [of 64]
    by (auto simp: feed_new_def numeral_2_eq_2)
  have items: "map feed_entry items = [(''AutomationNotify'', Some nil_uuid, ''hot'', env_payload sample_notice)]"
    using t(4) by (simp only: sample_notices)
  then have "length items = 1" by (cases items) auto
  then have "last_n 64 items = items" by simp
  with t(1,2,3) items show ?thesis by (intro exI [of _ t]) simp
qed

text \<open>C10: A diagnosis without a user happens exactly on the event that asks for one, and does not call itself:
  of what it publishes exactly one envelope, the last, is an event; it is caused by the trigger, reports
  completion or failure, does not trigger another diagnosis, and the automation engine ignores it. Any other
  envelope leaves the state as it is.\<close>

theorem auto_diagnosis_does_not_trigger_itself:
  "if auto_trigger env
   then \<exists>t es out. auto_diagnose_event x rt env s = (Inr () :: panic + unit, t)
     \<and> p_bus (sv_rt t) = p_bus (sv_rt s) @ es @ [out] \<and> list_all (\<lambda>e. env_kind e \<noteq> Event) es
     \<and> env_kind out = Event \<and> env_causation_id out = Some (env_msg_id env)
     \<and> \<not> auto_trigger out \<and> own_event out
     \<and> automation_name out \<in> {Some ''AutomationDiagnoseCompleted'', Some ''AutomationDiagnoseFailed''}
   else auto_diagnose_event x rt env s = (Inr () :: panic + unit, s)"
proof (cases "auto_trigger env")
  case True
  from auto_diagnose_run [where 'e = panic, OF this, of x rt s] show ?thesis
    unfolding if_P [OF True] closes_def by (elim exE conjE) (intro exI conjI)
next
  case False
  then show ?thesis by (simp add: auto_diagnose_event_def ret_def)
qed

section \<open>The consoles\<close>

text \<open>C11: From the keyboard to the kernel: a service that was started, with a terminal console in front of it,
  while its tasks run and other clients come and go. If the user never agrees to a pending call of the kill
  tool, and no other client confirms one, no signal is sent to any process, whatever is typed and whatever the
  model proposes.\<close>

theorem refusing_user_sends_no_signal:
  assumes "client_climbs same_signals (mc_http mc)"
    and "service_main x mc su ov rep h = (Inr (Listening sv printed s), h')"
    and "codecs x" and "objects_end x"
    and "(desk_step rc bad x nw sv no_kill_confirmation (\<lambda>k a. \<not> agrees_to_kill k a))\<^sup>*\<^sup>* (run_start s, a) (t, b)"
  shows "signals (p_host (sv_rt (run_state t))) = signals h"
  by (rule unconfirmed_run [OF assms(1,2) desk_is_steps [OF assms(3,4) refusing_user assms(5)]])

theorem refusing_user_sends_no_signal_witness:
  "\<exists>sv s h'. service_main (counting_ext Null) sample_machine sample_surroundings sample_overrides None sample_host =
     (Inr (Listening sv [] s), h') \<and> signals (p_host (sv_rt (run_state (run_start s)))) = []"
proof -
  let ?x = "counting_ext Null"
  obtain sv s h' where run: "service_main ?x sample_machine sample_surroundings sample_overrides None sample_host =
     (Inr (Listening sv [] s), h')" using sample_listening by blast
  have "client_climbs same_signals (mc_http sample_machine)"
    by (simp add: sample_machine_def sample_client_climbs same_signals.state_preorder_axioms)
  from refusing_user_sends_no_signal [OF this run counting_codecs counting_ends typing_run] run
  show ?thesis by (auto simp: sample_host_def)
qed

text \<open>C12: The console confirms only what it was offered: whatever answers it gets and whichever keys are pressed,
  every confirmation it sends names the correlation, call, tool and arguments of an earlier answer, and there
  are no more confirmations than answers that offer one.\<close>

theorem console_confirms_only_offers:
  assumes "codecs x"
  shows "only_offered bad x (fst (tp_peer (snd (tui_main bad x (recorded peer) sock ([], w) keys))))
    \<and> confirmations x (fst (tp_peer (snd (tui_main bad x (recorded peer) sock ([], w) keys))))
        \<le> offerings bad x (fst (tp_peer (snd (tui_main bad x (recorded peer) sock ([], w) keys))))"
proof -
  have "honest bad x (snd (tui_main bad x (recorded peer) sock ([], w) keys))"
    unfolding tui_main_def by (rule honest_run [OF assms honest_start [OF assms]])
  then show ?thesis by (auto simp: honest_def Let_def split: option.splits)
qed

theorem console_confirms_only_offers_witness:
  "confirmations (counting_ext Null) (fst (tp_peer (snd (tui_main (\<lambda>v. []) (counting_ext Null) (recorded silent_peer)
       ''s'' ([], ()) [KeyChar ''y'', Enter]))))
     \<le> offerings (\<lambda>v. []) (counting_ext Null) (fst (tp_peer (snd (tui_main (\<lambda>v. []) (counting_ext Null)
          (recorded silent_peer) ''s'' ([], ()) [KeyChar ''y'', Enter]))))"
  using console_confirms_only_offers [OF counting_codecs, of "\<lambda>v. []" Null silent_peer "''s''" "()" "[KeyChar ''y'', Enter]"]
  by simp

text \<open>C13: A key press asks the runtime for exactly what the table of keys says, and for nothing if it says
  nothing: a confirmation only while one is pending and only by its six keys, a list by its letter on an empty
  line, and what the line means by Enter.\<close>

theorem keys_ask_exactly:
  assumes "key_step bad x peer k a = Some b"
  shows "tp_peer b = (case key_request k a of None \<Rightarrow> tp_peer a | Some r \<Rightarrow> snd (peer (sent_bytes x r) (tp_peer a)))"
  using key_step_peer [OF assms] by (simp add: asks_def)

theorem keys_ask_exactly_witness:
  "tp_peer (the (key_step (\<lambda>v. []) audit_ext (recorded silent_peer) (KeyChar ''c'') (app_new ''s'' ([], ())))) =
     ([(sent_bytes audit_ext TuiClearSessionGrants, NotConnected ''No such file or directory'')], ())"
proof -
  let ?a = "app_new ''s'' ([], ()) :: (exchange list \<times> unit) app"
  obtain b where step: "key_step (\<lambda>v. []) audit_ext (recorded silent_peer) (KeyChar ''c'') ?a = Some b"
    by (simp add: key_step_def)
  have "key_request (KeyChar ''c'') ?a = Some TuiClearSessionGrants"
    by (simp add: key_request_def app_new_def shortcut_request_def)
  with keys_ask_exactly [OF step] step show ?thesis
    by (simp add: recorded_def silent_peer_def app_new_def)
qed

text \<open>C14: The user can always leave: whatever is pending and however long the line is, refusing, wiping the line
  and pressing the key for it ends the loop.\<close>

theorem console_can_be_left:
  "fst (run_keys bad x peer (KeyChar ''n'' # replicate (Suc (length (tp_input a))) Backspace @ [KeyChar ''q'']) a)"
  using way_out_leaves [of bad x peer a] by (simp add: way_out_def)

text \<open>C15: The consoles speak the language of the service: the text of every request of the web console and of the
  terminal console decodes to the request that is meant.\<close>

theorem console_requests_are_understood:
  assumes "codecs x"
    and "request_limit (web_meaning q) < 2 ^ 64" and "request_limit (tui_meaning r) < 2 ^ 64"
  shows "decode_request x (json_text x (web_request_json x q)) = Some (web_meaning q)
    \<and> decode_request x (json_text x (tui_request_json x r)) = Some (tui_meaning r)"
  using web_decoded [OF assms(1,2)] tui_understood [OF assms(1,3)] by (simp add: sent_bytes_def)

theorem console_requests_are_understood_witness:
  "decode_request (counting_ext Null) (json_text (counting_ext Null) (web_request_json (counting_ext Null) (WebEventsTail 24))) =
     Some (EventsTail 24)"
  using console_requests_are_understood [OF counting_codecs, of "WebEventsTail 24" TuiPing Null] by simp

text \<open>C16: The terminal console reads every answer of the service, alone or as the last frame of a stream, and
  reads in it what the service put there.\<close>

theorem console_reads_every_answer:
  assumes "codecs x"
  shows "tui_response_of_json x (response_json x r) = Some (tui_view x r)
    \<and> tui_response_of_json x (Object (response_fields x r @ [(''type'', String ''done'')])) = Some (tui_view x r)"
  using tui_reads_response [OF assms holds_plain] tui_reads_response [OF assms holds_done] by blast

theorem console_reads_every_answer_witness:
  "tui_response_of_json (counting_ext Null) (response_json (counting_ext Null) (error_response ''busy'')) =
     Some (tui_view (counting_ext Null) (error_response ''busy''))"
  using console_reads_every_answer [OF counting_codecs] by blast

text \<open>C17: What the terminal console makes of a streamed diagnosis of the service: however the network cuts the
  stream, it is read to its end without an error, the progress lines are those of the frames sent, in order,
  and the response is the one of the last frame.\<close>

theorem console_reads_diagnosis:
  assumes "codecs x" and "keeps_bytes nw" and "length (sent_bytes x (TuiDiagnose t sess True)) \<le> buffer_size"
  shows "\<exists>evs resp b. response_wf resp
    \<and> fst (service_peer nw x sv (sent_bytes x (TuiDiagnose t sess True)) (tp_peer a)) =
        Answer (nw (map (progress_frame x) evs @ [done_frame x resp])) None
    \<and> request_stream bad x (service_peer nw x sv) (TuiDiagnose t sess True) a =
        (Inr (tui_view x resp, map (\<lambda>ev. format_progress (runtime_event_json x ev)) evs), b)"
  using assms by (rule tui_diagnosis_read)

theorem console_reads_diagnosis_witness:
  "\<exists>evs resp b. request_stream (\<lambda>v. []) (counting_ext (tui_request_json audit_ext (TuiDiagnose ''hi'' None True)))
      (service_peer (\<lambda>cs. [concat cs]) (counting_ext (tui_request_json audit_ext (TuiDiagnose ''hi'' None True))) sample_service)
      (TuiDiagnose ''hi'' None True) (app_new ''s'' (service_start sample_state)) =
    (Inr (tui_view (counting_ext (tui_request_json audit_ext (TuiDiagnose ''hi'' None True))) resp,
      map (\<lambda>ev. format_progress (runtime_event_json (counting_ext (tui_request_json audit_ext (TuiDiagnose ''hi'' None True))) ev)) evs),
     b)"
proof -
  let ?x = "counting_ext (tui_request_json audit_ext (TuiDiagnose ''hi'' None True))"
  have "tui_request_json ?x (TuiDiagnose ''hi'' None True) = tui_request_json audit_ext (TuiDiagnose ''hi'' None True)"
    by (simp add: tui_request_json_def opt_json_def)
  then have "length (sent_bytes ?x (TuiDiagnose ''hi'' None True)) \<le> buffer_size"
    by (simp add: sent_bytes_def buffer_size_def)
  moreover have "keeps_bytes (\<lambda>cs. [concat cs])" by (simp add: keeps_bytes_def)
  ultimately show ?thesis using console_reads_diagnosis [OF counting_codecs] by blast
qed

text \<open>C18: The web console relays a diagnosis unchanged: the browser gets, line by line, the frames the service
  sent, however the network cut them, and the console remembers the chat session of the last frame.\<close>

theorem stage_relays_the_service:
  assumes "codecs x" and "keeps_bytes nw" and "trim t \<noteq> []"
    and "length (diagnose_bytes x (trim t) (sg_session s)) \<le> buffer_size"
  shows "\<exists>evs resp s'. response_wf resp
    \<and> service_peer nw x sv (diagnose_bytes x (trim t) (sg_session s)) (sg_peer s) =
        (Answer (nw (map (progress_frame x) evs @ [done_frame x resp])) None, sg_peer s')
    \<and> sg_session s' = (case cl_session_id resp of None \<Rightarrow> sg_session s | Some sid \<Rightarrow> Some sid)
    \<and> api_diagnose_stream x (service_peer nw x sv) ap None t s =
        (Inr \<lparr>wr_status = 200,
              wr_headers = [(''content-type'', ''application/x-ndjson; charset=utf-8''), (''cache-control'', ''no-cache'')],
              wr_body = LinesBody (map (progress_frame x) evs @ [done_frame x resp])\<rparr>, s')"
  using assms by (rule stage_relays)

theorem stage_relays_the_service_witness:
  "\<exists>evs resp s'. fst (api_diagnose_stream (counting_ext (web_request_json audit_ext (WebDiagnose ''hi'' None True)))
       (service_peer id (counting_ext (web_request_json audit_ext (WebDiagnose ''hi'' None True))) sample_service)
       (app_state_of sample_lan) None ''hi'' (stage_start (service_start sample_state))) =
     (Inr \<lparr>wr_status = 200,
           wr_headers = [(''content-type'', ''application/x-ndjson; charset=utf-8''), (''cache-control'', ''no-cache'')],
           wr_body = LinesBody (map (progress_frame (counting_ext (web_request_json audit_ext (WebDiagnose ''hi'' None True)))) evs
             @ [done_frame (counting_ext (web_request_json audit_ext (WebDiagnose ''hi'' None True))) resp])\<rparr> :: unit + web_reply)
     \<and> response_wf resp"
proof -
  let ?j = "web_request_json audit_ext (WebDiagnose ''hi'' None True)"
  let ?x = "counting_ext ?j"
  have t: "trim ''hi'' = ''hi''"
    by (simp add: trim_def trim_end_def trim_start_def strip_ws_done ws_byte_def ws_bytes2_def ws_bytes3_def)
  have "web_request_json ?x (WebDiagnose ''hi'' None True) = ?j"
    by (simp add: web_request_json_def session_field_def)
  then have "length (diagnose_bytes ?x (trim ''hi'') (sg_session (stage_start (service_start sample_state)))) \<le> buffer_size"
    by (simp add: diagnose_bytes_def t stage_start_def buffer_size_def)
  moreover have "keeps_bytes id" "trim ''hi'' \<noteq> []" by (simp_all add: keeps_bytes_def t)
  ultimately obtain evs resp s' where "response_wf resp"
    "api_diagnose_stream ?x (service_peer id ?x sample_service) (app_state_of sample_lan) None ''hi''
       (stage_start (service_start sample_state)) =
     (Inr \<lparr>wr_status = 200,
           wr_headers = [(''content-type'', ''application/x-ndjson; charset=utf-8''), (''cache-control'', ''no-cache'')],
           wr_body = LinesBody (map (progress_frame ?x) evs @ [done_frame ?x resp])\<rparr> :: unit + web_reply, s')"
    using stage_relays_the_service [OF counting_codecs] by metis
  then show ?thesis by auto
qed

text \<open>C19: A web console on the local network without \<open>--allow-open\<close> has a token, and a call that does not carry
  it, whatever its path and method, gets nothing but the status 401: neither the console nor the runtime
  behind it changes.\<close>

theorem lan_stage_needs_token:
  assumes "stage_main lib x peer a w = (Inr (ap, addr, tls), w')" and "ar_lan a" and "\<not> ar_allow_open a"
  shows "\<exists>tok. ar_token a = Some tok
    \<and> (\<forall>call room s. carries_token lib tok call
        \<or> stage_app lib x peer ap room call s = (Inr (status_reply 401) :: unit + web_reply, s))"
proof -
  from stage_main_state [OF assms(1)] assms(2,3) obtain tok where "ar_token a = Some tok" "ap_token ap = Some tok"
    by (auto simp: lan_guard_def app_state_of_def split: if_splits)
  with stage_refuses show ?thesis by blast
qed

theorem lan_stage_needs_token_witness:
  "stage_app sample_web audit_ext silent_peer (app_state_of sample_lan) None
     \<lparr>wc_method = ''POST'', wc_path = ''/api/grants/clear'', wc_query = None, wc_headers = [], wc_body = []\<rparr> (stage_start ()) =
   (Inr (status_reply 401) :: unit + web_reply, stage_start ())"
proof -
  let ?call = "\<lparr>wc_method = ''POST'', wc_path = ''/api/grants/clear'', wc_query = None, wc_headers = [], wc_body = []\<rparr>"
  obtain tok where "\<forall>call room s. carries_token sample_web tok call
      \<or> stage_app sample_web audit_ext silent_peer (app_state_of sample_lan) room call s =
          (Inr (status_reply 401) :: unit + web_reply, s)"
    using lan_stage_needs_token [OF sample_stage] by (auto simp: sample_lan_def)
  moreover have "\<not> carries_token sample_web tok ?call" by (simp add: carries_token_def)
  ultimately show ?thesis by blast
qed

section \<open>The runtime: what a request and a confirmation can do\<close>

text \<open>C20: Without a session grant for the kill tool, no user request sends a signal, whatever the model
  proposes and wherever the timeout cuts the request: the tools of the service are installed, and the
  provider and the readers of the backend send none themselves.\<close>

theorem request_without_grant_sends_no_signal:
  assumes "ai_tools rt = boot_registry x os mode it mem"
    and "provider_climbs same_signals (ai_provider rt)"
    and "\<not> has_session_grant (a_policy s) ''process.kill_request''"
  shows "signals (p_host (snd (handle_user_text_in_session x rt req sess w s))) = signals (p_host s)"
proof -
  have "allowed_tools_climb same_signals x (ai_tools rt) (a_policy s)"
    using ungranted_tools_same_signals [OF assms(3)] assms(1) by simp
  from session_request_host [OF contract_same_signals [OF assms(2)] this prod.collapse [symmetric]]
  show ?thesis by (simp add: same_signals_def)
qed

theorem request_without_grant_sends_no_signal_witness:
  "signals (p_host (snd (handle_user_text_in_session audit_ext (sample_runtime audit_ext RealLinux) ''why slow?''
     None True sample_state))) = signals sample_host"
  using request_without_grant_sends_no_signal
    [OF sample_runtime_tools
      sample_provider [OF same_signals.state_preorder_axioms draws_same_signals] sample_ungranted,
      where req = "''why slow?''" and sess = None and w = True and x = audit_ext and mode = RealLinux]
  by (simp add: sample_state_def)

text \<open>C21: A confirmation that is cancelled, or names another tool than the kill tool, or asks for what
  policy refuses outright (a process identifier of 0 or 1, or arguments that look like an injection),
  sends no signal, in whatever scope and with whatever grants.\<close>

theorem refused_confirmation_sends_no_signal:
  assumes "ai_tools rt = boot_registry x os mode it mem"
    and "scope = Cancel \<or> tool \<noteq> ''process.kill_request'' \<or> blocked_call x kill_spec args"
  shows "signals (p_host (snd (confirm_in_session x rt corr sess cid tool args scope s))) = signals (p_host s)"
proof -
  have "climbs same_signals (te_execute t args ctx)"
    if "scope \<noteq> Cancel" "registry_get (ai_tools rt) tool = Some t" "\<not> blocked_call x (te_spec t) args" for t ctx
  proof -
    have "tool \<noteq> ''process.kill_request''"
      using that assms(1,2) boot_kill_spec [of x os mode it mem t] by auto
    then show ?thesis using boot_tools_unsignalled that(2) assms(1) by simp
  qed
  from confirm_host [OF relation_same_signals this prod.collapse [symmetric]]
  show ?thesis by (simp add: same_signals_def)
qed

theorem refused_confirmation_sends_no_signal_witness:
  "signals (p_host (snd (confirm_in_session audit_ext (sample_runtime audit_ext RealLinux) nil_uuid None nil_uuid
      ''process.kill_request'' (Object [(''pid'', nat_json 1)]) Session sample_state))) = signals sample_host"
proof -
  have "blocked_call audit_ext kill_spec (Object [(''pid'', nat_json 1)])"
    by (simp add: blocked_call_def kill_spec_def get_u64_def nat_json_def)
  then show ?thesis
    using refused_confirmation_sends_no_signal
      [OF sample_runtime_tools,
        where corr = nil_uuid and sess = None and cid = nil_uuid and tool = "''process.kill_request''"
          and args = "Object [(''pid'', nat_json 1)]" and scope = Session and s = sample_state and x = audit_ext
          and mode = RealLinux]
    by (simp add: sample_state_def)
qed

text \<open>C22: Everything a request publishes on the bus is already in the audit file, in the same order: the
  file has grown by one complete line per envelope published, possibly with other bytes (a torn line)
  between them. The provider and the readers of the backend only append to the audit file, if at all.\<close>

theorem published_is_audited:
  assumes "ai_tools rt = boot_registry x os mode it mem"
    and "provider_climbs (file_grows AuditFile) (ai_provider rt)"
  shows "\<exists>ps junk.
      p_bus (snd (handle_user_text_inner x rt req corr sid w s)) = p_bus s @ map snd ps
      \<and> files (p_host (snd (handle_user_text_inner x rt req corr sid w s))) AuditFile =
          files (p_host s) AuditFile @ concat (map (\<lambda>(j, e). j @ envelope_line x e) ps) @ junk"
proof -
  have "tools_climb (file_grows AuditFile) (ai_tools rt)"
    using boot_tools_files assms(1) by simp
  from runtime_frame.inner_ok [OF trail_frame [OF assms(2) this]]
  have "trail x s (snd (handle_user_text_inner x rt req corr sid w s))"
    by (simp add: climbs_def)
  then show ?thesis unfolding trail_def .
qed

theorem published_is_audited_witness:
  "\<exists>ps junk.
      p_bus (snd (handle_user_text_inner audit_ext (sample_runtime audit_ext MockTools) ''why slow?'' nil_uuid nil_uuid
        True sample_state)) = [] @ map snd ps
      \<and> files (p_host (snd (handle_user_text_inner audit_ext (sample_runtime audit_ext MockTools) ''why slow?'' nil_uuid
        nil_uuid True sample_state))) AuditFile = [] @ concat (map (\<lambda>(j, e). j @ envelope_line audit_ext e) ps) @ junk"
  using published_is_audited
    [OF sample_runtime_tools
      sample_provider [OF file_growth.state_preorder_axioms draws_file_grows],
      where req = "''why slow?''" and corr = nil_uuid and sid = nil_uuid and w = True and s = sample_state
        and x = audit_ext and mode = MockTools]
  by (simp add: sample_state_def sample_host_def)

text \<open>C23: How a request ends. An error (a timeout is reported as one) leaves every conversation as it was.
  A result means that the last envelope published is either the diagnose result, with a summary, or the
  request to confirm a call for which policy said to ask the user; and the history of the session, and of
  no other, is the trimmed old history continued by the request.\<close>

theorem request_outcome:
  "case handle_user_text_in_session x rt req sess w s of
     (Inl e, t) \<Rightarrow> e \<noteq> TimedOut \<and> a_convs t = a_convs s
   | (Inr out, t) \<Rightarrow>
       p_bus t \<noteq> [] \<and> (completed out (last (p_bus t)) \<or> asked x rt (a_policy s) out (last (p_bus t)))
       \<and> (\<exists>more. conv_get (a_convs t) (session_of sess s) =
             trim_messages (conv_get (a_convs s) (session_of sess s) @ user_message req # more)
               (cs_max_messages (a_convs s)))
       \<and> {u. conv_get (a_convs t) u \<noteq> conv_get (a_convs s) u} \<subseteq> {session_of sess s}"
proof -
  obtain r t where rt: "handle_user_text_in_session x rt req sess w s = (r, t)" by fastforce
  show ?thesis
  proof (cases r)
    case (Inl e)
    then show ?thesis using session_result [OF rt] rt by simp
  next
    case (Inr out)
    then obtain more where
      "a_convs t = conv_save (session_of sess s) (conv_get (a_convs s) (session_of sess s) @ user_message req # more) (a_convs s)"
      using session_result [OF rt] by auto
    then show ?thesis
      using session_result [OF rt] rt Inr by (auto simp: conv_get_save)
  qed
qed

text \<open>C24: However requests of several clients interleave, and whatever each of them ends with, a timeout included, at
  most as many are in progress as the budget allows (at least one); a request is turned away exactly when that many are,
  and then it does nothing but fail; and a request that runs through gives its slot back.\<close>

theorem slots_bound_concurrency:
  assumes "(crew_step x rt)\<^sup>*\<^sup>* (crew_start s) c" and "a_slots s = initial_slots (ai_budgets rt)"
  shows "length (cr_requests c) \<le> max (rb_max_concurrent_requests (ai_budgets rt)) 1
    \<and> ((\<exists>e t. begin_request x rt session (cr_state c) = (Inl e, t)) \<longleftrightarrow>
         length (cr_requests c) = max (rb_max_concurrent_requests (ai_budgets rt)) 1)
    \<and> (if length (cr_requests c) = max (rb_max_concurrent_requests (ai_budgets rt)) 1
       then \<exists>msg. handle_user_text_in_session x rt req session w (cr_state c) = (Inl (Failed msg), drawn session (cr_state c))
       else a_slots (snd (handle_user_text_in_session x rt req session w (cr_state c))) = a_slots (cr_state c))"
proof -
  have sum: "a_slots (cr_state c) + length (cr_requests c) = max (rb_max_concurrent_requests (ai_budgets rt)) 1"
    using crew_run_sum [OF assms(1)] assms(2) by (simp add: initial_slots_def)
  then have "a_slots (cr_state c) = 0 \<longleftrightarrow> length (cr_requests c) = max (rb_max_concurrent_requests (ai_budgets rt)) 1"
    by arith
  moreover have "(\<exists>e t. begin_request x rt session (cr_state c) = (Inl e, t)) \<longleftrightarrow> a_slots (cr_state c) = 0"
    by (simp add: begin_run Let_def try_acquire_def split: nat.split)
  moreover have "a_slots (snd (handle_user_text_in_session x rt req session w (cr_state c))) = a_slots (cr_state c)"
    by (rule session_slots [OF prod.collapse [symmetric]])
  ultimately show ?thesis using sum session_busy [of "cr_state c"] by auto
qed

theorem slots_bound_concurrency_witness:
  "\<exists>corr sid t msg. begin_request audit_ext (sample_runtime audit_ext MockTools) None sample_state = (Inr (corr, sid), t)
    \<and> handle_user_text_in_session audit_ext (sample_runtime audit_ext MockTools) ''hi'' None False t = (Inl (Failed msg), drawn None t)"
proof -
  let ?rt = "sample_runtime audit_ext MockTools"
  have slots: "a_slots sample_state = initial_slots (ai_budgets ?rt)" "max (rb_max_concurrent_requests (ai_budgets ?rt)) 1 = 1"
    by (simp_all add: sample_state_def sample_runtime_def default_resource_budgets_def initial_slots_def)
  obtain corr sid t where b: "begin_request audit_ext ?rt None sample_state = (Inr (corr, sid), t)"
    by (simp add: begin_run Let_def sample_state_def try_acquire_def)
  have "crew_step audit_ext ?rt (crew_start sample_state) \<lparr>cr_state = t, cr_requests = [corr]\<rparr>"
    using crew_step.arrives [of audit_ext ?rt None "crew_start sample_state" corr sid t] b by (simp add: crew_start_def)
  from slots_bound_concurrency [OF r_into_rtranclp [of "crew_step audit_ext ?rt", OF this] slots(1), of None "''hi''" False]
  obtain msg where "handle_user_text_in_session audit_ext ?rt ''hi'' None False t = (Inl (Failed msg), drawn None t)"
    unfolding slots(2) by auto
  with b show ?thesis by blast
qed

text \<open>C25: The process a diagnosis blames is one of the list, read with its identifier and name, and no
  entry of the list uses more CPU.\<close>

theorem top_process_has_most_cpu:
  assumes "top_process v = Some (pid, name)"
  shows "\<exists>ps p. get_array v ''processes'' = Some ps \<and> p \<in> set ps
    \<and> map_option ucast (get_u64 p ''pid'') = Some pid \<and> get_str p ''name'' = Some name
    \<and> list_all (\<lambda>q. cpu_of q \<le> cpu_of p) ps"
proof -
  obtain ps p cpu where "get_array v ''processes'' = Some ps" "p \<in> set ps" "stands_for p (pid, name, cpu)"
      "\<forall>q \<in> set ps. cpu_of q \<le> cpu_of p"
    using top_process_max [OF assms] by blast
  then show ?thesis
    by (intro exI [of _ ps] exI [of _ p]) (auto simp: stands_for_def list_all_iff)
qed

theorem top_process_has_most_cpu_witness:
  "\<exists>ps p. get_array (Object [(''processes'', Array (map process_info_json mock_processes))]) ''processes'' = Some ps
    \<and> p \<in> set ps \<and> map_option ucast (get_u64 p ''pid'') = Some (4312 :: u32)
    \<and> get_str p ''name'' = Some ''runaway-worker'' \<and> list_all (\<lambda>q. cpu_of q \<le> cpu_of p) ps"
proof -
  have "top_process (Object [(''processes'', Array (map process_info_json mock_processes))])
      = Some (4312, ''runaway-worker'')"
    by code_simp
  from top_process_has_most_cpu [OF this] show ?thesis .
qed

text \<open>C26: The planner without a model, on the fixed machine and with a log that takes every line: it blames the process
  that uses most, proposes to stop exactly that one and waits for the user; the log gains six lines of one
  correlation, from the request over both tool calls to the diagnosis; and nothing is signalled, granted or
  published.\<close>

theorem planner_finds_and_only_asks:
  assumes "\<forall>n. write_src (p_host s) n = Written"
  shows "\<exists>corr cid out t. diagnose_slow_with_mock_planner x (boot_registry x os MockTools it mem) s = (Inr out, t)
    \<and> ho_correlation_id out = corr \<and> dr_culprit_pid (ho_diagnose out) = Some 4312
    \<and> dr_culprit_name (ho_diagnose out) = Some ''runaway-worker''
    \<and> ho_pending out = Some \<lparr>pc_call_id = cid, pc_tool = ''process.kill_request'',
        pc_arguments = Object [(''pid'', u32_json 4312)], pc_summary = text_stop_process @ ''runaway-worker'' @ ''?''\<rparr>
    \<and> logged x corr [UserRequest, ToolCall, ToolCall, ToolResult, PolicyDecision, DiagnoseResult] s t"
  using planner_run [of s x os it mem] assms
  by (simp add: sound_log_def found_culprit_def kill_ask_def busiest_pid_def) blast

theorem planner_finds_and_only_asks_witness:
  "\<exists>corr t out. diagnose_slow_with_mock_planner audit_ext (ai_tools (sample_runtime audit_ext MockTools)) sample_state = (Inr out, t)
    \<and> dr_culprit_pid (ho_diagnose out) = Some 4312
    \<and> logged audit_ext corr [UserRequest, ToolCall, ToolCall, ToolResult, PolicyDecision, DiagnoseResult] sample_state t"
  using planner_finds_and_only_asks [of sample_state audit_ext sample_os "\<lambda>fs. fs" "Some \<lparr>ms_path = ''memory.jsonl''\<rparr>"]
  unfolding sample_runtime_tools by (auto simp: sample_state_def sample_host_def)

text \<open>C27: The log covers the bus however parallel tasks interleave between appending and publishing. Of every task but
  one, what is on the bus are exactly its complete lines in the file, in its order, and at most one line, its last, is
  not published yet; only torn lines lie between the lines. The one exception is the worker that diagnoses without a
  user, which publishes the end of a diagnosis even if the log did not take it: of its envelopes some may lack the line,
  but only automation events, and what it has in the log is in the order of the bus.\<close>

theorem log_covers_bus_in_parallel:
  assumes "(shared_step x d)\<^sup>*\<^sup>* (shared_start s0) s"
  shows "\<exists>lines junk sent.
      files (p_host (sh_state s)) AuditFile =
        files (p_host s0) AuditFile @ concat (map (\<lambda>(j, i, e). j @ envelope_line x e) lines) @ junk
      \<and> p_bus (sh_state s) = p_bus s0 @ map snd sent
      \<and> (\<forall>i. let logged = of_task i (map snd lines); out = of_task i sent @ unpublished (sh_todo s i)
             in subseq logged out
                \<and> filter (\<lambda>e. \<not> own_event e) logged = filter (\<lambda>e. \<not> own_event e) out
                \<and> (i = d \<or> logged = out))"
proof -
  obtain lines junk sent where "covered x d s0 s lines junk sent" using covered_run [OF assms] by blast
  then show ?thesis
    unfolding covered_def agrees_def Let_def
    by (intro exI [of _ lines] exI [of _ junk] exI [of _ sent]) blast
qed

theorem log_covers_bus_in_parallel_witness:
  "\<exists>(t :: runtime_state) lines junk sent. p_bus t = [sample_notice, sample_envelope]
      \<and> files (p_host t) AuditFile = envelope_line audit_ext sample_envelope @ envelope_line audit_ext sample_notice
      \<and> files (p_host t) AuditFile = concat (map (\<lambda>(j, i, e). j @ envelope_line audit_ext e) lines) @ junk
      \<and> p_bus t = map snd sent \<and> (\<forall>i. i \<noteq> 7 \<longrightarrow> of_task i (map snd lines) = of_task i sent)"
proof -
  have start: "p_bus sample_state = []" "files (p_host sample_state) AuditFile = []" "\<forall>n. write_src (p_host sample_state) n = Written"
    by (simp_all add: sample_state_def sample_host_def)
  obtain t where steps: "(shared_step audit_ext 7)\<^sup>*\<^sup>* (shared_start sample_state) (shared_start t)"
      and t: "files (p_host t) AuditFile = envelope_line audit_ext sample_envelope @ envelope_line audit_ext sample_notice"
        "p_bus t = [sample_notice, sample_envelope]"
    using orders_may_differ [OF start(3), of audit_ext 7 sample_envelope sample_notice] start(1,2) by auto
  from log_covers_bus_in_parallel [OF steps] obtain lines junk sent where
    "files (p_host t) AuditFile = concat (map (\<lambda>(j, i, e). j @ envelope_line audit_ext e) lines) @ junk"
    "p_bus t = map snd sent" "\<forall>i. i \<noteq> 7 \<longrightarrow> of_task i (map snd lines) = of_task i sent"
    using start(1,2) by (auto simp: shared_start_def Let_def)
  with t show ?thesis by blast
qed

section \<open>Policy and registry\<close>

text \<open>C28: After any sequence of grants, a call is allowed if and only if it is not refused outright and it
  is low-risk or its tool is among the grants: grants never open what the policy refuses.\<close>

theorem grants_open_exactly_their_tools:
  "pd_verdict (decide x (fold grant_session ts e) spec args) = Allow \<longleftrightarrow>
     \<not> blocked_call x spec args \<and> (low_risk spec \<or> ts_name spec \<in> set ts \<or> has_session_grant e (ts_name spec))"
  by (rule gate.allow_after_grants)

text \<open>C29: The checks the runtime makes before it asks the policy change no verdict: for every tool of the
  service, under every grant set, the runtime decides what the policy decides, and it denies a tool it does
  not have.\<close>

theorem runtime_gate_is_policy_gate:
  "pd_verdict (runtime_decide x (boot_registry x os mode it mem) pol n args) =
     (case registry_get (boot_registry x os mode it mem) n of
        None \<Rightarrow> Deny
      | Some t \<Rightarrow> pd_verdict (decide x pol (te_spec t) args))"
proof (cases "registry_get (boot_registry x os mode it mem) n")
  case None
  then show ?thesis by (simp add: runtime_decide_def)
next
  case (Some t)
  then show ?thesis
    using runtime_decide_known [OF Some registry_get_name [OF boot_registry_wf Some]] by simp
qed

section \<open>Protocol and audit log\<close>

text \<open>C30: An envelope that encodes has the current version and decodes to itself when the codec reads back
  what it wrote; and nothing of another version gets through in either direction.\<close>

theorem cbor_roundtrip_and_version_gate:
  assumes "\<And>b. cbor_write c e = Inr b \<Longrightarrow> cbor_read c b = Inr e"
  shows "(case to_cbor c e of Inr b \<Rightarrow> env_v e = 1 \<and> from_cbor c b = Inr e
      | Inl (UnsupportedVersion v) \<Rightarrow> v = env_v e \<and> v \<noteq> 1
      | Inl (Cbor m) \<Rightarrow> cbor_write c e = Inl m)
    \<and> (case from_cbor c bytes of Inr e' \<Rightarrow> env_v e' = 1 | Inl _ \<Rightarrow> True)"
  using assms
  by (auto simp: to_cbor_def from_cbor_def validate_def protocol_version_def
      split: sum.splits if_splits protocol_error.splits)

theorem cbor_roundtrip_and_version_gate_witness:
  "from_cbor \<lparr>cbor_write = (\<lambda>e. Inr ''e''), cbor_read = (\<lambda>b. Inr sample_envelope)\<rparr> ''e'' = Inr sample_envelope"
  using cbor_roundtrip_and_version_gate
    [of "\<lparr>cbor_write = (\<lambda>e. Inr ''e''), cbor_read = (\<lambda>b. Inr sample_envelope)\<rparr>" sample_envelope "''e''"]
  by (simp add: to_cbor_def validate_def protocol_version_def sample_envelope_def)

text \<open>C31: The audit log is durable: after a successful append to a file that holds records, reading the
  file gives the old records and then the new one.\<close>

theorem audit_append_then_read:
  assumes "holds (audit_parse x) (files h AuditFile) rs"
    and "audit_codec x (audit_of_envelope e)"
    and "append_envelope x e h = (Inr (), h')"
    and "open_src h' (open_next h')"
  shows "audit_read_all x lg h' = (Inr (rs @ [audit_of_envelope e]), h'\<lparr>open_next := Suc (open_next h')\<rparr>)"
proof -
  have "holds (audit_parse x) (files h' AuditFile) (rs @ [audit_of_envelope e])"
    using audit_lines.append_holds [OF assms(1,2)] assms(3) by (simp add: append_envelope_def audit_append_def)
  then show ?thesis
    using read_records_run [OF assms(4)] by (simp add: audit_read_all_def)
qed

theorem audit_append_then_read_witness:
  "fst (audit_read_all audit_ext \<lparr>al_path = ''audit.jsonl''\<rparr> (snd (append_envelope audit_ext sample_envelope sample_host)))
     = Inr [sample_record]"
proof -
  have r: "audit_of_envelope sample_envelope = sample_record"
    by (simp add: audit_of_envelope_def sample_envelope_def sample_record_def)
  have ap: "append_envelope audit_ext sample_envelope sample_host
      = (Inr (), snd (append_envelope audit_ext sample_envelope sample_host))"
    by (simp add: append_envelope_def audit_append_def append_record_def write_all_def sample_host_def Let_def)
  have "open_src (snd (append_envelope audit_ext sample_envelope sample_host)) n" for n
    by (simp add: append_envelope_def audit_append_def append_record_def write_all_def sample_host_def Let_def)
  from audit_append_then_read [OF sample_holds _ ap this] sample_audit_codec show ?thesis
    by (simp add: r)
qed

text \<open>C32: A torn write ends the readability of the log for good: when an append fails after part of its line is in the
  file, then whatever is appended later, and however often that fails too, every reading fails, although all earlier
  records are there. The torn part is one that no later line completes, as a JSON object that was left open.\<close>

theorem torn_append_makes_log_unreadable:
  assumes "holds (audit_parse x) (files h AuditFile) rs"
    and "write_src h (write_next h) = WriteFailed k msg" and "k \<le> length (audit_line x r)"
    and "stays_broken x (take k (audit_line x r))"
    and "(log_step x)\<^sup>*\<^sup>* (snd (audit_append x r h)) h'" and "open_src h' (open_next h')"
  shows "fst (audit_append x r h) = Inl msg \<and> (\<exists>err. fst (audit_read_all x lg h') = Inl err)"
proof -
  let ?t = "take k (audit_line x r)"
  have torn: "fst (audit_append x r h) = Inl msg" "files (snd (audit_append x r h)) AuditFile = files h AuditFile @ ?t"
    using assms(2,3) by (simp_all add: audit_append_def append_record_def write_all_def Let_def)
  have "broken x (files h AuditFile) ?t (snd (audit_append x r h))"
    by (rule brokenI [of _ _ _ "[]" "[]"]) (simp_all add: torn(2) scraps_Nil)
  from broken_unreadable [OF broken_run [OF assms(5) this] assms(1,4,6)] torn(1) show ?thesis by blast
qed

theorem torn_append_makes_log_unreadable_witness:
  "\<exists>h1 h2. audit_append torn_ext sample_record torn_host = (Inl ''disk full'', h1) \<and> audit_append torn_ext sample_record h1 = (Inr (), h2)
    \<and> files h2 AuditFile = ''AAB'' @ [newline] \<and> (\<exists>err. fst (audit_read_all torn_ext \<lparr>al_path = ''audit.jsonl''\<rparr> h2) = Inl err)"
proof -
  obtain h1 where h1: "audit_append torn_ext sample_record torn_host = (Inl ''disk full'', h1)"
      "files h1 AuditFile = ''A''" "write_src h1 (write_next h1) = Written" "open_src h1 = (\<lambda>n. True)"
    by (simp add: audit_append_def append_record_def write_all_def Let_def torn_host_def torn_line sample_host_def)
  then obtain h2 where h2: "audit_append torn_ext sample_record h1 = (Inr (), h2)" "files h2 AuditFile = ''AAB'' @ [newline]"
      "open_src h2 = (\<lambda>n. True)"
    by (simp add: audit_append_def append_record_def write_all_def Let_def torn_line)
  have "log_step torn_ext h1 h2" by (rule log_step.appends [OF h2(1)])
  then have run: "(log_step torn_ext)\<^sup>*\<^sup>* (snd (audit_append torn_ext sample_record torn_host)) h2" by (simp add: h1(1) r_into_rtranclp)
  have "holds (audit_parse torn_ext) (files torn_host AuditFile) []" "write_src torn_host (write_next torn_host) = WriteFailed 1 ''disk full''"
    by (simp_all add: torn_host_def sample_host_def holds_empty)
  from torn_append_makes_log_unreadable [OF this _ _ run, of "\<lparr>al_path = ''audit.jsonl''\<rparr>"] h1(1) h2 torn_stays_broken
  show ?thesis by (simp add: torn_line)
qed

section \<open>Memory, conversations, event feed\<close>

text \<open>C33: The view of the memory file refines the abstract store that binds a key to the last fact written
  for it, unless that fact is a deletion: looking a key up in the view is looking it up in the store, the
  view has no key twice, and it is ordered from the newest fact to the oldest, whatever order the hash map
  is iterated in.\<close>

theorem memory_view_refines_store:
  assumes "some_order it"
  shows "find (\<lambda>f. mf_key f = k) (latest_view it fs) = live_fact fs k
    \<and> distinct (map mf_key (latest_view it fs))
    \<and> sorted (map (\<lambda>f. Reverse (mf_ts f)) (latest_view it fs))"
  using view_find [OF assms] view_keys_distinct [OF assms] view_newest_first by blast

theorem memory_view_refines_store_witness:
  "find (\<lambda>f. mf_key f = ''host'') (latest_view rev [sample_fact, sample_fact\<lparr>mf_value := ''pi5''\<rparr>])
     = Some (sample_fact\<lparr>mf_value := ''pi5''\<rparr>)"
proof -
  have "some_order (rev :: memory_fact list \<Rightarrow> memory_fact list)" by (simp add: some_order_def)
  from memory_view_refines_store [OF this, of "''host''" "[sample_fact, sample_fact\<lparr>mf_value := ''pi5''\<rparr>]"]
  show ?thesis by (simp add: live_fact_def last_fact_def sample_fact_def)
qed

text \<open>C34: What was remembered is recalled: after a successful \<open>remember\<close>, a query that matches the fact
  returns it, and it is the only fact with its key in the answer.\<close>

theorem remembered_fact_is_recalled:
  assumes "holds (fact_parse x) (files h MemoryFile) fs" and "some_order it"
    and "remember x f h = (Inr f', h')" and "fact_codec x f'" and "\<not> mf_deleted f"
    and "open_src h' (open_next h')"
    and "to_lowercase (lower_tables x) (trim query) \<noteq> []"
    and "fact_matches x (to_lowercase (lower_tables x) (trim query)) f'"
  shows "\<exists>rs. fst (recall it x ms query h') = Inr rs \<and> f' \<in> set rs \<and> filter (\<lambda>g. mf_key g = mf_key f) rs = [f']"
proof -
  let ?q = "to_lowercase (lower_tables x) (trim query)"
  let ?v = "latest_view it (fs @ [f'])"
  have f': "mf_key f' = mf_key f" "mf_deleted f' = mf_deleted f"
      "files h' MemoryFile = files h MemoryFile @ fact_line x f' @ [newline]"
    using remember_appends [OF assms(3)] by auto
  then have "holds (fact_parse x) (files h' MemoryFile) (fs @ [f'])"
    using fact_lines.holds_snoc [OF assms(1,4)] by simp
  from recall_run [OF assms(6) this assms(7)]
  have run: "fst (recall it x ms query h') = Inr (filter (fact_matches x ?q) ?v)" by simp
  have live: "live_fact (fs @ [f']) (mf_key f) = Some f'"
    using f' assms(5) by (simp add: live_fact_snoc)
  then have "f' \<in> set ?v" using view_set [OF assms(2)] f' by simp
  moreover have "\<And>g. g \<in> set ?v \<Longrightarrow> mf_key g = mf_key f \<Longrightarrow> g = f'"
    using view_set [OF assms(2)] live by auto
  ultimately have "filter (\<lambda>g. mf_key g = mf_key f) ?v = [f']"
    using f' view_keys_distinct [OF assms(2), of "fs @ [f']"] by (intro filter_unique) (auto simp: distinct_map)
  then have "filter (\<lambda>g. mf_key g = mf_key f) (filter (fact_matches x ?q) ?v) = [f']"
    using assms(8) by (subst filter_swap) simp
  with run \<open>f' \<in> set ?v\<close> assms(8) show ?thesis by auto
qed

theorem remembered_fact_is_recalled_witness:
  "\<exists>rs. fst (recall rev (fact_ext sample_fact) \<lparr>ms_path = ''m''\<rparr> ''host'' (snd (remember (fact_ext sample_fact) sample_fact sample_host)))
     = Inr rs \<and> sample_fact \<in> set rs \<and> filter (\<lambda>g. mf_key g = ''host'') rs = [sample_fact]"
proof -
  let ?x = "fact_ext sample_fact"
  have run: "remember ?x sample_fact sample_host = (Inr sample_fact, snd (remember ?x sample_fact sample_host))"
    by (simp add: remember_def memory_append_def append_record_def write_all_def sample_host_def sample_fact_def
        new_v4_def utc_now_def timestamp_secs_def io_defs Let_def)
  have opened: "open_src (snd (remember ?x sample_fact sample_host)) n" for n
    by (simp add: remember_def memory_append_def append_record_def write_all_def sample_host_def sample_fact_def
        new_v4_def utc_now_def timestamp_secs_def io_defs Let_def)
  have q: "to_lowercase (lower_tables ?x) (trim ''host'') = ''host''"
    by (simp add: fact_ext_def sample_ext_def trim_host lower_host)
  have codec: "fact_codec ?x sample_fact" by (rule sample_fact_codec) (simp_all add: sample_fact_def)
  have "to_lowercase (lower_tables ?x) ''host'' = ''host''"
    by (simp add: fact_ext_def sample_ext_def trim_host lower_host)
  then have "fact_matches ?x ''host'' sample_fact"
    by (simp add: fact_matches_def sample_fact_def)
  with remembered_fact_is_recalled [OF sample_holds _ run codec _ opened, of rev "''host''" "\<lparr>ms_path = ''m''\<rparr>"]
  show ?thesis by (simp add: q some_order_def) (simp add: sample_fact_def)
qed

text \<open>C35: A conversation is a bounded window: whatever is appended to a session of a well-formed store, its
  history is a suffix of everything appended and no longer than the limit.\<close>

theorem conversation_is_bounded_suffix:
  assumes "conv_wf c"
  shows "suffix (conv_get (fold (conv_append sid) ms c) sid) (conv_get c sid @ ms)
    \<and> length (conv_get (fold (conv_append sid) ms c) sid) \<le> cs_max_messages c"
  using chat.run_suffix [OF assms] chat.run_bound [OF assms] by blast

theorem conversation_is_bounded_suffix_witness:
  "length (conv_get (fold (conv_append nil_uuid) (replicate 100 (user_message ''hi'')) (conv_new 40)) nil_uuid) \<le> 40"
  using conversation_is_bounded_suffix [OF conv_wf_new [of 40], of nil_uuid "replicate 100 (user_message ''hi'')"]
  by (simp add: conv_new_def)

section \<open>Model providers\<close>

text \<open>C36: In automatic mode a provider is always built, and it always answers, whether it is asked for the whole answer
  or for a stream: the mock provider ends the chain, so no failure of the network reaches the caller.\<close>

theorem auto_provider_always_answers:
  "case build_provider x openai Auto rb rk rm lb lm h of
     (Inl e, h') \<Rightarrow> False
   | (Inr p, h') \<Rightarrow>
       (case mp_complete p msgs tools g of (Inl e, g') \<Rightarrow> False | (Inr r, g') \<Rightarrow> True)
       \<and> (case mp_stream p msgs tools s of (Inl e, s') \<Rightarrow> False | (Inr r, s') \<Rightarrow> True)"
proof -
  have "\<exists>p h'. build_provider x openai Auto rb rk rm lb lm h = (Inr p, h')"
    by (simp add: build_provider_def io_defs Let_def split_beta)
  then obtain p h' where p: "build_provider x openai Auto rb rk rm lb lm h = (Inr p, h')" by blast
  obtain r g' where c: "mp_complete p msgs tools g = (Inr r, g')" using auto_provider_total(1) [OF p] by blast
  obtain q s' where st: "mp_stream p msgs tools s = (Inr q, s')" using auto_provider_total(2) [OF p] by blast
  show ?thesis by (simp add: p c st)
qed

text \<open>C37: What the streaming provider returns and sends does not depend on how the transport cuts the response into
  chunks, as long as no cut is inside a character.\<close>

theorem stream_ignores_chunking:
  assumes "list_all utf8_ok cs"
    and "http_chunks c (chat_request cfg True msgs tools) h = (Inr (map Inr cs), h')"
    and "http_chunks c' (chat_request cfg True msgs tools) h = (Inr [Inr (concat cs)], h')"
  shows "openai_stream x c cfg msgs tools (h, ds) = openai_stream x c' cfg msgs tools (h, ds)"
proof -
  have "read_chunks x (map Inr cs) [] sse_start = read_chunks x [Inr (concat cs)] [] sse_start"
    using read_chunks_join [OF assms(1), of x "[]"] by simp
  then show ?thesis
    using assms(2,3) by (simp add: openai_stream_def on_host_def bind_io_def)
qed

theorem stream_ignores_chunking_witness:
  "openai_stream audit_ext (sample_client\<lparr>http_chunks := (\<lambda>q. ret [Inr ''data: '', Inr ''[DONE]''])\<rparr>)
      (openai_ollama ''http://h'' ''m'') [] [] (sample_host, []) =
   openai_stream audit_ext (sample_client\<lparr>http_chunks := (\<lambda>q. ret [Inr ''data: [DONE]''])\<rparr>)
      (openai_ollama ''http://h'' ''m'') [] [] (sample_host, [])"
proof -
  have ok: "list_all utf8_ok [''data: '', ''[DONE]'']" by code_simp
  show ?thesis
    by (rule stream_ignores_chunking [OF ok, where h = sample_host and h' = sample_host]) (simp_all add: ret_def)
qed

section \<open>Automation and telemetry\<close>

text \<open>C38: The cooldown is respected: after a firing of a rule is applied, whether or not it could be recorded, that rule
  does not fire again, whatever the engine receives and whichever other rules fire meanwhile, and whatever the rest of
  the program does between the turns, as long as every reading of the clock is earlier than the firing plus the
  cooldown.\<close>

theorem cooldown_is_respected:
  assumes "\<not> au_poisoned s" and "apply_fire x f s = (r, t)"
    and "apply_all x others t = (q, u)" and "af_rule_id f \<notin> af_rule_id ` set others"
    and "(engine_step x eng)\<^sup>*\<^sup>* u v"
    and "\<forall>q \<in> set (ae_rules eng). ru_id q = af_rule_id f \<longrightarrow> chrono_seconds (ru_cooldown_secs q) = Some d"
    and "\<forall>n \<ge> clock_next (p_host t).
      nanos (clock_src (p_host t) n) < nanos (clock_src (p_host s) (clock_next (p_host s))) + d"
    and "evaluate x eng env v = (Inr fs, w)"
  shows "af_rule_id f \<notin> af_rule_id ` set fs"
proof -
  let ?t0 = "clock_src (p_host s) (clock_next (p_host s))"
  have "cooling (af_rule_id f) ?t0 d t"
    using apply_fire_marks [OF assms(1,2)] assms(7) by (simp add: cooling_def quiet_until_def)
  moreover have "keeps_mark (af_rule_id f) t u"
    by (rule keeps_mark.climbs_run [OF keeps_mark_apply_all [OF assms(4)] assms(3)])
  ultimately have "cooling (af_rule_id f) ?t0 d v" using cooling_kept cooling_run [OF assms(5) _ assms(6)] by blast
  from cooling_evaluate [OF assms(8) this assms(6)] show ?thesis by simp
qed

theorem cooldown_is_respected_witness:
  "fst (evaluate audit_ext cooling_engine cooling_trigger
      (snd (automation_turn audit_ext cooling_engine (Got sample_envelope)
        (snd (apply_fire audit_ext (fire_of (hd (ae_rules cooling_engine)) cooling_trigger [])
          \<lparr>p_host = sample_host, p_bus = [], au_last_fired = [], au_poisoned = False\<rparr>))))) = Inr []"
proof -
  let ?s = "\<lparr>p_host = sample_host, p_bus = [], au_last_fired = [], au_poisoned = False\<rparr>"
  let ?f = "fire_of (hd (ae_rules cooling_engine)) cooling_trigger []"
  obtain r t where t: "apply_fire audit_ext ?f ?s = (r, t)" by fastforce
  have idle: "automation_turn audit_ext cooling_engine (Got sample_envelope) t = (Inr True, t)" by (rule cooling_idle)
  then have run: "(engine_step audit_ext cooling_engine)\<^sup>*\<^sup>* t t" by simp
  have mark: "map_of (au_last_fired t) ''r'' = Some (Timestamp 0)" and clock: "clock_src (p_host t) = (\<lambda>n. Timestamp 0)"
      and sound: "\<not> au_poisoned t"
    using t
    by (auto simp: fire_of_def cooling_engine_def apply_fire_def mark_fired_def record_envelope_run append_envelope_def
        audit_append_def append_record_def write_all_def publish_envelope_def envelope_new_def on_plant_def io_simps Let_def
        sample_host_def)
  obtain fs w where ev: "evaluate audit_ext cooling_engine cooling_trigger t = (Inr fs, w)" and sub: "af_rule_id ` set fs \<subseteq> {''r''}"
    using cooling_evaluates [OF sound mark] by blast
  have "apply_all audit_ext [] t = (Inr () :: panic + unit, t)" by (simp add: ret_def)
  from cooldown_is_respected [OF _ t this _ run _ _ ev, of 60000000000] clock
  have "''r'' \<notin> af_rule_id ` set fs"
    by (simp add: fire_of_def cooling_engine_def sample_host_def chrono_seconds_def)
  with sub have "fs = []" by (cases fs) auto
  with ev t idle show ?thesis by simp
qed

section \<open>Configuration\<close>


section \<open>The Linux readers\<close>

text \<open>C40: The process list has at most 32 entries, no process twice, the busiest first, and no share is
  negative or not a number. The machine has a processor, and the table of processes is read in some order.\<close>

theorem process_list_is_ranked:
  assumes "linux_processes os h = (Inr ps, h')" and "some_order (of_order os)" and "of_cpus os \<noteq> Some 0"
  shows "length ps \<le> 32 \<and> sorted_wrt (\<lambda>p q. f64_ge (pi_cpu p) (pi_cpu q)) ps
    \<and> list_all (\<lambda>p. f64_le (Fin 0) (pi_cpu p)) ps \<and> distinct (map pi_pid ps)"
  using processes_ranked [OF assms] by (simp add: counts_def [abs_def])

theorem process_list_is_ranked_witness:
  "\<exists>ps h'. linux_processes sample_proc sample_host = (Inr ps, h')
     \<and> length ps \<le> 32 \<and> distinct (map pi_pid ps)"
proof -
  obtain ps h' where run: "linux_processes sample_proc sample_host = (Inr ps, h')"
    using processes_total sample_proc_readable by blast
  have "some_order (of_order sample_proc)" and "of_cpus sample_proc \<noteq> Some 0"
    by (simp_all add: sample_proc_def some_order_def)
  from process_list_is_ranked [OF run this] run show ?thesis by blast
qed

end
